(* ===== verification/Prelude.thy ===== *)
theory Prelude
  imports Main "HOL-Library.Char_ord" "HOL-Library.List_Lexorder"
begin

text \<open>
  Shared vocabulary of the development: Python strings, Python exceptions, the
  world-passing computations (\<open>io\<close>) the asynchronous services are written in, and the
  generic lemmas the component theories share.

  Strings. A Python \<open>str\<close> is a list of code points; here it is a HOL \<open>string\<close>, whose
  \<open>char\<close>s are the code points 0 to 255 (Latin-1), so \<open>length\<close>, slicing and indexing
  count what Python counts. The only character the modelled messages use beyond Latin-1
  is the em dash U+2014; it is written \<open>em_dash\<close> and stands at the unused control code
  0x97. \<open>lower\<close>, \<open>upper\<close>, \<open>strip\<close> are Python's on this range.
\<close>

section \<open>Collections of facts\<close>

named_theorems py_simps \<open>evaluation of the Python string operations\<close>
named_theorems io_simps \<open>unfolding of the io combinators\<close>
named_theorems io_inv \<open>rules that an io computation keeps an invariant of its state\<close>

section \<open>Python strings\<close>

abbreviation em_dash :: string where
  "em_dash \<equiv> [CHR 0x97]"

abbreviation newline :: string where
  "newline \<equiv> [CHR 0x0A]"

definition code :: "char \<Rightarrow> nat" where
  "code c = of_char c"

definition is_space :: "char \<Rightarrow> bool" where
  "is_space c = (let n = code c in
     (9 \<le> n \<and> n \<le> 13) \<or> (28 \<le> n \<and> n \<le> 32) \<or> n = 133 \<or> n = 160)"

definition is_digit :: "char \<Rightarrow> bool" where
  "is_digit c = (let n = code c in 48 \<le> n \<and> n \<le> 57)"

definition lower_char :: "char \<Rightarrow> char" where
  "lower_char c = (let n = code c in
     if (65 \<le> n \<and> n \<le> 90) \<or> (192 \<le> n \<and> n \<le> 222 \<and> n \<noteq> 215)
     then char_of (n + 32) else c)"

definition upper_char :: "char \<Rightarrow> string" where
  "upper_char c = (let n = code c in
     if (97 \<le> n \<and> n \<le> 122) \<or> (224 \<le> n \<and> n \<le> 254 \<and> n \<noteq> 247)
     then [char_of (n - 32)]
     else if n = 223 then ''SS'' else [c])"

definition lower :: "string \<Rightarrow> string" where
  "lower s = List.map lower_char s"

definition upper :: "string \<Rightarrow> string" where
  "upper s = concat (List.map upper_char s)"

definition lstrip :: "string \<Rightarrow> string" where
  "lstrip s = dropWhile is_space s"

definition rstrip :: "string \<Rightarrow> string" where
  "rstrip s = rev (dropWhile is_space (rev s))"

definition strip :: "string \<Rightarrow> string" where
  "strip s = rstrip (lstrip s)"

definition starts_with :: "string \<Rightarrow> string \<Rightarrow> bool" where
  "starts_with p s = (take (length p) s = p)"

definition ends_with :: "string \<Rightarrow> string \<Rightarrow> bool" where
  "ends_with p s = starts_with (rev p) (rev s)"

fun contains :: "string \<Rightarrow> string \<Rightarrow> bool" where
  "contains sub [] = (sub = [])"
| "contains sub (c # cs) = (starts_with sub (c # cs) \<or> contains sub cs)"

text \<open>\<open>s.partition(sep)\<close>: the text before the first \<open>sep\<close>, whether it occurs, the text after.\<close>

fun partition_str :: "string \<Rightarrow> string \<Rightarrow> string \<times> bool \<times> string" where
  "partition_str sep [] = ([], sep = [], [])"
| "partition_str sep (c # cs) =
     (if starts_with sep (c # cs) then ([], True, drop (length sep) (c # cs))
      else (case partition_str sep cs of (a, f, b) \<Rightarrow> (c # a, f, b)))"

text \<open>\<open>s.rsplit(sep, 1)\<close> for a one-character separator, and its last part.\<close>

definition after_last :: "char \<Rightarrow> string \<Rightarrow> string" where
  "after_last c s = rev (takeWhile (\<lambda>x. x \<noteq> c) (rev s))"

definition before_last :: "char \<Rightarrow> string \<Rightarrow> string" where
  "before_last c s = (if c \<in> set s then rev (drop 1 (dropWhile (\<lambda>x. x \<noteq> c) (rev s))) else s)"

text \<open>\<open>s.split(sep)\<close> for a one-character separator.\<close>

fun split_char :: "char \<Rightarrow> string \<Rightarrow> string list" where
  "split_char c [] = [[]]"
| "split_char c (x # xs) =
     (if x = c then [] # split_char c xs
      else (case split_char c xs of [] \<Rightarrow> [[x]] | w # ws \<Rightarrow> (x # w) # ws))"

text \<open>\<open>s.replace(old, new)\<close> for a non-empty \<open>old\<close>: leftmost, non-overlapping.\<close>

function replace_str :: "string \<Rightarrow> string \<Rightarrow> string \<Rightarrow> string" where
  "replace_str old new s =
     (if s = [] \<or> old = [] then s
      else if starts_with old s then new @ replace_str old new (drop (length old) s)
      else hd s # replace_str old new (tl s))"
  by pat_completeness auto
termination
  by (relation "measure (\<lambda>(old, new, s). length s)") auto

declare replace_str.simps [simp del]

definition rstrip_char :: "char \<Rightarrow> string \<Rightarrow> string" where
  "rstrip_char c s = rev (dropWhile (\<lambda>x. x = c) (rev s))"

text \<open>\<open>s\<close> formatted to a width of \<open>n\<close>, as \<open>{s:n}\<close> does.\<close>

definition pad_right :: "nat \<Rightarrow> string \<Rightarrow> string" where
  "pad_right n s = s @ replicate (n - length s) (CHR '' '')"

text \<open>Decimal text of integers, as in f-strings, and \<open>int(s)\<close>.\<close>

function nat_str :: "int \<Rightarrow> string" where
  "nat_str n = (if n < 10 then [char_of (48 + n)]
                else nat_str (n div 10) @ [char_of (48 + n mod 10)])"
  by pat_completeness auto
termination
  by (relation "measure nat") auto

declare nat_str.simps [simp del]

definition int_str :: "int \<Rightarrow> string" where
  "int_str i = (if i < 0 then CHR ''-'' # nat_str (- i) else nat_str i)"

definition digit_val :: "char \<Rightarrow> int" where
  "digit_val c = of_char c - 48"

definition int_of_digits :: "string \<Rightarrow> int" where
  "int_of_digits ds = foldl (\<lambda>n d. 10 * n + digit_val d) 0 ds"

text \<open>A digit string of a Python literal: digits, with single underscores between digits.\<close>

fun digits_ok :: "string \<Rightarrow> bool" where
  "digits_ok [] = False"
| "digits_ok [c] = is_digit c"
| "digits_ok (c # d # cs) =
     (is_digit c \<and> (if d = CHR ''_'' then digits_ok cs else digits_ok (d # cs)))"

definition parse_nat :: "string \<Rightarrow> int option" where
  "parse_nat s = (if digits_ok s then Some (int_of_digits (filter is_digit s)) else None)"

definition parse_int :: "string \<Rightarrow> int option" where
  "parse_int s = (case strip s of
       [] \<Rightarrow> None
     | c # cs \<Rightarrow>
         if c = CHR ''-'' then map_option uminus (parse_nat cs)
         else if c = CHR ''+'' then parse_nat cs
         else parse_nat (c # cs))"

lemmas [py_simps] = code_def is_space_def is_digit_def lower_char_def upper_char_def lower_def
  upper_def lstrip_def rstrip_def strip_def starts_with_def ends_with_def after_last_def
  before_last_def rstrip_char_def int_str_def digit_val_def int_of_digits_def parse_nat_def
  parse_int_def Let_def

text \<open>\<open>repr(s)\<close>: double quotes if the text has a single quote and no double one; control and
  non-printing code points as escapes.\<close>

definition hex_digit :: "nat \<Rightarrow> char" where
  "hex_digit n = char_of (if n < 10 then 48 + n else 87 + n)"

definition repr_char :: "char \<Rightarrow> char \<Rightarrow> string" where
  "repr_char q c = (let n = code c in
     if c = q \<or> n = 92 then [CHR 0x5C, c]
     else if n = 10 then [CHR 0x5C, CHR ''n'']
     else if n = 13 then [CHR 0x5C, CHR ''r'']
     else if n = 9 then [CHR 0x5C, CHR ''t'']
     else if n < 32 \<or> (127 \<le> n \<and> n \<le> 160 \<and> n \<noteq> 151) \<or> n = 173
     then [CHR 0x5C, CHR ''x'', hex_digit (n div 16), hex_digit (n mod 16)]
     else [c])"

definition py_repr :: "string \<Rightarrow> string" where
  "py_repr s = (let q = (if CHR 0x27 \<in> set s \<and> CHR 0x22 \<notin> set s then CHR 0x22 else CHR 0x27)
     in q # concat (List.map (repr_char q) s) @ [q])"

definition quoted :: "string \<Rightarrow> string" where
  "quoted s = CHR 0x27 # s @ [CHR 0x27]"

lemmas [py_simps] = hex_digit_def repr_char_def py_repr_def quoted_def

subsection \<open>Facts about strings\<close>

lemma starts_with_iff: "starts_with p s \<longleftrightarrow> (\<exists>t. s = p @ t)"
  by (metis append_eq_conv_conj append_take_drop_id starts_with_def)

lemma starts_with_Nil [simp]: "starts_with [] s"
  by (simp add: starts_with_def)

lemma ends_with_Nil [simp]: "ends_with [] s"
  by (simp add: ends_with_def)

lemma contains_iff: "contains sub s \<longleftrightarrow> (\<exists>a b. s = a @ sub @ b)"
proof (induction s)
  case Nil
  then show ?case by auto
next
  case (Cons c cs)
  have "contains sub (c # cs) \<longleftrightarrow> (\<exists>t. c # cs = sub @ t) \<or> (\<exists>a b. cs = a @ sub @ b)"
    by (simp add: Cons starts_with_iff)
  also have "\<dots> \<longleftrightarrow> (\<exists>a b. c # cs = a @ sub @ b)"
  proof
    assume "(\<exists>t. c # cs = sub @ t) \<or> (\<exists>a b. cs = a @ sub @ b)"
    then show "\<exists>a b. c # cs = a @ sub @ b"
      by (metis append_Cons append_Nil)
  next
    assume "\<exists>a b. c # cs = a @ sub @ b"
    then obtain a b where "c # cs = a @ sub @ b" by blast
    then show "(\<exists>t. c # cs = sub @ t) \<or> (\<exists>a b. cs = a @ sub @ b)"
      by (cases a) auto
  qed
  finally show ?case .
qed

lemma set_dropWhile_subset: "set (dropWhile P s) \<subseteq> set s"
  by (induction s) auto

lemma set_strip: "set (strip s) \<subseteq> set s"
proof -
  have "set (strip s) \<subseteq> set (rev (dropWhile is_space s))"
    unfolding strip_def rstrip_def lstrip_def set_rev [of "dropWhile is_space (rev _)"]
    by (rule set_dropWhile_subset)
  then show ?thesis using set_dropWhile_subset [of is_space s] by auto
qed

lemma dropWhile_all: "(\<forall>c \<in> set (dropWhile P s). P c) \<longleftrightarrow> (\<forall>c \<in> set s. P c)"
  by (induction s) auto

lemma strip_Nil_iff: "strip s = [] \<longleftrightarrow> (\<forall>c \<in> set s. is_space c)"
  by (simp add: strip_def rstrip_def lstrip_def dropWhile_eq_Nil_conv dropWhile_all)

text \<open>Only an upper-case letter changes under \<open>lower\<close>, and it becomes a letter.\<close>

lemma lower_char_cases:
  "lower_char c = c \<or> (code (lower_char c) = code c + 32 \<and>
     ((65 \<le> code c \<and> code c \<le> 90) \<or> (192 \<le> code c \<and> code c \<le> 222)))"
  by (simp add: lower_char_def Let_def code_def)

lemma lower_char_keeps:
  assumes "code d < 97 \<or> (122 < code d \<and> code d < 224)" "lower_char c = d"
  shows "c = d"
  using lower_char_cases [of c] assms by auto

lemma lower_char_glob: "lower_char c \<in> set ''*?['' \<longrightarrow> c \<in> set ''*?[''"
  using lower_char_keeps [of "CHR ''*''" c] lower_char_keeps [of "CHR ''?''" c]
    lower_char_keeps [of "CHR ''[''" c] by (auto simp: code_def)

lemma digit_val_digit: "0 \<le> d \<Longrightarrow> d < 10 \<Longrightarrow> digit_val (char_of (48 + d)) = d"
  by (simp add: digit_val_def)

lemma int_of_digits_snoc: "int_of_digits (ds @ [c]) = 10 * int_of_digits ds + digit_val c"
  by (simp add: int_of_digits_def)

lemma int_of_digits_nat_str: "0 \<le> n \<Longrightarrow> int_of_digits (nat_str n) = n"
proof (induction n rule: nat_str.induct)
  case (1 n)
  show ?case
  proof (cases "n < 10")
    case True
    then show ?thesis
      using 1 by (subst nat_str.simps) (simp add: int_of_digits_def digit_val_digit)
  next
    case False
    then have "int_of_digits (nat_str (n div 10)) = n div 10" using 1 by simp
    then show ?thesis
      using False 1 by (subst nat_str.simps) (simp add: int_of_digits_snoc digit_val_digit)
  qed
qed

lemma int_str_inj: "0 \<le> i \<Longrightarrow> 0 \<le> j \<Longrightarrow> int_str i = int_str j \<Longrightarrow> i = j"
  by (metis int_of_digits_nat_str int_str_def not_less)

section \<open>Exceptions and fallible results\<close>

text \<open>
  A raised exception is its class and its text \<open>str(exc)\<close>. \<open>Exn_RedfishHTTP\<close> carries the
  \<open>status\<close> attribute of \<open>RedfishHTTPError\<close>. \<open>Exn_Client\<close> stands for
  \<open>aiohttp.ClientError\<close>, \<open>Exn_Timeout\<close> for \<open>asyncio.TimeoutError\<close>. \<open>Exn_Fuel\<close> is no Python
  exception: a polling loop of the model raises it when its fuel is used up, which the
  theorems on those loops show cannot happen while the clock advances.
\<close>

datatype exn_class =
    Exn_Value | Exn_Runtime | Exn_Type | Exn_Attribute | Exn_Key | Exn_Index | Exn_Overflow | Exn_ZeroDivision
  | Exn_FileNotFound | Exn_OS | Exn_Client | Exn_Timeout | Exn_Vault | Exn_Integrity | Exn_Database
  | Exn_Redfish | Exn_RedfishHTTP int | Exn_Cancelled | Exn_Fuel

datatype exn = Exn (exn_class: exn_class) (exn_str: string)

type_synonym stamp = string   \<comment> \<open>the text of a time\<close>
type_synonym path = string
type_synonym version = string
type_synonym oem_key = string

type_synonym 'a py = "exn + 'a"

fun exn_name :: "exn_class \<Rightarrow> string" where
  "exn_name Exn_Value = ''ValueError''"
| "exn_name Exn_Runtime = ''RuntimeError''"
| "exn_name Exn_Type = ''TypeError''"
| "exn_name Exn_Attribute = ''AttributeError''"
| "exn_name Exn_Key = ''KeyError''"
| "exn_name Exn_Index = ''IndexError''"
| "exn_name Exn_Overflow = ''OverflowError''"
| "exn_name Exn_ZeroDivision = ''ZeroDivisionError''"
| "exn_name Exn_FileNotFound = ''FileNotFoundError''"
| "exn_name Exn_OS = ''OSError''"
| "exn_name Exn_Client = ''ClientError''"
| "exn_name Exn_Timeout = ''TimeoutError''"
| "exn_name Exn_Vault = ''VaultUnavailable''"
| "exn_name Exn_Integrity = ''IntegrityError''"
| "exn_name Exn_Database = ''DatabaseError''"
| "exn_name Exn_Redfish = ''RedfishError''"
| "exn_name (Exn_RedfishHTTP _) = ''RedfishHTTPError''"
| "exn_name Exn_Cancelled = ''CancelledError''"
| "exn_name Exn_Fuel = ''out of fuel''"

text \<open>\<open>except RedfishError\<close> also catches its subclasses; \<open>except Exception\<close> does not
  catch \<open>asyncio.CancelledError\<close>, which derives from \<open>BaseException\<close>.\<close>

fun is_redfish :: "exn \<Rightarrow> bool" where
  "is_redfish (Exn Exn_Redfish _) = True"
| "is_redfish (Exn (Exn_RedfishHTTP _) _) = True"
| "is_redfish _ = False"

text \<open>\<open>except OSError\<close>; \<open>asyncio.TimeoutError\<close> is one.\<close>

definition os_error :: "exn \<Rightarrow> bool" where
  "os_error e = (exn_class e \<in> {Exn_OS, Exn_FileNotFound, Exn_Timeout})"

definition is_exception :: "exn \<Rightarrow> bool" where
  "is_exception e = (exn_class e \<noteq> Exn_Cancelled)"

definition http_status :: "exn \<Rightarrow> int" where
  "http_status e = (case exn_class e of Exn_RedfishHTTP n \<Rightarrow> n | _ \<Rightarrow> 0)"

definition bind_py :: "'a py \<Rightarrow> ('a \<Rightarrow> 'b py) \<Rightarrow> 'b py" where
  "bind_py m f = (case m of Inl e \<Rightarrow> Inl e | Inr x \<Rightarrow> f x)"

lemma bind_py_simps [simp]:
  "bind_py (Inl e) f = Inl e"
  "bind_py (Inr x) f = f x"
  by (simp_all add: bind_py_def)

lemma bind_py_Inr: "(bind_py m f = Inr z) = (\<exists>y. m = Inr y \<and> f y = Inr z)"
  by (cases m) auto

fun map_py :: "('a \<Rightarrow> 'b py) \<Rightarrow> 'a list \<Rightarrow> 'b list py" where
  "map_py f [] = Inr []"
| "map_py f (x # xs) = bind_py (f x) (\<lambda>y. bind_py (map_py f xs) (\<lambda>ys. Inr (y # ys)))"

definition the_default :: "'a \<Rightarrow> 'a option \<Rightarrow> 'a" where
  "the_default d x = (case x of None \<Rightarrow> d | Some y \<Rightarrow> y)"

lemma the_default_simps [simp]: "the_default d None = d" "the_default d (Some y) = y"
  by (simp_all add: the_default_def)

text \<open>\<open>x or None\<close> for a string: an empty one counts as absent.\<close>

definition nonempty :: "string option \<Rightarrow> string option" where
  "nonempty x = (case x of Some s \<Rightarrow> if s = [] then None else Some s | None \<Rightarrow> None)"

section \<open>Computations over a world\<close>

text \<open>
  An \<open>async\<close> method runs against a world \<open>'w\<close> (the database, the BMC at the other end of the
  network, the clock) and returns or raises; effects made before a raise stay. The world
  is a parameter: a component fixes the part it needs.
\<close>

type_synonym ('w, 'a) io = "'w \<Rightarrow> 'a py \<times> 'w"

definition ret :: "'a \<Rightarrow> ('w, 'a) io" where
  "ret x = (\<lambda>w. (Inr x, w))"

definition throw :: "exn \<Rightarrow> ('w, 'a) io" where
  "throw e = (\<lambda>w. (Inl e, w))"

definition bind :: "('w, 'a) io \<Rightarrow> ('a \<Rightarrow> ('w, 'b) io) \<Rightarrow> ('w, 'b) io" where
  "bind m f = (\<lambda>w. case m w of (Inl e, w') \<Rightarrow> (Inl e, w') | (Inr x, w') \<Rightarrow> f x w')"

definition seq :: "('w, 'a) io \<Rightarrow> ('w, 'b) io \<Rightarrow> ('w, 'b) io" where
  "seq m n = bind m (\<lambda>_. n)"

definition lift_py :: "'a py \<Rightarrow> ('w, 'a) io" where
  "lift_py r = (\<lambda>w. (r, w))"

text \<open>\<open>try: m except E: h\<close> for the exceptions that satisfy a predicate, and \<open>try: m finally: f\<close>
  (an exception of \<open>f\<close> replaces the result, as in Python).\<close>

definition catch_if :: "(exn \<Rightarrow> bool) \<Rightarrow> ('w, 'a) io \<Rightarrow> (exn \<Rightarrow> ('w, 'a) io) \<Rightarrow> ('w, 'a) io" where
  "catch_if p m h = (\<lambda>w. case m w of
       (Inl e, w') \<Rightarrow> (if p e then h e w' else (Inl e, w'))
     | (Inr x, w') \<Rightarrow> (Inr x, w'))"

definition finally_do :: "('w, 'a) io \<Rightarrow> ('w, unit) io \<Rightarrow> ('w, 'a) io" where
  "finally_do m f = (\<lambda>w. case m w of (r, w') \<Rightarrow>
     (case f w' of (Inl e, w'') \<Rightarrow> (Inl e, w'') | (Inr _, w'') \<Rightarrow> (r, w'')))"

definition get_state :: "('w, 'w) io" where
  "get_state = (\<lambda>w. (Inr w, w))"

definition modify :: "('w \<Rightarrow> 'w) \<Rightarrow> ('w, unit) io" where
  "modify f = (\<lambda>w. (Inr (), f w))"

fun for_each :: "('a \<Rightarrow> ('w, unit) io) \<Rightarrow> 'a list \<Rightarrow> ('w, unit) io" where
  "for_each f [] = ret ()"
| "for_each f (x # xs) = seq (f x) (for_each f xs)"

text \<open>\<open>try: x = m / except E as e: ...\<close> with the handler's continuation left to the caller.\<close>

definition attempt :: "(exn \<Rightarrow> bool) \<Rightarrow> ('w, 'a) io \<Rightarrow> ('w, exn + 'a) io" where
  "attempt p m = (\<lambda>w. case m w of
       (Inl e, w') \<Rightarrow> (if p e then (Inr (Inl e), w') else (Inl e, w'))
     | (Inr x, w') \<Rightarrow> (Inr (Inr x), w'))"

text \<open>A computation on the first component of a world.\<close>

definition on_fst :: "('w, 'a) io \<Rightarrow> ('w \<times> 's, 'a) io" where
  "on_fst m = (\<lambda>(w, s). case m w of (r, w') \<Rightarrow> (r, (w', s)))"

definition on_snd :: "('s \<Rightarrow> 's) \<Rightarrow> ('w \<times> 's, unit) io" where
  "on_snd f = (\<lambda>(w, s). (Inr (), (w, f s)))"

definition the_snd :: "('w \<times> 's, 's) io" where
  "the_snd = (\<lambda>(w, s). (Inr s, (w, s)))"

lemmas [io_simps] = attempt_def on_fst_def on_snd_def the_snd_def

lemmas [io_simps] = ret_def throw_def bind_def seq_def lift_py_def catch_if_def finally_do_def
  get_state_def modify_def

lemma bind_ret [simp]: "bind (ret x) f = f x"
  by (simp add: bind_def ret_def)

lemma bind_throw [simp]: "bind (throw e) f = throw e"
  by (simp add: bind_def throw_def)

lemma ret_bind [simp]: "bind m ret = m"
  by (auto simp: bind_def ret_def fun_eq_iff split: prod.splits sum.splits)

lemma bind_assoc: "bind (bind m f) g = bind m (\<lambda>x. bind (f x) g)"
  by (auto simp: bind_def fun_eq_iff split: prod.splits sum.splits)

text \<open>Evaluating a computation at a world: the continuation is not touched before the first
  part has run.\<close>

lemma bind_weak: "m = m' \<Longrightarrow> bind m f = bind m' f"
  by simp

lemma seq_weak: "m = m' \<Longrightarrow> seq m n = seq m' n"
  by simp

lemma catch_weak: "m = m' \<Longrightarrow> catch_if p m h = catch_if p m' h"
  by simp

lemma bind_py_weak: "m = m' \<Longrightarrow> bind_py m f = bind_py m' f"
  by simp

lemmas io_weak = bind_weak seq_weak catch_weak bind_py_weak

lemma bind_run: "bind m f w = (case m w of (Inl e, w') \<Rightarrow> (Inl e, w') | (Inr x, w') \<Rightarrow> f x w')"
  by (simp add: bind_def)

lemma seq_run: "seq m n w = (case m w of (Inl e, w') \<Rightarrow> (Inl e, w') | (Inr x, w') \<Rightarrow> n w')"
  by (simp add: bind_def seq_def)

lemma catch_run: "catch_if p m h w = (case m w of
     (Inl e, w') \<Rightarrow> (if p e then h e w' else (Inl e, w')) | (Inr x, w') \<Rightarrow> (Inr x, w'))"
  by (simp add: catch_if_def)

lemma finally_run: "finally_do m f w = (case m w of (r, w') \<Rightarrow>
     (case f w' of (Inl e, w'') \<Rightarrow> (Inl e, w'') | (Inr _, w'') \<Rightarrow> (r, w'')))"
  by (simp add: finally_do_def)

lemma lift_run: "lift_py r w = (r, w)"
  by (simp add: lift_py_def)

lemma ret_run: "ret x w = (Inr x, w)"
  by (simp add: ret_def)

lemma throw_run: "throw e w = (Inl e, w)"
  by (simp add: throw_def)

lemma modify_run: "modify f w = (Inr (), f w)"
  by (simp add: modify_def)

lemmas io_run = bind_run seq_run catch_run finally_run lift_run ret_run throw_run modify_run

text \<open>A result that is not a failure of \<open>bind\<close> comes from the continuation.\<close>

lemma bind_Inr_cases:
  assumes "bind m f w = (Inr y, w')"
  obtains x w1 where "m w = (Inr x, w1)" "f x w1 = (Inr y, w')"
  using assms by (auto simp: bind_run split: prod.splits sum.splits)

lemma seq_Inr_cases:
  assumes "seq m k w = (Inr y, w')"
  obtains x w1 where "m w = (Inr x, w1)" "k w1 = (Inr y, w')"
  using assms by (auto simp: seq_run split: prod.splits sum.splits)

subsection \<open>Invariants of a computation\<close>

text \<open>\<open>keeps P m\<close>: from a world that satisfies \<open>P\<close> the computation ends, whether it
  returns or raises, in a world that satisfies \<open>P\<close>.\<close>

definition keeps :: "('w \<Rightarrow> bool) \<Rightarrow> ('w, 'a) io \<Rightarrow> bool" where
  "keeps P m = (\<forall>w. P w \<longrightarrow> P (snd (m w)))"

lemma keepsI: "(\<And>w. P w \<Longrightarrow> P (snd (m w))) \<Longrightarrow> keeps P m"
  by (simp add: keeps_def)

lemma keepsD: "keeps P m \<Longrightarrow> P w \<Longrightarrow> m w = (r, w') \<Longrightarrow> P w'"
  by (metis keeps_def snd_conv)

lemma keeps_ret [io_inv, intro!]: "keeps P (ret x)"
  by (simp add: keeps_def ret_def)

lemma keeps_throw [io_inv, intro!]: "keeps P (throw e)"
  by (simp add: keeps_def throw_def)

lemma keeps_lift_py [io_inv, intro!]: "keeps P (lift_py r)"
  by (simp add: keeps_def lift_py_def)

lemma keeps_get_state [io_inv, intro!]: "keeps P get_state"
  by (simp add: keeps_def get_state_def)

lemma keeps_snd: "keeps P m \<Longrightarrow> P w \<Longrightarrow> P (snd (m w))"
  by (simp add: keeps_def)

lemma keeps_bind [io_inv, intro]:
  "keeps P m \<Longrightarrow> (\<And>x. keeps P (f x)) \<Longrightarrow> keeps P (bind m f)"
proof (rule keepsI)
  fix w assume *: "keeps P m" "\<And>x. keeps P (f x)" "P w"
  obtain r w' where m: "m w = (r, w')" by fastforce
  have "P w'" by (rule keepsD [OF *(1) *(3) m])
  then show "P (snd (bind m f w))"
    using m keeps_snd [OF *(2) \<open>P w'\<close>] by (cases r) (simp_all add: bind_def)
qed

lemma keeps_seq [io_inv, intro]: "keeps P m \<Longrightarrow> keeps P n \<Longrightarrow> keeps P (seq m n)"
  by (simp add: seq_def keeps_bind)

lemma keeps_catch_if [io_inv, intro]:
  "keeps P m \<Longrightarrow> (\<And>e. keeps P (h e)) \<Longrightarrow> keeps P (catch_if p m h)"
proof (rule keepsI)
  fix w assume *: "keeps P m" "\<And>e. keeps P (h e)" "P w"
  obtain r w' where m: "m w = (r, w')" by fastforce
  have "P w'" by (rule keepsD [OF *(1) *(3) m])
  then show "P (snd (catch_if p m h w))"
    using m keeps_snd [OF *(2) \<open>P w'\<close>] by (cases r) (simp_all add: catch_if_def)
qed

lemma keeps_finally_do [io_inv, intro]: "keeps P m \<Longrightarrow> keeps P f \<Longrightarrow> keeps P (finally_do m f)"
proof (rule keepsI)
  fix w assume *: "keeps P m" "keeps P f" "P w"
  obtain r w' where m: "m w = (r, w')" by fastforce
  obtain r' w'' where f: "f w' = (r', w'')" by fastforce
  have "P w''" by (rule keepsD [OF *(2) keepsD [OF *(1) *(3) m] f])
  then show "P (snd (finally_do m f w))"
    using m f by (cases r') (simp_all add: finally_do_def)
qed

lemma keeps_attempt [io_inv]: "keeps P m \<Longrightarrow> keeps P (attempt p m)"
  by (auto simp: keeps_def attempt_def split: prod.splits sum.splits dest: keepsD)

lemma keeps_modify [io_inv]: "(\<And>w. P w \<Longrightarrow> P (f w)) \<Longrightarrow> keeps P (modify f)"
  by (simp add: keeps_def modify_def)

lemma keeps_for_each [io_inv, intro]: "(\<And>x. keeps P (f x)) \<Longrightarrow> keeps P (for_each f xs)"
  by (induction xs) (simp_all add: keeps_ret keeps_seq)

lemma keeps_if [io_inv]: "(b \<Longrightarrow> keeps P m) \<Longrightarrow> (\<not> b \<Longrightarrow> keeps P n) \<Longrightarrow> keeps P (if b then m else n)"
  by simp

lemma keeps_option [io_inv]:
  "(x = None \<Longrightarrow> keeps P m) \<Longrightarrow> (\<And>y. x = Some y \<Longrightarrow> keeps P (f y)) \<Longrightarrow>
     keeps P (case x of None \<Rightarrow> m | Some y \<Rightarrow> f y)"
  by (cases x) simp_all

subsection \<open>The exceptions a computation can raise\<close>

definition py_raises :: "(exn \<Rightarrow> bool) \<Rightarrow> 'a py \<Rightarrow> bool" where
  "py_raises Q r = (\<forall>e. r = Inl e \<longrightarrow> Q e)"

definition raises_only :: "(exn \<Rightarrow> bool) \<Rightarrow> ('w, 'a) io \<Rightarrow> bool" where
  "raises_only Q m = (\<forall>w e w'. m w = (Inl e, w') \<longrightarrow> Q e)"

named_theorems io_raises \<open>rules for the exceptions an io computation can raise\<close>

lemma raises_onlyD: "raises_only Q m \<Longrightarrow> m w = (Inl e, w') \<Longrightarrow> Q e"
  by (auto simp: raises_only_def)

lemma py_raises_Inr [io_raises, simp]: "py_raises Q (Inr x)"
  by (simp add: py_raises_def)

lemma py_raises_Inl [simp]: "py_raises Q (Inl e) = Q e"
  by (simp add: py_raises_def)

lemma py_raises_bind [io_raises]:
  "py_raises Q m \<Longrightarrow> (\<And>x. py_raises Q (f x)) \<Longrightarrow> py_raises Q (bind_py m f)"
  by (cases m) simp_all

lemma raises_only_ret [io_raises]: "raises_only Q (ret x)"
  by (simp add: raises_only_def ret_def)

lemma raises_only_throw [io_raises]: "Q e \<Longrightarrow> raises_only Q (throw e)"
  by (simp add: raises_only_def throw_def)

lemma raises_only_lift [io_raises]: "py_raises Q r \<Longrightarrow> raises_only Q (lift_py r)"
  by (simp add: raises_only_def lift_py_def py_raises_def)

lemma raises_only_bind [io_raises]:
  "raises_only Q m \<Longrightarrow> (\<And>x. raises_only Q (f x)) \<Longrightarrow> raises_only Q (bind m f)"
  by (auto simp: raises_only_def bind_def split: prod.splits sum.splits)

lemma raises_only_seq [io_raises]:
  "raises_only Q m \<Longrightarrow> raises_only Q n \<Longrightarrow> raises_only Q (seq m n)"
  by (simp add: seq_def raises_only_bind)

lemma raises_only_catch [io_raises]:
  "raises_only (\<lambda>e. p e \<or> Q e) m \<Longrightarrow> (\<And>e. raises_only Q (h e)) \<Longrightarrow> raises_only Q (catch_if p m h)"
  by (fastforce simp: raises_only_def catch_if_def split: prod.splits sum.splits if_splits)

lemma raises_only_attempt [io_raises]: "raises_only (\<lambda>e. p e \<or> Q e) m \<Longrightarrow> raises_only Q (attempt p m)"
  by (fastforce simp: raises_only_def attempt_def split: prod.splits sum.splits if_splits)

lemma raises_only_on_fst [io_raises]: "raises_only Q m \<Longrightarrow> raises_only Q (on_fst m)"
  by (fastforce simp: raises_only_def on_fst_def split: prod.splits)

lemma raises_only_on_snd [io_raises]: "raises_only Q (on_snd f)" "raises_only Q the_snd"
  by (auto simp: raises_only_def on_snd_def the_snd_def)

lemma raises_only_finally [io_raises]:
  "raises_only Q m \<Longrightarrow> raises_only Q f \<Longrightarrow> raises_only Q (finally_do m f)"
  by (fastforce simp: raises_only_def finally_do_def split: prod.splits sum.splits)

lemma raises_only_modify [io_raises]: "raises_only Q (modify f)"
  by (simp add: raises_only_def modify_def)

lemma raises_only_get_state [io_raises]: "raises_only Q get_state"
  by (simp add: raises_only_def get_state_def)

lemma raises_only_for_each [io_raises]:
  "(\<And>x. raises_only Q (f x)) \<Longrightarrow> raises_only Q (for_each f xs)"
  by (induction xs) (simp_all add: raises_only_ret raises_only_seq)

lemma raises_only_if [io_raises]:
  "(b \<Longrightarrow> raises_only Q m) \<Longrightarrow> (\<not> b \<Longrightarrow> raises_only Q n) \<Longrightarrow> raises_only Q (if b then m else n)"
  by simp

lemma raises_only_option [io_raises]:
  "(x = None \<Longrightarrow> raises_only Q m) \<Longrightarrow> (\<And>y. x = Some y \<Longrightarrow> raises_only Q (f y)) \<Longrightarrow>
     raises_only Q (case x of None \<Rightarrow> m | Some y \<Rightarrow> f y)"
  by (cases x) simp_all

lemma raises_only_mono: "raises_only Q m \<Longrightarrow> (\<And>e. Q e \<Longrightarrow> R e) \<Longrightarrow> raises_only R m"
  by (auto simp: raises_only_def)

section \<open>Lists\<close>

lemma filter_Nil_iff: "filter p xs = [] \<longleftrightarrow> (\<forall>x \<in> set xs. \<not> p x)"
  by (induction xs) auto

lemma filter_ConsD: "filter p xs = y # ys \<Longrightarrow> y \<in> set xs \<and> p y"
  by (metis filter_eq_ConsD in_set_conv_decomp)

text \<open>Python's \<open>min(xs, key=f)\<close> and \<open>max(xs, key=f)\<close>: the first extremal element.\<close>

fun min_by :: "('a \<Rightarrow> int) \<Rightarrow> 'a \<Rightarrow> 'a list \<Rightarrow> 'a" where
  "min_by f b [] = b"
| "min_by f b (x # xs) = min_by f (if f x < f b then x else b) xs"

fun max_by :: "('a \<Rightarrow> int) \<Rightarrow> 'a \<Rightarrow> 'a list \<Rightarrow> 'a" where
  "max_by f b [] = b"
| "max_by f b (x # xs) = max_by f (if f b < f x then x else b) xs"

lemma min_by_mem: "min_by f b xs \<in> insert b (set xs)"
proof (induction xs arbitrary: b)
  case (Cons y ys)
  show ?case using Cons.IH [of "if f y < f b then y else b"] by (simp split: if_splits) blast+
qed simp

lemma min_by_le: "x \<in> insert b (set xs) \<Longrightarrow> f (min_by f b xs) \<le> f x"
proof (induction xs arbitrary: b x)
  case Nil
  then show ?case by simp
next
  case (Cons y ys)
  let ?b = "if f y < f b then y else b"
  have le: "f (min_by f ?b ys) \<le> f ?b" by (rule Cons.IH) simp
  have "x = b \<or> x = y \<or> x \<in> set ys" using Cons.prems by auto
  then show ?case
  proof (elim disjE)
    assume "x \<in> set ys"
    then have "f (min_by f ?b ys) \<le> f x" by (intro Cons.IH) simp
    then show ?thesis by simp
  qed (use le in \<open>auto split: if_splits\<close>)
qed

lemma max_by_min_by: "max_by f b xs = min_by (\<lambda>x. - f x) b xs"
  by (induction xs arbitrary: b) auto

lemma max_by_mem: "max_by f b xs \<in> insert b (set xs)"
  unfolding max_by_min_by by (rule min_by_mem)

lemma max_by_ge: "x \<in> insert b (set xs) \<Longrightarrow> f x \<le> f (max_by f b xs)"
  using min_by_le [of x b xs "\<lambda>x. - f x"] by (simp add: max_by_min_by)

end
