(* ===== verification/Py_Float.thy ===== *)
theory Py_Float
  imports Complex_Main Prelude
begin

text \<open>
  Python floats: IEEE 754 binary64 values over the rationals. A finite float is the rational
  it stands for; \<open>rnd\<close> rounds an exact result to the nearest float, ties to even, with
  overflow to infinity and gradual underflow. The sign of zero is not kept: the modelled
  code never shows it. \<open>int / int\<close> raises \<open>OverflowError\<close> where the quotient does not fit.
\<close>

datatype pyfloat = Fin rat | Infinite bool | NaN   \<comment> \<open>\<open>Infinite True\<close> is minus infinity\<close>

section \<open>Rounding\<close>

function bits :: "int \<Rightarrow> int" where
  "bits n = (if n \<le> 0 then 0 else 1 + bits (n div 2))"
  by pat_completeness auto
termination
  by (relation "measure nat") auto

declare bits.simps [simp del]

definition two_pow :: "int \<Rightarrow> rat" where
  "two_pow e = (if 0 \<le> e then 2 ^ nat e else 1 / 2 ^ nat (- e))"

definition half_even :: "rat \<Rightarrow> int" where
  "half_even x = (let f = \<lfloor>x\<rfloor>; d = x - of_int f in
     if d < 1 / 2 then f else if 1 / 2 < d then f + 1 else if even f then f else f + 1)"

definition ulp_exp :: "rat \<Rightarrow> int" where
  "ulp_exp x = (case quotient_of x of (p, q) \<Rightarrow>
     (let e = bits p - bits q - 53;
          e' = (if 2 ^ 53 \<le> x / two_pow e then e + 1 else e)
      in max e' (- 1074)))"

definition rnd_pos :: "rat \<Rightarrow> pyfloat" where
  "rnd_pos x = (let e = ulp_exp x; v = of_int (half_even (x / two_pow e)) * two_pow e in
     if 2 ^ 1024 \<le> v then Infinite False else Fin v)"

definition neg_float :: "pyfloat \<Rightarrow> pyfloat" where
  "neg_float a = (case a of Fin x \<Rightarrow> Fin (- x) | Infinite s \<Rightarrow> Infinite (\<not> s) | NaN \<Rightarrow> NaN)"

definition rnd :: "rat \<Rightarrow> pyfloat" where
  "rnd x = (if x = 0 then Fin 0 else if x < 0 then neg_float (rnd_pos (- x)) else rnd_pos x)"

section \<open>Operations\<close>

definition float_le :: "pyfloat \<Rightarrow> pyfloat \<Rightarrow> bool" where
  "float_le a b = (case (a, b) of
       (NaN, _) \<Rightarrow> False | (_, NaN) \<Rightarrow> False
     | (Fin x, Fin y) \<Rightarrow> x \<le> y
     | (Infinite s, Infinite t) \<Rightarrow> s \<or> \<not> t
     | (Infinite s, Fin _) \<Rightarrow> s
     | (Fin _, Infinite t) \<Rightarrow> \<not> t)"

text \<open>Scaling by a positive finite constant, the only float multiplication and division
  the modelled code performs.\<close>

definition float_scale :: "pyfloat \<Rightarrow> rat \<Rightarrow> pyfloat" where
  "float_scale a k = (case a of Fin x \<Rightarrow> rnd (x * k) | _ \<Rightarrow> a)"

definition trunc_rat :: "rat \<Rightarrow> int" where
  "trunc_rat x = (if x < 0 then - \<lfloor>- x\<rfloor> else \<lfloor>x\<rfloor>)"

definition int_of_float :: "pyfloat \<Rightarrow> int py" where
  "int_of_float a = (case a of
       Fin x \<Rightarrow> Inr (trunc_rat x)
     | Infinite _ \<Rightarrow> Inl (Exn Exn_Overflow ''cannot convert float infinity to integer'')
     | NaN \<Rightarrow> Inl (Exn Exn_Value ''cannot convert float NaN to integer''))"

definition int_div_float :: "int \<Rightarrow> int \<Rightarrow> pyfloat py" where
  "int_div_float a b = (if b = 0 then Inl (Exn Exn_ZeroDivision ''division by zero'') else
     (case rnd (of_int a / of_int b) of
        Fin x \<Rightarrow> Inr (Fin x)
      | _ \<Rightarrow> Inl (Exn Exn_Overflow ''integer division result too large for a float'')))"

text \<open>\<open>format(x, '.0f')\<close>.\<close>

definition fmt0 :: "pyfloat \<Rightarrow> string" where
  "fmt0 a = (case a of
       Fin x \<Rightarrow> (if x < 0 then CHR ''-'' # int_str (half_even (- x)) else int_str (half_even x))
     | Infinite s \<Rightarrow> (if s then ''-inf'' else ''inf'')
     | NaN \<Rightarrow> ''nan'')"

section \<open>\<open>float(s)\<close>\<close>

text \<open>The unsigned decimal literals: \<open>digits[.digits][e[sign]digits]\<close> with either digit part
  of the mantissa optional but not both; underscores are allowed between digits.\<close>

definition digits_val :: "string \<Rightarrow> int" where
  "digits_val ds = int_of_digits (filter is_digit ds)"

definition frac_len :: "string \<Rightarrow> nat" where
  "frac_len ds = length (filter is_digit ds)"

definition parse_mantissa :: "string \<Rightarrow> (int \<times> nat) option" where
  "parse_mantissa m = (case partition_str ''.'' m of (a, dot, b) \<Rightarrow>
     if \<not> dot then (if digits_ok a then Some (digits_val a, 0) else None)
     else if (a = [] \<or> digits_ok a) \<and> (b = [] \<or> digits_ok b) \<and> \<not> (a = [] \<and> b = [])
     then Some (digits_val (a @ b), frac_len b) else None)"

definition ten_pow :: "int \<Rightarrow> rat" where
  "ten_pow e = (if 0 \<le> e then 10 ^ nat e else 1 / 10 ^ nat (- e))"

definition parse_exponent :: "string \<Rightarrow> int option" where
  "parse_exponent x = (case x of [] \<Rightarrow> None | c # cs \<Rightarrow>
     if c = CHR ''-'' then map_option uminus (parse_nat cs)
     else if c = CHR ''+'' then parse_nat cs
     else parse_nat x)"

definition parse_decimal :: "string \<Rightarrow> rat option" where
  "parse_decimal s = (case partition_str ''e'' s of (m, has_e, x) \<Rightarrow>
     (case parse_mantissa m of None \<Rightarrow> None
      | Some (v, k) \<Rightarrow>
          (if \<not> has_e then Some (of_int v * ten_pow (- int k))
           else (case parse_exponent x of None \<Rightarrow> None
                 | Some e \<Rightarrow> Some (of_int v * ten_pow (e - int k))))))"

definition parse_unsigned :: "string \<Rightarrow> pyfloat option" where
  "parse_unsigned s =
     (if s = ''inf'' \<or> s = ''infinity'' then Some (Infinite False)
      else if s = ''nan'' then Some NaN
      else map_option rnd (parse_decimal s))"

definition parse_float :: "string \<Rightarrow> pyfloat option" where
  "parse_float s = (case lower (strip s) of [] \<Rightarrow> None | c # cs \<Rightarrow>
     if c = CHR ''-'' then map_option neg_float (parse_unsigned cs)
     else if c = CHR ''+'' then parse_unsigned cs
     else parse_unsigned (c # cs))"

lemmas [py_simps] = two_pow_def half_even_def ulp_exp_def rnd_pos_def rnd_def float_le_def
  float_scale_def trunc_rat_def int_of_float_def int_div_float_def fmt0_def digits_val_def
  frac_len_def parse_mantissa_def ten_pow_def parse_exponent_def parse_decimal_def
  parse_unsigned_def parse_float_def neg_float_def

section \<open>Facts\<close>

lemma float_le_NaN [simp]: "\<not> float_le NaN b" "\<not> float_le a NaN"
  by (simp_all add: float_le_def split: pyfloat.splits)

lemma float_le_Fin [simp]: "float_le (Fin x) (Fin y) \<longleftrightarrow> x \<le> y"
  by (simp add: float_le_def)

lemma float_le_inf [simp]: "float_le (Fin x) (Infinite False)"
  by (simp add: float_le_def)

lemma int_of_float_Inr: "int_of_float a = Inr n \<longleftrightarrow> (\<exists>x. a = Fin x \<and> n = trunc_rat x)"
  by (cases a) (auto simp: int_of_float_def)

lemma trunc_rat_of_int [simp]: "trunc_rat (of_int n) = n"
  by (simp add: trunc_rat_def)

lemma bits_numeral: "bits 0 = 0" "bits 1 = 1" "bits (numeral k) = 1 + bits (numeral k div 2)"
  by (simp_all add: bits.simps)

lemma half_even_of_int [simp]: "half_even (of_int n) = n"
  by (simp add: half_even_def Let_def)

lemma half_even_close: "\<bar>of_int (half_even x) - x\<bar> \<le> 1 / 2"
proof -
  have f: "of_int \<lfloor>x\<rfloor> \<le> x" "x < of_int \<lfloor>x\<rfloor> + 1"
    using floor_correct [of x] by simp_all
  then show ?thesis
    unfolding half_even_def Let_def abs_le_iff by (simp split: if_splits) linarith
qed

end
