(* ===== verification/Json.thy ===== *)
theory Json
  imports Py_Float
begin

text \<open>
  Decoded JSON as Python holds it (\<open>None\<close>, \<open>bool\<close>, \<open>int\<close>, \<open>float\<close>, \<open>str\<close>, \<open>list\<close>, \<open>dict\<close>) and the
  dynamic operations the code performs on it, each with the exception Python raises on a
  value of another type. A \<open>dict\<close> is its list of items in insertion order with distinct keys.
\<close>

datatype json =
    JNull
  | JBool bool
  | JInt int
  | JFloat pyfloat
  | JStr string
  | JArr "json list"
  | JObj "(string \<times> json) list"

fun py_type :: "json \<Rightarrow> string" where
  "py_type JNull = ''NoneType''"
| "py_type (JBool _) = ''bool''"
| "py_type (JInt _) = ''int''"
| "py_type (JFloat _) = ''float''"
| "py_type (JStr _) = ''str''"
| "py_type (JArr _) = ''list''"
| "py_type (JObj _) = ''dict''"

fun truthy :: "json \<Rightarrow> bool" where
  "truthy JNull = False"
| "truthy (JBool b) = b"
| "truthy (JInt i) = (i \<noteq> 0)"
| "truthy (JFloat f) = (f \<noteq> Fin 0)"
| "truthy (JStr s) = (s \<noteq> [])"
| "truthy (JArr xs) = (xs \<noteq> [])"
| "truthy (JObj kvs) = (kvs \<noteq> [])"

text \<open>\<open>a or b\<close>.\<close>

definition or_else :: "json \<Rightarrow> json \<Rightarrow> json" where
  "or_else a b = (if truthy a then a else b)"

definition no_attr :: "json \<Rightarrow> string \<Rightarrow> exn" where
  "no_attr j a = Exn Exn_Attribute
     (quoted (py_type j) @ '' object has no attribute '' @ quoted a)"

definition not_iterable :: "json \<Rightarrow> exn" where
  "not_iterable j = Exn Exn_Type (quoted (py_type j) @ '' object is not iterable'')"

text \<open>\<open>j.get(k, d)\<close> and \<open>j.get(k)\<close>.\<close>

fun jget_or :: "json \<Rightarrow> string \<Rightarrow> json \<Rightarrow> json py" where
  "jget_or (JObj kvs) k d = Inr (case map_of kvs k of Some v \<Rightarrow> v | None \<Rightarrow> d)"
| "jget_or j k d = Inl (no_attr j ''get'')"

definition jget :: "json \<Rightarrow> string \<Rightarrow> json py" where
  "jget j k = jget_or j k JNull"

text \<open>\<open>(j or {})\<close> followed by \<open>.get(k)\<close>, the code's idiom for optional sub-objects.\<close>

definition jsub :: "json \<Rightarrow> string \<Rightarrow> json py" where
  "jsub j k = jget (or_else j (JObj [])) k"

text \<open>A chain \<open>((j.get(k1) or {}).get(k2) or {}).get(k3)\<close>.\<close>

fun jpath :: "json \<Rightarrow> string list \<Rightarrow> json py" where
  "jpath j [] = Inr j"
| "jpath j (k # ks) = bind_py (jget (or_else j (JObj [])) k) (\<lambda>v. jpath v ks)"

text \<open>\<open>for x in j\<close>: the elements of a list, the characters of a string, the keys of a dict.\<close>

fun jiter :: "json \<Rightarrow> json list py" where
  "jiter (JArr xs) = Inr xs"
| "jiter (JStr s) = Inr (List.map (\<lambda>c. JStr [c]) s)"
| "jiter (JObj kvs) = Inr (List.map (JStr \<circ> fst) kvs)"
| "jiter j = Inl (not_iterable j)"

fun is_obj :: "json \<Rightarrow> bool" where
  "is_obj (JObj _) = True"
| "is_obj _ = False"

fun is_str :: "json \<Rightarrow> bool" where
  "is_str (JStr _) = True"
| "is_str _ = False"

fun is_arr :: "json \<Rightarrow> bool" where
  "is_arr (JArr _) = True"
| "is_arr _ = False"

text \<open>A string method called on a value: \<open>AttributeError\<close> unless it is a string.\<close>

fun as_str :: "string \<Rightarrow> json \<Rightarrow> string py" where
  "as_str meth (JStr s) = Inr s"
| "as_str meth j = Inl (no_attr j meth)"

text \<open>\<open>int(j)\<close>.\<close>

fun jint :: "json \<Rightarrow> int py" where
  "jint (JInt i) = Inr i"
| "jint (JBool b) = Inr (if b then 1 else 0)"
| "jint (JFloat f) = int_of_float f"
| "jint (JStr s) = (case parse_int s of Some i \<Rightarrow> Inr i
     | None \<Rightarrow> Inl (Exn Exn_Value (''invalid literal for int() with base 10: '' @ py_repr s)))"
| "jint j = Inl (Exn Exn_Type
     (''int() argument must be a string, a bytes-like object or a real number, not ''
      @ quoted (py_type j)))"

section \<open>\<open>str(j)\<close> and \<open>repr(j)\<close>\<close>

text \<open>\<open>repr\<close> of a float: the shortest decimal that rounds to it, positional for decimal
  exponents from -4 to 15.\<close>

definition dec_exp :: "rat \<Rightarrow> int" where
  "dec_exp x = (case quotient_of x of (p, q) \<Rightarrow>
     (let k = int (length (nat_str p)) - int (length (nat_str q)) in
      if x < ten_pow k then k - 1 else k))"

fun shortest :: "nat \<Rightarrow> int \<Rightarrow> rat \<Rightarrow> int \<Rightarrow> string \<times> int" where
  "shortest 0 n x k = (nat_str (half_even (x / ten_pow (k - n + 1))), k)"
| "shortest (Suc fuel) n x k =
     (let m = half_even (x / ten_pow (k - n + 1)) in
      if rnd_pos (of_int m * ten_pow (k - n + 1)) = Fin x
      then (let ds = nat_str m in if n < int (length ds) then (butlast ds, k + 1) else (ds, k))
      else shortest fuel (n + 1) x k)"

definition pos_float_repr :: "rat \<Rightarrow> string" where
  "pos_float_repr x = (case shortest 16 1 x (dec_exp x) of (ds, k) \<Rightarrow>
     if 16 \<le> k \<or> k < - 4
     then hd ds # (if tl ds = [] then [] else ''.'' @ tl ds) @ ''e'' @ (if k < 0 then ''-'' else ''+'')
          @ (if \<bar>k\<bar> < 10 then ''0'' else []) @ nat_str \<bar>k\<bar>
     else if k < 0 then ''0.'' @ replicate (nat (- k - 1)) CHR ''0'' @ ds
     else if int (length ds) \<le> k + 1 then ds @ replicate (nat (k + 1) - length ds) CHR ''0'' @ ''.0''
     else take (nat (k + 1)) ds @ ''.'' @ drop (nat (k + 1)) ds)"

definition float_repr :: "pyfloat \<Rightarrow> string" where
  "float_repr f = (case f of
       Fin x \<Rightarrow> if x = 0 then ''0.0'' else if x < 0 then ''-'' @ pos_float_repr (- x) else pos_float_repr x
     | Infinite s \<Rightarrow> if s then ''-inf'' else ''inf''
     | NaN \<Rightarrow> ''nan'')"

fun comma_sep :: "string list \<Rightarrow> string" where
  "comma_sep [] = []"
| "comma_sep [s] = s"
| "comma_sep (s # ss) = s @ '', '' @ comma_sep ss"

fun json_repr :: "json \<Rightarrow> string" where
  "json_repr JNull = ''None''"
| "json_repr (JBool b) = (if b then ''True'' else ''False'')"
| "json_repr (JInt i) = int_str i"
| "json_repr (JFloat f) = float_repr f"
| "json_repr (JStr s) = py_repr s"
| "json_repr (JArr xs) = ''['' @ comma_sep (List.map json_repr xs) @ '']''"
| "json_repr (JObj kvs) =
     ''{'' @ comma_sep (List.map (\<lambda>(k, v). py_repr k @ '': '' @ json_repr v) kvs) @ ''}''"

definition json_str :: "json \<Rightarrow> string" where
  "json_str j = (case j of JStr s \<Rightarrow> s | _ \<Rightarrow> json_repr j)"

text \<open>\<open>j[0]\<close>, \<open>j[k]\<close> for a string key, \<open>len(j)\<close>.\<close>

fun jhead :: "json \<Rightarrow> json py" where
  "jhead (JArr (x # _)) = Inr x"
| "jhead (JArr []) = Inl (Exn Exn_Index ''list index out of range'')"
| "jhead (JStr (c # _)) = Inr (JStr [c])"
| "jhead (JStr []) = Inl (Exn Exn_Index ''string index out of range'')"
| "jhead (JObj _) = Inl (Exn Exn_Key ''0'')"
| "jhead j = Inl (Exn Exn_Type (quoted (py_type j) @ '' object is not subscriptable''))"

fun jlast :: "json \<Rightarrow> json py" where
  "jlast (JArr xs) = (if xs = [] then Inl (Exn Exn_Index ''list index out of range'') else Inr (last xs))"
| "jlast (JStr s) = (if s = [] then Inl (Exn Exn_Index ''string index out of range'') else Inr (JStr [last s]))"
| "jlast (JObj _) = Inl (Exn Exn_Key ''-1'')"
| "jlast j = Inl (Exn Exn_Type (quoted (py_type j) @ '' object is not subscriptable''))"

fun jindex :: "json \<Rightarrow> string \<Rightarrow> json py" where
  "jindex (JObj kvs) k = (case map_of kvs k of Some v \<Rightarrow> Inr v | None \<Rightarrow> Inl (Exn Exn_Key (py_repr k)))"
| "jindex (JArr _) k = Inl (Exn Exn_Type ''list indices must be integers or slices, not str'')"
| "jindex (JStr _) k = Inl (Exn Exn_Type (''string indices must be integers, not '' @ quoted ''str''))"
| "jindex j k = Inl (Exn Exn_Type (quoted (py_type j) @ '' object is not subscriptable''))"

fun jlen :: "json \<Rightarrow> nat py" where
  "jlen (JArr xs) = Inr (length xs)"
| "jlen (JStr s) = Inr (length s)"
| "jlen (JObj kvs) = Inr (length kvs)"
| "jlen j = Inl (Exn Exn_Type (''object of type '' @ quoted (py_type j) @ '' has no len()''))"

text \<open>\<open>j.items()\<close> and \<open>j.keys()\<close>.\<close>

fun jitems :: "json \<Rightarrow> (string \<times> json) list py" where
  "jitems (JObj kvs) = Inr kvs"
| "jitems j = Inl (no_attr j ''items'')"

definition jkeys :: "json \<Rightarrow> string list py" where
  "jkeys j = (case j of JObj kvs \<Rightarrow> Inr (List.map fst kvs) | _ \<Rightarrow> Inl (no_attr j ''keys''))"

text \<open>\<open>k in j\<close> for a string key.\<close>

fun jcontains :: "string \<Rightarrow> json \<Rightarrow> bool py" where
  "jcontains k (JObj kvs) = Inr (map_of kvs k \<noteq> None)"
| "jcontains k (JArr xs) = Inr (JStr k \<in> set xs)"
| "jcontains k (JStr s) = Inr (contains k s)"
| "jcontains k j = Inl (Exn Exn_Type (''argument of type '' @ quoted (py_type j) @ '' is not iterable''))"

fun hashable :: "json \<Rightarrow> bool" where
  "hashable (JArr _) = False"
| "hashable (JObj _) = False"
| "hashable _ = True"

lemmas [py_simps] = json_str_def float_repr_def pos_float_repr_def dec_exp_def jget_def jkeys_def
  or_else_def no_attr_def not_iterable_def

section \<open>Facts\<close>

lemma jget_JObj [simp]: "jget (JObj kvs) k = Inr (case map_of kvs k of Some v \<Rightarrow> v | None \<Rightarrow> JNull)"
  by (simp add: jget_def)

lemma jget_Inr_iff: "(\<exists>v. jget j k = Inr v) \<longleftrightarrow> is_obj j"
  by (cases j) (auto simp: jget_def)

lemma or_else_truthy [simp]: "truthy a \<Longrightarrow> or_else a b = a"
  by (simp add: or_else_def)

lemma or_else_falsy [simp]: "\<not> truthy a \<Longrightarrow> or_else a b = b"
  by (simp add: or_else_def)

text \<open>The exceptions of the dynamic operations: none of them is a \<open>RedfishError\<close>.\<close>

definition json_error :: "exn \<Rightarrow> bool" where
  "json_error e = (exn_class e \<in> {Exn_Attribute, Exn_Type, Exn_Key, Exn_Index, Exn_Value, Exn_Overflow})"

lemma json_error_Exn [simp]:
  "json_error (Exn c s) = (c \<in> {Exn_Attribute, Exn_Type, Exn_Key, Exn_Index, Exn_Value, Exn_Overflow})"
  by (simp add: json_error_def)

lemma json_error_not_redfish [simp]: "json_error e \<Longrightarrow> \<not> is_redfish e"
  by (cases e rule: is_redfish.cases) auto

lemma jget_or_raises [io_raises]: "py_raises json_error (jget_or j k d)"
  by (cases j) (simp_all add: no_attr_def)

lemma jget_raises [io_raises]: "py_raises json_error (jget j k)"
  by (simp add: jget_def jget_or_raises)

lemma jiter_raises [io_raises]: "py_raises json_error (jiter j)"
  by (cases j) (simp_all add: not_iterable_def)

lemma as_str_raises [io_raises]: "py_raises json_error (as_str m j)"
  by (cases j) (simp_all add: no_attr_def)

lemma jint_raises [io_raises]: "py_raises json_error (jint j)"
  by (cases j) (simp_all add: int_of_float_def split: pyfloat.splits option.splits)

lemma jhead_raises [io_raises]: "py_raises json_error (jhead j)"
  by (cases j rule: jhead.cases) simp_all

lemma jlast_raises [io_raises]: "py_raises json_error (jlast j)"
  by (cases j) simp_all

lemma jindex_raises [io_raises]: "py_raises json_error (jindex j k)"
  by (cases j) (simp_all split: option.splits)

lemma jlen_raises [io_raises]: "py_raises json_error (jlen j)"
  by (cases j) simp_all

lemma jitems_raises [io_raises]: "py_raises json_error (jitems j)"
  by (cases j) (simp_all add: no_attr_def)

lemma jkeys_raises [io_raises]: "py_raises json_error (jkeys j)"
  by (cases j) (simp_all add: jkeys_def no_attr_def)

lemma jcontains_raises [io_raises]: "py_raises json_error (jcontains k j)"
  by (cases j) simp_all

end
