(* ===== verification/Models.thy ===== *)
theory Models
  imports Json
begin

text \<open>
  The domain dataclasses of \<open>core/models\<close>: drives, servers, credentials, firmware and ISO
  records, and the states of an update task. \<open>str | None\<close> is \<open>string option\<close>.
\<close>

section \<open>Drives (core/models/drive.py)\<close>

record drive =
  d_name :: string
  d_protocol :: string
  d_media_type :: string
  d_capacity_bytes :: int
  d_model :: string
  d_serial :: string
  d_slot :: "string option"
  d_redfish_uri :: string

definition capacity_gb :: "drive \<Rightarrow> pyfloat py" where
  "capacity_gb d = int_div_float (d_capacity_bytes d) (1000 ^ 3)"

definition is_nvme :: "drive \<Rightarrow> bool" where
  "is_nvme d = (upper (d_protocol d) = ''NVME'')"

definition is_ssd :: "drive \<Rightarrow> bool" where
  "is_ssd d = (upper (d_media_type d) = ''SSD'')"

definition jopt :: "string option \<Rightarrow> json" where
  "jopt x = (case x of None \<Rightarrow> JNull | Some s \<Rightarrow> JStr s)"

definition drive_to_dict :: "drive \<Rightarrow> json" where
  "drive_to_dict d = JObj
     [(''name'', JStr (d_name d)), (''protocol'', JStr (d_protocol d)),
      (''media_type'', JStr (d_media_type d)), (''capacity_bytes'', JInt (d_capacity_bytes d)),
      (''model'', JStr (d_model d)), (''serial'', JStr (d_serial d)),
      (''slot'', jopt (d_slot d)), (''redfish_uri'', JStr (d_redfish_uri d))]"

text \<open>\<open>Drive.from_dict\<close>: unknown keys are dropped, an absent required key is a \<open>TypeError\<close> of
  the constructor. The dataclass does not check the types of its fields; a value outside the
  declared type, which the record cannot hold, is the result \<open>Drive_Untyped\<close>.\<close>

datatype drive_result = Drive_Ok drive | Drive_Error exn | Drive_Untyped

definition drive_required :: "string list" where
  "drive_required = [''name'', ''protocol'', ''media_type'', ''capacity_bytes'', ''model'']"

fun str_field :: "json option \<Rightarrow> string \<Rightarrow> string option" where
  "str_field None d = Some d"
| "str_field (Some (JStr s)) d = Some s"
| "str_field (Some _) d = None"

fun opt_str_field :: "json option \<Rightarrow> string option option" where
  "opt_str_field None = Some None"
| "opt_str_field (Some JNull) = Some None"
| "opt_str_field (Some (JStr s)) = Some (Some s)"
| "opt_str_field (Some _) = None"

fun int_field :: "json option \<Rightarrow> int option" where
  "int_field (Some (JInt i)) = Some i"
| "int_field _ = None"

fun drive_from_dict :: "json \<Rightarrow> drive_result" where
  "drive_from_dict (JObj kvs) =
     (if \<exists>k \<in> set drive_required. map_of kvs k = None
      then Drive_Error (Exn Exn_Type ''Drive.__init__() missing required positional arguments'')
      else case (str_field (map_of kvs ''name'') [], str_field (map_of kvs ''protocol'') [],
                 str_field (map_of kvs ''media_type'') [], int_field (map_of kvs ''capacity_bytes''),
                 str_field (map_of kvs ''model'') [], str_field (map_of kvs ''serial'') [],
                 opt_str_field (map_of kvs ''slot''), str_field (map_of kvs ''redfish_uri'') []) of
        (Some n, Some p, Some t, Some c, Some m, Some sn, Some sl, Some u) \<Rightarrow>
          Drive_Ok \<lparr>d_name = n, d_protocol = p, d_media_type = t, d_capacity_bytes = c,
                    d_model = m, d_serial = sn, d_slot = sl, d_redfish_uri = u\<rparr>
      | _ \<Rightarrow> Drive_Untyped)"
| "drive_from_dict j = Drive_Error (no_attr j ''items'')"

section \<open>Servers and credentials (core/models/server.py)\<close>

record credentials =
  username :: string
  password :: string

record server_info =
  si_ip :: string
  si_hostname :: "string option"
  si_manufacturer :: "string option"
  si_oem :: "string option"
  si_model :: "string option"
  si_serial :: "string option"
  si_bmc_version :: "string option"
  si_bios_version :: "string option"
  si_power_state :: string
  si_status :: string
  si_protocol :: "string option"
  si_redfish_root :: "string option"
  si_tls_fingerprint :: "string option"
  si_drives :: "drive list"

definition new_server_info :: "string \<Rightarrow> server_info" where
  "new_server_info ip = \<lparr>si_ip = ip, si_hostname = None, si_manufacturer = None, si_oem = None,
     si_model = None, si_serial = None, si_bmc_version = None, si_bios_version = None,
     si_power_state = ''Unknown'', si_status = ''unknown'', si_protocol = None,
     si_redfish_root = None, si_tls_fingerprint = None, si_drives = []\<rparr>"

section \<open>Firmware, ISOs and update tasks\<close>

record firmware =
  fw_name :: string
  fw_type :: string
  fw_oem :: string
  fw_version :: string
  fw_file_path :: string
  fw_sha256 :: string
  fw_model :: "string option"
  fw_size_bytes :: int

datatype task_state =
    QUEUED | PRECHECK | UPLOADING | FLASHING | REBOOTING | VERIFYING | COMPLETED | FAILED

fun task_state_value :: "task_state \<Rightarrow> string" where
  "task_state_value QUEUED = ''queued''"
| "task_state_value PRECHECK = ''precheck''"
| "task_state_value UPLOADING = ''uploading''"
| "task_state_value FLASHING = ''flashing''"
| "task_state_value REBOOTING = ''rebooting''"
| "task_state_value VERIFYING = ''verifying''"
| "task_state_value COMPLETED = ''completed''"
| "task_state_value FAILED = ''failed''"

section \<open>Facts\<close>

lemma task_state_value_inj: "task_state_value a = task_state_value b \<longleftrightarrow> a = b"
  by (cases a; cases b) simp_all

lemma drive_from_to_dict [simp]: "drive_from_dict (drive_to_dict d) = Drive_Ok d"
  by (cases "d_slot d") (simp_all add: drive_to_dict_def drive_required_def jopt_def)

end
