(* ===== verification/Redfish_Api.thy ===== *)
theory Redfish_Api
  imports Models
begin

text \<open>
  What the plugins and the capability discoverer call: the operations of a connected
  \<open>RedfishClient\<close> together with the event loop's clock and \<open>asyncio.sleep\<close>, over a world \<open>'w\<close>
  that holds the BMC and the time. The operations are a parameter; \<open>Redfish_Client\<close> builds
  them from the client's own code over an HTTP transport.
\<close>

record post_result =
  pr_status :: int
  pr_location :: string
  pr_body :: json

record 'w redfish =
  rf_get :: "string \<Rightarrow> ('w, json \<times> (string \<times> string) list) io"
  rf_post :: "string \<Rightarrow> json \<Rightarrow> ('w, post_result) io"
  rf_patch :: "string \<Rightarrow> json \<Rightarrow> ('w, post_result) io"
  rf_multipart :: "string \<Rightarrow> json \<Rightarrow> string \<Rightarrow> string \<Rightarrow> json option \<Rightarrow> ('w, post_result) io"
  rf_close :: "('w, unit) io"
  rf_time :: "'w \<Rightarrow> rat"
  rf_wall :: "'w \<Rightarrow> rat"
  rf_sleep :: "rat \<Rightarrow> ('w, unit) io"

definition get_json :: "'w redfish \<Rightarrow> string \<Rightarrow> ('w, json) io" where
  "get_json rf path = bind (rf_get rf path) (\<lambda>(body, _). ret body)"

text \<open>A path that came out of a JSON document: \<open>path.startswith\<close> fails unless it is a string.\<close>

definition get_json_at :: "'w redfish \<Rightarrow> json \<Rightarrow> ('w, json) io" where
  "get_json_at rf path = bind (lift_py (as_str ''startswith'' path)) (get_json rf)"

definition post_json_at :: "'w redfish \<Rightarrow> json \<Rightarrow> json \<Rightarrow> ('w, post_result) io" where
  "post_json_at rf path body = bind (lift_py (as_str ''startswith'' path)) (\<lambda>p. rf_post rf p body)"

definition patch_json_at :: "'w redfish \<Rightarrow> json \<Rightarrow> json \<Rightarrow> ('w, post_result) io" where
  "patch_json_at rf path body = bind (lift_py (as_str ''startswith'' path)) (\<lambda>p. rf_patch rf p body)"

definition loop_time :: "'w redfish \<Rightarrow> ('w, rat) io" where
  "loop_time rf = (\<lambda>w. (Inr (rf_time rf w), w))"

text \<open>\<open>except RedfishError as exc: return h(exc)\<close>.\<close>

definition on_redfish :: "('w, 'a) io \<Rightarrow> (exn \<Rightarrow> ('w, 'a) io) \<Rightarrow> ('w, 'a) io" where
  "on_redfish m h = catch_if is_redfish m h"

text \<open>\<open>(j.get(k) or {})\<close>, and \<open>(j.get(k) or [])\<close> iterated.\<close>

definition sub_obj :: "json \<Rightarrow> string \<Rightarrow> json py" where
  "sub_obj j k = bind_py (jget j k) (\<lambda>v. Inr (or_else v (JObj [])))"

definition sub_list :: "json \<Rightarrow> string \<Rightarrow> json list py" where
  "sub_list j k = bind_py (jget j k) (\<lambda>v. jiter (or_else v (JArr [])))"

definition none_or :: "json \<Rightarrow> json" where
  "none_or j = (if truthy j then j else JNull)"

text \<open>The last segment of a URI, \<open>uri.rsplit('/', 1)[-1]\<close>.\<close>

definition leaf_of :: "string \<Rightarrow> string" where
  "leaf_of uri = after_last CHR ''/'' uri"

lemmas [io_simps] = get_json_def get_json_at_def post_json_at_def patch_json_at_def loop_time_def
  on_redfish_def

lemmas [py_simps] = sub_obj_def sub_list_def none_or_def leaf_of_def

lemma sub_obj_raises [io_raises]: "py_raises json_error (sub_obj j k)"
  unfolding sub_obj_def by (intro io_raises)

lemma sub_list_raises [io_raises]: "py_raises json_error (sub_list j k)"
  unfolding sub_list_def by (intro io_raises)

end
