(* ===== verification/Capability.thy ===== *)
theory Capability
  imports Redfish_Api "HOL-Library.AList"
begin

text \<open>
  \<open>core/plugins_api/capability_discoverer.py\<close>: the walk that turns a BMC's Redfish tree into a
  \<open>CapabilityMap\<close>. A field the code fills with an unchecked JSON value is a \<open>json\<close> (\<open>JNull\<close> is
  \<open>None\<close>); a field it fills through \<open>_odata_id\<close> is a \<open>string option\<close>. Dictionaries are
  association lists in insertion order (\<open>AList.update\<close> is \<open>d[k] = v\<close>). The walk is a
  computation over the BMC's world and the discoverer's own state \<open>discovery\<close>.
\<close>

section \<open>The capability map\<close>

record firmware_member =
  fm_uri :: string
  fm_version :: json
  fm_updateable :: bool
  fm_software_id :: json
  fm_related :: "string list"
  fm_active :: bool
  fm_class :: string

record vm_slot =
  vm_uri :: string
  vm_media_types :: "json list"
  vm_insert_action :: json
  vm_eject_action :: json
  vm_transfer_method :: json
  vm_transfer_protocols :: "json list"
  vm_inserted :: bool
  vm_write_protected :: bool

record cap =
  cap_service_root :: json
  cap_redfish_version :: json
  cap_vendor_hint :: json
  cap_oem_blocks :: "string list"
  cap_update_service_uri :: "string option"
  cap_update_service_enabled :: bool
  cap_multipart_push_uri :: json
  cap_http_push_uri :: json
  cap_simple_update_target :: json
  cap_simple_update_protocols :: "json list"
  cap_start_update_target :: json
  cap_oem_install_actions :: "(string \<times> json) list"
  cap_oem_update_flags :: "(string \<times> json) list"
  cap_firmware_inventory_uri :: "string option"
  cap_firmware_inventory :: "(string \<times> firmware_member) list"
  cap_bios_member_uri :: "string option"
  cap_bmc_member_uri :: "string option"
  cap_extra_members :: "(string \<times> string) list"
  cap_hgx_member_uris :: "(string \<times> string) list"
  cap_task_service_uri :: "string option"
  cap_task_collection_uri :: "string option"
  cap_system_uri :: "string option"
  cap_system_reset_target :: json
  cap_system_reset_allowed :: "json list"
  cap_system_boot_patch_uri :: json
  cap_system_power_state :: json
  cap_manager_uri :: "string option"
  cap_manager_reset_target :: json
  cap_vm_collection_uri :: "string option"
  cap_virtualmedia :: "(json \<times> vm_slot) list"
  cap_session_service_uri :: "string option"
  cap_raw_action_info :: "(json \<times> json) list"
  cap_warnings :: "string list"
  cap_discovered_at :: rat

definition service_root_path :: string where
  "service_root_path = ''/redfish/v1/''"

definition empty_cap :: cap where
  "empty_cap = \<lparr>cap_service_root = JStr service_root_path, cap_redfish_version = JNull,
     cap_vendor_hint = JNull, cap_oem_blocks = [], cap_update_service_uri = None,
     cap_update_service_enabled = True, cap_multipart_push_uri = JNull, cap_http_push_uri = JNull,
     cap_simple_update_target = JNull, cap_simple_update_protocols = [],
     cap_start_update_target = JNull, cap_oem_install_actions = [], cap_oem_update_flags = [],
     cap_firmware_inventory_uri = None, cap_firmware_inventory = [], cap_bios_member_uri = None,
     cap_bmc_member_uri = None, cap_extra_members = [], cap_hgx_member_uris = [],
     cap_task_service_uri = None, cap_task_collection_uri = None, cap_system_uri = None,
     cap_system_reset_target = JNull, cap_system_reset_allowed = [],
     cap_system_boot_patch_uri = JNull, cap_system_power_state = JStr ''Unknown'',
     cap_manager_uri = None, cap_manager_reset_target = JNull, cap_vm_collection_uri = None,
     cap_virtualmedia = [], cap_session_service_uri = None, cap_raw_action_info = [],
     cap_warnings = [], cap_discovered_at = 0\<rparr>"

section \<open>Classification of firmware members\<close>

definition any_token :: "string list \<Rightarrow> string \<Rightarrow> bool" where
  "any_token ts s = list_ex (\<lambda>t. contains t s) ts"

definition banned_bank_leaves :: "string list" where
  "banned_bank_leaves = [''backup'', ''golden'', ''staging'', ''recovery'', ''history'',
     ''image2'', ''image_2'']"

definition bios_candidates :: "string list" where
  "bios_candidates = [''BIOS'', ''Bios'', ''SystemBios'', ''SystemBIOS'', ''UEFI'', ''Uefi'',
     ''BIOSImage1'', ''BIOSImage_1'']"

definition bmc_candidates :: "string list" where
  "bmc_candidates = [''BMC'', ''BMC-Primary'', ''BMCActive'', ''BMC_Active'', ''BMCImage1'',
     ''BMCImage_1'', ''iDRAC'', ''iLO'', ''iLO5'', ''iLO6'', ''XCC'', ''Manager'']"

definition bmc_tokens :: "string list" where
  "bmc_tokens = [''bmc'', ''idrac'', ''ilo'', ''xcc'', ''manager'']"

definition classify_component :: "string \<Rightarrow> string" where
  "classify_component leaf = (let l = lower leaf in
     if any_token [''bios'', ''uefi''] l then ''bios''
     else if any_token bmc_tokens l then ''bmc''
     else if any_token [''cpld''] l then ''cpld''
     else if any_token [''fpga''] l then ''fpga''
     else if any_token [''backplane'', ''bp''] l then ''bp''
     else if any_token [''psu'', ''powersupply'', ''power_supply''] l then ''psu''
     else if any_token [''retimer''] l then ''retimer''
     else ''other'')"

definition is_active_bank :: "string \<Rightarrow> bool" where
  "is_active_bank leaf = (\<not> any_token banned_bank_leaves (lower leaf))"

definition is_hgx_member :: "string \<Rightarrow> bool" where
  "is_hgx_member leaf = any_token [''hgx'', ''hmc'', ''gpu'', ''erot'', ''inforom''] (lower leaf)"

fun first_some :: "('a \<Rightarrow> 'b option) \<Rightarrow> 'a list \<Rightarrow> 'b option" where
  "first_some f [] = None"
| "first_some f (x # xs) = (case f x of None \<Rightarrow> first_some f xs | Some y \<Rightarrow> Some y)"

definition usable_member :: "(string \<times> firmware_member) list \<Rightarrow> string \<Rightarrow> string \<Rightarrow> string option" where
  "usable_member inven klass leaf = (case map_of inven leaf of None \<Rightarrow> None
     | Some mb \<Rightarrow> if fm_active mb \<and> fm_class mb = klass then Some (fm_uri mb) else None)"

text \<open>\<open>_pick_active\<close>: canonical leaves first, then the first leaf in lexical order.\<close>

definition pick_active :: "(string \<times> firmware_member) list \<Rightarrow> string \<Rightarrow> string list \<Rightarrow> string option" where
  "pick_active inven klass leaves = (case first_some (usable_member inven klass) leaves of
       Some u \<Rightarrow> Some u
     | None \<Rightarrow> first_some (usable_member inven klass) (sort (List.map fst inven)))"

section \<open>The discoverer's state and helpers\<close>

record discovery =
  dv_cap :: cap
  dv_warnings :: "string list"
  dv_oem :: "string list"
  dv_consumed :: bool

definition new_discovery :: discovery where
  "new_discovery = \<lparr>dv_cap = empty_cap, dv_warnings = [], dv_oem = [], dv_consumed = False\<rparr>"

type_synonym ('w, 'a) walk = "('w \<times> discovery, 'a) io"

definition net :: "('w, 'a) io \<Rightarrow> ('w, 'a) walk" where
  "net m = (\<lambda>(w, d). case m w of (r, w') \<Rightarrow> (r, (w', d)))"

definition upd :: "(discovery \<Rightarrow> discovery) \<Rightarrow> ('w, unit) walk" where
  "upd f = modify (\<lambda>(w, d). (w, f d))"

definition set_cap :: "(cap \<Rightarrow> cap) \<Rightarrow> ('w, unit) walk" where
  "set_cap f = upd (dv_cap_update f)"

definition the_cap :: "('w, cap) walk" where
  "the_cap = (\<lambda>(w, d). (Inr (dv_cap d), (w, d)))"

definition warn :: "string \<Rightarrow> ('w, unit) walk" where
  "warn msg = upd (dv_warnings_update (\<lambda>ws. ws @ [msg]))"

fun odata_id :: "json \<Rightarrow> string option" where
  "odata_id (JObj kvs) = (case map_of kvs ''@odata.id'' of
       Some (JStr s) \<Rightarrow> if s \<noteq> [] then Some s else None
     | _ \<Rightarrow> None)"
| "odata_id _ = None"

text \<open>\<open>_safe_get\<close>: every failure but a cancellation or a \<open>RuntimeError\<close> becomes a warning and
  \<open>None\<close>.\<close>

definition swallowed :: "exn \<Rightarrow> bool" where
  "swallowed e = (is_redfish e \<or> exn_class e \<notin> {Exn_Cancelled, Exn_Runtime})"

definition safe_get :: "'w redfish \<Rightarrow> json \<Rightarrow> string \<Rightarrow> ('w, json) walk" where
  "safe_get rf path label = catch_if swallowed (net (get_json_at rf path))
     (\<lambda>e. seq (warn (label @ (if is_redfish e then '' unavailable ('' else '' error ('')
                      @ exn_str e @ '')'')) (ret JNull))"

definition absorb_oem_keys :: "json \<Rightarrow> ('w, unit) walk" where
  "absorb_oem_keys resource = bind (lift_py (jget resource ''Oem'')) (\<lambda>oem. case oem of
       JObj kvs \<Rightarrow> upd (dv_oem_update (\<lambda>s.
         fold (\<lambda>k s. if k = [] \<or> k \<in> set s then s else k # s) (List.map fst kvs) s))
     | _ \<Rightarrow> ret ())"

section \<open>Step 1: the service root\<close>

definition read_service_root :: "json \<Rightarrow> ('w, json) walk" where
  "read_service_root sroot =
     bind (lift_py (jget sroot ''@odata.id'')) (\<lambda>oid.
     bind (lift_py (jget sroot ''RedfishVersion'')) (\<lambda>ver.
     bind (lift_py (jget sroot ''Vendor'')) (\<lambda>vendor.
     bind (if truthy vendor then ret vendor
           else lift_py (bind_py (sub_obj sroot ''Oem'') (\<lambda>oem. bind_py (jkeys oem) (\<lambda>ks.
                  Inr (case ks of [] \<Rightarrow> JNull | k # _ \<Rightarrow> JStr k))))) (\<lambda>hint.
     seq (set_cap (\<lambda>c. c\<lparr>cap_service_root := or_else oid (JStr service_root_path),
                       cap_redfish_version := ver, cap_vendor_hint := hint\<rparr>))
     (seq (absorb_oem_keys sroot) (ret sroot))))))"

definition bootstrap :: "'w redfish \<Rightarrow> ('w, json) walk" where
  "bootstrap rf =
     bind (on_redfish (net (get_json rf service_root_path)) (\<lambda>e. throw (Exn Exn_Redfish
       (''Redfish ServiceRoot unavailable at '' @ service_root_path @ '': '' @ exn_str e))))
     read_service_root"

section \<open>Step 2: UpdateService\<close>

definition protocol_values :: "string \<Rightarrow> json \<Rightarrow> json list py" where
  "protocol_values name param = bind_py (jget param ''AllowableValues'') (\<lambda>v.
     if truthy v then jiter v else Inr [])"

text \<open>The first parameter of an ActionInfo with that name and some allowable values.\<close>

fun allowable_values :: "string \<Rightarrow> json list \<Rightarrow> json list py" where
  "allowable_values name [] = Inr []"
| "allowable_values name (p # ps) = bind_py (jget p ''Name'') (\<lambda>n.
     if n = JStr name
     then bind_py (protocol_values name p) (\<lambda>vs. if vs \<noteq> [] then Inr vs else allowable_values name ps)
     else allowable_values name ps)"

definition unhashable :: "json \<Rightarrow> exn" where
  "unhashable j = Exn Exn_Type (''unhashable type: '' @ quoted (py_type j))"

definition fetch_action_info :: "'w redfish \<Rightarrow> json \<Rightarrow> string \<Rightarrow> ('w, unit) walk" where
  "fetch_action_info rf action name =
     bind (lift_py (jget action ''@Redfish.ActionInfo'')) (\<lambda>info_link.
     bind (lift_py (jget action ''target'')) (\<lambda>t.
     let target = or_else t (JStr name) in
     if \<not> truthy info_link then ret () else
     bind (safe_get rf info_link (''ActionInfo for '' @ name)) (\<lambda>info.
     if info = JNull
     then warn (''ActionInfo for '' @ name @ '' unavailable '' @ em_dash @ '' using DMTF defaults'')
     else if \<not> hashable target then throw (unhashable target)
     else seq (set_cap (cap_raw_action_info_update (AList.update target info)))
     (bind the_cap (\<lambda>c.
       if name = ''SimpleUpdate'' \<and> cap_simple_update_protocols c = []
       then bind (lift_py (bind_py (sub_list info ''Parameters'') (allowable_values ''TransferProtocol'')))
              (\<lambda>vs. if vs \<noteq> [] then set_cap (cap_simple_update_protocols_update (\<lambda>_. vs)) else ret ())
       else ret ())))))"

definition oem_action :: "string \<times> json \<Rightarrow> ('w, unit) walk" where
  "oem_action item = (case item of (name, blob) \<Rightarrow> (case blob of
       JObj kvs \<Rightarrow> (case map_of kvs ''target'' of
           Some t \<Rightarrow> if truthy t then set_cap (cap_oem_install_actions_update (AList.update name t)) else ret ()
         | None \<Rightarrow> ret ())
     | _ \<Rightarrow> ret ()))"

definition walk_update_actions :: "'w redfish \<Rightarrow> json \<Rightarrow> ('w, unit) walk" where
  "walk_update_actions rf actions =
     bind (lift_py (sub_obj actions ''#UpdateService.SimpleUpdate'')) (\<lambda>simple.
     bind (lift_py (jget simple ''target'')) (\<lambda>target.
     seq (if \<not> truthy target then ret () else
          seq (set_cap (\<lambda>c. c\<lparr>cap_simple_update_target := target\<rparr>))
          (bind (lift_py (jget simple ''TransferProtocol@Redfish.AllowableValues'')) (\<lambda>allowed.
           seq (if truthy allowed
                then bind (lift_py (jiter allowed)) (\<lambda>vs. set_cap (cap_simple_update_protocols_update (\<lambda>_. vs)))
                else ret ())
           (fetch_action_info rf simple ''SimpleUpdate''))))
     (bind (lift_py (sub_obj actions ''#UpdateService.StartUpdate'')) (\<lambda>start.
      bind (lift_py (jget start ''target'')) (\<lambda>st.
      seq (if truthy st then set_cap (\<lambda>c. c\<lparr>cap_start_update_target := st\<rparr>) else ret ())
      (bind (lift_py (bind_py (sub_obj actions ''Oem'') jitems)) (for_each oem_action)))))))"

definition oem_update_flags :: "string option \<Rightarrow> json \<Rightarrow> (string \<times> json) list py" where
  "oem_update_flags us_uri us =
     bind_py (sub_obj us ''Oem'') (\<lambda>oem.
     bind_py (jcontains ''Hpe'' oem) (\<lambda>hpe.
     bind_py (if hpe then bind_py (sub_obj oem ''Hpe'') (\<lambda>h.
                bind_py (jcontains ''Repository'' h) (\<lambda>r.
                if r then Inr True else jcontains ''RepositoryUpdates'' h))
              else Inr False) (\<lambda>repo.
     bind_py (jcontains ''Ami'' oem) (\<lambda>ami.
     bind_py (if ami then Inr True else jcontains ''Smc'' oem) (\<lambda>smc.
     bind_py (if smc then Inr True else jcontains ''Supermicro'' oem) (\<lambda>megarac.
     bind_py (jcontains ''Dell'' oem) (\<lambda>dell.
     Inr ((if hpe then [(''hpe.state_endpoint'', jopt us_uri)] else [])
        @ (if repo then [(''hpe.has_repository'', JBool True)] else [])
        @ (if megarac then [(''ami.requires_image_type'', JBool True)] else [])
        @ (if dell then [(''dell.empty_targets'', JBool True)] else [])))))))))"

definition derive_oem_update_flags :: "json \<Rightarrow> ('w, unit) walk" where
  "derive_oem_update_flags us = bind the_cap (\<lambda>c.
     bind (lift_py (oem_update_flags (cap_update_service_uri c) us)) (\<lambda>flags.
     set_cap (cap_oem_update_flags_update (\<lambda>old. fold (\<lambda>(k, v). AList.update k v) flags old))))"

section \<open>Step 3: FirmwareInventory\<close>

text \<open>The pages behind \<open>Members@odata.nextLink\<close>; the guard of 50 pages is the fuel.\<close>

fun inventory_pages :: "'w redfish \<Rightarrow> nat \<Rightarrow> json \<Rightarrow> json list \<Rightarrow> ('w, json list) walk" where
  "inventory_pages rf 0 nxt refs = ret refs"
| "inventory_pages rf (Suc guard) nxt refs =
     (if \<not> truthy nxt then ret refs
      else bind (safe_get rf nxt ''FirmwareInventory page'') (\<lambda>page.
        if \<not> truthy page then ret refs
        else bind (lift_py (sub_list page ''Members'')) (\<lambda>more.
             bind (lift_py (jget page ''Members@odata.nextLink'')) (\<lambda>nxt'.
             inventory_pages rf guard nxt' (refs @ more)))))"

definition some_ids :: "json list \<Rightarrow> string list" where
  "some_ids js = List.map_filter odata_id js"

definition inventory_member :: "'w redfish \<Rightarrow> json \<Rightarrow> ('w, unit) walk" where
  "inventory_member rf ref = (case odata_id ref of None \<Rightarrow> ret ()
     | Some uri \<Rightarrow>
         bind (safe_get rf (JStr uri) (''FirmwareInventory member '' @ uri)) (\<lambda>mb.
         if mb = JNull then ret () else
         bind (lift_py (sub_list mb ''RelatedItem'')) (\<lambda>related.
         bind (lift_py (jget mb ''Version'')) (\<lambda>version.
         bind (lift_py (jget_or mb ''Updateable'' (JBool True))) (\<lambda>updateable.
         bind (lift_py (jget mb ''SoftwareId'')) (\<lambda>sid.
         set_cap (cap_firmware_inventory_update (AList.update (leaf_of uri)
           \<lparr>fm_uri = uri, fm_version = version, fm_updateable = truthy updateable,
            fm_software_id = sid, fm_related = some_ids related,
            fm_active = is_active_bank (leaf_of uri),
            fm_class = classify_component (leaf_of uri)\<rparr>))))))))"

definition extra_members :: "(string \<times> firmware_member) list \<Rightarrow> (string \<times> string) list" where
  "extra_members inven = List.map_filter (\<lambda>k. map_option (\<lambda>u. (k, u)) (pick_active inven k []))
     [''cpld'', ''fpga'', ''bp'', ''psu'', ''retimer'']"

definition hgx_members :: "(string \<times> firmware_member) list \<Rightarrow> (string \<times> string) list" where
  "hgx_members inven = List.map (\<lambda>(leaf, mb). (leaf, fm_uri mb))
     (filter (\<lambda>(leaf, mb). is_hgx_member leaf \<and> fm_active mb) inven)"

definition resolve_banks :: "cap \<Rightarrow> cap" where
  "resolve_banks c = (let inven = cap_firmware_inventory c in
     c\<lparr>cap_bios_member_uri := pick_active inven ''bios'' bios_candidates,
       cap_bmc_member_uri := pick_active inven ''bmc'' bmc_candidates,
       cap_extra_members := extra_members inven,
       cap_hgx_member_uris := hgx_members inven\<rparr>)"

definition walk_firmware_inventory :: "'w redfish \<Rightarrow> ('w, unit) walk" where
  "walk_firmware_inventory rf = bind the_cap (\<lambda>c. case cap_firmware_inventory_uri c of
       None \<Rightarrow> warn (''No FirmwareInventory '' @ em_dash @ '' flash targets cannot be resolved'')
     | Some uri \<Rightarrow>
         bind (safe_get rf (JStr uri) ''FirmwareInventory'') (\<lambda>inven0.
         if inven0 = JNull then ret () else
         bind (lift_py (sub_list inven0 ''Members'')) (\<lambda>refs0.
         bind (lift_py (jget inven0 ''Members@odata.nextLink'')) (\<lambda>nxt.
         bind (inventory_pages rf 50 nxt refs0) (\<lambda>refs.
         seq (for_each (inventory_member rf) refs) (set_cap resolve_banks))))))"

definition walk_update_service :: "'w redfish \<Rightarrow> json \<Rightarrow> ('w, unit) walk" where
  "walk_update_service rf sroot = bind (lift_py (jget sroot ''UpdateService'')) (\<lambda>us_ref.
     case odata_id us_ref of
       None \<Rightarrow> warn (''UpdateService missing '' @ em_dash @ '' host treated as discovery-only'')
     | Some link \<Rightarrow>
         bind (safe_get rf (JStr link) ''UpdateService'') (\<lambda>us.
         if us = JNull then ret () else
         seq (set_cap (\<lambda>c. c\<lparr>cap_update_service_uri :=
                Some (case odata_id us of Some u \<Rightarrow> u | None \<Rightarrow> link)\<rparr>))
         (bind (lift_py (jget_or us ''ServiceEnabled'' (JBool True))) (\<lambda>en.
          bind (lift_py (jget us ''MultipartHttpPushUri'')) (\<lambda>mp.
          bind (lift_py (jget us ''HttpPushUri'')) (\<lambda>hp.
          bind (lift_py (jget us ''FirmwareInventory'')) (\<lambda>fi.
          seq (set_cap (\<lambda>c. c\<lparr>cap_update_service_enabled := truthy en,
                 cap_multipart_push_uri := none_or mp, cap_http_push_uri := none_or hp,
                 cap_firmware_inventory_uri := odata_id fi\<rparr>))
          (seq (absorb_oem_keys us)
          (bind (lift_py (sub_obj us ''Actions'')) (\<lambda>actions.
           seq (walk_update_actions rf actions)
           (seq (walk_firmware_inventory rf)
           (derive_oem_update_flags us))))))))))))"

section \<open>Step 5: Systems\<close>

text \<open>The ResetType values of a cached ActionInfo blob.\<close>

definition promote_reset_types :: "json \<Rightarrow> ('w, unit) walk" where
  "promote_reset_types target = bind the_cap (\<lambda>c.
     if cap_system_reset_allowed c \<noteq> [] then ret ()
     else if \<not> hashable target then throw (unhashable target)
     else let info = (case map_of (cap_raw_action_info c) target of
                        Some i \<Rightarrow> or_else i (JObj []) | None \<Rightarrow> JObj []) in
       bind (lift_py (bind_py (sub_list info ''Parameters'') (allowable_values ''ResetType''))) (\<lambda>vs.
       if vs \<noteq> [] then set_cap (cap_system_reset_allowed_update (\<lambda>_. vs)) else ret ()))"

definition walk_reset_action :: "'w redfish \<Rightarrow> json \<Rightarrow> ('w, unit) walk" where
  "walk_reset_action rf reset = bind (lift_py (jget reset ''target'')) (\<lambda>target.
     if \<not> truthy target then ret () else
     seq (set_cap (\<lambda>c. c\<lparr>cap_system_reset_target := target\<rparr>))
     (bind (lift_py (jget reset ''ResetType@Redfish.AllowableValues'')) (\<lambda>allowed.
      seq (if truthy allowed
           then bind (lift_py (jiter allowed)) (\<lambda>vs. set_cap (cap_system_reset_allowed_update (\<lambda>_. vs)))
           else ret ())
      (seq (fetch_action_info rf reset ''ComputerSystem.Reset'')
      (promote_reset_types target)))))"

definition boot_patch_uri :: "json \<Rightarrow> string \<Rightarrow> json" where
  "boot_patch_uri boot sys_uri = (case boot of
       JObj kvs \<Rightarrow> (case map_of kvs ''@odata.id'' of
           Some u \<Rightarrow> if truthy u then u else JStr sys_uri
         | None \<Rightarrow> JStr sys_uri)
     | _ \<Rightarrow> JStr sys_uri)"

definition multi_node_warning :: "json \<Rightarrow> string py" where
  "multi_node_warning members =
     bind_py (jlen members) (\<lambda>n. bind_py (jhead members) (\<lambda>m0.
     bind_py (jget_or m0 ''@odata.id'' (JStr ''?'')) (\<lambda>u.
     Inr (''Systems collection has '' @ int_str (int n) @ '' members '' @ em_dash
          @ '' using Members[0] ('' @ json_str u @ ''). ''
          @ ''Multi-node chassis aren'' @ [CHR 0x27] @ ''t yet individually addressable.''))))"

text \<open>\<open>coll.get('Members') or []\<close> and its first element.\<close>

definition first_member :: "'w redfish \<Rightarrow> string \<Rightarrow> string \<Rightarrow> string \<Rightarrow> bool \<Rightarrow> ('w, string option) walk" where
  "first_member rf link label empty_msg multi = bind (safe_get rf (JStr link) label) (\<lambda>coll.
     if coll = JNull then ret None else
     bind (lift_py (jget coll ''Members'')) (\<lambda>members.
     if \<not> truthy members then seq (warn empty_msg) (ret None) else
     seq (if multi then bind (lift_py (jlen members)) (\<lambda>n.
            if 1 < n then bind (lift_py (multi_node_warning members)) warn else ret ()) else ret ())
     (bind (lift_py (jhead members)) (\<lambda>m0. ret (odata_id m0)))))"

definition walk_systems :: "'w redfish \<Rightarrow> json \<Rightarrow> ('w, unit) walk" where
  "walk_systems rf sroot = bind (lift_py (jget sroot ''Systems'')) (\<lambda>sys_ref. case odata_id sys_ref of
       None \<Rightarrow> warn (''No Systems collection '' @ em_dash @ '' power/boot/provisioning disabled'')
     | Some link \<Rightarrow>
         bind (first_member rf link ''Systems collection''
                 (''Systems collection empty '' @ em_dash @ '' power/boot/provisioning disabled'') True)
           (\<lambda>u. case u of None \<Rightarrow> ret () | Some sys_uri \<Rightarrow>
         bind (safe_get rf (JStr sys_uri) ''ComputerSystem'') (\<lambda>system.
         if system = JNull then ret () else
         bind (lift_py (jget system ''PowerState'')) (\<lambda>ps.
         seq (set_cap (\<lambda>c. c\<lparr>cap_system_uri := Some sys_uri,
                cap_system_power_state := or_else ps (JStr ''Unknown'')\<rparr>))
         (seq (absorb_oem_keys system)
         (bind (lift_py (bind_py (sub_obj system ''Actions'') (\<lambda>a. sub_obj a ''#ComputerSystem.Reset'')))
            (\<lambda>reset.
          seq (walk_reset_action rf reset)
          (bind (lift_py (jget system ''Boot'')) (\<lambda>boot.
           set_cap (\<lambda>c. c\<lparr>cap_system_boot_patch_uri := boot_patch_uri boot sys_uri\<rparr>))))))))))"

section \<open>Steps 6 and 7: Managers and VirtualMedia\<close>

definition action_target :: "json \<Rightarrow> string \<Rightarrow> json py" where
  "action_target actions name = bind_py (sub_obj actions name) (\<lambda>a. jget a ''target'')"

definition tuple_or_empty :: "json \<Rightarrow> string \<Rightarrow> json list py" where
  "tuple_or_empty j k = sub_list j k"

definition walk_slot :: "'w redfish \<Rightarrow> json \<Rightarrow> ('w, unit) walk" where
  "walk_slot rf ref = (case odata_id ref of None \<Rightarrow> ret () | Some uri \<Rightarrow>
     bind (safe_get rf (JStr uri) (''VirtualMedia slot '' @ uri)) (\<lambda>slot.
     if slot = JNull then ret () else
     bind (lift_py (sub_obj slot ''Actions'')) (\<lambda>actions.
     bind (lift_py (action_target actions ''#VirtualMedia.InsertMedia'')) (\<lambda>insert_t.
     bind (lift_py (action_target actions ''#VirtualMedia.EjectMedia'')) (\<lambda>eject_t.
     bind (lift_py (jget slot ''Id'')) (\<lambda>sid.
     bind (lift_py (tuple_or_empty slot ''MediaTypes'')) (\<lambda>media.
     bind (lift_py (jget slot ''TransferMethod'')) (\<lambda>tm.
     bind (lift_py (tuple_or_empty slot ''TransferProtocolType'')) (\<lambda>tp.
     bind (lift_py (jget_or slot ''Inserted'' (JBool False))) (\<lambda>ins.
     bind (lift_py (jget_or slot ''WriteProtected'' (JBool True))) (\<lambda>wp.
     let slot_id = or_else sid (JStr (leaf_of uri)) in
     if \<not> hashable slot_id then throw (unhashable slot_id) else
     set_cap (cap_virtualmedia_update (AList.update slot_id
       \<lparr>vm_uri = uri, vm_media_types = media, vm_insert_action = insert_t,
        vm_eject_action = eject_t, vm_transfer_method = or_else tm (JStr []),
        vm_transfer_protocols = tp, vm_inserted = truthy ins,
        vm_write_protected = truthy wp\<rparr>)))))))))))))"

definition walk_virtualmedia :: "'w redfish \<Rightarrow> string \<Rightarrow> ('w, unit) walk" where
  "walk_virtualmedia rf link = bind (safe_get rf (JStr link) ''VirtualMedia collection'') (\<lambda>coll.
     if coll = JNull then ret () else
     bind (lift_py (sub_list coll ''Members'')) (for_each (walk_slot rf)))"

definition walk_managers :: "'w redfish \<Rightarrow> json \<Rightarrow> ('w, unit) walk" where
  "walk_managers rf sroot = bind (lift_py (jget sroot ''Managers'')) (\<lambda>mgr_ref. case odata_id mgr_ref of
       None \<Rightarrow> warn ''No Managers collection''
     | Some link \<Rightarrow>
         bind (first_member rf link ''Managers collection'' ''Managers collection empty'' False)
           (\<lambda>u. case u of None \<Rightarrow> ret () | Some mgr_uri \<Rightarrow>
         bind (safe_get rf (JStr mgr_uri) ''Manager'') (\<lambda>manager.
         if manager = JNull then ret () else
         seq (set_cap (\<lambda>c. c\<lparr>cap_manager_uri := Some mgr_uri\<rparr>))
         (seq (absorb_oem_keys manager)
         (bind (lift_py (bind_py (sub_obj manager ''Actions'') (\<lambda>a. action_target a ''#Manager.Reset'')))
            (\<lambda>target.
          seq (if truthy target then set_cap (\<lambda>c. c\<lparr>cap_manager_reset_target := target\<rparr>) else ret ())
          (bind (lift_py (jget manager ''VirtualMedia'')) (\<lambda>vm. case odata_id vm of
              Some vm_link \<Rightarrow> seq (set_cap (\<lambda>c. c\<lparr>cap_vm_collection_uri := Some vm_link\<rparr>))
                                 (walk_virtualmedia rf vm_link)
            | None \<Rightarrow> warn (''VirtualMedia not exposed '' @ em_dash
                            @ '' OS provisioning disabled on this BMC''))))))))) "

section \<open>Steps 8 and 9: TaskService and SessionService\<close>

definition walk_task_service :: "'w redfish \<Rightarrow> json \<Rightarrow> ('w, unit) walk" where
  "walk_task_service rf sroot =
     bind (lift_py (bind_py (jget sroot ''Tasks'') (\<lambda>t. if truthy t then Inr t else jget sroot ''TaskService'')))
     (\<lambda>t. case odata_id t of
       None \<Rightarrow> warn (''No TaskService '' @ em_dash @ '' flash progress will be reported as 0%/100% only'')
     | Some link \<Rightarrow>
         bind (safe_get rf (JStr link) ''TaskService'') (\<lambda>ts.
         if ts = JNull then ret () else
         bind (lift_py (jget ts ''Tasks'')) (\<lambda>tasks.
         set_cap (\<lambda>c. c\<lparr>cap_task_service_uri := Some (case odata_id ts of Some u \<Rightarrow> u | None \<Rightarrow> link),
                        cap_task_collection_uri := odata_id tasks\<rparr>))))"

definition walk_session_service :: "json \<Rightarrow> ('w, unit) walk" where
  "walk_session_service sroot =
     bind (lift_py (bind_py (jget sroot ''SessionService'') (\<lambda>s. case odata_id s of
             Some l \<Rightarrow> Inr (Some l)
           | None \<Rightarrow> bind_py (sub_obj sroot ''Links'') (\<lambda>links.
                     bind_py (jget links ''Sessions'') (\<lambda>l. Inr (odata_id l))))))
     (\<lambda>l. case l of
        None \<Rightarrow> warn (''No SessionService '' @ em_dash @ '' basic auth only'')
      | Some link \<Rightarrow> set_cap (\<lambda>c. c\<lparr>cap_session_service_uri := Some link\<rparr>))"

section \<open>The walk\<close>

definition freeze :: "rat \<Rightarrow> discovery \<Rightarrow> cap" where
  "freeze now d = (dv_cap d)\<lparr>cap_oem_blocks := sort (dv_oem d),
     cap_warnings := dv_warnings d, cap_discovered_at := now\<rparr>"

definition walk_all :: "'w redfish \<Rightarrow> ('w, unit) walk" where
  "walk_all rf = bind (bootstrap rf) (\<lambda>sroot.
     seq (walk_update_service rf sroot)
     (seq (walk_systems rf sroot)
     (seq (walk_managers rf sroot)
     (seq (walk_task_service rf sroot)
     (walk_session_service sroot)))))"

definition discover_step :: "'w redfish \<Rightarrow> ('w, cap) walk" where
  "discover_step rf = (\<lambda>(w, d).
     if dv_consumed d
     then (Inl (Exn Exn_Runtime (''RedfishCapabilityDiscoverer is one-shot; construct a fresh ''
            @ ''instance per walk (state from a previous discover() call ''
            @ ''would contaminate this one).'')), (w, d))
     else bind (walk_all rf) (\<lambda>_ (w', d'). (Inr (freeze (rf_wall rf w') d'),
            (w', d'\<lparr>dv_cap := freeze (rf_wall rf w') d'\<rparr>))) (w, d\<lparr>dv_consumed := True\<rparr>))"

text \<open>A fresh discoverer for one walk, as the plugins use it.\<close>

definition discover_caps :: "'w redfish \<Rightarrow> ('w, cap) io" where
  "discover_caps rf = (\<lambda>w. case discover_step rf (w, new_discovery) of (r, (w', _)) \<Rightarrow> (r, w'))"

section \<open>The walk keeps the bank classification\<close>

text \<open>\<open>active_of k u\<close>: the member at \<open>u\<close> is in an active bank and of class \<open>k\<close>. \<open>cap_wf\<close>: every URI
  the map offers as a flash target is such a member.\<close>

definition active_of :: "string \<Rightarrow> string \<Rightarrow> bool" where
  "active_of k u = (is_active_bank (leaf_of u) \<and> classify_component (leaf_of u) = k)"

definition inven_wf :: "(string \<times> firmware_member) list \<Rightarrow> bool" where
  "inven_wf inven = (\<forall>(leaf, mb) \<in> set inven. leaf = leaf_of (fm_uri mb) \<and>
     fm_active mb = is_active_bank leaf \<and> fm_class mb = classify_component leaf)"

definition cap_wf :: "cap \<Rightarrow> bool" where
  "cap_wf c = (inven_wf (cap_firmware_inventory c) \<and>
     (\<forall>u. cap_bios_member_uri c = Some u \<longrightarrow> active_of ''bios'' u) \<and>
     (\<forall>u. cap_bmc_member_uri c = Some u \<longrightarrow> active_of ''bmc'' u) \<and>
     (\<forall>(k, u) \<in> set (cap_extra_members c). active_of k u) \<and>
     (\<forall>(l, u) \<in> set (cap_hgx_member_uris c). l = leaf_of u \<and> is_active_bank l \<and> is_hgx_member l))"

abbreviation (input) walk_wf :: "'w \<times> discovery \<Rightarrow> bool" where
  "walk_wf s \<equiv> cap_wf (dv_cap (snd s))"

lemma first_some_Some: "first_some f xs = Some y \<Longrightarrow> \<exists>x \<in> set xs. f x = Some y"
  by (induction xs) (auto split: option.splits)

lemma first_some_None: "first_some f xs = None \<longleftrightarrow> (\<forall>x \<in> set xs. f x = None)"
  by (induction xs) (auto split: option.splits)

lemma usable_member_Some:
  "usable_member inven k leaf = Some u \<Longrightarrow>
     \<exists>mb. (leaf, mb) \<in> set inven \<and> fm_active mb \<and> fm_class mb = k \<and> fm_uri mb = u"
  by (auto simp: usable_member_def dest: map_of_SomeD split: option.splits if_splits)

lemma pick_active_Some:
  "pick_active inven k ls = Some u \<Longrightarrow> \<exists>(leaf, mb) \<in> set inven. fm_active mb \<and> fm_class mb = k \<and> fm_uri mb = u"
  unfolding pick_active_def
  by (auto split: option.splits dest!: first_some_Some usable_member_Some)

lemma pick_active_wf: "inven_wf inven \<Longrightarrow> pick_active inven k ls = Some u \<Longrightarrow> active_of k u"
  using pick_active_Some [of inven k ls u] by (fastforce simp: inven_wf_def active_of_def)

lemma cap_wf_empty: "cap_wf empty_cap"
  by (simp add: cap_wf_def empty_cap_def inven_wf_def)

lemma map_filter_mem: "y \<in> set (List.map_filter f xs) \<longleftrightarrow> (\<exists>x \<in> set xs. f x = Some y)"
  by (force simp: map_filter_def)

lemma extra_members_wf: "inven_wf inven \<Longrightarrow> (k, u) \<in> set (extra_members inven) \<Longrightarrow> active_of k u"
  unfolding extra_members_def map_filter_mem by (auto dest: pick_active_wf)

lemma hgx_members_wf:
  "inven_wf inven \<Longrightarrow> (l, u) \<in> set (hgx_members inven) \<Longrightarrow>
     l = leaf_of u \<and> is_active_bank l \<and> is_hgx_member l"
  by (fastforce simp: hgx_members_def inven_wf_def)

lemma resolve_banks_wf: "cap_wf c \<Longrightarrow> cap_wf (resolve_banks c)"
  unfolding cap_wf_def resolve_banks_def Let_def
  by (auto dest: pick_active_wf extra_members_wf hgx_members_wf)

lemma inven_wf_update:
  "inven_wf inven \<Longrightarrow> leaf = leaf_of (fm_uri mb) \<Longrightarrow> fm_active mb = is_active_bank leaf \<Longrightarrow>
     fm_class mb = classify_component leaf \<Longrightarrow> inven_wf (AList.update leaf mb inven)"
  unfolding inven_wf_def by (induction inven) auto

lemma keeps_net [io_inv]: "keeps walk_wf (net m)"
  by (auto simp: keeps_def net_def split: prod.splits)

lemma keeps_the_cap [io_inv]: "keeps P the_cap"
  by (auto simp: keeps_def the_cap_def)

lemma keeps_upd [io_inv]: "(\<And>d. cap_wf (dv_cap d) \<Longrightarrow> cap_wf (dv_cap (f d))) \<Longrightarrow> keeps walk_wf (upd f)"
  by (auto simp: keeps_def upd_def modify_def)

lemma keeps_set_cap [io_inv]: "(\<And>c. cap_wf c \<Longrightarrow> cap_wf (f c)) \<Longrightarrow> keeps walk_wf (set_cap f)"
  unfolding set_cap_def by (rule keeps_upd) simp

lemma keeps_warn [io_inv]: "keeps walk_wf (warn m)"
  unfolding warn_def by (rule keeps_upd) simp

lemma keeps_safe_get [io_inv]: "keeps walk_wf (safe_get rf p l)"
  unfolding safe_get_def by (intro io_inv)

lemma keeps_absorb [io_inv]: "keeps walk_wf (absorb_oem_keys r)"
  unfolding absorb_oem_keys_def by (auto intro!: io_inv split: json.splits)

lemma cap_wf_other [simp]:
  "cap_wf (c\<lparr>cap_service_root := j, cap_redfish_version := j1, cap_vendor_hint := j2\<rparr>) = cap_wf c"
  "cap_wf (cap_raw_action_info_update f1 c) = cap_wf c"
  "cap_wf (cap_simple_update_protocols_update f2 c) = cap_wf c"
  "cap_wf (cap_oem_install_actions_update f3 c) = cap_wf c"
  "cap_wf (c\<lparr>cap_simple_update_target := j\<rparr>) = cap_wf c"
  "cap_wf (c\<lparr>cap_start_update_target := j\<rparr>) = cap_wf c"
  "cap_wf (cap_oem_update_flags_update f4 c) = cap_wf c"
  "cap_wf (c\<lparr>cap_update_service_uri := u\<rparr>) = cap_wf c"
  "cap_wf (c\<lparr>cap_update_service_enabled := b, cap_multipart_push_uri := j1,
      cap_http_push_uri := j2, cap_firmware_inventory_uri := u\<rparr>) = cap_wf c"
  "cap_wf (cap_system_reset_allowed_update f5 c) = cap_wf c"
  "cap_wf (c\<lparr>cap_system_reset_target := j\<rparr>) = cap_wf c"
  "cap_wf (c\<lparr>cap_system_uri := u, cap_system_power_state := j\<rparr>) = cap_wf c"
  "cap_wf (c\<lparr>cap_system_boot_patch_uri := j\<rparr>) = cap_wf c"
  "cap_wf (cap_virtualmedia_update f6 c) = cap_wf c"
  "cap_wf (c\<lparr>cap_manager_uri := u\<rparr>) = cap_wf c"
  "cap_wf (c\<lparr>cap_manager_reset_target := j\<rparr>) = cap_wf c"
  "cap_wf (c\<lparr>cap_vm_collection_uri := u\<rparr>) = cap_wf c"
  "cap_wf (c\<lparr>cap_task_service_uri := u, cap_task_collection_uri := u'\<rparr>) = cap_wf c"
  "cap_wf (c\<lparr>cap_session_service_uri := u\<rparr>) = cap_wf c"
  "cap_wf (c\<lparr>cap_oem_blocks := ss, cap_warnings := ws, cap_discovered_at := t\<rparr>) = cap_wf c"
  by (simp_all add: cap_wf_def)

lemma keeps_on_redfish [io_inv]:
  "keeps P m \<Longrightarrow> (\<And>e. keeps P (h e)) \<Longrightarrow> keeps P (on_redfish m h)"
  unfolding on_redfish_def by (rule keeps_catch_if)

lemma keeps_bootstrap [io_inv]: "keeps walk_wf (bootstrap rf)"
  unfolding bootstrap_def read_service_root_def by (intro io_inv) simp_all

lemma keeps_fetch_action_info [io_inv]: "keeps walk_wf (fetch_action_info rf a n)"
  unfolding fetch_action_info_def Let_def by (intro io_inv) simp_all

lemma keeps_oem_action [io_inv]: "keeps walk_wf (oem_action x)"
  unfolding oem_action_def by (auto intro!: io_inv split: prod.splits json.splits)

lemma keeps_walk_update_actions [io_inv]: "keeps walk_wf (walk_update_actions rf a)"
  unfolding walk_update_actions_def by (intro io_inv) simp_all

lemma keeps_derive_flags [io_inv]: "keeps walk_wf (derive_oem_update_flags us)"
  unfolding derive_oem_update_flags_def by (intro io_inv) simp_all

lemma keeps_inventory_pages [io_inv]: "keeps walk_wf (inventory_pages rf n nxt refs)"
  by (induction n arbitrary: nxt refs) (auto intro!: io_inv)

lemma keeps_inventory_member [io_inv]: "keeps walk_wf (inventory_member rf ref)"
  unfolding inventory_member_def
  by (intro io_inv) (auto simp: cap_wf_def intro!: inven_wf_update)

lemma keeps_walk_firmware_inventory [io_inv]: "keeps walk_wf (walk_firmware_inventory rf)"
  unfolding walk_firmware_inventory_def by (intro io_inv resolve_banks_wf)

lemma keeps_walk_update_service [io_inv]: "keeps walk_wf (walk_update_service rf sroot)"
  unfolding walk_update_service_def by (intro io_inv) simp_all

lemma keeps_promote [io_inv]: "keeps walk_wf (promote_reset_types t)"
  unfolding promote_reset_types_def Let_def by (intro io_inv) simp_all

lemma keeps_walk_reset_action [io_inv]: "keeps walk_wf (walk_reset_action rf r)"
  unfolding walk_reset_action_def by (intro io_inv) simp_all

lemma keeps_first_member [io_inv]: "keeps walk_wf (first_member rf l lab msg multi)"
  unfolding first_member_def by (intro io_inv)

lemma keeps_walk_systems [io_inv]: "keeps walk_wf (walk_systems rf sroot)"
  unfolding walk_systems_def by (intro io_inv) simp_all

lemma keeps_walk_slot [io_inv]: "keeps walk_wf (walk_slot rf ref)"
  unfolding walk_slot_def Let_def by (intro io_inv) simp_all

lemma keeps_walk_virtualmedia [io_inv]: "keeps walk_wf (walk_virtualmedia rf l)"
  unfolding walk_virtualmedia_def by (intro io_inv)

lemma keeps_walk_managers [io_inv]: "keeps walk_wf (walk_managers rf sroot)"
  unfolding walk_managers_def by (intro io_inv) simp_all

lemma keeps_walk_task_service [io_inv]: "keeps walk_wf (walk_task_service rf sroot)"
  unfolding walk_task_service_def by (intro io_inv) simp_all

lemma keeps_walk_session_service [io_inv]: "keeps walk_wf (walk_session_service sroot)"
  unfolding walk_session_service_def by (intro io_inv) simp_all

lemma keeps_walk_all: "keeps walk_wf (walk_all rf)"
  unfolding walk_all_def by (intro io_inv)

lemma discover_caps_wf: "discover_caps rf w = (Inr c, w') \<Longrightarrow> cap_wf c"
proof -
  assume *: "discover_caps rf w = (Inr c, w')"
  obtain r w1 d1 where walk: "walk_all rf (w, new_discovery\<lparr>dv_consumed := True\<rparr>) = (r, (w1, d1))"
    by (metis surj_pair)
  have "walk_wf (w, new_discovery\<lparr>dv_consumed := True\<rparr>)"
    by (simp add: new_discovery_def cap_wf_empty)
  from keepsD [OF keeps_walk_all this walk] have "cap_wf (dv_cap d1)" by simp
  moreover from * walk have "c = freeze (rf_wall rf w1) d1"
    by (auto simp: discover_caps_def discover_step_def new_discovery_def bind_def
        split: sum.splits prod.splits)
  ultimately show "cap_wf c" by (simp add: freeze_def)
qed

section \<open>What the walk can raise\<close>

text \<open>After the bootstrap only a malformed document, a cancellation or a dead client ends the
  walk; no \<open>RedfishError\<close> does.\<close>

definition late_error :: "exn \<Rightarrow> bool" where
  "late_error e = (json_error e \<or> exn_class e \<in> {Exn_Cancelled, Exn_Runtime})"

lemma late_error_not_redfish: "late_error e \<Longrightarrow> \<not> is_redfish e"
  by (cases e rule: is_redfish.cases) (auto simp: late_error_def)

lemma py_raises_late: "py_raises json_error r \<Longrightarrow> py_raises late_error r"
  by (simp add: py_raises_def late_error_def)

lemmas late_json [io_raises] = jget_raises [THEN py_raises_late] jget_or_raises [THEN py_raises_late]
  jiter_raises [THEN py_raises_late] jhead_raises [THEN py_raises_late] jlen_raises [THEN py_raises_late]
  jitems_raises [THEN py_raises_late] jkeys_raises [THEN py_raises_late]
  jcontains_raises [THEN py_raises_late] sub_obj_raises [THEN py_raises_late]
  sub_list_raises [THEN py_raises_late]

lemma py_raises_if [io_raises]:
  "(b \<Longrightarrow> py_raises Q x) \<Longrightarrow> (\<not> b \<Longrightarrow> py_raises Q y) \<Longrightarrow> py_raises Q (if b then x else y)"
  by simp

lemma py_raises_option [io_raises]:
  "(x = None \<Longrightarrow> py_raises Q m) \<Longrightarrow> (\<And>y. x = Some y \<Longrightarrow> py_raises Q (f y)) \<Longrightarrow>
     py_raises Q (case x of None \<Rightarrow> m | Some y \<Rightarrow> f y)"
  by (cases x) simp_all

lemma late_throw_unhashable [io_raises]: "raises_only late_error (throw (unhashable j))"
  by (simp add: raises_only_throw late_error_def unhashable_def)

lemma late_upd [io_raises]: "raises_only Q (upd f)" "raises_only Q (set_cap g)" "raises_only Q (warn m)"
  by (simp_all add: upd_def set_cap_def warn_def raises_only_modify)

lemma late_the_cap [io_raises]: "raises_only Q the_cap"
  by (auto simp: raises_only_def the_cap_def)

lemma late_safe_get [io_raises]: "raises_only late_error (safe_get rf p l)"
  unfolding safe_get_def
  by (intro raises_only_catch raises_only_seq late_upd raises_only_ret)
    (auto simp: raises_only_def swallowed_def late_error_def)

lemma late_absorb [io_raises]: "raises_only late_error (absorb_oem_keys r)"
  unfolding absorb_oem_keys_def by (auto intro!: io_raises split: json.splits)

lemma late_allowable [io_raises]: "py_raises late_error (allowable_values n ps)"
  by (induction ps) (auto simp: protocol_values_def intro!: io_raises)

lemma late_fetch [io_raises]: "raises_only late_error (fetch_action_info rf a n)"
  unfolding fetch_action_info_def Let_def by (intro io_raises)

lemma late_oem_action [io_raises]: "raises_only late_error (oem_action x)"
  unfolding oem_action_def by (auto intro!: io_raises split: prod.splits json.splits)

lemma late_update_actions [io_raises]: "raises_only late_error (walk_update_actions rf a)"
  unfolding walk_update_actions_def by (intro io_raises)

lemma late_flags [io_raises]: "raises_only late_error (derive_oem_update_flags us)"
  unfolding derive_oem_update_flags_def oem_update_flags_def by (intro io_raises)

lemma late_pages [io_raises]: "raises_only late_error (inventory_pages rf n nxt refs)"
  by (induction n arbitrary: nxt refs) (auto intro!: io_raises)

lemma late_member [io_raises]: "raises_only late_error (inventory_member rf ref)"
  unfolding inventory_member_def by (intro io_raises)

lemma late_inventory [io_raises]: "raises_only late_error (walk_firmware_inventory rf)"
  unfolding walk_firmware_inventory_def by (intro io_raises)

lemma late_update_service [io_raises]: "raises_only late_error (walk_update_service rf sroot)"
  unfolding walk_update_service_def by (intro io_raises)

lemma late_promote [io_raises]: "raises_only late_error (promote_reset_types t)"
  unfolding promote_reset_types_def Let_def by (intro io_raises)

lemma late_reset [io_raises]: "raises_only late_error (walk_reset_action rf r)"
  unfolding walk_reset_action_def by (intro io_raises)

lemma late_first_member [io_raises]: "raises_only late_error (first_member rf l lab msg multi)"
  unfolding first_member_def multi_node_warning_def by (intro io_raises)

lemma late_systems [io_raises]: "raises_only late_error (walk_systems rf sroot)"
  unfolding walk_systems_def by (intro io_raises)

lemma late_slot [io_raises]: "raises_only late_error (walk_slot rf ref)"
  unfolding walk_slot_def Let_def action_target_def tuple_or_empty_def by (intro io_raises)

lemma late_virtualmedia [io_raises]: "raises_only late_error (walk_virtualmedia rf l)"
  unfolding walk_virtualmedia_def by (intro io_raises)

lemma late_managers [io_raises]: "raises_only late_error (walk_managers rf sroot)"
  unfolding walk_managers_def action_target_def by (intro io_raises)

lemma late_task_service [io_raises]: "raises_only late_error (walk_task_service rf sroot)"
  unfolding walk_task_service_def by (intro io_raises)

lemma late_session_service [io_raises]: "raises_only late_error (walk_session_service sroot)"
  unfolding walk_session_service_def by (intro io_raises)

text \<open>The bootstrap: the failure of the service root's GET, with the redfish ones rewrapped.\<close>

lemma late_read_service_root [io_raises]: "raises_only late_error (read_service_root j)"
  unfolding read_service_root_def by (intro io_raises)

lemma bootstrap_raises:
  assumes "bootstrap rf (w, d) = (Inl e, s')"
  shows "late_error e \<or> (\<exists>e0. fst (rf_get rf service_root_path w) = Inl e0 \<and>
    e = (if is_redfish e0 then Exn Exn_Redfish
           (''Redfish ServiceRoot unavailable at '' @ service_root_path @ '': '' @ exn_str e0) else e0))"
proof (cases "rf_get rf service_root_path w")
  case (Pair r w1)
  show ?thesis
  proof (cases r)
    case (Inl e0)
    then show ?thesis
      using assms Pair
      by (auto simp: bootstrap_def on_redfish_def catch_if_def net_def get_json_def bind_def throw_def
          split: if_splits)
  next
    case (Inr bh)
    then have "bootstrap rf (w, d) = read_service_root (fst bh) (w1, d)"
      using Pair
      by (auto simp: bootstrap_def on_redfish_def catch_if_def net_def get_json_def bind_def ret_def
          split: prod.split)
    then show ?thesis using assms raises_onlyD [OF late_read_service_root] by metis
  qed
qed

lemma late_after_bootstrap: "raises_only late_error (seq (walk_update_service rf sroot)
     (seq (walk_systems rf sroot) (seq (walk_managers rf sroot)
     (seq (walk_task_service rf sroot) (walk_session_service sroot)))))"
  by (intro io_raises)

lemma walk_all_raises:
  assumes "walk_all rf (w, d) = (Inl e, s')"
  shows "late_error e \<or> (\<exists>e0. fst (rf_get rf service_root_path w) = Inl e0 \<and>
    e = (if is_redfish e0 then Exn Exn_Redfish
           (''Redfish ServiceRoot unavailable at '' @ service_root_path @ '': '' @ exn_str e0) else e0))"
proof -
  obtain r s1 where b: "bootstrap rf (w, d) = (r, s1)" by (metis surj_pair)
  show ?thesis
  proof (cases r)
    case (Inl e')
    then have "e' = e" using assms b by (simp add: walk_all_def bind_def)
    then have "bootstrap rf (w, d) = (Inl e, s1)" using b Inl by simp
    from bootstrap_raises [OF this] show ?thesis .
  next
    case (Inr sroot)
    then have "seq (walk_update_service rf sroot) (seq (walk_systems rf sroot)
        (seq (walk_managers rf sroot) (seq (walk_task_service rf sroot) (walk_session_service sroot))))
        s1 = (Inl e, s')"
      using assms b by (simp add: walk_all_def bind_def [of "bootstrap rf"])
    from raises_onlyD [OF late_after_bootstrap this] show ?thesis ..
  qed
qed

lemma discover_caps_Inl:
  "discover_caps rf w = (Inl e, w') \<Longrightarrow> \<exists>s'. walk_all rf (w, new_discovery\<lparr>dv_consumed := True\<rparr>) = (Inl e, s')"
  by (auto simp: discover_caps_def discover_step_def new_discovery_def bind_def
      split: sum.splits prod.splits)

section \<open>A sample BMC\<close>

text \<open>A BMC with a fixed document tree; any other path answers 404.\<close>

definition link :: "string \<Rightarrow> json" where
  "link u = JObj [(''@odata.id'', JStr u)]"

definition members_doc :: "string list \<Rightarrow> json" where
  "members_doc us = JObj [(''Members'', JArr (List.map link us))]"

definition sample_tree :: "(string \<times> json) list" where
  "sample_tree =
     [(''/redfish/v1/'', JObj [(''Vendor'', JStr ''AMI''), (''UpdateService'', link ''/us''),
         (''Systems'', link ''/sys''), (''Managers'', link ''/mgr'')]),
      (''/us'', JObj [(''MultipartHttpPushUri'', JStr ''/us/upload''), (''FirmwareInventory'', link ''/inv'')]),
      (''/inv'', members_doc [''/inv/BIOSImage2'', ''/inv/BIOSImage1'', ''/inv/BMC'', ''/inv/HGX_FW_GPU_0'']),
      (''/inv/BIOSImage2'', JObj []), (''/inv/BIOSImage1'', JObj []), (''/inv/BMC'', JObj []),
      (''/inv/HGX_FW_GPU_0'', JObj []),
      (''/sys'', members_doc [''/sys/1'']),
      (''/sys/1'', JObj [(''PowerState'', JStr ''On''),
         (''Actions'', JObj [(''#ComputerSystem.Reset'', JObj [(''target'', JStr ''/sys/1/reset''),
            (''ResetType@Redfish.AllowableValues'', JArr [JStr ''On'', JStr ''ForceOff''])])])])]"

definition tree_get :: "(string \<times> json) list \<Rightarrow> string \<Rightarrow> ('w, json \<times> (string \<times> string) list) io" where
  "tree_get tree p = (case map_of tree p of Some j \<Rightarrow> ret (j, [])
     | None \<Rightarrow> throw (Exn (Exn_RedfishHTTP 404) (''GET '' @ p @ '': HTTP 404'')))"

definition static_bmc :: "(string \<times> json) list \<Rightarrow> rat redfish" where
  "static_bmc tree = \<lparr>rf_get = tree_get tree,
     rf_post = (\<lambda>p b. ret \<lparr>pr_status = 200, pr_location = [], pr_body = JNull\<rparr>),
     rf_patch = (\<lambda>p b. ret \<lparr>pr_status = 200, pr_location = [], pr_body = JNull\<rparr>),
     rf_multipart = (\<lambda>p j f n oem. ret \<lparr>pr_status = 202, pr_location = ''/task/1'', pr_body = JNull\<rparr>),
     rf_close = ret (), rf_time = (\<lambda>w. w), rf_wall = (\<lambda>w. w), rf_sleep = (\<lambda>t w. (Inr (), w + t))\<rparr>"

definition sample_member :: "string \<Rightarrow> firmware_member" where
  "sample_member u = \<lparr>fm_uri = u, fm_version = JNull, fm_updateable = True, fm_software_id = JNull,
     fm_related = [], fm_active = is_active_bank (leaf_of u), fm_class = classify_component (leaf_of u)\<rparr>"

lemmas walk_eval = walk_all_def bootstrap_def read_service_root_def on_redfish_def net_def get_json_def
  get_json_at_def safe_get_def walk_update_service_def walk_update_actions_def absorb_oem_keys_def
  fetch_action_info_def walk_firmware_inventory_def inventory_member_def derive_oem_update_flags_def
  oem_update_flags_def walk_systems_def walk_reset_action_def promote_reset_types_def first_member_def
  walk_managers_def walk_virtualmedia_def walk_slot_def walk_task_service_def walk_session_service_def
  set_cap_def upd_def the_cap_def warn_def sub_obj_def sub_list_def none_or_def jget_def or_else_def
  boot_patch_uri_def action_target_def tuple_or_empty_def discover_caps_def discover_step_def

lemma pages_done: "\<not> truthy nxt \<Longrightarrow> inventory_pages rf n nxt refs = ret refs"
  by (cases n) simp_all

lemma sample_classes:
  "leaf_of ''/inv/BIOSImage2'' = ''BIOSImage2''" "leaf_of ''/inv/BIOSImage1'' = ''BIOSImage1''"
  "leaf_of ''/inv/BMC'' = ''BMC''" "leaf_of ''/inv/HGX_FW_GPU_0'' = ''HGX_FW_GPU_0''"
  "classify_component ''BIOSImage2'' = ''bios''" "classify_component ''BIOSImage1'' = ''bios''"
  "classify_component ''BMC'' = ''bmc''" "classify_component ''HGX_FW_GPU_0'' = ''other''"
  "is_active_bank ''BIOSImage2'' = False" "is_active_bank ''BIOSImage1'' = True"
  "is_active_bank ''BMC'' = True" "is_active_bank ''HGX_FW_GPU_0'' = True"
  "is_hgx_member ''BIOSImage2'' = False" "is_hgx_member ''BIOSImage1'' = False"
  "is_hgx_member ''BMC'' = False" "is_hgx_member ''HGX_FW_GPU_0'' = True"
  by code_simp+

lemma sample_cap_run:
  "\<exists>c. discover_caps (static_bmc sample_tree) 0 = (Inr c, 0) \<and>
     cap_bios_member_uri c = Some ''/inv/BIOSImage1'' \<and> cap_bmc_member_uri c = Some ''/inv/BMC'' \<and>
     cap_hgx_member_uris c = [(''HGX_FW_GPU_0'', ''/inv/HGX_FW_GPU_0'')]"
  by (simp add: static_bmc_def tree_get_def sample_tree_def walk_eval io_run
      service_root_path_def link_def members_doc_def sample_classes new_discovery_def
      swallowed_def pages_done some_ids_def map_filter_simps resolve_banks_def Let_def empty_cap_def
      freeze_def pick_active_def usable_member_def extra_members_def hgx_members_def
      bios_candidates_def bmc_candidates_def linorder_class.sort_key_def cong: io_weak)

section \<open>Properties\<close>



text \<open>Further property. Discovery degrades instead of failing: a \<open>RedfishError\<close> leaves the walk only
  when the GET of the service root itself failed with one, and it then carries that failure's
  text; whatever any other endpoint answers (404, 5xx, transport errors), the walk goes on.\<close>

theorem discover_redfish_error:
  assumes "discover_caps rf w = (Inl e, w')" "is_redfish e"
  shows "\<exists>e0. fst (rf_get rf service_root_path w) = Inl e0 \<and> is_redfish e0 \<and>
    e = Exn Exn_Redfish (''Redfish ServiceRoot unavailable at '' @ service_root_path @ '': '' @ exn_str e0)"
proof -
  obtain s' where "walk_all rf (w, new_discovery\<lparr>dv_consumed := True\<rparr>) = (Inl e, s')"
    using discover_caps_Inl [OF assms(1)] by blast
  from walk_all_raises [OF this] show ?thesis
    using assms(2) late_error_not_redfish by (auto split: if_splits)
qed

theorem discover_redfish_error_witness:
  "\<exists>e0. fst (rf_get (static_bmc []) service_root_path 0) = Inl e0 \<and> is_redfish e0"
proof -
  have "discover_caps (static_bmc []) 0 =
      (Inl (Exn Exn_Redfish (''Redfish ServiceRoot unavailable at '' @ service_root_path @ '': ''
         @ ''GET /redfish/v1/: HTTP 404'')), 0)"
    by (simp add: static_bmc_def tree_get_def walk_eval io_run service_root_path_def new_discovery_def
        cong: io_weak)
  from discover_redfish_error [OF this] show ?thesis by auto
qed

text \<open>Further property. The active bank is chosen when there is one: \<open>_pick_active\<close> answers \<open>None\<close>
  exactly when the inventory has no active-bank member of the class, and prefers the first
  canonical leaf that is present in an active bank.\<close>

theorem pick_active_complete:
  assumes "distinct (List.map fst inven)"
  shows "(pick_active inven k leaves = None \<longleftrightarrow>
      (\<forall>(leaf, mb) \<in> set inven. \<not> (fm_active mb \<and> fm_class mb = k))) \<and>
    (\<forall>l mb ls1 ls2. leaves = ls1 @ l # ls2 \<and> (l, mb) \<in> set inven \<and> fm_active mb \<and> fm_class mb = k \<and>
       (\<forall>x \<in> set ls1. x \<notin> fst ` set inven) \<longrightarrow> pick_active inven k leaves = Some (fm_uri mb))"
proof (intro conjI allI impI)
  have usable: "(leaf, mb) \<in> set inven \<Longrightarrow> fm_active mb \<Longrightarrow> fm_class mb = k \<Longrightarrow>
      usable_member inven k leaf = Some (fm_uri mb)" for leaf mb
    using assms by (simp add: usable_member_def map_of_is_SomeI)
  show "pick_active inven k leaves = None \<longleftrightarrow>
      (\<forall>(leaf, mb) \<in> set inven. \<not> (fm_active mb \<and> fm_class mb = k))"
  proof
    assume "pick_active inven k leaves = None"
    then have none: "\<forall>x \<in> fst ` set inven. usable_member inven k x = None"
      by (simp add: pick_active_def first_some_None split: option.splits)
    show "\<forall>(leaf, mb) \<in> set inven. \<not> (fm_active mb \<and> fm_class mb = k)"
    proof (clarify)
      fix leaf mb assume m: "(leaf, mb) \<in> set inven" "fm_active mb" "k = fm_class mb"
      then have "leaf \<in> fst ` set inven" by force
      with none have "usable_member inven k leaf = None" by (rule bspec)
      then show False using usable [OF m(1,2)] m(3) by simp
    qed
  next
    assume no: "\<forall>(leaf, mb) \<in> set inven. \<not> (fm_active mb \<and> fm_class mb = k)"
    show "pick_active inven k leaves = None"
    proof (rule ccontr)
      assume "pick_active inven k leaves \<noteq> None"
      then obtain u where "pick_active inven k leaves = Some u" by auto
      from pick_active_Some [OF this] no show False by auto
    qed
  qed
  fix l mb ls1 ls2
  assume *: "leaves = ls1 @ l # ls2 \<and> (l, mb) \<in> set inven \<and> fm_active mb \<and> fm_class mb = k \<and>
    (\<forall>x \<in> set ls1. x \<notin> fst ` set inven)"
  then have notin: "\<forall>x \<in> set ls1. x \<notin> fst ` set inven" by (elim conjE)
  have none1: "usable_member inven k x = None" if x: "x \<notin> fst ` set inven" for x
    unfolding usable_member_def map_of_eq_None_iff [THEN iffD2, OF x] by simp
  have none: "\<forall>x \<in> set ls1. usable_member inven k x = None"
    by (intro ballI none1) (rule bspec [OF notin])
  have u: "usable_member inven k l = Some (fm_uri mb)" using * by (intro usable) auto
  have "first_some (usable_member inven k) (ls1 @ l # ls2) = Some (fm_uri mb)"
    using none by (induction ls1) (simp_all add: u)
  then show "pick_active inven k leaves = Some (fm_uri mb)" using * by (simp add: pick_active_def)
qed

theorem pick_active_complete_witness:
  "pick_active [(''BIOSImage1'', sample_member ''/inv/BIOSImage1''), (''BIOS'', sample_member ''/inv/BIOS'')]
     ''bios'' bios_candidates = Some ''/inv/BIOS''"
proof -
  let ?i = "[(''BIOSImage1'', sample_member ''/inv/BIOSImage1''), (''BIOS'', sample_member ''/inv/BIOS'')]"
  have "fm_active (sample_member ''/inv/BIOS'')" "fm_class (sample_member ''/inv/BIOS'') = ''bios''"
    "fm_uri (sample_member ''/inv/BIOS'') = ''/inv/BIOS''"
    by code_simp+
  moreover have "bios_candidates = [] @ ''BIOS'' # tl bios_candidates" by (simp add: bios_candidates_def)
  moreover have "distinct (List.map fst ?i)" by simp
  ultimately show ?thesis
    using pick_active_complete [of ?i "''bios''" bios_candidates, THEN conjunct2, rule_format,
      of "[]" "''BIOS''" "tl bios_candidates" "sample_member ''/inv/BIOS''"] by simp
qed

text \<open>Further property. The HGX-side BMC is not kept out of the host's BMC target: its leaf is
  classified as a host BMC, so in an inventory whose host BMC has no canonical leaf name the
  lexically first member wins and \<open>bmc_member_uri\<close> is the HGX BMC's.\<close>

theorem hgx_bmc_as_host_bmc:
  assumes "cap_firmware_inventory c =
      [(''MegaRAC_BMC'', sample_member ''/inv/MegaRAC_BMC''), (''HGX_FW_BMC_0'', sample_member ''/inv/HGX_FW_BMC_0'')]"
  shows "cap_bmc_member_uri (resolve_banks c) = Some ''/inv/HGX_FW_BMC_0'' \<and> is_hgx_member ''HGX_FW_BMC_0''"
proof -
  have "pick_active [(''MegaRAC_BMC'', sample_member ''/inv/MegaRAC_BMC''),
      (''HGX_FW_BMC_0'', sample_member ''/inv/HGX_FW_BMC_0'')] ''bmc'' bmc_candidates = Some ''/inv/HGX_FW_BMC_0''"
    "is_hgx_member ''HGX_FW_BMC_0''"
    by code_simp+
  then show ?thesis using assms by (simp add: resolve_banks_def Let_def)
qed

theorem hgx_bmc_as_host_bmc_witness:
  "cap_bmc_member_uri (resolve_banks (empty_cap\<lparr>cap_firmware_inventory :=
      [(''MegaRAC_BMC'', sample_member ''/inv/MegaRAC_BMC''),
       (''HGX_FW_BMC_0'', sample_member ''/inv/HGX_FW_BMC_0'')]\<rparr>)) = Some ''/inv/HGX_FW_BMC_0''"
  using hgx_bmc_as_host_bmc [of "empty_cap\<lparr>cap_firmware_inventory :=
      [(''MegaRAC_BMC'', sample_member ''/inv/MegaRAC_BMC''),
       (''HGX_FW_BMC_0'', sample_member ''/inv/HGX_FW_BMC_0'')]\<rparr>"] by simp

end
