(* ===== verification/Disk_Resolver.thy ===== *)
theory Disk_Resolver
  imports Models
begin

text \<open>
  \<open>core/services/disk_resolver.py\<close>: an operator's strategy string picks a drive of a host's
  inventory. \<open>resolve\<close> follows the source's chain of cases; the glob of \<open>by_model\<close> is
  Python's \<open>fnmatch\<close> (on a platform whose \<open>normcase\<close> is the identity).
\<close>

section \<open>Globs (fnmatch)\<close>

datatype glob = Star | AnyChar | CharSet bool "(char \<times> char) list" | Lit char

text \<open>The items of a bracket: \<open>c-d\<close> is a range, a hyphen at either end is itself.\<close>

fun set_items :: "string \<Rightarrow> (char \<times> char) list" where
  "set_items (a # h # b # cs) =
     (if h = CHR ''-'' then (a, b) # set_items cs else (a, a) # set_items (h # b # cs))"
| "set_items [a, b] = [(a, a), (b, b)]"
| "set_items [a] = [(a, a)]"
| "set_items [] = []"

text \<open>The text up to the closing bracket (a \<open>]\<close> in first place is literal) and the rest.\<close>

definition bracket :: "string \<Rightarrow> (bool \<times> string \<times> string) option" where
  "bracket s = (let neg = starts_with ''!'' s; s1 = (if neg then drop 1 s else s);
       lead = (if starts_with '']'' s1 then '']'' else []);
       s2 = drop (length lead) s1;
       body = takeWhile (\<lambda>c. c \<noteq> CHR '']'') s2; rest = dropWhile (\<lambda>c. c \<noteq> CHR '']'') s2
     in if rest = [] then None else Some (neg, lead @ body, drop 1 rest))"

lemma bracket_shorter: "bracket s = Some (n, b, r) \<Longrightarrow> length r < length s"
proof -
  have *: "CHR '']'' \<in> set t \<Longrightarrow> length t \<le> length s \<Longrightarrow>
      length (drop (Suc 0) (dropWhile (\<lambda>c. c \<noteq> CHR '']'') t)) < length s" for t
    using length_dropWhile_le [of "\<lambda>c. c \<noteq> CHR '']''" t] by (cases t) auto
  show "bracket s = Some (n, b, r) \<Longrightarrow> length r < length s"
    unfolding bracket_def Let_def by (auto split: if_splits intro!: *)
qed

function glob_parse :: "string \<Rightarrow> glob list" where
  "glob_parse [] = []"
| "glob_parse (c # cs) =
     (if c = CHR ''*'' then Star # glob_parse cs
      else if c = CHR ''?'' then AnyChar # glob_parse cs
      else if c = CHR ''['' then
        (case bracket cs of
           None \<Rightarrow> Lit c # glob_parse cs
         | Some (neg, body, rest) \<Rightarrow> CharSet neg (set_items body) # glob_parse rest)
      else Lit c # glob_parse cs)"
  by pat_completeness auto
termination
  by (relation "measure length") (auto dest: bracket_shorter)

definition in_set :: "bool \<Rightarrow> (char \<times> char) list \<Rightarrow> char \<Rightarrow> bool" where
  "in_set neg items c =
     (neg \<noteq> list_ex (\<lambda>(a, b). code a \<le> code c \<and> code c \<le> code b) items)"

function glob_match :: "glob list \<Rightarrow> string \<Rightarrow> bool" where
  "glob_match [] s = (s = [])"
| "glob_match (Star # gs) s =
     (glob_match gs s \<or> (case s of [] \<Rightarrow> False | _ # cs \<Rightarrow> glob_match (Star # gs) cs))"
| "glob_match (AnyChar # gs) s = (case s of [] \<Rightarrow> False | _ # cs \<Rightarrow> glob_match gs cs)"
| "glob_match (CharSet neg items # gs) s =
     (case s of [] \<Rightarrow> False | c # cs \<Rightarrow> in_set neg items c \<and> glob_match gs cs)"
| "glob_match (Lit l # gs) s = (case s of [] \<Rightarrow> False | c # cs \<Rightarrow> c = l \<and> glob_match gs cs)"
  by pat_completeness auto
termination
  by (relation "measure (\<lambda>(gs, s). length gs + length s)") auto

definition fnmatch :: "string \<Rightarrow> string \<Rightarrow> bool" where
  "fnmatch name pat = glob_match (glob_parse pat) name"

section \<open>Resolutions\<close>

datatype res_status = Matched | Unmatched | Ambiguous | RequiresOverride

fun res_status_value :: "res_status \<Rightarrow> string" where
  "res_status_value Matched = ''matched''"
| "res_status_value Unmatched = ''unmatched''"
| "res_status_value Ambiguous = ''ambiguous''"
| "res_status_value RequiresOverride = ''requires_override''"

datatype resolution =
  Resolution (res_drive: "drive option") (res_reason: string) (res_status: res_status)

definition res_ok :: "resolution \<Rightarrow> bool" where
  "res_ok r = (res_status r = Matched \<and> res_drive r \<noteq> None)"

section \<open>Sizes\<close>

definition GB :: int where
  "GB = 1000000000"

definition size_unit :: "string \<Rightarrow> int option" where
  "size_unit u = map_of [(''MB'', 1000000), (''GB'', GB), (''TB'', 1000 * GB)] u"

text \<open>The match of \<open>(\d+(?:\.\d+)?)\s*(GB|TB|MB)$\<close> with \<open>IGNORECASE\<close>: the number's text and
  the unit in upper case. \<open>$\<close> also matches before a final newline.\<close>

definition match_number :: "string \<Rightarrow> (string \<times> string) option" where
  "match_number s = (let a = takeWhile is_digit s; r = dropWhile is_digit s in
     if a = [] then None
     else (case r of
        c # cs \<Rightarrow>
          (if c = CHR ''.'' \<and> takeWhile is_digit cs \<noteq> []
           then Some (a @ ''.'' @ takeWhile is_digit cs, dropWhile is_digit cs)
           else Some (a, r))
      | [] \<Rightarrow> Some (a, r)))"

definition match_size :: "string \<Rightarrow> (string \<times> int) option" where
  "match_size s = (case match_number s of None \<Rightarrow> None
     | Some (num, r) \<Rightarrow>
         (let t = dropWhile is_space r;
              u = (if length t = 3 \<and> drop 2 t = newline then take 2 t else t)
          in map_option (\<lambda>k. (num, k)) (size_unit (upper u))))"

definition parse_size_with_tolerance :: "string \<Rightarrow> (int \<times> pyfloat) py" where
  "parse_size_with_tolerance spec =
     (let s = replace_str '' '' [] (strip spec) in
      case partition_str [CHR 0xB1] s of (sz, has_tol, tol_part) \<Rightarrow>
        (let tp = (if ends_with ''%'' tol_part then butlast tol_part else tol_part) in
         bind_py (if has_tol
                  then (case parse_float tp of
                          Some f \<Rightarrow> Inr (float_scale f (1 / 100))
                        | None \<Rightarrow> Inl (Exn Exn_Value (''could not convert string to float: '' @ py_repr tp)))
                  else Inr (rnd (1 / 10)))
           (\<lambda>tol. case match_size sz of
              None \<Rightarrow> Inl (Exn Exn_Value (''Cannot parse size '' @ quoted spec))
            | Some (num, unit) \<Rightarrow>
                (case parse_float num of
                   None \<Rightarrow> Inl (Exn Exn_Value ''unreachable'')
                 | Some v \<Rightarrow> bind_py (int_of_float (float_scale v (of_int unit)))
                              (\<lambda>n. Inr (n, tol))))))"

definition within_tolerance :: "int \<Rightarrow> int \<Rightarrow> pyfloat \<Rightarrow> bool py" where
  "within_tolerance actual target tol =
     (if target = 0 then Inr False
      else bind_py (int_div_float \<bar>actual - target\<bar> target) (\<lambda>q. Inr (float_le q tol)))"

section \<open>The strategies\<close>

definition unmatched :: "string \<Rightarrow> resolution" where
  "unmatched reason = Resolution None reason Unmatched"

definition gb_text :: "drive \<Rightarrow> string py" where
  "gb_text d = bind_py (capacity_gb d) (\<lambda>g. Inr (fmt0 g @ '' GB''))"

definition is_m2 :: "string \<Rightarrow> bool" where
  "is_m2 s = (contains ''m2'' (lower s) \<or> contains ''m.2'' (lower s))"

definition opt_or :: "string option \<Rightarrow> string" where
  "opt_or x = (case x of None \<Rightarrow> [] | Some s \<Rightarrow> s)"

definition opt_text :: "string option \<Rightarrow> string" where
  "opt_text x = (case x of None \<Rightarrow> ''None'' | Some s \<Rightarrow> s)"

definition resolve_first_nvme :: "drive list \<Rightarrow> resolution py" where
  "resolve_first_nvme drives = (case filter is_nvme drives of
       [] \<Rightarrow> Inr (unmatched ''no NVMe present'')
     | d # _ \<Rightarrow> Inr (Resolution (Some d) ''matched first NVMe'' Matched))"

definition m2_candidates :: "drive list \<Rightarrow> drive list" where
  "m2_candidates drives =
     (let cands = filter (\<lambda>d. is_m2 (d_model d) \<or> is_m2 (opt_or (d_slot d))) drives in
      if cands = [] then filter (\<lambda>d. is_nvme d \<and> is_ssd d \<and> d_capacity_bytes d < 1000 * GB) drives
      else cands)"

definition resolve_first_m2 :: "drive list \<Rightarrow> resolution py" where
  "resolve_first_m2 drives = (case m2_candidates drives of
       [] \<Rightarrow> Inr (unmatched ''no M.2 device detected'')
     | d # _ \<Rightarrow> Inr (Resolution (Some d) ''matched first M.2'' Matched))"

definition matched_sized :: "string \<Rightarrow> drive \<Rightarrow> resolution py" where
  "matched_sized what d = bind_py (gb_text d)
     (\<lambda>g. Inr (Resolution (Some d) (''matched '' @ what @ '' ('' @ g @ '')'') Matched))"

definition resolve_smallest_ssd :: "drive list \<Rightarrow> resolution py" where
  "resolve_smallest_ssd drives = (case filter (\<lambda>d. is_ssd d \<and> d_capacity_bytes d > 0) drives of
       [] \<Rightarrow> Inr (unmatched ''no SSD present'')
     | d # ds \<Rightarrow> matched_sized ''smallest SSD'' (min_by d_capacity_bytes d ds))"

definition resolve_largest_disk :: "drive list \<Rightarrow> resolution py" where
  "resolve_largest_disk drives = (case filter (\<lambda>d. d_capacity_bytes d > 0) drives of
       [] \<Rightarrow> Inr (unmatched ''no drives with reported capacity'')
     | d # ds \<Rightarrow> matched_sized ''largest disk'' (max_by d_capacity_bytes d ds))"

definition resolve_smallest_disk :: "drive list \<Rightarrow> resolution py" where
  "resolve_smallest_disk drives = (case filter (\<lambda>d. d_capacity_bytes d > 0) drives of
       [] \<Rightarrow> Inr (unmatched ''no drives with reported capacity'')
     | d # ds \<Rightarrow> matched_sized ''smallest disk'' (min_by d_capacity_bytes d ds))"

text \<open>A list comprehension whose condition can raise.\<close>

fun filter_py :: "('a \<Rightarrow> bool py) \<Rightarrow> 'a list \<Rightarrow> 'a list py" where
  "filter_py p [] = Inr []"
| "filter_py p (x # xs) = bind_py (p x) (\<lambda>b. bind_py (filter_py p xs)
     (\<lambda>ys. Inr (if b then x # ys else ys)))"

definition review_text :: "nat \<Rightarrow> string \<Rightarrow> string" where
  "review_text n what = int_str (int n) @ '' drives matched '' @ what @ '' '' @ em_dash
     @ '' overriding to first; review''"

definition no_size_reason :: "int \<Rightarrow> pyfloat \<Rightarrow> string py" where
  "no_size_reason target tol =
     bind_py (int_of_float (float_scale tol 100)) (\<lambda>p.
     bind_py (int_div_float target GB) (\<lambda>g.
       Inr (''no drive within '' @ [CHR 0xB1] @ int_str p @ ''% of '' @ fmt0 g @ ''GB'')))"

definition resolve_by_size :: "string \<Rightarrow> drive list \<Rightarrow> resolution py" where
  "resolve_by_size spec drives = (case parse_size_with_tolerance spec of
       Inl e \<Rightarrow> (if exn_class e = Exn_Value then Inr (unmatched (exn_str e)) else Inl e)
     | Inr (target, tol) \<Rightarrow>
         bind_py (filter_py (\<lambda>d. within_tolerance (d_capacity_bytes d) target tol) drives) (\<lambda>cands.
           case cands of
             [] \<Rightarrow> bind_py (no_size_reason target tol) (\<lambda>r. Inr (unmatched r))
           | [d] \<Rightarrow> bind_py (gb_text d) (\<lambda>g.
               Inr (Resolution (Some d) (''matched by size ('' @ g @ '')'') Matched))
           | d # _ \<Rightarrow> Inr (Resolution (Some d) (review_text (length cands) ''size'') Ambiguous)))"

definition resolve_by_model :: "string \<Rightarrow> drive list \<Rightarrow> resolution py" where
  "resolve_by_model arg drives = (let pat = replace_str ''_'' '' '' arg in
     case filter (\<lambda>d. fnmatch (lower (d_model d)) pat) drives of
       [] \<Rightarrow> Inr (unmatched (''no drive matches model glob '' @ quoted pat))
     | [d] \<Rightarrow> Inr (Resolution (Some d) (''matched model '' @ quoted (d_model d)) Matched)
     | d # ds \<Rightarrow> Inr (Resolution (Some d) (review_text (Suc (length ds)) ''model'') Ambiguous))"

definition resolve_by_slot :: "string \<Rightarrow> drive list \<Rightarrow> resolution py" where
  "resolve_by_slot arg drives = (let tok = strip arg in
     case filter (\<lambda>d. ends_with (lower tok) (lower (opt_or (d_slot d)))) drives of
       [] \<Rightarrow> Inr (unmatched (''no drive in slot ending '' @ quoted tok))
     | d # _ \<Rightarrow> Inr (Resolution (Some d) (''matched slot '' @ quoted (opt_text (d_slot d))) Matched))"

definition resolve_by_serial :: "string \<Rightarrow> drive list \<Rightarrow> resolution py" where
  "resolve_by_serial arg drives = (let sn = strip arg in
     case filter (\<lambda>d. lower (d_serial d) = lower sn) drives of
       [] \<Rightarrow> Inr (unmatched (''no drive with serial '' @ quoted sn))
     | d # _ \<Rightarrow> Inr (Resolution (Some d) (''matched serial '' @ quoted (d_serial d)) Matched))"

text \<open>\<open>s.split(':', 1)[1]\<close>.\<close>

definition strategy_arg :: "string \<Rightarrow> string" where
  "strategy_arg s = snd (snd (partition_str '':'' s))"

definition resolve :: "string \<Rightarrow> drive list \<Rightarrow> resolution py" where
  "resolve strategy drives = (let s = lower (strip strategy) in
     if s = [] then Inr (unmatched ''no strategy supplied'')
     else if drives = [] then Inr (unmatched ''host reports no drives'')
     else if s = ''manual_per_host''
     then Inr (Resolution None ''operator override required'' RequiresOverride)
     else if s = ''first_nvme'' then resolve_first_nvme drives
     else if s = ''first_m2'' then resolve_first_m2 drives
     else if s = ''smallest_ssd'' then resolve_smallest_ssd drives
     else if s = ''largest_disk'' then resolve_largest_disk drives
     else if s = ''smallest_disk'' then resolve_smallest_disk drives
     else if starts_with ''by_size:'' s then resolve_by_size (strategy_arg s) drives
     else if starts_with ''by_model:'' s then resolve_by_model (strategy_arg s) drives
     else if starts_with ''by_slot:'' s then resolve_by_slot (strategy_arg s) drives
     else if starts_with ''by_serial:'' s then resolve_by_serial (strategy_arg s) drives
     else Inr (unmatched (''unknown strategy '' @ quoted strategy)))"

section \<open>The contract of a strategy\<close>

text \<open>What the provisioning preview relies on: the drive of a resolution is one of the
  host's drives exactly when the status says something was picked.\<close>

definition wf_resolution :: "drive list \<Rightarrow> resolution \<Rightarrow> bool" where
  "wf_resolution drives r = (case res_status r of
       Matched \<Rightarrow> (\<exists>d \<in> set drives. res_drive r = Some d)
     | Ambiguous \<Rightarrow> (\<exists>d \<in> set drives. res_drive r = Some d)
     | _ \<Rightarrow> res_drive r = None)"

locale disk_strategy =
  fixes pick :: "drive list \<Rightarrow> resolution py"
    and cands :: "drive list \<Rightarrow> drive list"
  assumes cands_subset: "set (cands ds) \<subseteq> set ds"
    and pick_none: "cands ds = [] \<Longrightarrow> pick ds = Inr r \<Longrightarrow> res_drive r = None \<and> res_status r = Unmatched"
    and pick_some: "cands ds \<noteq> [] \<Longrightarrow> pick ds = Inr r \<Longrightarrow>
      (\<exists>d \<in> set (cands ds). res_drive r = Some d) \<and> res_status r \<in> {Matched, Ambiguous}"
begin

lemma sound: "pick ds = Inr r \<Longrightarrow> wf_resolution ds r"
  using pick_none [of ds r] pick_some [of ds r] cands_subset [of ds]
  by (cases "cands ds = []") (auto simp: wf_resolution_def)

lemma unmatched_iff: "pick ds = Inr r \<Longrightarrow> res_status r = Unmatched \<longleftrightarrow> cands ds = []"
  using pick_none [of ds r] pick_some [of ds r] by (cases "cands ds = []") auto

lemma picked: "pick ds = Inr r \<Longrightarrow> res_drive r = Some d \<Longrightarrow> d \<in> set (cands ds)"
  using pick_none [of ds r] pick_some [of ds r] by (cases "cands ds = []") auto

end

lemma filter_py_Inr: "filter_py p xs = Inr ys \<Longrightarrow> set ys = {x \<in> set xs. p x = Inr True}"
  by (induction xs arbitrary: ys) (auto simp: bind_py_Inr split: if_splits)

lemma matched_sized_Inr: "matched_sized w d = Inr r \<Longrightarrow> res_drive r = Some d \<and> res_status r = Matched"
  by (auto simp: matched_sized_def bind_py_Inr)

lemma matched_sized_min:
  assumes "matched_sized w (min_by f d ds) = Inr r"
  shows "(\<exists>x \<in> set (d # ds). res_drive r = Some x) \<and> res_status r = Matched"
  using matched_sized_Inr [OF assms] min_by_mem [of f d ds] by simp

lemma matched_sized_max:
  assumes "matched_sized w (max_by f d ds) = Inr r"
  shows "(\<exists>x \<in> set (d # ds). res_drive r = Some x) \<and> res_status r = Matched"
  using matched_sized_Inr [OF assms] max_by_mem [of f d ds] by simp

definition size_candidates :: "string \<Rightarrow> drive list \<Rightarrow> drive list" where
  "size_candidates spec drives = (case parse_size_with_tolerance spec of
       Inl _ \<Rightarrow> []
     | Inr (target, tol) \<Rightarrow>
         (case filter_py (\<lambda>d. within_tolerance (d_capacity_bytes d) target tol) drives of
            Inl _ \<Rightarrow> [] | Inr ds \<Rightarrow> ds))"

lemma disk_strategyI:
  assumes "\<And>ds. set (cands ds) \<subseteq> set ds"
    and "\<And>ds r. cands ds = [] \<Longrightarrow> pick ds = Inr r \<Longrightarrow> res_drive r = None \<and> res_status r = Unmatched"
    and "\<And>ds d ds' r. cands ds = d # ds' \<Longrightarrow> pick ds = Inr r \<Longrightarrow>
      (\<exists>x \<in> set (d # ds'). res_drive r = Some x) \<and> res_status r \<in> {Matched, Ambiguous}"
  shows "disk_strategy pick cands"
proof (unfold_locales, goal_cases)
  case (3 ds r)
  then show ?case using assms(3) by (cases "cands ds") fastforce+
qed (use assms(1,2) in auto)

interpretation first_nvme: disk_strategy resolve_first_nvme "filter is_nvme"
  by (rule disk_strategyI) (auto simp: resolve_first_nvme_def unmatched_def)

interpretation first_m2: disk_strategy resolve_first_m2 m2_candidates
  by (rule disk_strategyI)
    (auto simp: resolve_first_m2_def unmatched_def m2_candidates_def [of ds for ds] Let_def
      split: if_splits list.splits)

interpretation smallest_ssd: disk_strategy resolve_smallest_ssd
  "filter (\<lambda>d. is_ssd d \<and> d_capacity_bytes d > 0)"
  by (rule disk_strategyI)
    (auto simp: resolve_smallest_ssd_def unmatched_def dest!: matched_sized_min)

interpretation largest_disk: disk_strategy resolve_largest_disk "filter (\<lambda>d. d_capacity_bytes d > 0)"
  by (rule disk_strategyI)
    (auto simp: resolve_largest_disk_def unmatched_def dest!: matched_sized_max)

interpretation smallest_disk: disk_strategy resolve_smallest_disk "filter (\<lambda>d. d_capacity_bytes d > 0)"
  by (rule disk_strategyI)
    (auto simp: resolve_smallest_disk_def unmatched_def dest!: matched_sized_min)

interpretation by_size: disk_strategy "resolve_by_size spec" "size_candidates spec" for spec
proof (rule disk_strategyI)
  show "set (size_candidates spec ds) \<subseteq> set ds" for ds
    by (auto simp: size_candidates_def split: sum.splits dest!: filter_py_Inr [OF sym])
qed (auto simp: resolve_by_size_def size_candidates_def unmatched_def bind_py_Inr
    split: sum.splits if_splits list.splits)

interpretation by_model: disk_strategy "resolve_by_model arg"
  "filter (\<lambda>d. fnmatch (lower (d_model d)) (replace_str ''_'' '' '' arg))" for arg
  by (rule disk_strategyI)
    (auto simp: resolve_by_model_def unmatched_def Let_def split: list.splits)

interpretation by_slot: disk_strategy "resolve_by_slot arg"
  "filter (\<lambda>d. ends_with (lower (strip arg)) (lower (opt_or (d_slot d))))" for arg
  by (rule disk_strategyI) (auto simp: resolve_by_slot_def unmatched_def Let_def)

interpretation by_serial: disk_strategy "resolve_by_serial arg"
  "filter (\<lambda>d. lower (d_serial d) = lower (strip arg))" for arg
  by (rule disk_strategyI) (auto simp: resolve_by_serial_def unmatched_def Let_def)

section \<open>Properties\<close>

text \<open>Every strategy at once: the chain of cases ends in one of the contracts above.\<close>

lemmas strategy_sound = first_nvme.sound first_m2.sound smallest_ssd.sound largest_disk.sound
  smallest_disk.sound by_size.sound by_model.sound by_slot.sound by_serial.sound

text \<open>Property C3. The resolver never invents a drive: when the status of a resolution is
  matched or ambiguous its drive is one of the drives of the host it was resolved for, and
  with any other status (unmatched, requires_override) it carries no drive, for every
  strategy text and every inventory.\<close>

theorem resolve_sound:
  assumes "resolve strategy drives = Inr r"
  shows "wf_resolution drives r"
  using assms strategy_sound
  by (auto simp: resolve_def Let_def wf_resolution_def [of _ "Resolution _ _ _"] unmatched_def
      split: if_splits)

definition sample_nvme :: drive where
  "sample_nvme = \<lparr>d_name = ''nvme0n1'', d_protocol = ''NVMe'', d_media_type = ''SSD'',
     d_capacity_bytes = 960000000000, d_model = ''MZ1L2960'', d_serial = ''SN1'',
     d_slot = Some ''M.2 0'', d_redfish_uri = []\<rparr>"

definition sample_hdd :: drive where
  "sample_hdd = \<lparr>d_name = ''sda'', d_protocol = ''SATA'', d_media_type = ''HDD'',
     d_capacity_bytes = 480000000000, d_model = ''ST480'', d_serial = ''SN2'',
     d_slot = Some ''Bay 1'', d_redfish_uri = []\<rparr>"

lemmas samples = sample_nvme_def sample_hdd_def

lemma resolve_by_serial_sample:
  "resolve ''by_serial:sn2'' [sample_nvme, sample_hdd] =
     Inr (Resolution (Some sample_hdd) (''matched serial '' @ quoted ''SN2'') Matched)"
  by code_simp

theorem resolve_sound_witness:
  "wf_resolution [sample_nvme, sample_hdd]
     (Resolution (Some sample_hdd) (''matched serial '' @ quoted ''SN2'') Matched)"
  using resolve_sound [OF resolve_by_serial_sample] .

text \<open>Further property. A serial pin is exact: with a strategy \<open>by_serial:...\<close> the resolver picks a
  drive exactly when the host has one whose serial equals the stripped argument without regard
  to case, the drive it picks is the first such drive, and no other drive is ever picked.\<close>

theorem resolve_serial_exact:
  assumes "s = lower (strip strategy)" "starts_with ''by_serial:'' s" "drives \<noteq> []"
  shows "\<exists>r. resolve strategy drives = Inr r \<and>
    res_drive r = List.find (\<lambda>d. lower (d_serial d) = lower (strip (strategy_arg s))) drives \<and>
    (res_status r = Matched \<longleftrightarrow> res_drive r \<noteq> None)"
proof -
  obtain t where s: "s = ''by_serial:'' @ t"
    using assms(2) by (auto simp: starts_with_iff)
  have r: "resolve strategy drives = resolve_by_serial (strategy_arg s) drives"
    unfolding resolve_def Let_def assms(1) [symmetric] s by (simp add: assms(3) starts_with_def)
  have find: "List.find p ds = (case filter p ds of [] \<Rightarrow> None | d # _ \<Rightarrow> Some d)" for p and ds :: "drive list"
    by (induction ds) auto
  show ?thesis
    unfolding r resolve_by_serial_def Let_def find by (auto simp: unmatched_def split: list.splits)
qed

theorem resolve_serial_exact_witness:
  "\<exists>r. resolve '' By_Serial:sn2'' [sample_nvme, sample_hdd] = Inr r \<and>
     res_drive r = Some sample_hdd \<and> res_status r = Matched"
proof -
  have "\<exists>r. resolve '' By_Serial:sn2'' [sample_nvme, sample_hdd] = Inr r \<and>
      res_drive r = List.find (\<lambda>d. lower (d_serial d) = lower (strip (strategy_arg ''by_serial:sn2'')))
        [sample_nvme, sample_hdd] \<and> (res_status r = Matched \<longleftrightarrow> res_drive r \<noteq> None)"
    by (rule resolve_serial_exact) (code_simp, code_simp, simp)
  moreover have "List.find (\<lambda>d. lower (d_serial d) = lower (strip (strategy_arg ''by_serial:sn2'')))
      [sample_nvme, sample_hdd] = Some sample_hdd"
    by code_simp
  ultimately show ?thesis by auto
qed

text \<open>Further property. \<open>smallest_ssd\<close> picks the boot card by convention: the drive it returns is an
  SSD with a reported capacity and no SSD with a reported capacity in the host is smaller; it
  reports no match exactly when the host has no such SSD.\<close>

theorem resolve_smallest_ssd_min:
  assumes "resolve ''smallest_ssd'' drives = Inr r"
  shows "(\<forall>d. res_drive r = Some d \<longrightarrow>
      d \<in> set drives \<and> is_ssd d \<and> d_capacity_bytes d > 0 \<and>
      (\<forall>x \<in> set drives. is_ssd x \<and> d_capacity_bytes x > 0 \<longrightarrow> d_capacity_bytes d \<le> d_capacity_bytes x)) \<and>
    (res_drive r = None \<longleftrightarrow> (\<forall>x \<in> set drives. \<not> (is_ssd x \<and> d_capacity_bytes x > 0)))"
proof (cases "drives = []")
  case False
  have "lower (strip ''smallest_ssd'') = ''smallest_ssd''" by code_simp
  then have r: "resolve_smallest_ssd drives = Inr r"
    using assms False by (simp add: resolve_def)
  let ?f = "filter (\<lambda>d. is_ssd d \<and> d_capacity_bytes d > 0) drives"
  show ?thesis
  proof (cases ?f)
    case Nil
    then show ?thesis using r by (auto simp: resolve_smallest_ssd_def unmatched_def filter_Nil_iff)
  next
    case (Cons d ds)
    have mem: "x \<in> set (d # ds) \<longleftrightarrow> x \<in> set drives \<and> is_ssd x \<and> d_capacity_bytes x > 0" for x
      by (simp only: Cons [symmetric] set_filter mem_Collect_eq)
    have "res_drive r = Some (min_by d_capacity_bytes d ds)"
      using r matched_sized_Inr by (simp add: resolve_smallest_ssd_def Cons)
    then show ?thesis
      using min_by_mem [of d_capacity_bytes d ds] min_by_le [of _ d ds d_capacity_bytes]
        mem by (metis list.set(2) option.distinct(1) option.inject)
  qed
next
  case True
  have "lower (strip ''smallest_ssd'') = ''smallest_ssd''" by code_simp
  then show ?thesis using assms True by (auto simp: resolve_def unmatched_def)
qed

theorem resolve_smallest_ssd_min_witness:
  "is_ssd sample_nvme \<and> d_capacity_bytes sample_nvme > 0"
proof -
  have r: "resolve ''smallest_ssd'' [sample_hdd, sample_nvme] =
      Inr (Resolution (Some sample_nvme) ''matched smallest SSD (960 GB)'' Matched)"
    by code_simp
  show ?thesis using resolve_smallest_ssd_min [OF r] by simp
qed

text \<open>Further property. An ambiguous answer is flagged: for a \<open>by_model\<close> glob the status is unmatched,
  matched or ambiguous exactly when none, one or several drives of the host match it.\<close>

theorem resolve_by_model_trichotomy:
  assumes "s = lower (strip strategy)" "starts_with ''by_model:'' s" "drives \<noteq> []"
    and "n = length (filter (\<lambda>d. fnmatch (lower (d_model d))
                               (replace_str ''_'' '' '' (strategy_arg s))) drives)"
  shows "\<exists>r. resolve strategy drives = Inr r \<and> (res_status r = Unmatched \<longleftrightarrow> n = 0) \<and>
    (res_status r = Matched \<longleftrightarrow> n = 1) \<and> (res_status r = Ambiguous \<longleftrightarrow> n \<ge> 2)"
proof -
  obtain t where s: "s = ''by_model:'' @ t"
    using assms(2) by (auto simp: starts_with_iff)
  have r: "resolve strategy drives = resolve_by_model (strategy_arg s) drives"
    unfolding resolve_def Let_def assms(1) [symmetric] s by (simp add: assms(3) starts_with_def)
  show ?thesis
    unfolding r resolve_by_model_def Let_def assms(4)
    by (auto simp: unmatched_def split: list.splits)
qed

theorem resolve_by_model_trichotomy_witness:
  "\<exists>r. resolve ''by_model:mz*'' [sample_nvme, sample_hdd] = Inr r \<and> res_status r = Matched"
proof -
  have "\<exists>r. resolve ''by_model:mz*'' [sample_nvme, sample_hdd] = Inr r \<and>
      (res_status r = Unmatched \<longleftrightarrow> (1::nat) = 0) \<and> (res_status r = Matched \<longleftrightarrow> (1::nat) = 1) \<and>
      (res_status r = Ambiguous \<longleftrightarrow> (1::nat) \<ge> 2)"
    by (rule resolve_by_model_trichotomy [where s = "''by_model:mz*''"])
      (code_simp, code_simp, simp, code_simp)
  then show ?thesis by auto
qed

text \<open>Further property. A slot rule without a token is not refused: \<open>by_slot:\<close> followed by blanks picks
  the first drive of the host, whatever its slot, and reports it as matched.\<close>

theorem resolve_by_slot_blank:
  assumes "\<forall>c \<in> set blank. is_space c"
  shows "resolve (''by_slot:'' @ blank) (d # ds) =
    Inr (Resolution (Some d) (''matched slot '' @ quoted (opt_text (d_slot d))) Matched)"
proof -
  have "strip (''by_slot:'' @ blank) = ''by_slot:''"
    using assms by (simp add: strip_def lstrip_def rstrip_def is_space_def code_def dropWhile_append)
  moreover have "lower ''by_slot:'' = ''by_slot:''" by code_simp
  moreover have "strip (strategy_arg ''by_slot:'') = []" by code_simp
  ultimately show ?thesis
    by (simp add: resolve_def starts_with_def resolve_by_slot_def Let_def) (simp add: lower_def)
qed

theorem resolve_by_slot_blank_witness:
  "resolve ''by_slot: '' [sample_hdd, sample_nvme] =
    Inr (Resolution (Some sample_hdd) (''matched slot '' @ quoted ''Bay 1'') Matched)"
  using resolve_by_slot_blank [of "'' ''" sample_hdd "[sample_nvme]"]
  by (simp add: is_space_def code_def opt_text_def sample_hdd_def)

end
