(* ===== verification/Plugin_Core.thy ===== *)
theory Plugin_Core
  imports Capability Disk_Resolver "HOL-Library.Multiset"
begin

text \<open>
  The decisions of \<open>plugins/generic_redfish/plugin.py\<close> that do not talk to the BMC: OEM
  normalisation, drive parsing, the compatibility check before a flash, the choice of HGX
  targets, of the task URI, of a reset type and of a virtual-media slot, and the unique naming
  of drives. \<open>parse_retry_after\<close> of the client is here because the polling loop uses it.
\<close>

section \<open>OEM names\<close>

definition oem_normalize :: "(string \<times> string) list" where
  "oem_normalize =
     [(''supermicro'', ''supermicro''), (''super micro'', ''supermicro''),
      (''tyrone'', ''supermicro''), (''tyrone systems'', ''supermicro''),
      (''dell'', ''dell''), (''dell inc.'', ''dell''), (''dell emc'', ''dell''),
      (''hpe'', ''hpe''), (''hewlett packard enterprise'', ''hpe''),
      (''lenovo'', ''lenovo''),
      (''gigabyte'', ''gigabyte''),
      (''asrockrack'', ''asrock''), (''asrock'', ''asrock''), (''asrock rack'', ''asrock''),
      (''asus'', ''asus''), (''asustek'', ''asus''), (''asus technology'', ''asus''),
      (''msi'', ''msi''), (''micro-star international'', ''msi''),
      (''nvidia'', ''nvidia'')]"

definition normalize_oem :: "string option \<Rightarrow> string option" where
  "normalize_oem v = (case v of None \<Rightarrow> None
     | Some s \<Rightarrow> if s = [] then None
         else Some (case map_of oem_normalize (lower (strip s)) of Some k \<Rightarrow> k
                    | None \<Rightarrow> lower (strip s)))"

definition first_oem_key :: "json \<Rightarrow> string option py" where
  "first_oem_key d = bind_py (sub_obj d ''Oem'') (\<lambda>oem. bind_py (jkeys oem) (\<lambda>ks.
     Inr (case ks of [] \<Rightarrow> None | k # _ \<Rightarrow> Some k)))"

section \<open>Drives as Redfish reports them\<close>

text \<open>A parsed drive before its unchecked fields (\<open>MediaType\<close>, \<open>@odata.id\<close>) are known to be text.\<close>

record rf_drive =
  rd_name :: string
  rd_protocol :: string
  rd_media_type :: json
  rd_capacity :: int
  rd_model :: string
  rd_serial :: string
  rd_slot :: "string option"
  rd_uri :: json

definition stripped_field :: "json \<Rightarrow> string \<Rightarrow> string py" where
  "stripped_field d k = bind_py (jget d k) (\<lambda>v. bind_py (as_str ''strip'' (or_else v (JStr []))) (\<lambda>s.
     Inr (strip s)))"

definition drive_slot :: "json \<Rightarrow> string option py" where
  "drive_slot d = bind_py (sub_obj d ''PhysicalLocation'') (\<lambda>location.
     bind_py (sub_obj location ''PartLocation'') (\<lambda>info.
     bind_py (jget info ''LocationType'') (\<lambda>lt.
     bind_py (if lt = JStr ''Slot'' then jcontains ''ServiceLabel'' info else Inr False) (\<lambda>labelled.
     if labelled then bind_py (jindex info ''ServiceLabel'') (\<lambda>l. Inr (Some (json_str l)))
     else bind_py (jget location ''Info'') (\<lambda>i.
       Inr (if truthy i then Some (json_str i) else None))))))"

definition drive_display_name :: "json \<Rightarrow> string \<Rightarrow> string py" where
  "drive_display_name d name =
     (if starts_with ''nvme'' name \<or> starts_with ''sd'' name then Inr name
      else bind_py (jget d ''@odata.id'') (\<lambda>v. bind_py (as_str ''rstrip'' (or_else v (JStr []))) (\<lambda>u.
        let oid = leaf_of (rstrip_char CHR ''/'' u) in
        Inr (if name \<noteq> [] then name else if oid \<noteq> [] then oid else ''drive''))))"

definition drive_from_redfish_json :: "json \<Rightarrow> rf_drive option py" where
  "drive_from_redfish_json d =
     bind_py (jget d ''CapacityBytes'') (\<lambda>c.
     bind_py (jint (or_else c (JInt 0))) (\<lambda>cap.
     bind_py (sub_obj d ''Status'') (\<lambda>st.
     bind_py (jget st ''State'') (\<lambda>state0.
     bind_py (as_str ''strip'' (or_else state0 (JStr []))) (\<lambda>state.
     if cap \<le> 0 \<or> lower (strip state) = ''absent'' then Inr None else
     bind_py (jget d ''Id'') (\<lambda>did.
     bind_py (jget d ''Name'') (\<lambda>dname.
     bind_py (as_str ''strip'' (or_else did (or_else dname (JStr [])))) (\<lambda>name0.
     bind_py (jget d ''Protocol'') (\<lambda>prot.
     bind_py (as_str ''upper'' (or_else prot (JStr []))) (\<lambda>protocol0.
     let protocol = upper protocol0 in
     bind_py (drive_display_name d (strip name0)) (\<lambda>name.
     bind_py (drive_slot d) (\<lambda>slot.
     bind_py (jget d ''MediaType'') (\<lambda>media.
     bind_py (stripped_field d ''Model'') (\<lambda>model.
     bind_py (stripped_field d ''SerialNumber'') (\<lambda>serial.
     bind_py (jget d ''@odata.id'') (\<lambda>uri.
     Inr (Some \<lparr>rd_name = name, rd_protocol = (if protocol = [] then ''Unknown'' else protocol),
       rd_media_type = or_else media (JStr ''Unknown''), rd_capacity = cap, rd_model = model,
       rd_serial = serial, rd_slot = slot, rd_uri = or_else uri (JStr [])\<rparr>)))))))))))))))))"

definition as_drive :: "rf_drive \<Rightarrow> drive option" where
  "as_drive r = (case (rd_media_type r, rd_uri r) of
       (JStr m, JStr u) \<Rightarrow> Some \<lparr>d_name = rd_name r, d_protocol = rd_protocol r, d_media_type = m,
          d_capacity_bytes = rd_capacity r, d_model = rd_model r, d_serial = rd_serial r,
          d_slot = rd_slot r, d_redfish_uri = u\<rparr>
     | _ \<Rightarrow> None)"

section \<open>Unique display names (get_storage_inventory)\<close>

definition fmt1 :: "rat \<Rightarrow> string" where
  "fmt1 x = (let n = half_even (x * 10) in int_str (n div 10) @ ''.'' @ int_str (n mod 10))"

text \<open>\<open>gb\<close> is a float division; \<open>gb / 1000\<close> another one.\<close>

definition size_label :: "int \<Rightarrow> string py" where
  "size_label cap =
     bind_py (if cap \<noteq> 0 then int_div_float cap 1000000000 else Inr (Fin 0)) (\<lambda>gb. Inr (case gb of
       Fin x \<Rightarrow> if 1000 \<le> x then (case rnd (x / 1000) of Fin y \<Rightarrow> fmt1 y | a \<Rightarrow> fmt0 a) @ '' TB''
                else if 1 \<le> x then fmt0 gb @ '' GB'' else ''?''
     | _ \<Rightarrow> ''?''))"

text \<open>The counter loop: \<open>n\<close> runs from 2; one more candidate than there are emitted names is enough.\<close>

fun numbered :: "string \<Rightarrow> string list \<Rightarrow> nat \<Rightarrow> nat \<Rightarrow> string option" where
  "numbered stem emitted 0 n = None"
| "numbered stem emitted (Suc fuel) n =
     (let cand = stem @ '' #'' @ int_str (int n) in
      if cand \<in> set emitted then numbered stem emitted fuel (n + 1) else Some cand)"

definition last6 :: "string \<Rightarrow> string" where
  "last6 s = drop (length s - 6) s"

definition unique_name :: "string list \<Rightarrow> string \<Rightarrow> string \<Rightarrow> string \<Rightarrow> string option" where
  "unique_name emitted name label serial =
     (let final = name @ '' ('' @ label @ '')'' in
      if final \<notin> set emitted then Some final
      else let tail = last6 serial;
               final' = (if tail \<noteq> [] then name @ '' ('' @ label @ '', '' @ tail @ '')'' else final) in
           if final' \<notin> set emitted then Some final'
           else numbered (name @ '' ('' @ label @ '')'') emitted (Suc (length emitted)) 2)"

definition count_name :: "string \<Rightarrow> rf_drive list \<Rightarrow> nat" where
  "count_name n ds = length (filter (\<lambda>d. rd_name d = n) ds)"

fun name_drives :: "rf_drive list \<Rightarrow> json list \<Rightarrow> string list \<Rightarrow> rf_drive list \<Rightarrow> rf_drive list py" where
  "name_drives all seen emitted [] = Inr []"
| "name_drives all seen emitted (d # ds) =
     (if truthy (rd_uri d) \<and> \<not> hashable (rd_uri d) then Inl (unhashable (rd_uri d))
      else if truthy (rd_uri d) \<and> rd_uri d \<in> set seen then name_drives all seen emitted ds
      else let seen' = (if truthy (rd_uri d) then rd_uri d # seen else seen) in
        if 1 < count_name (rd_name d) all
        then bind_py (size_label (rd_capacity d)) (\<lambda>label.
          case unique_name emitted (rd_name d) label (rd_serial d) of
            None \<Rightarrow> Inl (Exn Exn_Runtime ''unreachable'')
          | Some final \<Rightarrow> bind_py (name_drives all seen' (final # emitted) ds)
                             (\<lambda>rest. Inr (d\<lparr>rd_name := final\<rparr> # rest)))
        else bind_py (name_drives all seen' (rd_name d # emitted) ds) (\<lambda>rest. Inr (d # rest)))"

definition label_drives :: "rf_drive list \<Rightarrow> rf_drive list py" where
  "label_drives raw = bind_py (name_drives raw [] [] raw) (\<lambda>ds. Inr (sort_key rd_name ds))"

section \<open>Compatibility check (validate)\<close>

record compat_result =
  cr_compatible :: bool
  cr_reason :: string

definition incompatible :: "string \<Rightarrow> compat_result" where
  "incompatible why = \<lparr>cr_compatible = False, cr_reason = why\<rparr>"

text \<open>\<open>re.split(r'[\s_\-/]+', s)\<close> without its empty parts.\<close>

definition is_model_sep :: "char \<Rightarrow> bool" where
  "is_model_sep c = (is_space c \<or> c \<in> set ''_-/'')"

fun model_words :: "string \<Rightarrow> string \<Rightarrow> string list" where
  "model_words acc [] = (if acc = [] then [] else [rev acc])"
| "model_words acc (c # cs) =
     (if is_model_sep c then (if acc = [] then model_words [] cs else rev acc # model_words [] cs)
      else model_words (c # acc) cs)"

definition model_matches :: "string \<Rightarrow> string \<Rightarrow> bool" where
  "model_matches fwm svm =
     (let fw_m = lower (strip fwm); sv_m = lower (strip svm); tokens = model_words [] sv_m in
      if list_ex (\<lambda>ch. ch \<in> set fw_m) ''*?[''
      then fnmatch sv_m fw_m \<or> list_ex (\<lambda>t. fnmatch t fw_m) tokens
      else fw_m = sv_m \<or> fw_m \<in> set tokens)"

definition current_version :: "server_info \<Rightarrow> firmware \<Rightarrow> string option" where
  "current_version server fw =
     (if fw_type fw = ''BMC'' then si_bmc_version server
      else if fw_type fw = ''BIOS'' then si_bios_version server else None)"

definition oem_mismatch :: "server_info \<Rightarrow> firmware \<Rightarrow> bool" where
  "oem_mismatch server fw = (case (nonempty (normalize_oem (Some (fw_oem fw))), nonempty (si_oem server)) of
       (Some f, Some s) \<Rightarrow> f \<noteq> s | _ \<Rightarrow> False)"

definition same_version :: "server_info \<Rightarrow> firmware \<Rightarrow> bool" where
  "same_version server fw = (nonempty (current_version server fw) = Some (fw_version fw))"

definition model_mismatch :: "server_info \<Rightarrow> firmware \<Rightarrow> bool" where
  "model_mismatch server fw = (case (nonempty (fw_model fw), nonempty (si_model server)) of
       (Some f, Some s) \<Rightarrow> f \<noteq> ''*'' \<and> \<not> model_matches f s | _ \<Rightarrow> False)"

definition validate :: "server_info \<Rightarrow> firmware \<Rightarrow> compat_result" where
  "validate server fw =
     (if oem_mismatch server fw
      then incompatible (''OEM mismatch: server is '' @ opt_text (si_oem server)
             @ '', firmware is for '' @ fw_oem fw)
      else if same_version server fw
      then incompatible (''Server already at '' @ fw_type fw @ '' '' @ fw_version fw)
      else if model_mismatch server fw
      then incompatible (''Model mismatch: server '' @ opt_text (si_model server)
             @ '', firmware for '' @ opt_text (fw_model fw))
      else \<lparr>cr_compatible = True, cr_reason = []\<rparr>)"

section \<open>HGX targets\<close>

definition longest_first :: "string list \<Rightarrow> string list" where
  "longest_first ks = sort_key (\<lambda>k. - int (length k)) ks"

definition matching_key :: "string list \<Rightarrow> string \<Rightarrow> string option" where
  "matching_key ks fname = List.find (\<lambda>k. contains (lower k) fname) (longest_first ks)"

definition hgx_empty :: exn where
  "hgx_empty = Exn Exn_Value ''hgx_uris must be non-empty''"

definition select_hgx_target :: "(string \<times> string) list \<Rightarrow> string \<Rightarrow> (string \<times> string) py" where
  "select_hgx_target uris fname = (case uris of
       [] \<Rightarrow> Inl hgx_empty
     | (k0, u0) # _ \<Rightarrow> (case matching_key (List.map fst uris) (lower fname) of
         Some k \<Rightarrow> Inr (k, the_default [] (map_of uris k))
       | None \<Rightarrow> Inr (k0, u0)))"

definition bundle_markers :: "string list" where
  "bundle_markers = [''bundle'', ''baseboard'', ''hgx_fw_bundle'', ''dgx'', ''_all'']"

definition select_hgx_target_group ::
    "(string \<times> string) list \<Rightarrow> string \<Rightarrow> (string list \<times> string list) py" where
  "select_hgx_target_group uris fname =
     (if uris = [] then Inl hgx_empty
      else (case matching_key (List.map fst uris) (lower fname) of
        Some k \<Rightarrow> Inr ([k], [the_default [] (map_of uris k)])
      | None \<Rightarrow>
          if any_token bundle_markers (lower fname) \<or> lower fname = []
          then Inr (List.map fst uris, List.map (\<lambda>k. the_default [] (map_of uris k)) (List.map fst uris))
          else bind_py (select_hgx_target uris fname) (\<lambda>(k, u). Inr ([k], [u]))))"

section \<open>The task to poll\<close>

definition normalize_task_uri :: "string \<Rightarrow> string" where
  "normalize_task_uri uri =
     (if uri = [] then []
      else if starts_with ''http://'' uri \<or> starts_with ''https://'' uri \<or> starts_with ''/'' uri then uri
      else ''/'' @ uri)"

definition body_task_uri :: "json \<Rightarrow> string py" where
  "body_task_uri body = stripped_field (or_else body (JObj [])) ''@odata.id''"

definition resolve_task_uri :: "post_result \<Rightarrow> string py" where
  "resolve_task_uri pr = bind_py (body_task_uri (pr_body pr)) (\<lambda>body_uri.
     let loc = strip (pr_location pr) in
     Inr (if loc \<noteq> [] \<and> body_uri = [] then normalize_task_uri loc
          else if body_uri \<noteq> [] \<and> loc = [] then normalize_task_uri body_uri
          else if loc \<noteq> [] \<and> body_uri \<noteq> [] then normalize_task_uri loc
          else []))"

section \<open>Retry-After\<close>

text \<open>\<open>date_wait\<close> is \<open>parsedate_to_datetime(s).timestamp() - time.time()\<close>, \<open>None\<close> where parsing
  fails; the email date grammar is the library's.\<close>

definition clamp :: "rat \<Rightarrow> rat \<Rightarrow> rat" where
  "clamp x c = max 0 (min x c)"

definition parse_retry_after :: "(string \<Rightarrow> rat option) \<Rightarrow> string option \<Rightarrow> rat \<Rightarrow> rat \<Rightarrow> rat" where
  "parse_retry_after date_wait value dflt c = (case nonempty value of None \<Rightarrow> dflt
     | Some v \<Rightarrow> (let s = strip v in
         if s = [] then dflt
         else (case parse_float s of
             Some (Fin x) \<Rightarrow> if x < 0 then dflt else clamp x c
           | Some _ \<Rightarrow> dflt
           | None \<Rightarrow> (case date_wait s of None \<Rightarrow> dflt | Some x \<Rightarrow> clamp x c))))"

section \<open>Reset types\<close>

definition choose_reset_type :: "cap option \<Rightarrow> string list \<Rightarrow> string \<Rightarrow> string" where
  "choose_reset_type c priority fallback =
     (let allowed = (case c of None \<Rightarrow> [] | Some m \<Rightarrow> cap_system_reset_allowed m) in
      if allowed = [] then fallback
      else (case List.find (\<lambda>choice. JStr choice \<in> set allowed) priority of
              Some choice \<Rightarrow> choice | None \<Rightarrow> fallback))"

definition apply_reset_priority :: "string list" where
  "apply_reset_priority = [''GracefulRestart'', ''ForceRestart'', ''PowerCycle'', ''ForceReset'']"

definition power_cycle_priority :: "string list" where
  "power_cycle_priority = [''ForceRestart'', ''PowerCycle'', ''ForceReset'', ''GracefulRestart'']"

definition power_action_resettypes :: "(string \<times> (string list \<times> string)) list" where
  "power_action_resettypes =
     [(''on'', ([''On'', ''ForceOn'', ''PowerCycle''], ''On'')),
      (''off'', ([''GracefulShutdown'', ''ForceOff'', ''PushPowerButton''], ''GracefulShutdown'')),
      (''force_off'', ([''ForceOff'', ''PushPowerButton''], ''ForceOff'')),
      (''restart'', ([''ForceRestart'', ''PowerCycle'', ''GracefulRestart''], ''ForceRestart'')),
      (''graceful_restart'', ([''GracefulRestart'', ''ForceRestart''], ''GracefulRestart'')),
      (''cycle'', ([''PowerCycle'', ''ForceRestart''], ''PowerCycle''))]"

section \<open>Virtual media slots\<close>

definition optical_tokens :: "string list" where
  "optical_tokens = [''CD'', ''DVD'', ''CDROM'', ''DVDROM'']"

definition accepted_media :: "string \<Rightarrow> string list" where
  "accepted_media want = (if upper want \<in> {''CD'', ''DVD'', ''ISO''} then optical_tokens else [want])"

definition media_text :: "json \<Rightarrow> string py" where
  "media_text m = bind_py (as_str ''upper'' (or_else m (JStr []))) (\<lambda>s. Inr (upper s))"

definition slot_accepts :: "string list \<Rightarrow> vm_slot \<Rightarrow> bool py" where
  "slot_accepts accept slot = bind_py (map_py media_text (vm_media_types slot)) (\<lambda>ts.
     Inr (list_ex (\<lambda>tok. upper tok \<in> set ts) accept))"

fun find_slot :: "string list \<Rightarrow> bool option \<Rightarrow> vm_slot list \<Rightarrow> vm_slot option py" where
  "find_slot accept ins [] = Inr None"
| "find_slot accept ins (s # ss) = bind_py (slot_accepts accept s) (\<lambda>ok.
     if \<not> ok then find_slot accept ins ss
     else (case ins of
         Some b \<Rightarrow> if vm_inserted s \<noteq> b then find_slot accept ins ss else Inr (Some s)
       | None \<Rightarrow> Inr (Some s)))"

definition select_slot :: "cap option \<Rightarrow> string \<Rightarrow> bool option \<Rightarrow> vm_slot option py" where
  "select_slot c want ins = (case c of None \<Rightarrow> Inr None
     | Some m \<Rightarrow> let slots = List.map snd (cap_virtualmedia m); accept = accepted_media want in
         bind_py (find_slot accept ins slots) (\<lambda>r. case (r, ins) of
             (None, Some _) \<Rightarrow> find_slot accept None slots
           | _ \<Rightarrow> Inr r))"

section \<open>Facts\<close>

subsection \<open>Unique names\<close>

lemma numbered_Some: "numbered stem em fuel n = Some r \<Longrightarrow> r \<notin> set em \<and> (\<exists>t. r = stem @ t)"
  by (induction fuel arbitrary: n) (auto simp: Let_def split: if_splits)

lemma numbered_None:
  "numbered stem em fuel n = None \<Longrightarrow> i < fuel \<Longrightarrow> stem @ '' #'' @ int_str (int (n + i)) \<in> set em"
proof (induction fuel arbitrary: n i)
  case (Suc fuel)
  then have *: "stem @ '' #'' @ int_str (int n) \<in> set em" "numbered stem em fuel (n + 1) = None"
    by (simp_all add: Let_def split: if_splits)
  show ?case
  proof (cases i)
    case 0
    then show ?thesis using * by simp
  next
    case (Suc j)
    then show ?thesis using Suc.IH [OF *(2), of j] Suc.prems(2) by simp
  qed
qed simp

lemma numbered_enough: "numbered stem em (Suc (length em)) n \<noteq> None"
proof
  assume none: "numbered stem em (Suc (length em)) n = None"
  let ?f = "\<lambda>i. stem @ '' #'' @ int_str (int (n + i))"
  have "inj_on ?f {..<Suc (length em)}"
  proof (rule inj_onI)
    fix x y assume "?f x = ?f y"
    then have "int_str (int (n + x)) = int_str (int (n + y))" by simp
    then have "int (n + x) = int (n + y)" by (rule int_str_inj [rotated 2]) simp_all
    then show "x = y" by simp
  qed
  then have "card (?f ` {..<Suc (length em)}) = Suc (length em)"
    by (simp add: card_image)
  moreover have "?f ` {..<Suc (length em)} \<subseteq> set em"
    using numbered_None [OF none] by blast
  then have "card (?f ` {..<Suc (length em)}) \<le> card (set em)"
    by (rule card_mono [OF finite_set])
  ultimately show False using card_length [of em] by simp
qed

lemma unique_name_total: "\<exists>r. unique_name em name label serial = Some r"
  using numbered_enough [of "name @ '' ('' @ label @ '')''" em 2]
  by (auto simp: unique_name_def Let_def)

lemma unique_name_fresh:
  "unique_name em name label serial = Some r \<Longrightarrow> r \<notin> set em \<and> CHR ''('' \<in> set r"
  by (auto simp: unique_name_def Let_def dest!: numbered_Some split: if_splits)

lemma count_name_append: "count_name n (xs @ ys) = count_name n xs + count_name n ys"
  by (simp add: count_name_def)

lemma count_name_mem: "d \<in> set ds \<Longrightarrow> rd_name d = n \<Longrightarrow> 1 \<le> count_name n ds"
  by (auto simp: count_name_def Suc_le_eq dest: split_list)

definition plain_or_fresh :: "rf_drive list \<Rightarrow> string list \<Rightarrow> rf_drive list \<Rightarrow> string \<Rightarrow> bool" where
  "plain_or_fresh all em ds n = ((CHR ''('' \<in> set n \<and> n \<notin> set em) \<or>
     (CHR ''('' \<notin> set n \<and> n \<in> rd_name ` set ds \<and> count_name n all \<le> 1))"

lemma name_drives_distinct:
  assumes "\<forall>d \<in> set all. CHR ''('' \<notin> set (rd_name d)"
  shows "all = pre @ ds \<Longrightarrow> name_drives all seen em ds = Inr out \<Longrightarrow>
    distinct (List.map rd_name out) \<and> (\<forall>n \<in> set (List.map rd_name out). plain_or_fresh all em ds n)"
proof (induction ds arbitrary: pre seen em out)
  case (Cons d ds)
  have all: "all = (pre @ [d]) @ ds" using Cons.prems(1) by simp
  have dn: "CHR ''('' \<notin> set (rd_name d)" using assms Cons.prems(1) by simp
  have weaken: "plain_or_fresh all (x # em) ds n \<Longrightarrow> plain_or_fresh all em (d # ds) n" for x n
    by (auto simp: plain_or_fresh_def)
  have weaken0: "plain_or_fresh all em ds n \<Longrightarrow> plain_or_fresh all em (d # ds) n" for n
    by (auto simp: plain_or_fresh_def)
  let ?seen = "if truthy (rd_uri d) then rd_uri d # seen else seen"
  consider (skip) "name_drives all seen em ds = Inr out"
    | (label) final rest lab where "unique_name em (rd_name d) lab (rd_serial d) = Some final"
        "name_drives all ?seen (final # em) ds = Inr rest" "out = d\<lparr>rd_name := final\<rparr> # rest"
    | (plain) rest where "count_name (rd_name d) all \<le> 1"
        "name_drives all ?seen (rd_name d # em) ds = Inr rest" "out = d # rest"
    using Cons.prems(2)
    by (fastforce simp: Let_def bind_py_Inr split: if_splits option.splits)
  then show ?case
  proof cases
    case skip
    then show ?thesis using Cons.IH [OF all skip] weaken0 by blast
  next
    case label
    note ih = Cons.IH [OF all label(2)]
    note fresh = unique_name_fresh [OF label(1)]
    have "final \<notin> set (List.map rd_name rest)"
      using ih fresh by (auto simp: plain_or_fresh_def)
    moreover have "plain_or_fresh all em (d # ds) final"
      using fresh by (simp add: plain_or_fresh_def)
    ultimately show ?thesis using ih unfolding label(3) by (auto intro: weaken)
  next
    case plain
    note ih = Cons.IH [OF all plain(2)]
    have "rd_name d \<notin> rd_name ` set ds"
    proof
      assume "rd_name d \<in> rd_name ` set ds"
      then obtain e where "e \<in> set ds" "rd_name e = rd_name d" by auto
      then have "1 \<le> count_name (rd_name d) ds" by (rule count_name_mem)
      moreover have "count_name (rd_name d) [d] = 1" by (simp add: count_name_def)
      ultimately show False using plain(1) unfolding all count_name_append by simp
    qed
    then have "rd_name d \<notin> set (List.map rd_name rest)"
      using ih dn by (auto simp: plain_or_fresh_def)
    moreover have "plain_or_fresh all em (d # ds) (rd_name d)"
      using plain(1) dn by (simp add: plain_or_fresh_def)
    ultimately show ?thesis using ih unfolding plain(3) by (auto intro: weaken)
  qed
qed simp

lemma distinct_names_sort: "distinct (List.map rd_name (sort_key rd_name ds)) = distinct (List.map rd_name ds)"
  by (metis mset_map mset_sort mset_eq_imp_distinct_iff)

subsection \<open>Model words\<close>

text \<open>The words of a model are its maximal separator-free runs.\<close>

lemma model_words_infix:
  "w \<in> set (model_words acc s) \<Longrightarrow> \<exists>a b. rev acc @ s = a @ w @ b \<and>
     (a = [] \<or> is_model_sep (last a)) \<and> (b = [] \<or> is_model_sep (hd b))"
proof (induction acc s rule: model_words.induct)
  case (1 acc)
  then have "rev acc @ [] = [] @ w @ []" by (simp split: if_splits)
  then show ?case by blast
next
  case (2 acc c cs)
  show ?case
  proof (cases "is_model_sep c")
    case False
    then show ?thesis using 2 by simp
  next
    case sep: True
    consider (here) "acc \<noteq> []" "w = rev acc" | (later) "w \<in> set (model_words [] cs)"
      using 2(4) sep by (auto split: if_splits)
    then show ?thesis
    proof cases
      case here
      then have "rev acc @ c # cs = [] @ w @ (c # cs)" by simp
      then show ?thesis using sep by (metis list.sel(1))
    next
      case later
      then obtain a b where ab: "cs = a @ w @ b" "a = [] \<or> is_model_sep (last a)"
          "b = [] \<or> is_model_sep (hd b)"
        using 2(1,2) sep by (cases "acc = []") force+
      then have "rev acc @ c # cs = (rev acc @ c # a) @ w @ b" by simp
      moreover have "is_model_sep (last (rev acc @ c # a))" using ab(2) sep by (auto simp: last_append)
      ultimately show ?thesis using ab(3) by blast
    qed
  qed
qed

subsection \<open>Choices\<close>

lemma find_SomeD: "List.find p xs = Some x \<Longrightarrow> x \<in> set xs \<and> p x"
  by (induction xs) (auto split: if_splits)

lemma find_NoneD: "List.find p xs = None \<Longrightarrow> x \<in> set xs \<Longrightarrow> \<not> p x"
  by (induction xs) (auto split: if_splits)

lemma longest_first_set [simp]: "set (longest_first ks) = set ks"
  by (simp add: longest_first_def)

lemma find_sorted_max:
  "sorted (List.map (\<lambda>k. - int (length k)) xs) \<Longrightarrow> List.find p xs = Some x \<Longrightarrow>
     y \<in> set xs \<Longrightarrow> p y \<Longrightarrow> length y \<le> length x"
  by (induction xs) (auto split: if_splits)

lemma matching_key_longest:
  "matching_key ks fname = Some k \<Longrightarrow> k \<in> set ks \<and> contains (lower k) fname \<and>
     (\<forall>k' \<in> set ks. contains (lower k') fname \<longrightarrow> length k' \<le> length k)"
  unfolding matching_key_def
  using find_SomeD [of _ "longest_first ks" k] find_sorted_max [of "longest_first ks" _ k]
  by (auto simp: longest_first_def sorted_sort_key)

lemma matching_key_None: "matching_key ks fname = None \<Longrightarrow> k \<in> set ks \<Longrightarrow> \<not> contains (lower k) fname"
  unfolding matching_key_def
  using find_NoneD [of "\<lambda>k. contains (lower k) fname" "longest_first ks" k] by simp

lemma filter_py_like_find_slot:
  "find_slot accept ins ss = Inr (Some s) \<Longrightarrow>
     s \<in> set ss \<and> slot_accepts accept s = Inr True \<and> (\<forall>b. ins = Some b \<longrightarrow> vm_inserted s = b)"
  by (induction ss) (auto simp: bind_py_Inr split: if_splits option.splits)

section \<open>Properties\<close>


definition sample_server :: server_info where
  "sample_server = (new_server_info ''10.0.0.5'')\<lparr>si_oem := Some ''dell'', si_model := Some ''PowerEdge R6500'',
     si_bmc_version := Some ''1.0''\<rparr>"

definition sample_fw :: "string \<Rightarrow> firmware" where
  "sample_fw m = \<lparr>fw_name = ''bmc.bin'', fw_type = ''BMC'', fw_oem = ''Dell Inc.'', fw_version = ''2.0'',
     fw_file_path = ''/tmp/bmc.bin'', fw_sha256 = [], fw_model = Some m, fw_size_bytes = 1\<rparr>"


text \<open>Further property. The names of a storage inventory are unique, so that an operator's override
  binds to one physical drive: whatever drives the BMC reports, if no reported name has an
  opening parenthesis the labelled names are pairwise distinct, however many drives share a
  reported bay name, size and serial tail.\<close>

theorem label_drives_distinct:
  assumes "label_drives raw = Inr ds" "\<forall>d \<in> set raw. CHR ''('' \<notin> set (rd_name d)"
  shows "distinct (List.map rd_name ds)"
proof -
  obtain out where out: "name_drives raw [] [] raw = Inr out" "ds = sort_key rd_name out"
    using assms(1) by (auto simp: label_drives_def bind_py_Inr)
  show ?thesis
    using name_drives_distinct [OF assms(2), of "[]" raw] out by (simp add: distinct_names_sort)
qed

definition bay3 :: "string \<Rightarrow> rf_drive" where
  "bay3 u = \<lparr>rd_name = ''Disk.Bay.3'', rd_protocol = ''SAS'', rd_media_type = JStr ''HDD'',
     rd_capacity = 960000000000, rd_model = [], rd_serial = [], rd_slot = None, rd_uri = JStr u\<rparr>"

lemma bay3_label_text: "size_label 960000000000 = Inr ''960 GB''" "int_str 2 = ''2''" "int_str 3 = ''3''"
  by code_simp+

lemma bay3_labels:
  "label_drives [bay3 ''/a'', bay3 ''/b'', bay3 ''/c''] = Inr
     [(bay3 ''/a'')\<lparr>rd_name := ''Disk.Bay.3 (960 GB)''\<rparr>, (bay3 ''/b'')\<lparr>rd_name := ''Disk.Bay.3 (960 GB) #2''\<rparr>,
      (bay3 ''/c'')\<lparr>rd_name := ''Disk.Bay.3 (960 GB) #3''\<rparr>]"
  by (simp add: label_drives_def bay3_def count_name_def bay3_label_text unique_name_def last6_def
      Let_def sort_key_def)

theorem label_drives_distinct_witness:
  "distinct (List.map rd_name
     [(bay3 ''/a'')\<lparr>rd_name := ''Disk.Bay.3 (960 GB)''\<rparr>, (bay3 ''/b'')\<lparr>rd_name := ''Disk.Bay.3 (960 GB) #2''\<rparr>,
      (bay3 ''/c'')\<lparr>rd_name := ''Disk.Bay.3 (960 GB) #3''\<rparr>])"
  by (rule label_drives_distinct [OF bay3_labels]) (simp add: bay3_def)


definition reset_cap :: "string list \<Rightarrow> cap" where
  "reset_cap rs = empty_cap\<lparr>cap_system_reset_allowed := List.map JStr rs\<rparr>"


text \<open>Further property. HGX routing stays inside the inventory: every URI pushed to is the map's URI for
  its key; a file name that contains keys gets exactly the longest of them; a bundle name gets
  every member; and any other name gets the first member alone (where the docstring of
  \<open>_select_hgx_target_group\<close> announces all members).\<close>

theorem select_hgx_target_group_cases:
  assumes "select_hgx_target_group uris fname = Inr (keys, us)" "distinct (List.map fst uris)"
  shows "keys \<noteq> [] \<and> us = List.map (\<lambda>k. the (map_of uris k)) keys \<and> set keys \<subseteq> fst ` set uris \<and>
    (case matching_key (List.map fst uris) (lower fname) of
       Some k \<Rightarrow> keys = [k] \<and> contains (lower k) (lower fname) \<and>
         (\<forall>k' \<in> fst ` set uris. contains (lower k') (lower fname) \<longrightarrow> length k' \<le> length k)
     | None \<Rightarrow> keys = (if any_token bundle_markers (lower fname) \<or> fname = []
                     then List.map fst uris else [fst (hd uris)]))"
proof -
  have lf: "lower fname = [] \<longleftrightarrow> fname = []" by (simp add: lower_def)
  have the_map: "the_default [] (map_of uris k) = the (map_of uris k)" if k: "k \<in> fst ` set uris" for k
  proof -
    have "map_of uris k \<noteq> None" using k by (simp add: map_of_eq_None_iff)
    then show ?thesis by auto
  qed
  obtain k0 u0 rest where uris: "uris = (k0, u0) # rest"
    using assms(1) by (cases uris) (auto simp: select_hgx_target_group_def hgx_empty_def)
  show ?thesis
  proof (cases "matching_key (List.map fst uris) (lower fname)")
    case (Some k)
    then have mk: "k \<in> fst ` set uris" "contains (lower k) (lower fname)"
      "\<forall>k' \<in> fst ` set uris. contains (lower k') (lower fname) \<longrightarrow> length k' \<le> length k"
      using matching_key_longest [OF Some] by auto
    have "keys = [k]" "us = [the_default [] (map_of uris k)]"
      using assms(1) Some uris by (auto simp: select_hgx_target_group_def)
    then show ?thesis using mk Some the_map by simp
  next
    case None
    show ?thesis
    proof (cases "any_token bundle_markers (lower fname) \<or> fname = []")
      case True
      then have "keys = List.map fst uris" "us = List.map (\<lambda>k. the_default [] (map_of uris k)) (List.map fst uris)"
        using assms(1) None uris lf by (auto simp: select_hgx_target_group_def)
      then show ?thesis using True None the_map uris by (auto intro!: the_map)
    next
      case False
      then have "keys = [k0]" "us = [u0]"
        using assms(1) None uris lf
        by (auto simp: select_hgx_target_group_def select_hgx_target_def)
      then show ?thesis using False None uris by simp
    qed
  qed
qed

theorem select_hgx_target_group_cases_witness:
  "matching_key [''HGX_FW_GPU_0'', ''HGX_FW_ERoT_GPU_0''] (lower ''HGX_FW_ERoT_GPU_0.fwpkg'') =
     Some ''HGX_FW_ERoT_GPU_0'' \<and> contains (lower ''HGX_FW_ERoT_GPU_0'') (lower ''HGX_FW_ERoT_GPU_0.fwpkg'')"
proof -
  let ?uris = "[(''HGX_FW_GPU_0'', ''/g''), (''HGX_FW_ERoT_GPU_0'', ''/e'')]"
  have s: "select_hgx_target_group ?uris ''HGX_FW_ERoT_GPU_0.fwpkg'' = Inr ([''HGX_FW_ERoT_GPU_0''], [''/e''])"
    by code_simp
  have m: "matching_key [''HGX_FW_GPU_0'', ''HGX_FW_ERoT_GPU_0''] (lower ''HGX_FW_ERoT_GPU_0.fwpkg'') =
     Some ''HGX_FW_ERoT_GPU_0''"
    by code_simp
  have d: "distinct (List.map fst ?uris)" by simp
  from select_hgx_target_group_cases [OF s d] m show ?thesis by simp
qed

end
