(* ===== verification/Plugin_Flows.thy ===== *)
theory Plugin_Flows
  imports Plugin_Core
begin

text \<open>
  The operations of \<open>GenericRedfishPlugin\<close> that talk to a BMC: the capability cache, the task
  poll, the stability wait, firmware update (\<open>_do_update\<close>, \<open>update_hgx\<close>), storage inventory,
  virtual media, boot override and power. Each is a computation over the BMC's world and the
  plugin's own state: the cache of capability maps and the log of \<open>on_progress\<close> calls. What a
  vendor subclass overrides by a method or class attribute is a field of \<open>hooks\<close>; the client a
  method opens is \<open>mk conf\<close>, for the connection parameters \<open>_client_for\<close> computes.

  Polling loops carry fuel. A loop that sleeps at least \<open>s\<close> seconds per round and stops at a
  deadline \<open>T\<close> seconds ahead needs at most \<open>T / s + 1\<close> rounds of fuel while the clock advances.
\<close>

section \<open>Hooks, plugin state, results\<close>

record hooks =
  hk_key :: string
  hk_targets :: "string \<Rightarrow> string list"
  hk_oem_params :: "string \<Rightarrow> json option"
  hk_vm_slot :: string
  hk_apply_reset :: string

definition generic_hooks :: hooks where
  "generic_hooks = \<lparr>hk_key = ''generic_redfish'', hk_targets = (\<lambda>u. [u]), hk_oem_params = (\<lambda>_. None),
     hk_vm_slot = ''CD'', hk_apply_reset = ''GracefulRestart''\<rparr>"

record plugin_state =
  ps_cache :: "(string \<times> (cap \<times> rat)) list"
  ps_progress :: "(string \<times> int) list"

record plugin_result =
  res_okay :: bool
  res_message :: string
  res_version :: json

definition failed :: "string \<Rightarrow> plugin_result" where
  "failed msg = \<lparr>res_okay = False, res_message = msg, res_version = JNull\<rparr>"

definition succeeded :: "string \<Rightarrow> plugin_result" where
  "succeeded msg = \<lparr>res_okay = True, res_message = msg, res_version = JNull\<rparr>"

type_synonym ('w, 'a) flow = "('w \<times> plugin_state, 'a) io"

definition progress :: "string \<Rightarrow> int \<Rightarrow> ('w, unit) flow" where
  "progress state pct = on_snd (ps_progress_update (\<lambda>l. l @ [(state, pct)]))"

definition try_redfish :: "('w, 'a) io \<Rightarrow> ('w, exn + 'a) io" where
  "try_redfish m = attempt is_redfish m"

definition fuel_out :: exn where
  "fuel_out = Exn Exn_Fuel []"

section \<open>Connection parameters (_client_for)\<close>

record client_conf =
  cc_host :: string
  cc_port :: int
  cc_scheme :: string
  cc_username :: string
  cc_password :: string
  cc_tls :: "string option"

text \<open>\<open>scheme, _, hostport = base.partition('://')\<close>, then host and port.\<close>

definition split_base :: "string \<Rightarrow> (string \<times> string \<times> int) py" where
  "split_base base = (case partition_str ''://'' base of (scheme, _, hostport) \<Rightarrow>
     (case partition_str '':'' hostport of (host, _, port_s) \<Rightarrow>
        if port_s = [] then Inr (scheme, host, if scheme = ''https'' then 443 else 80)
        else (case parse_int port_s of Some p \<Rightarrow> Inr (scheme, host, p)
              | None \<Rightarrow> Inl (Exn Exn_Value (''invalid literal for int() with base 10: '' @ py_repr port_s)))))"

definition client_for :: "server_info \<Rightarrow> credentials option \<Rightarrow> client_conf py" where
  "client_for server creds =
     (let base = rstrip_char CHR ''/'' (replace_str ''/redfish/v1/'' [] (opt_or (si_redfish_root server))) in
      bind_py (split_base base) (\<lambda>(scheme, host, port). Inr
        \<lparr>cc_host = host, cc_port = port, cc_scheme = scheme,
         cc_username = (case creds of Some c \<Rightarrow> username c | None \<Rightarrow> []),
         cc_password = (case creds of Some c \<Rightarrow> password c | None \<Rightarrow> []),
         cc_tls = si_tls_fingerprint server\<rparr>))"

section \<open>The capability cache\<close>

definition cap_ttl :: rat where "cap_ttl = 60"

definition fresh_cap :: "rat \<Rightarrow> string \<Rightarrow> plugin_state \<Rightarrow> cap option" where
  "fresh_cap now ip ps = (if ip = [] then None
     else (case map_of (ps_cache ps) ip of None \<Rightarrow> None
           | Some (c, ts) \<Rightarrow> if now - ts < cap_ttl then Some c else None))"

definition capability_map :: "'w redfish \<Rightarrow> server_info \<Rightarrow> ('w, cap option) flow" where
  "capability_map rf server = (let ip = strip (si_ip server) in
     bind (on_fst (loop_time rf)) (\<lambda>now. bind the_snd (\<lambda>ps.
     case fresh_cap now ip ps of
       Some c \<Rightarrow> ret (Some c)
     | None \<Rightarrow> bind (attempt is_exception (on_fst (discover_caps rf))) (\<lambda>r. case r of
           Inl _ \<Rightarrow> ret None
         | Inr c \<Rightarrow> bind (on_fst (loop_time rf)) (\<lambda>ts.
             seq (if ip \<noteq> [] then on_snd (ps_cache_update (AList.update ip (c, ts))) else ret ())
             (ret (Some c)))))))"

definition invalidate_cap :: "server_info \<Rightarrow> ('w, unit) flow" where
  "invalidate_cap server = (let ip = strip (si_ip server) in
     if ip \<noteq> [] then on_snd (ps_cache_update (filter (\<lambda>(k, _). k \<noteq> ip))) else ret ())"

section \<open>Polling a task\<close>

definition flash_poll_ceiling :: rat where "flash_poll_ceiling = 1800"
definition poll_interval :: rat where "poll_interval = 3"
definition max_poll_errors :: nat where "max_poll_errors = 60"

definition poll_wait :: "(string \<Rightarrow> rat option) \<Rightarrow> (string \<times> string) list \<Rightarrow> rat" where
  "poll_wait date_wait headers =
     (let ra = parse_retry_after date_wait (map_of headers ''Retry-After'') 0 600 in
      if 0 < ra then ra else poll_interval)"

definition percent_of :: "json \<Rightarrow> int py" where
  "percent_of task = bind_py (jget_or task ''PercentComplete'' (JInt 0)) (\<lambda>p. jint (or_else p (JInt 0)))"

definition scaled :: "int \<Rightarrow> int \<Rightarrow> int \<Rightarrow> int py" where
  "scaled lo pct width = bind_py (int_div_float (pct * width) 100) (\<lambda>q.
     bind_py (int_of_float q) (\<lambda>n. Inr (lo + n)))"

definition terminal_states :: "json set" where
  "terminal_states = {JStr ''Completed'', JStr ''Exception'', JStr ''Killed'', JStr ''Cancelled''}"

definition task_failure :: "json \<Rightarrow> json \<Rightarrow> string py" where
  "task_failure task state =
     bind_py (jget task ''Messages'') (\<lambda>m. let msgs = or_else m (JArr []) in
     bind_py (if truthy msgs then bind_py (jlast msgs) (\<lambda>l. jget_or l ''Message'' (JStr [])) else Inr (JStr []))
       (\<lambda>detail. Inr (strip (''BMC task ended '' @ quoted (json_str state) @ ''. '' @ json_str detail))))"

definition poll_verdict :: "json \<Rightarrow> (bool \<times> string) option py" where
  "poll_verdict task = bind_py (jget_or task ''TaskState'' (JStr ''Running'')) (\<lambda>state.
     if state \<notin> terminal_states then Inr None
     else if state = JStr ''Completed'' then Inr (Some (True, ''completed''))
     else bind_py (task_failure task state) (\<lambda>msg. Inr (Some (False, msg))))"

definition unreachable_msg :: "exn \<Rightarrow> string" where
  "unreachable_msg e = ''BMC unreachable for 60 consecutive polls: '' @ exn_str e"

text \<open>What one answer means: the progress it reports (sent when the percentage changed), the
  percentage to compare the next one with, and the verdict if the state is terminal.\<close>

definition report_task :: "int \<Rightarrow> int \<Rightarrow> int \<Rightarrow> json \<Rightarrow> ('w, int \<times> (bool \<times> string) option) flow" where
  "report_task lo width lastp task =
     bind (lift_py (percent_of task)) (\<lambda>pct.
     seq (if pct \<noteq> lastp \<and> width \<noteq> 0
          then bind (lift_py (scaled lo pct width)) (\<lambda>p. progress ''flashing'' p) else ret ())
     (bind (lift_py (poll_verdict task)) (\<lambda>v.
      ret (if pct \<noteq> lastp \<and> width \<noteq> 0 then pct else lastp, v))))"

fun poll_loop :: "(string \<Rightarrow> rat option) \<Rightarrow> 'w redfish \<Rightarrow> string \<Rightarrow> int \<Rightarrow> int \<Rightarrow> rat \<Rightarrow>
    nat \<Rightarrow> nat \<Rightarrow> int \<Rightarrow> ('w, bool \<times> string) flow" where
  "poll_loop dw rf uri lo width deadline 0 errs lastp = throw fuel_out"
| "poll_loop dw rf uri lo width deadline (Suc fuel) errs lastp =
     bind (on_fst (loop_time rf)) (\<lambda>now.
     if deadline \<le> now then ret (False, ''flash did not finish within 30 min'') else
     bind (on_fst (try_redfish (rf_get rf uri))) (\<lambda>r. case r of
       Inl e \<Rightarrow>
         if max_poll_errors \<le> Suc errs then ret (False, unreachable_msg e)
         else seq (on_fst (rf_sleep rf (min (poll_interval * 2) 60)))
                  (poll_loop dw rf uri lo width deadline fuel (Suc errs) lastp)
     | Inr (task, headers) \<Rightarrow>
         bind (report_task lo width lastp task) (\<lambda>(lastp', v). case v of
           Some verdict \<Rightarrow> ret verdict
         | None \<Rightarrow> seq (on_fst (rf_sleep rf (max 1 (min (poll_wait dw headers) 60))))
                     (poll_loop dw rf uri lo width deadline fuel 0 lastp'))))"

definition poll_fuel :: nat where "poll_fuel = 1801"

definition poll_task :: "(string \<Rightarrow> rat option) \<Rightarrow> 'w redfish \<Rightarrow> string \<Rightarrow> int \<Rightarrow> int \<Rightarrow> ('w, bool \<times> string) flow" where
  "poll_task dw rf uri lo hi =
     (if uri = [] then ret (True, ''no task returned (BMC flashed synchronously)'')
      else bind (on_fst (loop_time rf)) (\<lambda>now.
        poll_loop dw rf uri lo (max 0 (hi - lo)) (now + flash_poll_ceiling) poll_fuel 0 (- 1)))"

section \<open>Other reads\<close>

text \<open>\<open>_wait_for_resource_stability\<close>: \<open>need\<close> consecutive clean rounds over all probes.\<close>

fun probe_all :: "'w redfish \<Rightarrow> string list \<Rightarrow> ('w, bool) io" where
  "probe_all rf [] = ret True"
| "probe_all rf (p # ps) = bind (try_redfish (get_json rf p)) (\<lambda>r. case r of
     Inl _ \<Rightarrow> ret False | Inr _ \<Rightarrow> probe_all rf ps)"

fun stability_loop :: "'w redfish \<Rightarrow> string list \<Rightarrow> nat \<Rightarrow> rat \<Rightarrow> rat \<Rightarrow> nat \<Rightarrow> nat \<Rightarrow> ('w, bool) io" where
  "stability_loop rf probes need gap deadline 0 streak = throw fuel_out"
| "stability_loop rf probes need gap deadline (Suc fuel) streak = bind (loop_time rf) (\<lambda>now.
     if deadline \<le> now then ret False else
     bind (probe_all rf probes) (\<lambda>ok.
     if ok \<and> need \<le> Suc streak then ret True
     else seq (rf_sleep rf gap)
            (stability_loop rf probes need gap deadline fuel (if ok then Suc streak else 0))))"

definition wait_for_resource_stability :: "'w redfish \<Rightarrow> string list \<Rightarrow> ('w, bool) io" where
  "wait_for_resource_stability rf uris = bind (loop_time rf) (\<lambda>now.
     stability_loop rf (if uris = [] then [''/redfish/v1/'', ''/redfish/v1/UpdateService''] else uris)
       3 5 (now + 300) 61 0)"

definition read_current_version :: "'w redfish \<Rightarrow> string \<Rightarrow> ('w, string option) io" where
  "read_current_version rf uri = (if uri = [] then ret None else
     on_redfish (bind (get_json rf uri) (\<lambda>d. bind (lift_py (jget d ''Version'')) (\<lambda>v.
         ret (if v = JNull then None else Some (json_str v)))))
       (\<lambda>_. ret None))"

text \<open>\<open>members[0]['@odata.id'] if members else None\<close>.\<close>

definition first_member_uri :: "json \<Rightarrow> json option py" where
  "first_member_uri coll = bind_py (jget coll ''Members'') (\<lambda>m. let members = or_else m (JArr []) in
     if truthy members then bind_py (jhead members) (\<lambda>m0. bind_py (jindex m0 ''@odata.id'') (\<lambda>u. Inr (Some u)))
     else Inr None)"

definition first_system_uri :: "'w redfish \<Rightarrow> ('w, json option) io" where
  "first_system_uri rf = on_redfish (bind (get_json rf ''/redfish/v1/Systems'') (\<lambda>c.
     lift_py (first_member_uri c))) (\<lambda>_. ret None)"

definition first_manager_uri :: "'w redfish \<Rightarrow> ('w, json option) io" where
  "first_manager_uri rf = bind (get_json rf ''/redfish/v1/Managers'') (\<lambda>c. lift_py (first_member_uri c))"

section \<open>Resetting the host\<close>

definition reset_action_of :: "json \<Rightarrow> json py" where
  "reset_action_of target = bind_py (jcontains ''/Actions/'' target) (\<lambda>b.
     Inr (if b then target else JStr (json_str target @ ''/Actions/ComputerSystem.Reset'')))"

definition reset_body :: "string \<Rightarrow> json" where
  "reset_body t = JObj [(''ResetType'', JStr t)]"

definition reset_to_apply :: "hooks \<Rightarrow> 'w redfish \<Rightarrow> json \<Rightarrow> cap option \<Rightarrow> ('w, bool \<times> string) io" where
  "reset_to_apply hk rf target c =
     bind (lift_py (reset_action_of target)) (\<lambda>action.
     let reset_type = choose_reset_type c apply_reset_priority (hk_apply_reset hk) in
     on_redfish (bind (post_json_at rf action (reset_body reset_type)) (\<lambda>resp.
         ret (if 400 \<le> pr_status resp then (False, ''reset HTTP '' @ int_str (pr_status resp))
              else (True, reset_type @ '' issued''))))
       (\<lambda>e. ret (False, exn_str e)))"

section \<open>Resolving the firmware target and the transport\<close>

definition firmware_candidates :: "string \<Rightarrow> string list" where
  "firmware_candidates target = (if target = ''BIOS'' then bios_candidates else bmc_candidates)"

definition leaf_matches :: "string \<Rightarrow> string \<Rightarrow> bool" where
  "leaf_matches target uri = (let leaf = lower (leaf_of uri) in
     \<not> any_token banned_bank_leaves leaf \<and>
     ((target = ''BIOS'' \<and> (contains ''bios'' leaf \<or> contains ''uefi'' leaf)) \<or>
      (target = ''BMC'' \<and> any_token bmc_tokens leaf)))"

definition inline_target :: "string \<Rightarrow> string list \<Rightarrow> string option" where
  "inline_target target uris =
     (case first_some (\<lambda>cand. List.find (\<lambda>u. leaf_of u = cand) uris) (firmware_candidates target) of
        Some u \<Rightarrow> Some u
      | None \<Rightarrow> List.find (leaf_matches target) uris)"

definition member_uris :: "json \<Rightarrow> string list py" where
  "member_uris coll = bind_py (sub_list coll ''Members'') (\<lambda>ms.
     map_py (\<lambda>m. bind_py (jget_or m ''@odata.id'' (JStr [])) (as_str ''rsplit'')) ms)"

definition resolve_firmware_target :: "'w redfish \<Rightarrow> string \<Rightarrow> cap option \<Rightarrow> ('w, string) io" where
  "resolve_firmware_target rf target c = (case c of
       Some m \<Rightarrow> (case nonempty (if target = ''BIOS'' then cap_bios_member_uri m else cap_bmc_member_uri m) of
           Some u \<Rightarrow> ret u
         | None \<Rightarrow> throw (Exn Exn_Redfish (''No '' @ target @ '' member found in FirmwareInventory ''
                           @ ''(discoverer reported no active bank)'')))
     | None \<Rightarrow>
         bind (on_redfish (get_json rf ''/redfish/v1/UpdateService/FirmwareInventory'') (\<lambda>e.
                 throw (Exn Exn_Redfish (''FirmwareInventory unavailable: '' @ exn_str e)))) (\<lambda>inven.
         bind (lift_py (member_uris inven)) (\<lambda>uris. case inline_target target uris of
             Some u \<Rightarrow> ret u
           | None \<Rightarrow> throw (Exn Exn_Redfish (''No '' @ target @ '' member found in FirmwareInventory ''
               @ ''(saw: '' @ json_repr (JArr (List.map (JStr \<circ> leaf_of) uris)) @ '')'')))))"

definition resolve_update_service :: "'w redfish \<Rightarrow> cap option \<Rightarrow> ('w, json \<times> json \<times> string) io" where
  "resolve_update_service rf c = (let path = ''/redfish/v1/UpdateService/Actions/SimpleUpdate'' in
     case c of
       Some m \<Rightarrow> ret (or_else (cap_multipart_push_uri m) (JStr []), or_else (cap_simple_update_target m) (JStr []), path)
     | None \<Rightarrow>
         bind (on_redfish (get_json rf ''/redfish/v1/UpdateService'') (\<lambda>e.
                 throw (Exn Exn_Redfish (''UpdateService unreachable: '' @ exn_str e)))) (\<lambda>us.
         bind (lift_py (jget us ''MultipartHttpPushUri'')) (\<lambda>mp.
         bind (lift_py (bind_py (sub_obj us ''Actions'') (\<lambda>a.
                 action_target a ''#UpdateService.SimpleUpdate''))) (\<lambda>su.
         ret (or_else mp (JStr []), or_else su (JStr []), path)))))"

definition multipart_at :: "'w redfish \<Rightarrow> json \<Rightarrow> json \<Rightarrow> string \<Rightarrow> string \<Rightarrow> json option \<Rightarrow> ('w, post_result) io" where
  "multipart_at rf path params file fname oem =
     bind (lift_py (as_str ''startswith'' path)) (\<lambda>p. rf_multipart rf p params file fname oem)"

section \<open>Firmware update (_do_update)\<close>

definition push_params :: "string \<Rightarrow> string list \<Rightarrow> json" where
  "push_params target targets = JObj
     ((''@Redfish.OperationApplyTime'', JStr (if target = ''BMC'' then ''Immediate'' else ''OnReset''))
      # (if targets \<noteq> [] then [(''Targets'', JArr (List.map JStr targets))] else []))"

definition simple_update_body :: "string \<Rightarrow> string list \<Rightarrow> firmware \<Rightarrow> json" where
  "simple_update_body target targets fw = JObj
     [(''ImageURI'', JStr (''file:///firmware/'' @ fw_name fw)),
      (''Targets'', JArr (List.map JStr targets)),
      (''Oem'', JObj [(''ClusterOne'', JObj [(''TargetVersion'', JStr (fw_version fw)),
                                       (''TargetType'', JStr target)])])]"

definition push_image :: "hooks \<Rightarrow> 'w redfish \<Rightarrow> json \<Rightarrow> string \<Rightarrow> string \<Rightarrow> string \<Rightarrow> firmware \<Rightarrow>
    ('w, string + post_result) io" where
  "push_image hk rf multipart_uri simple_path target target_uri fw =
     (if truthy multipart_uri
      then bind (try_redfish (multipart_at rf multipart_uri (push_params target (hk_targets hk target_uri))
                   (fw_file_path fw) (fw_name fw) (hk_oem_params hk target)))
             (\<lambda>r. ret (case r of Inl e \<Rightarrow> Inl (''Firmware push failed: '' @ exn_str e) | Inr p \<Rightarrow> Inr p))
      else bind (try_redfish (rf_post rf simple_path (simple_update_body target (hk_targets hk target_uri) fw)))
             (\<lambda>r. ret (case r of Inl e \<Rightarrow> Inl (''SimpleUpdate failed: '' @ exn_str e) | Inr p \<Rightarrow> Inr p)))"

text \<open>Whether the pushed update is known to have ended well: the poll's verdict, the synchronous
  case, and the rescue by a moved version after the BMC became unreachable.\<close>

definition version_moved :: "'w redfish \<Rightarrow> string \<Rightarrow> string option \<Rightarrow> ('w, bool) io" where
  "version_moved rf target_uri pre = (if target_uri = [] \<or> pre = None then ret False
     else bind (read_current_version rf target_uri) (\<lambda>new_ver.
       ret (case nonempty new_ver of Some v \<Rightarrow> Some v \<noteq> pre | None \<Rightarrow> False)))"

definition await_update :: "(string \<Rightarrow> rat option) \<Rightarrow> 'w redfish \<Rightarrow> post_result \<Rightarrow> ('w, bool \<times> string) flow" where
  "await_update dw rf pr = bind (lift_py (resolve_task_uri pr)) (\<lambda>task_uri.
     if task_uri = []
     then ret (if pr_status pr \<in> {200, 204} then (True, ''synchronous completion (no Task)'')
               else (False, ''Update accepted but BMC returned no Task to monitor''))
     else seq (progress ''flashing'' 30) (poll_task dw rf task_uri 30 80))"

definition rescue :: "'w redfish \<Rightarrow> string \<Rightarrow> string option \<Rightarrow> bool \<times> string \<Rightarrow> ('w, bool) io" where
  "rescue rf target_uri pre v = (case v of (ok, msg) \<Rightarrow>
     if ok then ret True
     else if contains ''unreachable'' (lower msg) then version_moved rf target_uri pre
     else ret False)"

definition apply_reset :: "hooks \<Rightarrow> 'w redfish \<Rightarrow> cap option \<Rightarrow> ('w, string) io" where
  "apply_reset hk rf c =
     bind (case c of Some m \<Rightarrow> if truthy (cap_system_reset_target m) then ret (Some (cap_system_reset_target m))
                               else first_system_uri rf
           | None \<Rightarrow> first_system_uri rf) (\<lambda>target. case target of
        Some t \<Rightarrow> if truthy t then bind (reset_to_apply hk rf t c) (\<lambda>(ok, msg).
                   ret (if ok then '' Host reset: '' @ msg @ ''.''
                        else '' Staged OK, but host reset failed ('' @ msg @ '') '' @ em_dash
                             @ '' reboot manually to apply.''))
                 else ret []
      | None \<Rightarrow> ret [])"

definition read_back :: "'w redfish \<Rightarrow> string \<Rightarrow> string \<Rightarrow> ('w, json option) io" where
  "read_back rf target target_uri = on_redfish (bind (get_json rf target_uri) (\<lambda>v.
       bind (lift_py (jget v (if target = ''BMC'' then ''FirmwareVersion'' else ''BiosVersion''))) (\<lambda>a.
       ret (Some a)))) (\<lambda>_. ret None)"

definition finish_update :: "hooks \<Rightarrow> 'w redfish \<Rightarrow> server_info \<Rightarrow> firmware \<Rightarrow> string \<Rightarrow> string \<Rightarrow>
    cap option \<Rightarrow> bool \<Rightarrow> ('w, plugin_result) flow" where
  "finish_update hk rf server fw target target_uri c apply_now =
     seq (progress ''rebooting'' 85)
     (bind (if target = ''BIOS'' \<and> apply_now then on_fst (apply_reset hk rf c) else ret []) (\<lambda>note.
      seq (on_fst (rf_sleep rf 2))
      (seq (progress ''verifying'' 95)
      (bind (on_fst (read_back rf target target_uri)) (\<lambda>actual.
       seq (invalidate_cap server)
       (ret (case actual of
          None \<Rightarrow> \<lparr>res_okay = True, res_message = strip (''Flashed.'' @ note), res_version = JStr (fw_version fw)\<rparr>
        | Some a \<Rightarrow> \<lparr>res_okay = True,
            res_message = (if target = ''BIOS'' then strip (if note = []
                then '' Staged '' @ em_dash @ '' applies on next reboot.'' else note) else []),
            res_version = or_else a (JStr (fw_version fw))\<rparr>)))))))"

definition no_bank_msg :: "string \<Rightarrow> exn \<Rightarrow> string" where
  "no_bank_msg target e = ''No active '' @ target @ '' bank in FirmwareInventory ('' @ exn_str e @ ''). ''
     @ ''Refusing to fall back to /Systems or /Managers '' @ em_dash
     @ '' that historical path corrupts rollback banks (RED097).''"

definition run_update :: "(string \<Rightarrow> rat option) \<Rightarrow> hooks \<Rightarrow> 'w redfish \<Rightarrow> server_info \<Rightarrow> firmware \<Rightarrow>
    string \<Rightarrow> bool \<Rightarrow> ('w, plugin_result) flow" where
  "run_update dw hk rf server fw target apply_now =
     bind (capability_map rf server) (\<lambda>c.
     bind (on_fst (try_redfish (resolve_update_service rf c))) (\<lambda>us. case us of
       Inl e \<Rightarrow> ret (failed (exn_str e))
     | Inr (multipart_uri, _, simple_path) \<Rightarrow>
     bind (on_fst (try_redfish (resolve_firmware_target rf target c))) (\<lambda>tu. case tu of
       Inl e \<Rightarrow> ret (failed (no_bank_msg target e))
     | Inr target_uri \<Rightarrow>
     bind (on_fst (read_current_version rf target_uri)) (\<lambda>pre.
     seq (progress ''uploading'' 10)
     (bind (on_fst (push_image hk rf multipart_uri simple_path target target_uri fw)) (\<lambda>pushed. case pushed of
       Inl msg \<Rightarrow> ret (failed msg)
     | Inr pr \<Rightarrow>
     bind (await_update dw rf pr) (\<lambda>verdict.
     bind (on_fst (rescue rf target_uri pre verdict)) (\<lambda>ok.
     if ok then finish_update hk rf server fw target target_uri c apply_now
     else ret (failed (snd verdict))))))))))"

definition with_client :: "(client_conf \<Rightarrow> 'w redfish) \<Rightarrow> server_info \<Rightarrow> credentials option \<Rightarrow>
    ('w redfish \<Rightarrow> ('w, 'a) flow) \<Rightarrow> ('w, 'a) flow" where
  "with_client mk server creds body = bind (lift_py (client_for server creds)) (\<lambda>conf.
     finally_do (body (mk conf)) (on_fst (rf_close (mk conf))))"

definition do_update :: "(string \<Rightarrow> rat option) \<Rightarrow> hooks \<Rightarrow> (client_conf \<Rightarrow> 'w redfish) \<Rightarrow> server_info \<Rightarrow>
    firmware \<Rightarrow> string \<Rightarrow> credentials option \<Rightarrow> bool \<Rightarrow> ('w, plugin_result) flow" where
  "do_update dw hk mk server fw target creds apply_now =
     with_client mk server creds (\<lambda>rf. run_update dw hk rf server fw target apply_now)"

section \<open>HGX firmware (update_hgx)\<close>

definition hgx_params :: "string list \<Rightarrow> json" where
  "hgx_params uris = JObj [(''Targets'', JArr (List.map JStr uris)),
     (''@Redfish.OperationApplyTime'', JStr ''OnReset'')]"

text \<open>\<open>poll\<close> is the plugin's \<open>_poll_task\<close> called with a \<open>progress_band\<close>.\<close>

definition run_update_hgx :: "(string \<Rightarrow> int \<Rightarrow> int \<Rightarrow> ('w, bool \<times> string) flow) \<Rightarrow> 'w redfish \<Rightarrow> server_info \<Rightarrow>
    firmware \<Rightarrow> ('w, plugin_result) flow" where
  "run_update_hgx poll rf server fw =
     bind (capability_map rf server) (\<lambda>c.
     let uris = (case c of Some m \<Rightarrow> cap_hgx_member_uris m | None \<Rightarrow> []) in
     if uris = [] then ret (failed (''No HGX/GPU components in FirmwareInventory '' @ em_dash
                             @ '' this BMC does not expose an HGX baseboard.'')) else
     bind (on_fst (try_redfish (resolve_update_service rf c))) (\<lambda>us. case us of
       Inl e \<Rightarrow> ret (failed (exn_str e))
     | Inr (multipart_uri, _, _) \<Rightarrow>
     if \<not> truthy multipart_uri
     then ret (failed (''BMC does not advertise MultipartHttpPushUri '' @ em_dash
                       @ '' HGX firmware requires multipart push.'')) else
     bind (lift_py (select_hgx_target_group uris (fw_name fw))) (\<lambda>(keys, targets).
     let target_key = (if length keys = 1 then hd keys
                       else int_str (int (length keys)) @ '' HGX components'') in
     seq (progress ''uploading'' 10)
     (bind (on_fst (try_redfish (multipart_at rf multipart_uri (hgx_params targets)
                      (fw_file_path fw) (fw_name fw) None))) (\<lambda>r. case r of
       Inl e \<Rightarrow> ret (failed (''HGX firmware push failed: '' @ exn_str e))
     | Inr pr \<Rightarrow>
     bind (lift_py (resolve_task_uri pr)) (\<lambda>task_uri.
     if task_uri = [] then ret (failed ''HGX update accepted but BMC returned no Task to monitor'') else
     seq (progress ''flashing'' 30)
     (bind (poll task_uri 30 90) (\<lambda>(ok, msg).
     if \<not> ok
     then ret (failed (if msg \<noteq> [] then msg
            else ''HGX flash did not finish within 30 min '' @ em_dash
                 @ '' check the BMC; the update may still be applying.''))
     else seq (progress ''verifying'' 95)
       (seq (invalidate_cap server)
       (ret \<lparr>res_okay = True,
             res_message = ''HGX firmware staged on '' @ target_key @ '' '' @ em_dash
               @ '' a host AC power cycle is required to activate the new image.'',
             res_version = JStr (fw_version fw)\<rparr>))))))))))"

definition update_hgx :: "(string \<Rightarrow> rat option) \<Rightarrow> (client_conf \<Rightarrow> 'w redfish) \<Rightarrow> server_info \<Rightarrow> firmware \<Rightarrow>
    credentials option \<Rightarrow> ('w, plugin_result) flow" where
  "update_hgx dw mk server fw creds = with_client mk server creds (\<lambda>rf. run_update_hgx (poll_task dw rf) rf server fw)"

section \<open>Storage inventory\<close>

definition drive_ref_uri :: "json \<Rightarrow> json" where
  "drive_ref_uri ref = (case ref of JObj kvs \<Rightarrow> the_default JNull (map_of kvs ''@odata.id'') | _ \<Rightarrow> JNull)"

fun read_drives :: "'w redfish \<Rightarrow> json list \<Rightarrow> ('w, rf_drive list) io" where
  "read_drives rf [] = ret []"
| "read_drives rf (ref # refs) =
     (if \<not> truthy (drive_ref_uri ref) then read_drives rf refs
      else bind (try_redfish (get_json_at rf (drive_ref_uri ref))) (\<lambda>r. case r of
        Inl _ \<Rightarrow> read_drives rf refs
      | Inr drv \<Rightarrow> bind (lift_py (drive_from_redfish_json drv)) (\<lambda>p.
          bind (read_drives rf refs) (\<lambda>ds. ret (case p of Some d \<Rightarrow> d # ds | None \<Rightarrow> ds)))))"

fun read_controllers :: "'w redfish \<Rightarrow> json list \<Rightarrow> ('w, rf_drive list) io" where
  "read_controllers rf [] = ret []"
| "read_controllers rf (ref # refs) =
     bind (try_redfish (bind (lift_py (jindex ref ''@odata.id'')) (get_json_at rf))) (\<lambda>r. case r of
       Inl _ \<Rightarrow> read_controllers rf refs
     | Inr ctrl \<Rightarrow> bind (lift_py (sub_list ctrl ''Drives'')) (\<lambda>drives.
         bind (read_drives rf drives) (\<lambda>ds. bind (read_controllers rf refs) (\<lambda>rest. ret (ds @ rest)))))"

definition storage_link :: "'w redfish \<Rightarrow> json \<Rightarrow> ('w, json) io" where
  "storage_link rf systems = bind (lift_py (first_member_uri systems)) (\<lambda>u. case u of
       None \<Rightarrow> ret JNull
     | Some sys_uri \<Rightarrow> bind (get_json_at rf sys_uri) (\<lambda>system.
         lift_py (bind_py (sub_obj system ''Storage'') (\<lambda>st. jget st ''@odata.id''))))"

definition read_storage :: "'w redfish \<Rightarrow> ('w, rf_drive list) io" where
  "read_storage rf =
     bind (try_redfish (get_json rf ''/redfish/v1/Systems'')) (\<lambda>r. case r of
       Inl _ \<Rightarrow> ret []
     | Inr systems \<Rightarrow> bind (storage_link rf systems) (\<lambda>link.
         if \<not> truthy link then ret [] else
         bind (try_redfish (get_json_at rf link)) (\<lambda>r2. case r2 of
           Inl _ \<Rightarrow> ret []
         | Inr coll \<Rightarrow> bind (lift_py (sub_list coll ''Members'')) (\<lambda>ctrls.
             bind (read_controllers rf ctrls) (\<lambda>raw. lift_py (label_drives raw))))))"

definition get_storage_inventory :: "(client_conf \<Rightarrow> 'w redfish) \<Rightarrow> string \<Rightarrow> credentials \<Rightarrow> ('w, rf_drive list) io" where
  "get_storage_inventory mk base creds = bind (lift_py (split_base base)) (\<lambda>(scheme, host, port).
     let rf = mk \<lparr>cc_host = host, cc_port = port, cc_scheme = scheme, cc_username = username creds,
                  cc_password = password creds, cc_tls = None\<rparr> in
     finally_do (read_storage rf) (rf_close rf))"

section \<open>Virtual media\<close>

fun media_loop :: "'w redfish \<Rightarrow> string \<Rightarrow> rat \<Rightarrow> nat \<Rightarrow> ('w, bool) io" where
  "media_loop rf uri deadline 0 = throw fuel_out"
| "media_loop rf uri deadline (Suc fuel) = bind (loop_time rf) (\<lambda>now.
     if deadline \<le> now then ret False else
     bind (try_redfish (bind (get_json rf uri) (\<lambda>st. lift_py (jget st ''Inserted'')))) (\<lambda>r. case r of
       Inr ins \<Rightarrow> if truthy ins then ret True
                  else seq (rf_sleep rf 2) (media_loop rf uri deadline fuel)
     | Inl _ \<Rightarrow> seq (rf_sleep rf 2) (media_loop rf uri deadline fuel)))"

definition wait_for_media_inserted :: "'w redfish \<Rightarrow> string \<Rightarrow> ('w, bool) io" where
  "wait_for_media_inserted rf uri = bind (loop_time rf) (\<lambda>now. media_loop rf uri (now + 60) 31)"

definition eject_action_of :: "vm_slot \<Rightarrow> json" where
  "eject_action_of s = or_else (vm_eject_action s) (JStr (vm_uri s @ ''/Actions/VirtualMedia.EjectMedia''))"

definition insert_action_of :: "vm_slot \<Rightarrow> json" where
  "insert_action_of s = or_else (vm_insert_action s) (JStr (vm_uri s @ ''/Actions/VirtualMedia.InsertMedia''))"

definition insert_body :: "string \<Rightarrow> json" where
  "insert_body url = JObj [(''Image'', JStr url), (''Inserted'', JBool True), (''WriteProtected'', JBool True)]"

definition quiet_redfish :: "('w, 'a) io \<Rightarrow> ('w, unit) io" where
  "quiet_redfish m = on_redfish (bind m (\<lambda>_. ret ())) (\<lambda>_. ret ())"

definition http_failed :: "string \<Rightarrow> post_result \<Rightarrow> plugin_result" where
  "http_failed what pr = failed (what @ '' HTTP '' @ int_str (pr_status pr))"

text \<open>Insert into an enumerated slot: a confirmation within 60 s is required.\<close>

definition insert_in_slot :: "'w redfish \<Rightarrow> vm_slot \<Rightarrow> string \<Rightarrow> ('w, plugin_result) io" where
  "insert_in_slot rf slot url =
     bind (try_redfish (post_json_at rf (insert_action_of slot) (insert_body url))) (\<lambda>r. case r of
       Inl e \<Rightarrow> ret (failed (exn_str e))
     | Inr resp \<Rightarrow>
         if 400 \<le> pr_status resp then ret (http_failed ''InsertMedia'' resp)
         else if vm_uri slot = [] then ret (succeeded ''ISO inserted'')
         else bind (wait_for_media_inserted rf (vm_uri slot)) (\<lambda>ok.
           ret (if ok then succeeded ''ISO inserted and attached''
                else failed (''ISO insert not confirmed in 60s '' @ em_dash @ '' aborting ''
                             @ ''before power-cycle to avoid booting local disk''))))"

text \<open>The path without an enumerated slot: \<open>Managers[0]/VirtualMedia/<slot>\<close>.\<close>

definition insert_legacy :: "hooks \<Rightarrow> 'w redfish \<Rightarrow> string \<Rightarrow> ('w, plugin_result) io" where
  "insert_legacy hk rf url = bind (first_manager_uri rf) (\<lambda>m.
     case m of None \<Rightarrow> ret (failed ''No Managers collection'') | Some mgr \<Rightarrow>
     if \<not> truthy mgr then ret (failed ''No Managers collection'') else
     let vm_base = json_str mgr @ ''/VirtualMedia/'' @ hk_vm_slot hk in
     seq (quiet_redfish (rf_post rf (vm_base @ ''/Actions/VirtualMedia.EjectMedia'') (JObj [])))
     (bind (rf_post rf (vm_base @ ''/Actions/VirtualMedia.InsertMedia'') (insert_body url)) (\<lambda>resp.
      if 400 \<le> pr_status resp then ret (http_failed ''InsertMedia'' resp)
      else bind (wait_for_media_inserted rf vm_base) (\<lambda>ok.
        ret (succeeded (if ok then ''ISO inserted and attached''
                        else ''ISO inserted (attach not confirmed in 60s)''))))))"

definition eject_occupied :: "'w redfish \<Rightarrow> cap option \<Rightarrow> ('w, unit) io" where
  "eject_occupied rf c = bind (lift_py (select_slot c ''CD'' (Some True))) (\<lambda>occ. case occ of
       Some s \<Rightarrow> quiet_redfish (post_json_at rf (eject_action_of s) (JObj []))
     | None \<Rightarrow> ret ())"

definition run_mount_iso :: "hooks \<Rightarrow> 'w redfish \<Rightarrow> server_info \<Rightarrow> string \<Rightarrow> ('w, plugin_result) flow" where
  "run_mount_iso hk rf server url =
     on_redfish (bind (capability_map rf server) (\<lambda>c. on_fst (
       seq (eject_occupied rf c)
       (bind (lift_py (select_slot c ''CD'' (Some False))) (\<lambda>slot. case slot of
          Some s \<Rightarrow> insert_in_slot rf s url
        | None \<Rightarrow> insert_legacy hk rf url)))))
     (\<lambda>e. ret (failed (exn_str e)))"

definition mount_iso :: "hooks \<Rightarrow> (client_conf \<Rightarrow> 'w redfish) \<Rightarrow> server_info \<Rightarrow> string \<Rightarrow> credentials option \<Rightarrow>
    ('w, plugin_result) flow" where
  "mount_iso hk mk server url creds = with_client mk server creds (\<lambda>rf. run_mount_iso hk rf server url)"

text \<open>An eject is idempotent: HTTP 400 and 404 mean there was no media.\<close>

definition eject_via :: "('w, post_result) io \<Rightarrow> ('w, plugin_result) io" where
  "eject_via m = on_redfish (bind m (\<lambda>_. ret (succeeded ''ejected''))) (\<lambda>e.
     ret (if http_status e \<in> {400, 404} then succeeded ''no media to eject'' else failed (exn_str e)))"

definition run_eject_iso :: "hooks \<Rightarrow> 'w redfish \<Rightarrow> server_info \<Rightarrow> ('w, plugin_result) flow" where
  "run_eject_iso hk rf server = bind (capability_map rf server) (\<lambda>c. on_fst (
     bind (lift_py (select_slot c ''CD'' (Some True))) (\<lambda>slot. case slot of
       Some s \<Rightarrow> eject_via (post_json_at rf (eject_action_of s) (JObj []))
     | None \<Rightarrow> bind (first_manager_uri rf) (\<lambda>m. case m of None \<Rightarrow> ret (failed ''No Managers collection'')
         | Some mgr \<Rightarrow> if \<not> truthy mgr then ret (failed ''No Managers collection'')
             else eject_via (rf_post rf (json_str mgr @ ''/VirtualMedia/'' @ hk_vm_slot hk
                    @ ''/Actions/VirtualMedia.EjectMedia'') (JObj []))))))"

definition eject_iso :: "hooks \<Rightarrow> (client_conf \<Rightarrow> 'w redfish) \<Rightarrow> server_info \<Rightarrow> credentials option \<Rightarrow>
    ('w, plugin_result) flow" where
  "eject_iso hk mk server creds = with_client mk server creds (\<lambda>rf. run_eject_iso hk rf server)"

section \<open>Boot override and power\<close>

definition boot_props :: "string \<Rightarrow> json" where
  "boot_props target = JObj [(''BootSourceOverrideEnabled'', JStr ''Once''),
     (''BootSourceOverrideTarget'', JStr target), (''BootSourceOverrideMode'', JStr ''UEFI'')]"

definition boot_body :: "cap option \<Rightarrow> json \<Rightarrow> string \<Rightarrow> json" where
  "boot_body c patch_path target =
     (case (case c of Some m \<Rightarrow> nonempty (cap_system_uri m) | None \<Rightarrow> None) of
        Some u \<Rightarrow> if patch_path \<noteq> JStr u then boot_props target else JObj [(''Boot'', boot_props target)]
      | None \<Rightarrow> JObj [(''Boot'', boot_props target)])"

definition run_set_boot_once :: "'w redfish \<Rightarrow> server_info \<Rightarrow> string \<Rightarrow> ('w, plugin_result) flow" where
  "run_set_boot_once rf server target =
     on_redfish (bind (capability_map rf server) (\<lambda>c. on_fst (
       bind (case c of
           Some m \<Rightarrow> if truthy (cap_system_boot_patch_uri m) then ret (Some (cap_system_boot_patch_uri m))
                     else bind (get_json rf ''/redfish/v1/Systems'') (\<lambda>s. lift_py (first_member_uri s))
         | None \<Rightarrow> bind (get_json rf ''/redfish/v1/Systems'') (\<lambda>s. lift_py (first_member_uri s)))
       (\<lambda>path. case path of None \<Rightarrow> ret (failed ''No Systems collection'') | Some patch_path \<Rightarrow>
         bind (patch_json_at rf patch_path (boot_body c patch_path target)) (\<lambda>resp.
         ret (if 400 \<le> pr_status resp then http_failed ''PATCH boot'' resp
              else succeeded (''boot-once = '' @ target)))))))
     (\<lambda>e. ret (failed (exn_str e)))"

definition set_boot_once :: "(client_conf \<Rightarrow> 'w redfish) \<Rightarrow> server_info \<Rightarrow> string \<Rightarrow> credentials option \<Rightarrow>
    ('w, plugin_result) flow" where
  "set_boot_once mk server target creds = with_client mk server creds (\<lambda>rf. run_set_boot_once rf server target)"

definition reset_action_uri :: "json \<Rightarrow> json" where
  "reset_action_uri sys_uri = JStr (json_str sys_uri @ ''/Actions/ComputerSystem.Reset'')"

definition cap_reset_target :: "cap option \<Rightarrow> json" where
  "cap_reset_target c = (case c of Some m \<Rightarrow> cap_system_reset_target m | None \<Rightarrow> JNull)"

definition run_power_cycle :: "'w redfish \<Rightarrow> server_info \<Rightarrow> ('w, plugin_result) flow" where
  "run_power_cycle rf server =
     on_redfish (bind (capability_map rf server) (\<lambda>c. on_fst (
       bind (if truthy (cap_reset_target c) then ret (Some (cap_reset_target c))
             else bind (get_json rf ''/redfish/v1/Systems'') (\<lambda>s.
                  bind (lift_py (first_member_uri s)) (\<lambda>u. ret (map_option reset_action_uri u))))
       (\<lambda>target. case target of None \<Rightarrow> ret (failed ''No Systems collection'') | Some t \<Rightarrow>
         bind (post_json_at rf t (reset_body (choose_reset_type c power_cycle_priority ''ForceRestart''))) (\<lambda>resp.
         ret (if 400 \<le> pr_status resp then http_failed ''Reset'' resp
              else succeeded ''power-cycle issued''))))))
     (\<lambda>e. ret (failed (exn_str e)))"

definition power_cycle :: "(client_conf \<Rightarrow> 'w redfish) \<Rightarrow> server_info \<Rightarrow> credentials option \<Rightarrow>
    ('w, plugin_result) flow" where
  "power_cycle mk server creds = with_client mk server creds (\<lambda>rf. run_power_cycle rf server)"

definition run_power_action :: "'w redfish \<Rightarrow> server_info \<Rightarrow> string list \<Rightarrow> string \<Rightarrow> ('w, plugin_result) flow" where
  "run_power_action rf server ps fb =
     on_redfish (bind (capability_map rf server) (\<lambda>c. on_fst (
       bind (if truthy (cap_reset_target c) then ret (Some (cap_reset_target c))
             else bind (first_system_uri rf) (\<lambda>u. ret (case u of
                 Some v \<Rightarrow> if truthy v then Some (reset_action_uri v) else None | None \<Rightarrow> None)))
       (\<lambda>target. case target of None \<Rightarrow> ret (failed ''No Systems collection'') | Some t \<Rightarrow>
         let reset_type = choose_reset_type c ps fb in
         bind (post_json_at rf t (reset_body reset_type)) (\<lambda>resp.
         ret (if 400 \<le> pr_status resp then http_failed ''Reset'' resp
              else succeeded (reset_type @ '' issued'')))))))
     (\<lambda>e. ret (failed (exn_str e)))"

definition power_action :: "(client_conf \<Rightarrow> 'w redfish) \<Rightarrow> server_info \<Rightarrow> string \<Rightarrow> credentials option \<Rightarrow>
    ('w, plugin_result) flow" where
  "power_action mk server action creds = (case map_of power_action_resettypes (lower (strip action)) of
       None \<Rightarrow> ret (failed (''unknown power action '' @ quoted action))
     | Some (ps, fb) \<Rightarrow> with_client mk server creds (\<lambda>rf. run_power_action rf server ps fb))"

definition run_get_power_state :: "'w redfish \<Rightarrow> server_info \<Rightarrow> ('w, json) flow" where
  "run_get_power_state rf server =
     on_redfish (bind (capability_map rf server) (\<lambda>c. on_fst (
       bind (case (case c of Some m \<Rightarrow> nonempty (cap_system_uri m) | None \<Rightarrow> None) of
               Some u \<Rightarrow> ret (JStr u)
             | None \<Rightarrow> bind (first_system_uri rf) (\<lambda>u. ret (the_default JNull u)))
       (\<lambda>u. if \<not> truthy u then ret JNull
            else bind (get_json_at rf u) (\<lambda>s. lift_py (jget s ''PowerState''))))))
     (\<lambda>_. ret JNull)"

definition get_power_state :: "(client_conf \<Rightarrow> 'w redfish) \<Rightarrow> server_info \<Rightarrow> credentials option \<Rightarrow>
    ('w, json) flow" where
  "get_power_state mk server creds = with_client mk server creds (\<lambda>rf. run_get_power_state rf server)"

section \<open>Identity (discover)\<close>

text \<open>A \<open>ServerInfo\<close> as the discovery fills it: the fields copied out of the BMC's documents are
  whatever JSON value the BMC sent.\<close>

record rf_server =
  rs_ip :: string
  rs_hostname :: json
  rs_manufacturer :: json
  rs_oem :: "string option"
  rs_model :: json
  rs_serial :: json
  rs_bmc_version :: json
  rs_bios_version :: json
  rs_power_state :: json
  rs_redfish_root :: string

definition base_url_of :: "client_conf \<Rightarrow> string" where
  "base_url_of conf = cc_scheme conf @ ''://'' @ cc_host conf @ '':'' @ int_str (cc_port conf)"

definition normalize_oem_json :: "json \<Rightarrow> string option py" where
  "normalize_oem_json m = (if \<not> truthy m then Inr None
     else bind_py (as_str ''strip'' m) (\<lambda>s. Inr (normalize_oem (Some s))))"

text \<open>\<open>members[0].get('@odata.id') if members else None\<close>.\<close>

definition first_member_link :: "json \<Rightarrow> json py" where
  "first_member_link coll = bind_py (jget coll ''Members'') (\<lambda>m. let members = or_else m (JArr []) in
     if truthy members then bind_py (jhead members) (\<lambda>m0. jget m0 ''@odata.id'') else Inr JNull)"

definition read_bmc_version :: "'w redfish \<Rightarrow> ('w, json) io" where
  "read_bmc_version rf = on_redfish
     (bind (get_json rf ''/redfish/v1/Managers'') (\<lambda>managers.
      bind (lift_py (first_member_link managers)) (\<lambda>mgr_uri.
      if truthy mgr_uri
      then bind (get_json_at rf mgr_uri) (\<lambda>manager. lift_py (jget manager ''FirmwareVersion''))
      else ret JNull)))
     (\<lambda>_. ret JNull)"

definition read_identity :: "'w redfish \<Rightarrow> client_conf \<Rightarrow> ('w, rf_server) io" where
  "read_identity rf conf =
     bind (on_redfish (get_json rf ''/redfish/v1/'') (\<lambda>e.
             throw (Exn Exn_Runtime (''Redfish ServiceRoot unavailable: '' @ exn_str e)))) (\<lambda>root.
     bind (lift_py (jget root ''Vendor'')) (\<lambda>vendor.
     bind (if truthy vendor then ret vendor else bind (lift_py (first_oem_key root)) (\<lambda>k. ret (jopt k))) (\<lambda>hint.
     bind (get_json rf ''/redfish/v1/Systems'') (\<lambda>systems.
     bind (lift_py (first_member_link systems)) (\<lambda>system_uri.
     if \<not> truthy system_uri
     then throw (Exn Exn_Runtime ''No usable Systems collection member at Redfish endpoint'') else
     bind (get_json_at rf system_uri) (\<lambda>system.
     bind (read_bmc_version rf) (\<lambda>bmc_version.
     bind (lift_py (jget system ''Manufacturer'')) (\<lambda>m. let manufacturer = or_else m hint in
     bind (lift_py (jget system ''HostName'')) (\<lambda>hn.
     bind (lift_py (if truthy hn then Inr hn else jget system ''Name'')) (\<lambda>hostname.
     bind (lift_py (normalize_oem_json manufacturer)) (\<lambda>oem.
     bind (lift_py (jget system ''Model'')) (\<lambda>model.
     bind (lift_py (jget system ''SerialNumber'')) (\<lambda>serial.
     bind (lift_py (jget system ''BiosVersion'')) (\<lambda>bios.
     bind (lift_py (jget_or system ''PowerState'' (JStr ''Unknown''))) (\<lambda>power.
     ret \<lparr>rs_ip = cc_host conf, rs_hostname = hostname, rs_manufacturer = manufacturer, rs_oem = oem,
          rs_model = model, rs_serial = serial, rs_bmc_version = bmc_version, rs_bios_version = bios,
          rs_power_state = power, rs_redfish_root = base_url_of conf @ ''/redfish/v1/''\<rparr>)))))))))))))))"

definition plugin_discover :: "(client_conf \<Rightarrow> 'w redfish) \<Rightarrow> string \<Rightarrow> credentials \<Rightarrow> ('w, rf_server) io" where
  "plugin_discover mk base creds = bind (lift_py (split_base base)) (\<lambda>(scheme, host, port).
     let conf = \<lparr>cc_host = host, cc_port = port, cc_scheme = scheme, cc_username = username creds,
                 cc_password = password creds, cc_tls = None\<rparr> in
     finally_do (read_identity (mk conf) conf) (rf_close (mk conf)))"

section \<open>The clock\<close>

text \<open>What the polling loops rely on: requests do not turn the clock back, a completed
  \<open>asyncio.sleep(t)\<close> moves it by at least \<open>t\<close>, and neither raises the model's fuel marker.\<close>

definition advances :: "'w redfish \<Rightarrow> rat \<Rightarrow> ('w, 'a) io \<Rightarrow> bool" where
  "advances rf t m = (\<forall>w. case m w of
       (Inr _, w') \<Rightarrow> rf_time rf w + t \<le> rf_time rf w'
     | (Inl e, w') \<Rightarrow> exn_class e \<noteq> Exn_Fuel \<and> rf_time rf w \<le> rf_time rf w')"

definition clock_ok :: "'w redfish \<Rightarrow> bool" where
  "clock_ok rf = ((\<forall>p. advances rf 0 (rf_get rf p)) \<and> (\<forall>t \<ge> 0. advances rf t (rf_sleep rf t)))"

lemma advances_Inr: "advances rf t m \<Longrightarrow> m w = (Inr x, w') \<Longrightarrow> rf_time rf w + t \<le> rf_time rf w'"
  unfolding advances_def by (drule spec [of _ w]) simp

lemma advances_Inl:
  "advances rf t m \<Longrightarrow> m w = (Inl e, w') \<Longrightarrow> exn_class e \<noteq> Exn_Fuel \<and> rf_time rf w \<le> rf_time rf w'"
  unfolding advances_def by (drule spec [of _ w]) simp

lemma clock_get: "clock_ok rf \<Longrightarrow> advances rf 0 (rf_get rf p)"
  by (simp add: clock_ok_def)

lemma clock_sleep: "clock_ok rf \<Longrightarrow> 0 \<le> t \<Longrightarrow> advances rf t (rf_sleep rf t)"
  by (simp add: clock_ok_def)

lemma clock_get_le: "clock_ok rf \<Longrightarrow> rf_get rf p w = (r, w') \<Longrightarrow> rf_time rf w \<le> rf_time rf w'"
  using advances_Inr [OF clock_get, of rf p w] advances_Inl [OF clock_get, of rf p w] by (cases r) auto

lemma json_error_no_fuel: "json_error e \<Longrightarrow> exn_class e \<noteq> Exn_Fuel"
  by (auto simp: json_error_def)

lemma py_raises_scaled [io_raises]: "py_raises json_error (scaled lo p width)"
proof -
  have "py_raises json_error (int_div_float a 100)" for a
    by (simp add: int_div_float_def split: pyfloat.split)
  moreover have "py_raises json_error (int_of_float f)" for f
    by (simp add: int_of_float_def split: pyfloat.split)
  ultimately show ?thesis unfolding scaled_def by (intro io_raises)
qed

lemma percent_of_raises [io_raises]: "py_raises json_error (percent_of task)"
  unfolding percent_of_def by (intro io_raises)

lemma poll_verdict_raises [io_raises]: "py_raises json_error (poll_verdict task)"
  unfolding poll_verdict_def task_failure_def Let_def by (auto intro!: io_raises)

lemma py_raisesD: "py_raises Q r \<Longrightarrow> r = Inl e \<Longrightarrow> Q e"
  by (simp add: py_raises_def)

section \<open>The polling loop\<close>

lemma report_task_Inl: "report_task lo width lastp task ws = (Inl e, ws') \<Longrightarrow> json_error e"
proof -
  have "raises_only json_error (progress st p)" for st p
    by (simp add: progress_def raises_only_on_snd)
  then have "raises_only json_error (report_task lo width lastp task)"
    unfolding report_task_def by (intro io_raises) auto
  then show "report_task lo width lastp task ws = (Inl e, ws') \<Longrightarrow> json_error e"
    by (rule raises_onlyD)
qed

lemma report_task_Inr:
  "report_task lo width lastp task (w, s) = (Inr (l, v), ws') \<Longrightarrow> (\<exists>s'. ws' = (w, s')) \<and> poll_verdict task = Inr v"
  by (auto simp: report_task_def bind_run seq_run lift_run ret_run progress_def on_snd_def
      split: sum.splits if_splits prod.splits)

text \<open>One round of the loop ends the poll, or sleeps at least a second and goes on.\<close>

lemma poll_loop_round:
  fixes rf :: "'w redfish"
  assumes "poll_loop dw rf uri lo width deadline (Suc fuel) errs lastp (w, s) = (r, ws')"
  shows "(deadline \<le> rf_time rf w \<and> r = Inr (False, ''flash did not finish within 30 min'')) \<or>
    (\<exists>e w1. rf_get rf uri w = (Inl e, w1) \<and> \<not> is_redfish e \<and> r = Inl e) \<or>
    (\<exists>e w1. rf_get rf uri w = (Inl e, w1) \<and> is_redfish e \<and> max_poll_errors \<le> Suc errs \<and>
       r = Inr (False, unreachable_msg e)) \<or>
    (\<exists>task h w1 e. rf_get rf uri w = (Inr (task, h), w1) \<and> json_error e \<and> r = Inl e) \<or>
    (\<exists>task h w1 v. rf_get rf uri w = (Inr (task, h), w1) \<and> poll_verdict task = Inr (Some v) \<and> r = Inr v) \<or>
    (\<exists>g w1 t q w2 errs' lastp' s'. rf_get rf uri w = (g, w1) \<and> 1 \<le> t \<and> rf_sleep rf t w1 = (q, w2) \<and>
       (case q of Inl e \<Rightarrow> r = Inl e
        | Inr _ \<Rightarrow> poll_loop dw rf uri lo width deadline fuel errs' lastp' (w2, s') = (r, ws')))"
proof (cases "deadline \<le> rf_time rf w")
  case True
  then show ?thesis using assms by (simp add: io_run on_fst_def loop_time_def)
next
  case time: False
  obtain g w1 where g: "rf_get rf uri w = (g, w1)" by (metis surj_pair)
  show ?thesis
  proof (cases g)
    case (Inl e)
    obtain q w2 where q: "rf_sleep rf (min (poll_interval * 2) 60) w1 = (q, w2)" by (metis surj_pair)
    have t: "1 \<le> min (poll_interval * 2) 60" by (simp add: poll_interval_def)
    consider (raise) "\<not> is_redfish e" | (dead) "is_redfish e" "max_poll_errors \<le> Suc errs"
      | (retry) "is_redfish e" "\<not> max_poll_errors \<le> Suc errs" by blast
    then show ?thesis
    proof cases
      case raise
      then have "r = Inl e"
        using assms time g Inl by (simp add: io_run on_fst_def loop_time_def try_redfish_def attempt_def)
      then show ?thesis using g Inl raise by blast
    next
      case dead
      then have "r = Inr (False, unreachable_msg e)"
        using assms time g Inl by (simp add: io_run on_fst_def loop_time_def try_redfish_def attempt_def)
      then show ?thesis using g Inl dead by blast
    next
      case retry
      then have "case q of Inl e \<Rightarrow> r = Inl e
          | Inr _ \<Rightarrow> poll_loop dw rf uri lo width deadline fuel (Suc errs) lastp (w2, s) = (r, ws')"
        using assms time g Inl q
        by (simp add: io_run on_fst_def loop_time_def try_redfish_def attempt_def split: sum.splits)
      then show ?thesis using g q t by blast
    qed
  next
    case (Inr th)
    obtain task h where th: "th = (task, h)" by (cases th)
    note run = assms time g \<open>g = Inr th\<close> th
    obtain rep ws2 where rep: "report_task lo width lastp task (w1, s) = (rep, ws2)" by (metis surj_pair)
    show ?thesis
    proof (cases rep)
      case (Inl e)
      then have "r = Inl e"
        using run rep by (simp add: io_run on_fst_def loop_time_def try_redfish_def attempt_def)
      then show ?thesis using g \<open>g = Inr th\<close> th report_task_Inl [OF rep [unfolded Inl]] by blast
    next
      case (Inr lv)
      obtain lastp' v where lv: "lv = (lastp', v)" by (cases lv)
      obtain s2 where s2: "ws2 = (w1, s2)" and v: "poll_verdict task = Inr v"
        using report_task_Inr [OF rep [unfolded Inr lv]] by blast
      show ?thesis
      proof (cases v)
        case (Some verdict)
        then have "r = Inr verdict"
          using run rep Inr lv by (simp add: io_run on_fst_def loop_time_def try_redfish_def attempt_def)
        then show ?thesis using g \<open>g = Inr th\<close> th v Some by blast
      next
        case None
        obtain q w2 where q: "rf_sleep rf (max 1 (min (poll_wait dw h) 60)) w1 = (q, w2)"
          by (metis surj_pair)
        have "case q of Inl e \<Rightarrow> r = Inl e
            | Inr _ \<Rightarrow> poll_loop dw rf uri lo width deadline fuel 0 lastp' (w2, s2) = (r, ws')"
          using run rep Inr lv None s2 q
          by (simp add: io_run on_fst_def loop_time_def try_redfish_def attempt_def split: sum.splits)
        moreover have "1 \<le> max 1 (min (poll_wait dw h) 60)" by simp
        ultimately show ?thesis using g q by blast
      qed
    qed
  qed
qed

lemma poll_loop_no_fuel:
  assumes "clock_ok rf"
  shows "deadline - rf_time rf w \<le> of_nat fuel \<Longrightarrow>
    poll_loop dw rf uri lo width deadline (Suc fuel) errs lastp (w, s) = (Inl e, ws') \<Longrightarrow> exn_class e \<noteq> Exn_Fuel"
proof (induction fuel arbitrary: w s errs lastp)
  case 0
  then show ?case by (simp add: io_run on_fst_def loop_time_def)
next
  case (Suc fuel)
  from poll_loop_round [OF Suc.prems(2)] show ?case
  proof (elim disjE exE conjE)
    fix g w1 t q w2 errs' lastp' s'
    assume *: "rf_get rf uri w = (g, w1)" "1 \<le> t" "rf_sleep rf t w1 = (q, w2)"
      "case q of Inl e' \<Rightarrow> Inl e = Inl e'
       | Inr _ \<Rightarrow> poll_loop dw rf uri lo width deadline (Suc fuel) errs' lastp' (w2, s') = (Inl e, ws')"
    have t: "0 \<le> t" using *(2) by simp
    show ?thesis
    proof (cases q)
      case (Inl e')
      then show ?thesis using * advances_Inl [OF clock_sleep [OF assms t], of w1 e' w2] by simp
    next
      case (Inr u)
      have "rf_time rf w \<le> rf_time rf w1" using clock_get_le [OF assms *(1)] .
      moreover have "rf_time rf w1 + t \<le> rf_time rf w2"
        using advances_Inr [OF clock_sleep [OF assms t], of w1 u w2] * Inr by simp
      ultimately have "deadline - rf_time rf w2 \<le> of_nat fuel" using Suc.prems(1) *(2) by simp
      moreover have "poll_loop dw rf uri lo width deadline (Suc fuel) errs' lastp' (w2, s') = (Inl e, ws')"
        using *(4) Inr by simp
      ultimately show ?thesis by (rule Suc.IH)
    qed
  qed (auto dest: json_error_no_fuel advances_Inl [OF clock_get [OF assms]])
qed

lemma poll_loop_completed:
  "poll_loop dw rf uri lo width deadline fuel errs lastp (w, s) = (Inr (True, msg), ws') \<Longrightarrow>
     \<exists>w1 w2 task h. rf_get rf uri w1 = (Inr (task, h), w2) \<and>
       jget_or task ''TaskState'' (JStr ''Running'') = Inr (JStr ''Completed'')"
proof (induction fuel arbitrary: w s errs lastp)
  case 0
  then show ?case by (simp add: throw_run)
next
  case (Suc fuel)
  have fin: "poll_verdict task = Inr (Some (True, msg)) \<Longrightarrow>
      jget_or task ''TaskState'' (JStr ''Running'') = Inr (JStr ''Completed'')" for task
    by (auto simp: poll_verdict_def bind_py_Inr split: if_splits)
  from poll_loop_round [OF Suc.prems] show ?case
  proof (elim disjE exE conjE)
    fix g w1 t q w2 errs' lastp' s'
    assume "case q of Inl e' \<Rightarrow> Inr (True, msg) = Inl e'
       | Inr _ \<Rightarrow> poll_loop dw rf uri lo width deadline fuel errs' lastp' (w2, s') = (Inr (True, msg), ws')"
    then show ?thesis using Suc.IH by (simp split: sum.splits)
  qed (auto dest: fin)
qed

section \<open>Properties\<close>

text \<open>Property C20. A task poll always ends: while the clock advances (requests do not turn it
  back, a sleep of \<open>t\<close> seconds takes at least \<open>t\<close>), polling any task URI of any BMC ends with a
  verdict or with an exception of the BMC's answers, within 1801 rounds; it never runs for
  ever.\<close>

theorem poll_task_terminates:
  assumes "clock_ok rf" "poll_task dw rf uri lo hi (w, s) = (Inl e, ws')"
  shows "exn_class e \<noteq> Exn_Fuel"
proof -
  have "uri \<noteq> []" using assms(2) by (auto simp: poll_task_def ret_run)
  then have "poll_loop dw rf uri lo (max 0 (hi - lo)) (rf_time rf w + flash_poll_ceiling) (Suc 1800) 0 (- 1) (w, s)
      = (Inl e, ws')"
    using assms(2) by (simp add: poll_task_def poll_fuel_def io_run on_fst_def loop_time_def del: poll_loop.simps)
  then show ?thesis
    by (rule poll_loop_no_fuel [OF assms(1), rotated]) (simp add: flash_poll_ceiling_def)
qed

lemma static_clock: "clock_ok (static_bmc tree)"
  by (auto simp: clock_ok_def advances_def static_bmc_def tree_get_def ret_run throw_run split: option.splits)

lemma poll_bad_task:
  "poll_task dw (static_bmc [(''/t'', JArr [])]) ''/t'' 30 85 (0, \<lparr>ps_cache = [], ps_progress = []\<rparr>) =
     (Inl (no_attr (JArr []) ''get''), (0, \<lparr>ps_cache = [], ps_progress = []\<rparr>))"
  by (simp add: poll_task_def poll_fuel_def numeral_eq_Suc io_run on_fst_def loop_time_def try_redfish_def
      attempt_def static_bmc_def tree_get_def report_task_def percent_of_def flash_poll_ceiling_def
      cong: io_weak)

theorem poll_task_terminates_witness: "exn_class (no_attr (JArr []) ''get'') \<noteq> Exn_Fuel"
  by (rule poll_task_terminates [OF static_clock poll_bad_task])

text \<open>Property C21. A flash is reported successful by the poll only on the BMC's word: a true
  verdict for a task URI implies that the BMC answered one of the polls of that URI with
  \<open>TaskState\<close> Completed.\<close>

theorem poll_task_completed:
  assumes "poll_task dw rf uri lo hi (w, s) = (Inr (True, msg), ws')" "uri \<noteq> []"
  shows "\<exists>w1 w2 task h. rf_get rf uri w1 = (Inr (task, h), w2) \<and>
    jget_or task ''TaskState'' (JStr ''Running'') = Inr (JStr ''Completed'')"
proof -
  have "poll_loop dw rf uri lo (max 0 (hi - lo)) (rf_time rf w + flash_poll_ceiling) poll_fuel 0 (- 1) (w, s)
      = (Inr (True, msg), ws')"
    using assms by (simp add: poll_task_def io_run on_fst_def loop_time_def del: poll_loop.simps)
  then show ?thesis by (rule poll_loop_completed)
qed

definition done_task :: json where
  "done_task = JObj [(''TaskState'', JStr ''Completed''), (''PercentComplete'', JInt 100)]"

lemma poll_done_task:
  "poll_task dw (static_bmc [(''/t'', done_task)]) ''/t'' 30 85 (0, \<lparr>ps_cache = [], ps_progress = []\<rparr>) =
     (Inr (True, ''completed''), (0, \<lparr>ps_cache = [], ps_progress = [(''flashing'', 85)]\<rparr>))"
proof -
  have "scaled 30 100 55 = Inr 85" by code_simp
  then show ?thesis
    by (simp add: poll_task_def poll_fuel_def numeral_eq_Suc [of "num.One"] eval_nat_numeral io_run on_fst_def
        loop_time_def try_redfish_def attempt_def static_bmc_def tree_get_def report_task_def percent_of_def flash_poll_ceiling_def
        done_task_def poll_verdict_def terminal_states_def progress_def on_snd_def cong: io_weak)
qed

theorem poll_task_completed_witness:
  "\<exists>w1 w2 task h. rf_get (static_bmc [(''/t'', done_task)]) ''/t'' w1 = (Inr (task, h), w2) \<and>
    jget_or task ''TaskState'' (JStr ''Running'') = Inr (JStr ''Completed'')"
  by (rule poll_task_completed [OF poll_done_task]) simp

end
