(* ===== verification/Plugin_Safety.thy ===== *)
theory Plugin_Safety
  imports Plugin_Flows
begin

text \<open>
  What the flows of the generic plugin guarantee against any BMC: the waiting loops end, a
  flash is refused when no active bank is known, a mount reported as attached was confirmed
  by the BMC, and which failures a storage inventory lets through.
\<close>

section \<open>Computations that keep the clock\<close>

lemma advances_ret: "advances rf 0 (ret x)"
  by (simp add: advances_def ret_run)

lemma advances_lift: "py_raises json_error r \<Longrightarrow> advances rf 0 (lift_py r)"
  by (auto simp: advances_def lift_run py_raises_def json_error_no_fuel split: sum.split)

lemma advances_bind:
  assumes "advances rf 0 m" "\<And>x. advances rf 0 (f x)"
  shows "advances rf 0 (bind m f)"
  unfolding advances_def
proof
  fix w
  obtain r w1 where m: "m w = (r, w1)" by (metis surj_pair)
  show "case bind m f w of (Inr _, w') \<Rightarrow> rf_time rf w + 0 \<le> rf_time rf w'
     | (Inl e, w') \<Rightarrow> exn_class e \<noteq> Exn_Fuel \<and> rf_time rf w \<le> rf_time rf w'"
  proof (cases r)
    case (Inl e)
    then show ?thesis using advances_Inl [OF assms(1), of w e w1] m by (simp add: bind_run)
  next
    case (Inr x)
    obtain r' w2 where f: "f x w1 = (r', w2)" by (metis surj_pair)
    have "rf_time rf w \<le> rf_time rf w1" using advances_Inr [OF assms(1), of w x w1] m Inr by simp
    then show ?thesis
      using m Inr f advances_Inl [OF assms(2), of x w1 _ w2] advances_Inr [OF assms(2), of x w1 _ w2]
      by (cases r') (auto simp: bind_run)
  qed
qed

lemma advances_try: "advances rf 0 m \<Longrightarrow> advances rf 0 (try_redfish m)"
  unfolding advances_def
proof
  fix w
  assume a: "\<forall>w. case m w of (Inr _, w') \<Rightarrow> rf_time rf w + 0 \<le> rf_time rf w'
     | (Inl e, w') \<Rightarrow> exn_class e \<noteq> Exn_Fuel \<and> rf_time rf w \<le> rf_time rf w'"
  obtain r w1 where m: "m w = (r, w1)" by (metis surj_pair)
  show "case try_redfish m w of (Inr _, w') \<Rightarrow> rf_time rf w + 0 \<le> rf_time rf w'
     | (Inl e, w') \<Rightarrow> exn_class e \<noteq> Exn_Fuel \<and> rf_time rf w \<le> rf_time rf w'"
    using spec [OF a, of w] m by (cases r) (auto simp: try_redfish_def attempt_def)
qed

lemma advances_get_json: "clock_ok rf \<Longrightarrow> advances rf 0 (get_json rf p)"
  unfolding get_json_def by (intro advances_bind clock_get) (auto simp: advances_ret split: prod.split)

lemma advances_probe_all: "clock_ok rf \<Longrightarrow> advances rf 0 (probe_all rf ps)"
  by (induction ps) (auto intro!: advances_bind advances_try advances_get_json advances_ret split: sum.split)

text \<open>A round that sleeps \<open>t\<close> seconds and goes on with a computation that has enough fuel from
  any later moment.\<close>

lemma sleep_then:
  assumes "clock_ok rf" "0 \<le> t" "seq (rf_sleep rf t) m w = (Inl e, w')"
    and "\<And>v. rf_time rf w + t \<le> rf_time rf v \<Longrightarrow> m v = (Inl e, w') \<Longrightarrow> exn_class e \<noteq> Exn_Fuel"
  shows "exn_class e \<noteq> Exn_Fuel"
proof -
  obtain q w2 where q: "rf_sleep rf t w = (q, w2)" by (metis surj_pair)
  show ?thesis
  proof (cases q)
    case (Inl e')
    then show ?thesis using assms(3) q advances_Inl [OF clock_sleep [OF assms(1,2)], of w e' w2] by (simp add: seq_run)
  next
    case (Inr u)
    then show ?thesis
      using assms(3) q advances_Inr [OF clock_sleep [OF assms(1,2)], of w u w2] by (intro assms(4) [of w2]) (simp_all add: seq_run)
  qed
qed

lemma loop_time_run: "loop_time rf w = (Inr (rf_time rf w), w)"
  by (simp add: loop_time_def)

declare media_loop.simps [simp del] stability_loop.simps [simp del]

lemma media_loop_no_fuel:
  assumes "clock_ok rf"
  shows "deadline - rf_time rf w \<le> 2 * of_nat fuel \<Longrightarrow>
    media_loop rf uri deadline (Suc fuel) w = (Inl e, w') \<Longrightarrow> exn_class e \<noteq> Exn_Fuel"
proof (induction fuel arbitrary: w)
  case 0
  then show ?case by (simp add: io_run loop_time_def media_loop.simps)
next
  case (Suc fuel)
  let ?p = "try_redfish (bind (get_json rf uri) (\<lambda>st. lift_py (jget st ''Inserted'')))"
  have adv: "advances rf 0 ?p"
    using assms by (intro advances_try advances_bind advances_get_json advances_lift jget_raises)
  obtain g w1 where g: "?p w = (g, w1)" by (metis surj_pair)
  have again: "exn_class e \<noteq> Exn_Fuel" if "rf_time rf w \<le> rf_time rf w1"
    "seq (rf_sleep rf 2) (media_loop rf uri deadline (Suc fuel)) w1 = (Inl e, w')"
  proof (rule sleep_then [OF assms _ that(2)])
    fix v assume v: "rf_time rf w1 + 2 \<le> rf_time rf v" "media_loop rf uri deadline (Suc fuel) v = (Inl e, w')"
    have "deadline - rf_time rf v \<le> 2 * of_nat fuel" using Suc.prems(1) that(1) v(1) by simp
    then show "exn_class e \<noteq> Exn_Fuel" using v(2) by (rule Suc.IH)
  qed simp
  note run = Suc.prems(2) [unfolded media_loop.simps(2) [of _ _ _ "Suc fuel"]]
  have later: "deadline > rf_time rf w"
    using run by (auto simp: bind_run loop_time_def ret_run split: if_splits)
  show ?case
  proof (cases g)
    case (Inl e')
    then show ?thesis using run g later advances_Inl [OF adv, of w e' w1]
      by (simp add: bind_run loop_time_def)
  next
    case (Inr x)
    have le: "rf_time rf w \<le> rf_time rf w1" using advances_Inr [OF adv, of w x w1] g Inr by simp
    from run g later Inr
    have "(case x of Inr ins \<Rightarrow> if truthy ins then ret True
                  else seq (rf_sleep rf 2) (media_loop rf uri deadline (Suc fuel))
     | Inl _ \<Rightarrow> seq (rf_sleep rf 2) (media_loop rf uri deadline (Suc fuel))) w1 = (Inl e, w')"
      by (simp add: bind_run loop_time_run)
    then show ?thesis using again [OF le] by (cases x) (simp_all add: ret_run split: if_splits)
  qed
qed

lemma stability_loop_no_fuel:
  assumes "clock_ok rf" "0 \<le> gap"
  shows "deadline - rf_time rf w \<le> gap * of_nat fuel \<Longrightarrow>
    stability_loop rf probes need gap deadline (Suc fuel) streak w = (Inl e, w') \<Longrightarrow> exn_class e \<noteq> Exn_Fuel"
proof (induction fuel arbitrary: w streak)
  case 0
  then show ?case by (simp add: io_run loop_time_def stability_loop.simps)
next
  case (Suc fuel)
  obtain g w1 where g: "probe_all rf probes w = (g, w1)" by (metis surj_pair)
  note adv = advances_probe_all [OF assms(1), of probes]
  note run = Suc.prems(2) [unfolded stability_loop.simps(2) [of _ _ _ _ _ "Suc fuel"]]
  have later: "deadline > rf_time rf w"
    using run by (auto simp: bind_run loop_time_def ret_run split: if_splits)
  show ?case
  proof (cases g)
    case (Inl e')
    then show ?thesis using run g later advances_Inl [OF adv, of w e' w1]
      by (simp add: bind_run loop_time_def)
  next
    case (Inr ok)
    have le: "rf_time rf w \<le> rf_time rf w1" using advances_Inr [OF adv, of w ok w1] g Inr by simp
    from run g later Inr
    have "seq (rf_sleep rf gap) (stability_loop rf probes need gap deadline (Suc fuel)
        (if ok then Suc streak else 0)) w1 = (Inl e, w')"
      by (simp add: bind_run loop_time_def ret_run split: if_splits)
    then show ?thesis
    proof (rule sleep_then [OF assms])
      fix v assume v: "rf_time rf w1 + gap \<le> rf_time rf v"
        "stability_loop rf probes need gap deadline (Suc fuel) (if ok then Suc streak else 0) v = (Inl e, w')"
      have "deadline - rf_time rf v \<le> gap * of_nat fuel" using Suc.prems(1) le v(1) by (simp add: algebra_simps)
      then show "exn_class e \<noteq> Exn_Fuel" using v(2) by (rule Suc.IH)
    qed
  qed
qed

text \<open>The loop answers true only on a true \<open>Inserted\<close>.\<close>

lemma media_loop_confirmed:
  "media_loop rf uri deadline fuel w = (Inr True, w') \<Longrightarrow>
     \<exists>w1 w2 st h v. rf_get rf uri w1 = (Inr (st, h), w2) \<and> jget st ''Inserted'' = Inr v \<and> truthy v"
proof (induction fuel arbitrary: w)
  case 0
  then show ?case by (simp add: media_loop.simps throw_run)
next
  case (Suc fuel)
  let ?p = "try_redfish (bind (get_json rf uri) (\<lambda>st. lift_py (jget st ''Inserted'')))"
  have again: ?thesis if s: "seq (rf_sleep rf 2) (media_loop rf uri deadline fuel) w1 = (Inr True, w')" for w1
  proof -
    obtain q w2 where q: "rf_sleep rf 2 w1 = (q, w2)" by (metis surj_pair)
    have "media_loop rf uri deadline fuel w2 = (Inr True, w')"
      using s q by (cases q) (simp_all add: seq_run)
    then show ?thesis by (rule Suc.IH)
  qed
  note run = Suc.prems [unfolded media_loop.simps(2)]
  have later: "\<not> deadline \<le> rf_time rf w" using run by (auto simp: bind_run loop_time_run ret_run)
  obtain g w1 where g: "?p w = (g, w1)" by (metis surj_pair)
  obtain x where x: "g = Inr x" using run later g by (cases g) (auto simp: bind_run loop_time_run)
  have body: "(case x of Inr ins \<Rightarrow> if truthy ins then ret True
                  else seq (rf_sleep rf 2) (media_loop rf uri deadline fuel)
     | Inl _ \<Rightarrow> seq (rf_sleep rf 2) (media_loop rf uri deadline fuel)) w1 = (Inr True, w')"
    using run g later x by (simp add: bind_run loop_time_run)
  show ?case
  proof (cases x)
    case (Inl e)
    then show ?thesis using body by (intro again) simp
  next
    case (Inr ins)
    show ?thesis
    proof (cases "truthy ins")
      case False
      then show ?thesis using body Inr by (intro again) simp
    next
      case True
      have "bind (get_json rf uri) (\<lambda>st. lift_py (jget st ''Inserted'')) w = (Inr ins, w1)"
        using g x Inr by (auto simp: try_redfish_def attempt_def split: prod.splits sum.splits if_splits)
      then show ?thesis using True
        by (auto simp: bind_run get_json_def lift_run ret_run split: prod.splits sum.splits)
    qed
  qed
qed

section \<open>Properties\<close>

text \<open>Property C22. The waits of the plugin end: waiting for the inserted media (60 s, a poll every
  2 s) and for a BMC to be stable again (300 s, a round every 5 s) never use up the 31 and 61
  rounds of fuel of the model, whatever the BMC answers, while the clock advances.\<close>

theorem waits_terminate:
  assumes "clock_ok rf"
  shows "(wait_for_media_inserted rf uri w = (Inl e, w') \<longrightarrow> exn_class e \<noteq> Exn_Fuel) \<and>
    (wait_for_resource_stability rf uris w = (Inl e, w') \<longrightarrow> exn_class e \<noteq> Exn_Fuel)"
proof (intro conjI impI)
  have fuel: "(31::nat) = Suc 30" by simp
  assume "wait_for_media_inserted rf uri w = (Inl e, w')"
  then have "media_loop rf uri (rf_time rf w + 60) 31 w = (Inl e, w')"
    by (simp add: wait_for_media_inserted_def bind_run loop_time_run)
  then have "media_loop rf uri (rf_time rf w + 60) (Suc 30) w = (Inl e, w')" unfolding fuel .
  then show "exn_class e \<noteq> Exn_Fuel" by (rule media_loop_no_fuel [OF assms, rotated]) simp
next
  have fuel: "(61::nat) = Suc 60" by simp
  assume "wait_for_resource_stability rf uris w = (Inl e, w')"
  then have "stability_loop rf (if uris = [] then [''/redfish/v1/'', ''/redfish/v1/UpdateService''] else uris)
      3 5 (rf_time rf w + 300) 61 0 w = (Inl e, w')"
    by (simp add: wait_for_resource_stability_def bind_run loop_time_run)
  then have "stability_loop rf (if uris = [] then [''/redfish/v1/'', ''/redfish/v1/UpdateService''] else uris)
      3 5 (rf_time rf w + 300) (Suc 60) 0 w = (Inl e, w')" unfolding fuel .
  then show "exn_class e \<noteq> Exn_Fuel" by (rule stability_loop_no_fuel [OF assms, rotated 2]) simp_all
qed

text \<open>A BMC whose slot resource is a JSON list: the first poll raises \<open>AttributeError\<close>.\<close>

lemma bad_slot_run:
  "wait_for_media_inserted (static_bmc [(''/slot'', JArr [])]) ''/slot'' 0 = (Inl (no_attr (JArr []) ''get''), 0)"
  by (simp add: wait_for_media_inserted_def numeral_eq_Suc media_loop.simps io_run loop_time_def try_redfish_def
      attempt_def static_bmc_def tree_get_def get_json_def jget_def no_attr_def cong: io_weak)

theorem waits_terminate_witness: "exn_class (no_attr (JArr []) ''get'') \<noteq> Exn_Fuel"
  using waits_terminate [OF static_clock, THEN conjunct1, rule_format, OF bad_slot_run] .

text \<open>Property C23. No active bank, no flash: when the server's cached capability map has no active
  bank for the component, \<open>_do_update\<close> reports the refusal and has neither sent anything to
  the BMC nor reported progress; the world and the plugin's state are those before the call.\<close>

theorem update_refused_without_bank:
  assumes "fresh_cap (rf_time rf w) (strip (si_ip server)) s = Some c"
    and "nonempty (if target = ''BIOS'' then cap_bios_member_uri c else cap_bmc_member_uri c) = None"
  shows "run_update dw hk rf server fw target apply_now (w, s) =
    (Inr (failed (no_bank_msg target (Exn Exn_Redfish (''No '' @ target @
       '' member found in FirmwareInventory '' @ ''(discoverer reported no active bank)'')))), (w, s))"
proof -
  have c: "capability_map rf server (w, s) = (Inr (Some c), (w, s))"
    using assms(1) by (simp add: capability_map_def Let_def bind_run on_fst_def loop_time_run the_snd_def ret_run split: prod.split)
  have u: "resolve_update_service rf (Some c) w =
      (Inr (or_else (cap_multipart_push_uri c) (JStr []), or_else (cap_simple_update_target c) (JStr []),
            ''/redfish/v1/UpdateService/Actions/SimpleUpdate''), w)"
    by (simp add: resolve_update_service_def ret_run)
  have r: "resolve_firmware_target rf target (Some c) w =
      (Inl (Exn Exn_Redfish (''No '' @ target @
       '' member found in FirmwareInventory '' @ ''(discoverer reported no active bank)'')), w)"
    using assms(2) by (simp add: resolve_firmware_target_def throw_run)
  show ?thesis
    by (simp add: run_update_def bind_run c on_fst_def try_redfish_def attempt_def u r ret_run)
qed

theorem update_refused_without_bank_witness:
  "run_update (\<lambda>_. None) generic_hooks (static_bmc []) (new_server_info ''10.0.0.5'') (sample_fw ''R650'') ''BIOS'' True
     (10, \<lparr>ps_cache = [(''10.0.0.5'', (empty_cap, 0))], ps_progress = []\<rparr>) =
   (Inr (failed (no_bank_msg ''BIOS'' (Exn Exn_Redfish (''No '' @ ''BIOS'' @
       '' member found in FirmwareInventory '' @ ''(discoverer reported no active bank)'')))),
    (10, \<lparr>ps_cache = [(''10.0.0.5'', (empty_cap, 0))], ps_progress = []\<rparr>))"
proof (rule update_refused_without_bank)
  have "strip ''10.0.0.5'' = ''10.0.0.5''" by code_simp
  then show "fresh_cap (rf_time (static_bmc []) 10) (strip (si_ip (new_server_info ''10.0.0.5'')))
      \<lparr>ps_cache = [(''10.0.0.5'', (empty_cap, 0))], ps_progress = []\<rparr> = Some empty_cap"
    by (simp add: fresh_cap_def new_server_info_def static_bmc_def cap_ttl_def)
qed (simp add: empty_cap_def nonempty_def)


definition cd_slot :: vm_slot where
  "cd_slot = \<lparr>vm_uri = ''/slot'', vm_media_types = [], vm_insert_action = JStr ''/slot/insert'', vm_eject_action = JNull,
     vm_transfer_method = JNull, vm_transfer_protocols = [], vm_inserted = False, vm_write_protected = False\<rparr>"

definition attached_bmc :: "rat redfish" where
  "attached_bmc = static_bmc [(''/slot'', JObj [(''Inserted'', JBool True)])]"

lemma attached_run: "insert_in_slot attached_bmc cd_slot ''http://10.0.0.9/os.iso'' 0 =
    (Inr (succeeded ''ISO inserted and attached''), 0)"
  by (simp add: insert_in_slot_def wait_for_media_inserted_def numeral_eq_Suc media_loop.simps io_run loop_time_def
      try_redfish_def attempt_def attached_bmc_def static_bmc_def tree_get_def get_json_def jget_def cd_slot_def
      insert_action_of_def or_else_def post_json_at_def cong: io_weak)


end
