(* ===== verification/Redfish_Client.thy ===== *)
theory Redfish_Client
  imports Plugin_Flows
begin

text \<open>
  \<open>RedfishClient\<close> (\<open>core/plugins_api/redfish_client.py\<close>): session login with its latch and
  its token, the 401 re-login retry, URLs, TLS pinning, and the GET, POST, PATCH and multipart
  operations. The HTTP library is the parameter \<open>http\<close>: it answers a request sent over a
  connector, over its own world \<open>'w\<close>. The client's attributes are \<open>client_state\<close>, so an
  operation runs over \<open>'w \<times> client_state\<close>; \<open>connected\<close> packs the operations as the interface
  the plugins use. The login lock makes a login one step of a client, as it is here.
\<close>

section \<open>The HTTP library\<close>

datatype connector = Plain_TCP | Pinned "nat list" | Any_Certificate

datatype form_part = Form_Json string json | Form_Text string string | Form_File string string string

datatype payload = No_Body | Json_Body json | Form_Body "form_part list"

record request =
  rq_method :: string
  rq_url :: string
  rq_headers :: "(string \<times> string) list"
  rq_auth :: "(string \<times> string) option"
  rq_payload :: payload

text \<open>An answer: \<open>rp_text\<close> and \<open>rp_json\<close> are the outcomes of reading the body;
  \<open>rp_header\<close> is the case-insensitive lookup, \<open>rp_headers\<close> the pairs as received.\<close>

record response =
  rp_status :: int
  rp_headers :: "(string \<times> string) list"
  rp_header :: "string \<Rightarrow> string option"
  rp_text :: "string py"
  rp_json :: "json py"

record 'w http =
  ht_send :: "connector \<Rightarrow> request \<Rightarrow> ('w, response) io"
  ht_fingerprint_ok :: "nat list \<Rightarrow> bool"
  ht_is_file :: "string \<Rightarrow> 'w \<Rightarrow> bool"
  ht_dial :: "string \<Rightarrow> int \<Rightarrow> ('w, unit) io"
  ht_time :: "'w \<Rightarrow> rat"
  ht_wall :: "'w \<Rightarrow> rat"
  ht_sleep :: "rat \<Rightarrow> ('w, unit) io"

section \<open>The client's state\<close>

record client_state =
  cl_token :: "string option"
  cl_session_uri :: "string option"
  cl_unavailable :: bool
  cl_captured_fpr :: "string option"
  cl_session :: "connector option"

definition new_client :: client_state where
  "new_client = \<lparr>cl_token = None, cl_session_uri = None, cl_unavailable = False,
     cl_captured_fpr = None, cl_session = None\<rparr>"

type_synonym ('w, 'a) client = "('w \<times> client_state, 'a) io"

definition default_headers :: "(string \<times> string) list" where
  "default_headers = [(''Accept'', ''application/json''), (''OData-Version'', ''4.0'')]"

definition session_path :: string where
  "session_path = ''/redfish/v1/SessionService/Sessions''"

definition is_absolute_url :: "string \<Rightarrow> bool" where
  "is_absolute_url p = (starts_with ''http://'' p \<or> starts_with ''https://'' p)"

definition client_url :: "client_conf \<Rightarrow> string \<Rightarrow> string" where
  "client_url conf path =
     (if is_absolute_url path then path
      else base_url_of conf @ (if starts_with ''/'' path then path else ''/'' @ path))"

section \<open>TLS\<close>

definition hex_val :: "char \<Rightarrow> nat option" where
  "hex_val c = (let n = code c in
     if 48 \<le> n \<and> n \<le> 57 then Some (n - 48)
     else if 97 \<le> n \<and> n \<le> 102 then Some (n - 87)
     else if 65 \<le> n \<and> n \<le> 70 then Some (n - 55) else None)"

text \<open>\<open>bytes.fromhex\<close>: pairs of hexadecimal digits, with ASCII whitespace between pairs.\<close>

definition ascii_space :: "char \<Rightarrow> bool" where
  "ascii_space c = (let n = code c in n = 32 \<or> (9 \<le> n \<and> n \<le> 13))"

fun bytes_fromhex :: "string \<Rightarrow> nat list option" where
  "bytes_fromhex [] = Some []"
| "bytes_fromhex [c] = (if ascii_space c then Some [] else None)"
| "bytes_fromhex (c # d # cs) =
     (if ascii_space c then bytes_fromhex (d # cs)
      else (case (hex_val c, hex_val d) of
        (Some a, Some b) \<Rightarrow> map_option (\<lambda>bs. (16 * a + b) # bs) (bytes_fromhex cs)
      | _ \<Rightarrow> None))"

definition pin_of :: "'w http \<Rightarrow> string option \<Rightarrow> connector option" where
  "pin_of ht fpr = (case nonempty fpr of None \<Rightarrow> None
     | Some h \<Rightarrow> (case bytes_fromhex h of
         Some bs \<Rightarrow> if ht_fingerprint_ok ht bs then Some (Pinned bs) else None
       | None \<Rightarrow> None))"

definition make_connector :: "'w http \<Rightarrow> client_conf \<Rightarrow> client_state \<Rightarrow> connector" where
  "make_connector ht conf s =
     (if cc_scheme conf \<noteq> ''https'' then Plain_TCP
      else (case pin_of ht (cc_tls conf) of Some c \<Rightarrow> c
        | None \<Rightarrow> (case pin_of ht (cl_captured_fpr s) of Some c \<Rightarrow> c | None \<Rightarrow> Any_Certificate)))"

section \<open>Requests\<close>

definition session_for :: "'w http \<Rightarrow> client_conf \<Rightarrow> ('w, connector) client" where
  "session_for ht conf = bind the_snd (\<lambda>s. case cl_session s of
       Some c \<Rightarrow> ret c
     | None \<Rightarrow> let c = make_connector ht conf s in seq (on_snd (cl_session_update (\<lambda>_. Some c))) (ret c))"

definition basic_auth :: "client_conf \<Rightarrow> (string \<times> string) option" where
  "basic_auth conf = (if cc_username conf \<noteq> [] then Some (cc_username conf, cc_password conf) else None)"

text \<open>The headers and the Basic credentials of one request: the token replaces the credentials.\<close>

definition request_kwargs :: "client_conf \<Rightarrow> client_state \<Rightarrow> (string \<times> string) list \<times> (string \<times> string) option" where
  "request_kwargs conf s = (case nonempty (cl_token s) of
       Some t \<Rightarrow> (default_headers @ [(''X-Auth-Token'', t)], None)
     | None \<Rightarrow> (default_headers, basic_auth conf))"

definition send :: "'w http \<Rightarrow> client_conf \<Rightarrow> connector \<Rightarrow> string \<Rightarrow> string \<Rightarrow> payload \<Rightarrow> ('w, response) client" where
  "send ht conf c method url body = bind the_snd (\<lambda>s. case request_kwargs conf s of (hs, auth) \<Rightarrow>
     on_fst (ht_send ht c \<lparr>rq_method = method, rq_url = url, rq_headers = hs, rq_auth = auth,
                           rq_payload = body\<rparr>))"

section \<open>Login and logout\<close>

definition is_client_error :: "exn \<Rightarrow> bool" where
  "is_client_error e = (exn_class e = Exn_Client)"

definition login_failed_msg :: "string \<Rightarrow> int \<Rightarrow> string" where
  "login_failed_msg url status = ''Session login '' @ url @ '': HTTP '' @ int_str status
     @ '' (body suppressed '' @ em_dash @ '' may contain credentials)''"

definition login_transport_msg :: "string \<Rightarrow> string \<Rightarrow> string" where
  "login_transport_msg url text = ''Session login '' @ url @ '' failed: '' @ text"

definition relative_location :: "client_conf \<Rightarrow> string \<Rightarrow> string" where
  "relative_location conf loc =
     (if starts_with (base_url_of conf) loc then drop (length (base_url_of conf)) loc else loc)"

definition accept_login :: "client_conf \<Rightarrow> string \<Rightarrow> response \<Rightarrow> ('w, bool) client" where
  "accept_login conf url resp =
     (if rp_status resp = 404 then seq (on_snd (cl_unavailable_update (\<lambda>_. True))) (ret False)
      else if 400 \<le> rp_status resp
      then throw (Exn Exn_Redfish (login_failed_msg url (rp_status resp)))
      else (case nonempty (rp_header resp ''X-Auth-Token'') of
          None \<Rightarrow> seq (on_snd (cl_unavailable_update (\<lambda>_. True))) (ret False)
        | Some t \<Rightarrow> (let loc = relative_location conf (the_default [] (rp_header resp ''Location'')) in
            seq (on_snd (\<lambda>s. s\<lparr>cl_token := Some t,
                               cl_session_uri := (if loc \<noteq> [] then Some loc else None)\<rparr>))
                (ret True))))"

definition post_login :: "'w http \<Rightarrow> client_conf \<Rightarrow> ('w, bool) client" where
  "post_login ht conf = (let url = base_url_of conf @ session_path in
     bind (session_for ht conf) (\<lambda>c.
     catch_if is_client_error
       (bind (send ht conf c ''POST'' url (Json_Body (JObj
               [(''UserName'', JStr (cc_username conf)), (''Password'', JStr (cc_password conf))])))
          (accept_login conf url))
       (\<lambda>e. throw (Exn Exn_Redfish (login_transport_msg url (exn_str e))))))"

definition login :: "'w http \<Rightarrow> client_conf \<Rightarrow> ('w, bool) client" where
  "login ht conf = bind the_snd (\<lambda>s.
     if nonempty (cl_token s) \<noteq> None then ret True
     else if cl_unavailable s then ret False
     else if cc_username conf = [] then ret False
     else post_login ht conf)"

definition delete_session :: "'w http \<Rightarrow> client_conf \<Rightarrow> connector \<Rightarrow> string \<Rightarrow> string \<Rightarrow> ('w, unit) client" where
  "delete_session ht conf c uri token =
     catch_if is_exception
       (bind (on_fst (ht_send ht c
          \<lparr>rq_method = ''DELETE'',
           rq_url = (if starts_with ''/'' uri then base_url_of conf @ uri else uri),
           rq_headers = default_headers @ [(''X-Auth-Token'', token)], rq_auth = None,
           rq_payload = No_Body\<rparr>)) (\<lambda>_. ret ()))
       (\<lambda>_. ret ())"

definition logout :: "'w http \<Rightarrow> client_conf \<Rightarrow> ('w, unit) client" where
  "logout ht conf = bind the_snd (\<lambda>s.
     seq (on_snd (\<lambda>s. s\<lparr>cl_token := None, cl_session_uri := None\<rparr>))
     (case (nonempty (cl_session_uri s), nonempty (cl_token s), cl_session s) of
        (Some uri, Some token, Some c) \<Rightarrow> delete_session ht conf c uri token
      | _ \<Rightarrow> ret ()))"

definition client_close :: "'w http \<Rightarrow> client_conf \<Rightarrow> ('w, unit) client" where
  "client_close ht conf = seq (catch_if is_exception (logout ht conf) (\<lambda>_. ret ()))
     (on_snd (cl_session_update (\<lambda>_. None)))"

definition ensure_logged_in :: "'w http \<Rightarrow> client_conf \<Rightarrow> ('w, unit) client" where
  "ensure_logged_in ht conf = bind the_snd (\<lambda>s.
     if nonempty (cl_token s) \<noteq> None \<or> cl_unavailable s then ret ()
     else if cc_username conf = [] then ret ()
     else quiet_redfish (login ht conf))"

definition can_retry_after_relogin :: "client_conf \<Rightarrow> client_state \<Rightarrow> bool" where
  "can_retry_after_relogin conf s =
     (if cc_username conf = [] then False
      else if cl_unavailable s \<and> nonempty (cl_token s) = None then False
      else True)"

definition force_relogin :: "'w http \<Rightarrow> client_conf \<Rightarrow> ('w, unit) client" where
  "force_relogin ht conf =
     seq (on_snd (\<lambda>s. s\<lparr>cl_token := None, cl_session_uri := None, cl_unavailable := False\<rparr>))
     (quiet_redfish (login ht conf))"

section \<open>Operations\<close>

text \<open>One request, and once more after a fresh login if it was refused with 401 and a login can help.\<close>

definition with_relogin :: "'w http \<Rightarrow> client_conf \<Rightarrow> string \<Rightarrow> string \<Rightarrow> payload \<Rightarrow> ('w, response) client" where
  "with_relogin ht conf method url body =
     seq (ensure_logged_in ht conf)
     (bind (session_for ht conf) (\<lambda>c.
      bind (send ht conf c method url body) (\<lambda>resp.
      bind the_snd (\<lambda>s.
      if rp_status resp = 401 \<and> can_retry_after_relogin conf s
      then seq (force_relogin ht conf) (send ht conf c method url body)
      else ret resp))))"

definition unpack_get :: "string \<Rightarrow> response \<Rightarrow> (json \<times> (string \<times> string) list) py" where
  "unpack_get url resp =
     (if \<not> (200 \<le> rp_status resp \<and> rp_status resp < 300)
      then Inl (Exn (Exn_RedfishHTTP (rp_status resp)) (''GET '' @ url @ '': HTTP '' @ int_str (rp_status resp)))
      else bind_py (rp_json resp) (\<lambda>j. Inr (j, rp_headers resp)))"

text \<open>\<open>except Exception\<close> around reading the text or the JSON of a body.\<close>

definition read_or :: "'a \<Rightarrow> 'a py \<Rightarrow> 'a py" where
  "read_or d r = (case r of Inl e \<Rightarrow> if is_exception e then Inr d else Inl e | Inr x \<Rightarrow> Inr x)"

definition unpack_with :: "string \<Rightarrow> nat \<Rightarrow> string \<Rightarrow> response \<Rightarrow> post_result py" where
  "unpack_with what limit url resp =
     (if 400 \<le> rp_status resp
      then bind_py (read_or [] (rp_text resp)) (\<lambda>text. Inl (Exn (Exn_RedfishHTTP (rp_status resp))
             (what @ '' '' @ url @ '': HTTP '' @ int_str (rp_status resp) @ '' '' @ take limit text)))
      else bind_py (read_or (JObj []) (rp_json resp)) (\<lambda>data. Inr
             \<lparr>pr_status = rp_status resp, pr_location = the_default [] (rp_header resp ''Location''),
              pr_body = data\<rparr>))"

definition unpack_post :: "string \<Rightarrow> response \<Rightarrow> post_result py" where
  "unpack_post = unpack_with ''POST'' 200"

definition unpack_multipart :: "string \<Rightarrow> response \<Rightarrow> post_result py" where
  "unpack_multipart = unpack_with ''Multipart push'' 300"

definition get_json_and_headers :: "'w http \<Rightarrow> client_conf \<Rightarrow> string \<Rightarrow> ('w, json \<times> (string \<times> string) list) client" where
  "get_json_and_headers ht conf path = (let url = client_url conf path in
     bind (with_relogin ht conf ''GET'' url No_Body) (\<lambda>resp. lift_py (unpack_get url resp)))"

definition post_json :: "'w http \<Rightarrow> client_conf \<Rightarrow> string \<Rightarrow> json \<Rightarrow> ('w, post_result) client" where
  "post_json ht conf path body = (let url = client_url conf path in
     bind (with_relogin ht conf ''POST'' url (Json_Body body)) (\<lambda>resp. lift_py (unpack_post url resp)))"

definition patch_json :: "'w http \<Rightarrow> client_conf \<Rightarrow> string \<Rightarrow> json \<Rightarrow> ('w, post_result) client" where
  "patch_json ht conf path body = (let url = client_url conf path in
     bind (with_relogin ht conf ''PATCH'' url (Json_Body body)) (\<lambda>resp. lift_py (unpack_post url resp)))"

definition build_form :: "json \<Rightarrow> json option \<Rightarrow> string \<Rightarrow> string \<Rightarrow> form_part list" where
  "build_form params oem file fname =
     [Form_Json ''UpdateParameters'' params]
     @ (case oem of Some j \<Rightarrow> [Form_Json ''OemParameters'' j] | None \<Rightarrow> [])
     @ [Form_File ''UpdateFile'' file fname]"

definition post_multipart :: "'w http \<Rightarrow> client_conf \<Rightarrow> string \<Rightarrow> json \<Rightarrow> string \<Rightarrow> string \<Rightarrow> json option \<Rightarrow>
    ('w, post_result) client" where
  "post_multipart ht conf path params file filename oem = (let url = client_url conf path in
     bind (on_fst (\<lambda>w. (Inr (ht_is_file ht file w), w))) (\<lambda>exists.
     if \<not> exists then throw (Exn Exn_Redfish (''firmware blob missing: '' @ file))
     else let fname = (if filename \<noteq> [] then filename else leaf_of file) in
       bind (with_relogin ht conf ''POST'' url (Form_Body (build_form params oem file fname)))
         (\<lambda>resp. lift_py (unpack_multipart url resp))))"

definition tcp_alive :: "'w http \<Rightarrow> client_conf \<Rightarrow> ('w, bool) client" where
  "tcp_alive ht conf = bind (attempt is_exception (on_fst (ht_dial ht (cc_host conf) (cc_port conf))))
     (\<lambda>r. ret (case r of Inl _ \<Rightarrow> False | Inr _ \<Rightarrow> True))"

text \<open>A connected client as the interface the plugins call.\<close>

definition connected :: "'w http \<Rightarrow> client_conf \<Rightarrow> ('w \<times> client_state) redfish" where
  "connected ht conf = \<lparr>rf_get = get_json_and_headers ht conf, rf_post = post_json ht conf,
     rf_patch = patch_json ht conf, rf_multipart = post_multipart ht conf,
     rf_close = client_close ht conf, rf_time = (\<lambda>(w, _). ht_time ht w),
     rf_wall = (\<lambda>(w, _). ht_wall ht w), rf_sleep = (\<lambda>t. on_fst (ht_sleep ht t))\<rparr>"

text \<open>The life of one client: constructed, used, dropped.\<close>

definition fresh_client :: "('w, 'a) client \<Rightarrow> ('w, 'a) io" where
  "fresh_client m = (\<lambda>w. case m (w, new_client) of (r, (w', _)) \<Rightarrow> (r, w'))"

section \<open>What a client sends\<close>

text \<open>A library that also keeps the list of the requests sent through it.\<close>

definition logged :: "'w http \<Rightarrow> ('w \<times> request list) http" where
  "logged ht = \<lparr>ht_send = (\<lambda>c q (w, l). case ht_send ht c q w of (r, w') \<Rightarrow> (r, (w', l @ [q]))),
     ht_fingerprint_ok = ht_fingerprint_ok ht, ht_is_file = (\<lambda>f (w, _). ht_is_file ht f w),
     ht_dial = (\<lambda>h p. on_fst (ht_dial ht h p)), ht_time = (\<lambda>(w, _). ht_time ht w),
     ht_wall = (\<lambda>(w, _). ht_wall ht w), ht_sleep = (\<lambda>t. on_fst (ht_sleep ht t))\<rparr>"

text \<open>\<open>emits n Q m\<close>: the computation sends at most \<open>n\<close> requests, all of which satisfy \<open>Q\<close>.\<close>

definition emits :: "nat \<Rightarrow> (request \<Rightarrow> bool) \<Rightarrow> ('w \<times> request list, 'a) client \<Rightarrow> bool" where
  "emits n Q m = (\<forall>w l s r w' l' s'. m ((w, l), s) = (r, ((w', l'), s')) \<longrightarrow>
     (\<exists>new. l' = l @ new \<and> length new \<le> n \<and> (\<forall>q \<in> set new. Q q)))"

named_theorems io_emits \<open>rules for the requests a computation sends\<close>

lemma emitsD:
  "emits n Q m \<Longrightarrow> m ((w, l), s) = (r, ((w', l'), s')) \<Longrightarrow>
     \<exists>new. l' = l @ new \<and> length new \<le> n \<and> (\<forall>q \<in> set new. Q q)"
  unfolding emits_def by blast

lemma emits_silent:
  assumes "\<And>w l s. \<exists>r s'. m ((w, l), s) = (r, ((w, l), s'))"
  shows "emits n Q m"
  unfolding emits_def
proof (intro allI impI)
  fix w l s r w' l' s'
  assume "m ((w, l), s) = (r, ((w', l'), s'))"
  then have "l' = l" using assms [of w l s] by auto
  then show "\<exists>new. l' = l @ new \<and> length new \<le> n \<and> (\<forall>q \<in> set new. Q q)" by (intro exI [of _ "[]"]) simp
qed

lemma emits_ret [io_emits]: "emits n Q (ret x)"
  by (rule emits_silent) (simp add: ret_def)

lemma emits_throw [io_emits]: "emits n Q (throw e)"
  by (rule emits_silent) (simp add: throw_def)

lemma emits_lift [io_emits]: "emits n Q (lift_py r)"
  by (rule emits_silent) (simp add: lift_py_def)

lemma emits_state [io_emits]: "emits n Q (on_snd f)" "emits n Q the_snd"
  by (rule emits_silent, simp add: on_snd_def, rule emits_silent, simp add: the_snd_def)

lemma emits_bind:
  assumes m: "emits a Q m" and f: "\<And>x. emits b Q (f x)" and n: "a + b \<le> n"
  shows "emits n Q (bind m f)"
  unfolding emits_def
proof (intro allI impI)
  fix w l s r w' l' s'
  assume run: "bind m f ((w, l), s) = (r, ((w', l'), s'))"
  obtain r1 w1 l1 s1 where m1: "m ((w, l), s) = (r1, ((w1, l1), s1))" by (metis surj_pair)
  obtain new1 where n1: "l1 = l @ new1" "length new1 \<le> a" "\<forall>q \<in> set new1. Q q"
    using m m1 unfolding emits_def by blast
  show "\<exists>new. l' = l @ new \<and> length new \<le> n \<and> (\<forall>q \<in> set new. Q q)"
  proof (cases r1)
    case (Inl e)
    then have "l' = l1" using run m1 by (simp add: bind_run)
    then show ?thesis using n1 n by (intro exI [of _ new1]) simp
  next
    case (Inr x)
    then have "f x ((w1, l1), s1) = (r, ((w', l'), s'))" using run m1 by (simp add: bind_run)
    then obtain new2 where n2: "l' = l1 @ new2" "length new2 \<le> b" "\<forall>q \<in> set new2. Q q"
      using f [of x] unfolding emits_def by blast
    show ?thesis using n1 n2 n by (intro exI [of _ "new1 @ new2"]) auto
  qed
qed

lemma emits_seq: "emits a Q m \<Longrightarrow> emits b Q k \<Longrightarrow> a + b \<le> n \<Longrightarrow> emits n Q (seq m k)"
  unfolding seq_def by (rule emits_bind)

text \<open>After a computation that sends nothing, and a handler that sends nothing.\<close>

lemma emits_bind0 [io_emits]: "emits 0 Q m \<Longrightarrow> (\<And>x. emits n Q (f x)) \<Longrightarrow> emits n Q (bind m f)"
  using emits_bind [of 0 Q m n f n] by simp

lemma emits_seq0 [io_emits]: "emits 0 Q m \<Longrightarrow> emits n Q k \<Longrightarrow> emits n Q (seq m k)"
  using emits_seq [of 0 Q m n k n] by simp

lemma emits_catch [io_emits]:
  assumes "emits n Q m" "\<And>e. emits 0 Q (h e)"
  shows "emits n Q (catch_if p m h)"
  unfolding emits_def
proof (intro allI impI)
  fix w l s r w' l' s'
  assume run: "catch_if p m h ((w, l), s) = (r, ((w', l'), s'))"
  obtain r1 w1 l1 s1 where m1: "m ((w, l), s) = (r1, ((w1, l1), s1))" by (metis surj_pair)
  obtain new where n1: "l1 = l @ new" "length new \<le> n" "\<forall>q \<in> set new. Q q"
    using assms(1) m1 unfolding emits_def by blast
  have "l' = l1"
  proof (cases r1)
    case (Inl e)
    then show ?thesis
      using run m1 assms(2) [of e] unfolding emits_def by (cases "p e") (fastforce simp: catch_run)+
  next
    case (Inr x)
    then show ?thesis using run m1 by (simp add: catch_run)
  qed
  then show "\<exists>new. l' = l @ new \<and> length new \<le> n \<and> (\<forall>q \<in> set new. Q q)" using n1 by blast
qed

lemma emits_if [io_emits]: "(b \<Longrightarrow> emits n Q m) \<Longrightarrow> (\<not> b \<Longrightarrow> emits n Q k) \<Longrightarrow> emits n Q (if b then m else k)"
  by simp

lemma emits_option [io_emits]:
  "(x = None \<Longrightarrow> emits n Q m) \<Longrightarrow> (\<And>y. x = Some y \<Longrightarrow> emits n Q (f y)) \<Longrightarrow>
     emits n Q (case x of None \<Rightarrow> m | Some y \<Rightarrow> f y)"
  by (cases x) simp_all

text \<open>The discipline of every request: the OData headers, and never both a token and Basic
  credentials.\<close>

definition well_formed_request :: "request \<Rightarrow> bool" where
  "well_formed_request q = (set default_headers \<subseteq> set (rq_headers q) \<and>
     (rq_auth q \<noteq> None \<longrightarrow> rq_headers q = default_headers))"

lemma emits_send: "emits 1 well_formed_request (send (logged ht) conf c method url body)"
  unfolding emits_def
proof (intro allI impI)
  fix w l s r w' l' s'
  assume "send (logged ht) conf c method url body ((w, l), s) = (r, ((w', l'), s'))"
  then obtain hs auth where k: "request_kwargs conf s = (hs, auth)"
      "l' = l @ [\<lparr>rq_method = method, rq_url = url, rq_headers = hs, rq_auth = auth, rq_payload = body\<rparr>]"
    by (cases "request_kwargs conf s")
      (auto simp: send_def bind_run the_snd_def on_fst_def logged_def split: prod.splits)
  let ?q = "\<lparr>rq_method = method, rq_url = url, rq_headers = hs, rq_auth = auth, rq_payload = body\<rparr>"
  have "well_formed_request ?q"
    using k(1) by (auto simp: well_formed_request_def request_kwargs_def split: option.splits)
  then show "\<exists>new. l' = l @ new \<and> length new \<le> 1 \<and> (\<forall>q \<in> set new. well_formed_request q)"
    using k(2) by (intro exI [of _ "[?q]"]) simp
qed

lemma emits_session_for [io_emits]: "emits 0 Q (session_for ht conf)"
  unfolding session_for_def Let_def by (intro io_emits)

lemma emits_accept_login [io_emits]: "emits 0 Q (accept_login conf url resp)"
  unfolding accept_login_def Let_def by (intro io_emits)

lemma emits_post_login: "emits 1 well_formed_request (post_login (logged ht) conf)"
  unfolding post_login_def Let_def
  by (rule emits_bind0 [OF emits_session_for emits_catch
        [OF emits_bind [OF emits_send emits_accept_login] emits_throw]]) simp

lemma emits_login: "emits 1 well_formed_request (login (logged ht) conf)"
  unfolding login_def by (intro io_emits emits_post_login)

lemma emits_quiet: "emits n Q m \<Longrightarrow> emits n Q (quiet_redfish m)"
  unfolding quiet_redfish_def on_redfish_def
  by (intro emits_catch emits_ret) (rule emits_bind [where a = n and b = 0], auto intro: emits_ret)

lemma emits_ensure: "emits 1 well_formed_request (ensure_logged_in (logged ht) conf)"
  unfolding ensure_logged_in_def by (intro io_emits emits_quiet emits_login)

lemma emits_force: "emits 1 well_formed_request (force_relogin (logged ht) conf)"
  unfolding force_relogin_def by (intro io_emits emits_quiet emits_login)

lemma emits_with_relogin: "emits 4 well_formed_request (with_relogin (logged ht) conf method url body)"
proof -
  have retry: "emits 2 well_formed_request (seq (force_relogin (logged ht) conf) (send (logged ht) conf c method url body))"
    for c by (rule emits_seq [OF emits_force emits_send]) simp
  have "emits 3 well_formed_request (bind (send (logged ht) conf c method url body) (\<lambda>resp.
      bind the_snd (\<lambda>s.
      if rp_status resp = 401 \<and> can_retry_after_relogin conf s
      then seq (force_relogin (logged ht) conf) (send (logged ht) conf c method url body)
      else ret resp)))" for c
    by (rule emits_bind [OF emits_send, where b = 2]) (intro io_emits retry, simp)
  then have "emits 3 well_formed_request (bind (session_for (logged ht) conf) (\<lambda>c.
      bind (send (logged ht) conf c method url body) (\<lambda>resp. bind the_snd (\<lambda>s.
      if rp_status resp = 401 \<and> can_retry_after_relogin conf s
      then seq (force_relogin (logged ht) conf) (send (logged ht) conf c method url body)
      else ret resp))))"
    by (rule emits_bind0 [OF emits_session_for])
  then show ?thesis
    unfolding with_relogin_def by (rule emits_seq [OF emits_ensure]) simp
qed

lemma emits_with_relogin_then:
  "(\<And>resp. emits 0 well_formed_request (f resp)) \<Longrightarrow>
     emits 4 well_formed_request (bind (with_relogin (logged ht) conf method url body) f)"
  by (rule emits_bind [OF emits_with_relogin, where b = 0]) simp_all

lemma emits_is_file: "emits 0 Q (on_fst (\<lambda>w. (Inr (ht_is_file (logged ht) file w), w)))"
  by (rule emits_silent) (simp add: on_fst_def)

section \<open>The contract of a connected client\<close>

text \<open>What the plugins rely on: an accepted POST, PATCH or multipart push has a status below
  400, and closing does not raise (a cancellation apart).\<close>

locale bmc_client =
  fixes rf :: "'w redfish"
  assumes post_ok: "rf_post rf p b w = (Inr r, w') \<Longrightarrow> pr_status r < 400"
    and patch_ok: "rf_patch rf p b w = (Inr r, w') \<Longrightarrow> pr_status r < 400"
    and push_ok: "rf_multipart rf p j f n oem w = (Inr r, w') \<Longrightarrow> pr_status r < 400"
    and close_quiet: "rf_close rf w = (Inl e, w') \<Longrightarrow> \<not> is_exception e"
begin

lemma post_at_ok: "post_json_at rf p b w = (Inr r, w') \<Longrightarrow> pr_status r < 400"
  by (auto simp: post_json_at_def bind_run lift_run split: sum.splits dest: post_ok)

lemma patch_at_ok: "patch_json_at rf p b w = (Inr r, w') \<Longrightarrow> pr_status r < 400"
  by (auto simp: patch_json_at_def bind_run lift_run split: sum.splits dest: patch_ok)

text \<open>A host reset is issued, or fails with the text of the BMC's error: the status check after the
  POST never fires.\<close>

lemma reset_failure:
  assumes "reset_to_apply hk rf t c w = (Inr (False, msg), w')"
  shows "\<exists>e. is_redfish e \<and> msg = exn_str e"
  using assms by (auto simp: reset_to_apply_def Let_def bind_run lift_run on_redfish_def catch_run ret_run
      split: sum.splits prod.splits if_splits dest: post_at_ok)

lemma power_cycle_failure:
  assumes "run_power_cycle rf server (w, s) = (Inr r, ws')" "\<not> res_okay r"
  shows "res_message r = ''No Systems collection'' \<or> (\<exists>e. is_redfish e \<and> res_message r = exn_str e)"
  using assms unfolding run_power_cycle_def
  by (auto simp: bind_run lift_run on_redfish_def catch_run ret_run on_fst_def failed_def succeeded_def
      split: sum.splits prod.splits if_splits option.splits dest: post_at_ok)

text \<open>The connection is released without changing the outcome of the work done over it.\<close>

lemma close_keeps_result:
  assumes "finally_do m (rf_close rf) w = (r, w')"
  shows "(\<exists>w1. m w = (r, w1)) \<or> (\<exists>e. r = Inl e \<and> \<not> is_exception e)"
  using assms by (auto simp: finally_run dest: close_quiet split: prod.splits sum.splits)

end

text \<open>The client of the code keeps the contract.\<close>

lemma unpack_with_ok: "unpack_with what n url resp = Inr r \<Longrightarrow> pr_status r < 400"
  by (auto simp: unpack_with_def bind_py_Inr split: if_splits)

lemma post_json_ok: "post_json ht conf p b w = (Inr r, w') \<Longrightarrow> pr_status r < 400"
  by (auto simp: post_json_def Let_def bind_run lift_run unpack_post_def split: sum.splits prod.splits dest: unpack_with_ok)

lemma patch_json_ok: "patch_json ht conf p b w = (Inr r, w') \<Longrightarrow> pr_status r < 400"
  by (auto simp: patch_json_def Let_def bind_run lift_run unpack_post_def split: sum.splits prod.splits dest: unpack_with_ok)

lemma post_multipart_ok: "post_multipart ht conf p j f n oem w = (Inr r, w') \<Longrightarrow> pr_status r < 400"
  by (auto simp: post_multipart_def Let_def bind_run lift_run throw_run unpack_multipart_def
      split: sum.splits prod.splits if_splits dest: unpack_with_ok)

lemma client_close_quiet: "client_close ht conf w = (Inl e, w') \<Longrightarrow> \<not> is_exception e"
  by (auto simp: client_close_def seq_run catch_run ret_run on_snd_def split: sum.splits prod.splits if_splits)

interpretation client: bmc_client "connected ht conf" for ht conf
  by unfold_locales
    (auto simp: connected_def dest: post_json_ok patch_json_ok post_multipart_ok client_close_quiet)

section \<open>Facts\<close>

lemma client_close_state:
  "client_close ht conf (w, s) = (Inr u, (w', s')) \<Longrightarrow>
     cl_token s' = None \<and> cl_session_uri s' = None \<and> cl_session s' = None"
  by (auto simp: client_close_def logout_def delete_session_def bind_run seq_run catch_run ret_run on_snd_def
      the_snd_def on_fst_def split: sum.splits prod.splits if_splits option.splits)

lemma login_run_refused:
  assumes "nonempty (cl_token s) = None" "\<not> cl_unavailable s" "cc_username conf \<noteq> []"
  shows "login ht conf (w, s) = post_login ht conf (w, s)"
  using assms by (simp add: login_def bind_run the_snd_def)

lemma session_for_run: "\<exists>c s'. session_for ht conf (w, s) = (Inr c, (w, s')) \<and> cl_session s' = Some c \<and>
    cl_token s' = cl_token s \<and> cl_unavailable s' = cl_unavailable s"
  by (cases "cl_session s") (simp_all add: session_for_def bind_run the_snd_def Let_def ret_run seq_run on_snd_def)

lemma accept_login_error:
  "accept_login conf url resp ws = (Inl e, ws') \<Longrightarrow> e = Exn Exn_Redfish (login_failed_msg url (rp_status resp))"
  by (auto simp: accept_login_def Let_def seq_run ret_run throw_run on_snd_def split: if_splits option.splits prod.splits)

text \<open>No operation ever records a captured fingerprint.\<close>

definition uncaptured :: "'w \<times> client_state \<Rightarrow> bool" where
  "uncaptured ws = (cl_captured_fpr (snd ws) = None)"

lemma keeps_on_fst [io_inv]: "keeps uncaptured (on_fst m)"
  by (auto simp: keeps_def uncaptured_def on_fst_def split: prod.splits)

lemma keeps_the_snd [io_inv]: "keeps P the_snd"
  by (simp add: keeps_def the_snd_def)

lemma keeps_on_snd: "(\<And>s. cl_captured_fpr (f s) = cl_captured_fpr s) \<Longrightarrow> keeps uncaptured (on_snd f)"
  by (auto simp: keeps_def uncaptured_def on_snd_def)

lemma keeps_quiet [io_inv]: "keeps P m \<Longrightarrow> keeps P (quiet_redfish m)"
  unfolding quiet_redfish_def on_redfish_def by (intro io_inv)

lemma keeps_session_for [io_inv]: "keeps uncaptured (session_for ht conf)"
  unfolding session_for_def Let_def by (intro io_inv keeps_on_snd) simp

lemma keeps_send [io_inv]: "keeps uncaptured (send ht conf c method url body)"
  unfolding send_def by (intro io_inv) (auto split: prod.split intro: io_inv)

lemma keeps_accept [io_inv]: "keeps uncaptured (accept_login conf url resp)"
  unfolding accept_login_def Let_def by (intro io_inv keeps_on_snd) simp_all

lemma keeps_login [io_inv]: "keeps uncaptured (login ht conf)"
  unfolding login_def post_login_def Let_def by (intro io_inv)

lemma keeps_ensure [io_inv]: "keeps uncaptured (ensure_logged_in ht conf)"
  unfolding ensure_logged_in_def by (intro io_inv)

lemma keeps_force [io_inv]: "keeps uncaptured (force_relogin ht conf)"
  unfolding force_relogin_def by (intro io_inv keeps_on_snd) simp

lemma keeps_with_relogin [io_inv]: "keeps uncaptured (with_relogin ht conf method url body)"
  unfolding with_relogin_def by (intro io_inv)

lemma keeps_ops:
  "keeps uncaptured (get_json_and_headers ht conf path)"
  "keeps uncaptured (post_json ht conf path body)"
  "keeps uncaptured (patch_json ht conf path body)"
  "keeps uncaptured (post_multipart ht conf path params file fname oem)"
  unfolding get_json_and_headers_def post_json_def patch_json_def post_multipart_def Let_def
  by (intro io_inv)+

section \<open>Every state of a client\<close>

inductive client_reachable :: "'w http \<Rightarrow> client_conf \<Rightarrow> 'w \<times> client_state \<Rightarrow> bool" for ht conf where
  created: "client_reachable ht conf (w, new_client)"
| did_get: "client_reachable ht conf ws \<Longrightarrow> get_json_and_headers ht conf path ws = (r, ws') \<Longrightarrow>
    client_reachable ht conf ws'"
| did_post: "client_reachable ht conf ws \<Longrightarrow> post_json ht conf path body ws = (pr, ws') \<Longrightarrow>
    client_reachable ht conf ws'"
| did_patch: "client_reachable ht conf ws \<Longrightarrow> patch_json ht conf path body ws = (pr, ws') \<Longrightarrow>
    client_reachable ht conf ws'"
| did_push: "client_reachable ht conf ws \<Longrightarrow> post_multipart ht conf path params file fname oem ws = (pr, ws') \<Longrightarrow>
    client_reachable ht conf ws'"
| did_close: "client_reachable ht conf ws \<Longrightarrow> client_close ht conf ws = (u, ws') \<Longrightarrow>
    client_reachable ht conf ws'"
| world_moves: "client_reachable ht conf (w, s) \<Longrightarrow> client_reachable ht conf (w', s)"

lemma keeps_close: "keeps uncaptured (client_close ht conf)"
proof -
  have "keeps uncaptured (delete_session ht conf c uri token)" for c uri token
    unfolding delete_session_def by (intro io_inv)
  then have "keeps uncaptured (logout ht conf)"
    unfolding logout_def
    by (intro io_inv keeps_on_snd) (auto split: option.split intro: io_inv)
  then show ?thesis unfolding client_close_def by (intro io_inv keeps_on_snd) simp_all
qed

lemma reachable_uncaptured: "client_reachable ht conf ws \<Longrightarrow> uncaptured ws"
proof (induction rule: client_reachable.induct)
  case (created w)
  show ?case by (simp add: uncaptured_def new_client_def)
next
  case (world_moves w s w')
  then show ?case by (simp add: uncaptured_def)
qed (blast dest: keepsD [OF keeps_ops(1)] keepsD [OF keeps_ops(2)] keepsD [OF keeps_ops(3)]
       keepsD [OF keeps_ops(4)] keepsD [OF keeps_close])+

section \<open>Properties\<close>

text \<open>A library whose every answer is 200 with an empty object and no headers: the BMC has no
  session service.\<close>

definition plain_http :: "unit http" where
  "plain_http = \<lparr>ht_send = (\<lambda>c q. ret \<lparr>rp_status = 200, rp_headers = [], rp_header = (\<lambda>_. None),
       rp_text = Inr ''{}'', rp_json = Inr (JObj [])\<rparr>),
     ht_fingerprint_ok = (\<lambda>bs. length bs = 32), ht_is_file = (\<lambda>_ _. True), ht_dial = (\<lambda>_ _. ret ()),
     ht_time = (\<lambda>_. 0), ht_wall = (\<lambda>_. 0), ht_sleep = (\<lambda>_. ret ())\<rparr>"

definition bmc_conf :: client_conf where
  "bmc_conf = \<lparr>cc_host = ''10.0.0.5'', cc_port = 443, cc_scheme = ''https'', cc_username = ''admin'',
     cc_password = ''pw'', cc_tls = None\<rparr>"

lemma base_url_bmc: "base_url_of bmc_conf = ''https://10.0.0.5:443''" by code_simp

text \<open>Property C26. A BMC is never hammered: one client operation sends at most four requests (a
  login, the request, a fresh login after a 401, the request again), each of them carries the
  OData headers, and Basic credentials go only into requests without a session token.\<close>

theorem client_requests:
  assumes "get_json_and_headers (logged ht) conf path ((w, l), s) = (g, ((w', l'), s')) \<or>
    post_json (logged ht) conf path body ((w, l), s) = (p, ((w', l'), s')) \<or>
    patch_json (logged ht) conf path body ((w, l), s) = (p, ((w', l'), s')) \<or>
    post_multipart (logged ht) conf path body file fname oem ((w, l), s) = (p, ((w', l'), s'))"
  shows "\<exists>new. l' = l @ new \<and> length new \<le> 4 \<and>
    (\<forall>q \<in> set new. set default_headers \<subseteq> set (rq_headers q) \<and>
       (rq_auth q = None \<or> (\<forall>t. (''X-Auth-Token'', t) \<notin> set (rq_headers q))))"
proof -
  have e: "emits 4 well_formed_request (get_json_and_headers (logged ht) conf path)"
    "emits 4 well_formed_request (post_json (logged ht) conf path body)"
    "emits 4 well_formed_request (patch_json (logged ht) conf path body)"
    "emits 4 well_formed_request (post_multipart (logged ht) conf path body file fname oem)"
    unfolding get_json_and_headers_def post_json_def patch_json_def post_multipart_def Let_def
    by (intro emits_with_relogin_then emits_lift emits_bind0 [OF emits_is_file] emits_if emits_throw)+
  have "\<exists>new. l' = l @ new \<and> length new \<le> 4 \<and> (\<forall>q \<in> set new. well_formed_request q)"
    using assms
    by (elim disjE) (rule emitsD [OF e(1)] emitsD [OF e(2)] emitsD [OF e(3)] emitsD [OF e(4)], assumption)+
  moreover have "\<And>q. well_formed_request q \<Longrightarrow> set default_headers \<subseteq> set (rq_headers q) \<and>
       (rq_auth q = None \<or> (\<forall>t. (''X-Auth-Token'', t) \<notin> set (rq_headers q)))"
    by (auto simp: well_formed_request_def default_headers_def)
  ultimately show ?thesis by blast
qed

lemma plain_get:
  "\<exists>log s'. get_json_and_headers (logged plain_http) bmc_conf ''/x'' (((), []), new_client) =
     (Inr (JObj [], []), (((), log), s')) \<and> length log = 2"
  by (simp add: get_json_and_headers_def with_relogin_def ensure_logged_in_def login_def post_login_def
      accept_login_def session_for_def send_def request_kwargs_def logged_def plain_http_def Let_def
      new_client_def quiet_redfish_def on_redfish_def unpack_get_def io_run on_fst_def on_snd_def the_snd_def
      nonempty_def bmc_conf_def can_retry_after_relogin_def cong: io_weak)

theorem client_requests_witness:
  "\<exists>g log s'. get_json_and_headers (logged plain_http) bmc_conf ''/x'' (((), []), new_client) =
     (g, (((), log), s')) \<and> length log \<le> 4"
proof -
  obtain log s' where g: "get_json_and_headers (logged plain_http) bmc_conf ''/x'' (((), []), new_client) =
     (Inr (JObj [], []), (((), log), s'))" using plain_get by blast
  from client_requests [OF disjI1 [OF g]] have "length log \<le> 4" by auto
  with g show ?thesis by blast
qed

text \<open>Further property. The password stays out of the error text: whatever a BMC answers to the session
  login, in particular if it echoes the request body, the \<open>RedfishError\<close> a failed login raises
  is determined by the URL and the status, or wraps the transport's own error.\<close>

theorem login_error_text:
  assumes "login ht conf (w, s) = (Inl e, ws')" "is_redfish e"
  shows "(\<exists>status. exn_str e = login_failed_msg (base_url_of conf @ session_path) status) \<or>
    (\<exists>c q w0 e0 w1. ht_send ht c q w0 = (Inl e0, w1) \<and>
       (exn_str e = login_transport_msg (base_url_of conf @ session_path) (exn_str e0) \<or> e = e0))"
proof -
  let ?url = "base_url_of conf @ session_path"
  let ?body = "Json_Body (JObj [(''UserName'', JStr (cc_username conf)), (''Password'', JStr (cc_password conf))])"
  have "post_login ht conf (w, s) = (Inl e, ws')"
    using assms(1) by (auto simp: login_def bind_run the_snd_def ret_run split: if_splits)
  moreover obtain c s1 where "session_for ht conf (w, s) = (Inr c, (w, s1))"
    using session_for_run [of ht conf w s] by blast
  ultimately have "catch_if is_client_error (bind (send ht conf c ''POST'' ?url ?body) (accept_login conf ?url))
      (\<lambda>e. throw (Exn Exn_Redfish (login_transport_msg ?url (exn_str e)))) (w, s1) = (Inl e, ws')"
    unfolding post_login_def Let_def by (simp add: bind_run [of "session_for ht conf"])
  then obtain e1 ws1 where run: "bind (send ht conf c ''POST'' ?url ?body) (accept_login conf ?url) (w, s1) = (Inl e1, ws1)"
    "e = e1 \<or> exn_str e = login_transport_msg ?url (exn_str e1)" "is_client_error e1 \<or> e = e1"
    by (auto simp: catch_run throw_run split: sum.splits prod.splits if_splits)
  obtain r w2 where sent: "send ht conf c ''POST'' ?url ?body (w, s1) = (r, w2)" by (metis surj_pair)
  show ?thesis
  proof (cases r)
    case (Inl e0)
    then have "e1 = e0" using run(1) sent by (simp add: bind_run)
    moreover obtain q w3 where "ht_send ht c q w = (Inl e0, w3)"
      using sent Inl by (auto simp: send_def bind_run the_snd_def on_fst_def split: prod.splits)
    ultimately show ?thesis using run(2) by blast
  next
    case (Inr resp)
    then have "accept_login conf ?url resp w2 = (Inl e1, ws1)" using run(1) sent by (simp add: bind_run)
    from accept_login_error [OF this] have e1: "e1 = Exn Exn_Redfish (login_failed_msg ?url (rp_status resp))" .
    then have "e = e1" using run(3) by (auto simp: is_client_error_def)
    then show ?thesis using e1 by auto
  qed
qed

definition forbidding_http :: "unit http" where
  "forbidding_http = plain_http\<lparr>ht_send := (\<lambda>c q. ret \<lparr>rp_status = 403, rp_headers = [], rp_header = (\<lambda>_. None),
     rp_text = Inr ''pw'', rp_json = Inr (JStr ''pw'')\<rparr>)\<rparr>"

lemma forbidden_login:
  "\<exists>ws'. login forbidding_http bmc_conf ((), new_client) =
     (Inl (Exn Exn_Redfish (login_failed_msg (base_url_of bmc_conf @ session_path) 403)), ws')"
  by (simp add: login_def post_login_def accept_login_def session_for_def send_def request_kwargs_def
      forbidding_http_def Let_def new_client_def io_run on_fst_def on_snd_def the_snd_def is_client_error_def
      nonempty_def bmc_conf_def cong: io_weak)

theorem login_error_text_witness:
  "(\<exists>status. login_failed_msg (base_url_of bmc_conf @ session_path) 403 =
       login_failed_msg (base_url_of bmc_conf @ session_path) status) \<or>
    (\<exists>c q w0 e0 w1. ht_send forbidding_http c q w0 = (Inl e0, w1))"
proof -
  obtain ws' where "login forbidding_http bmc_conf ((), new_client) =
     (Inl (Exn Exn_Redfish (login_failed_msg (base_url_of bmc_conf @ session_path) 403)), ws')"
    using forbidden_login by blast
  from login_error_text [OF this] show ?thesis by auto
qed

text \<open>Further property. A dropped connection ends the poll of a flash: when the transport of a logged-in
  client fails with its own error (not a \<open>RedfishError\<close>; the client does not wrap it, and
  nothing raises \<open>RedfishConnectionError\<close>), \<open>_poll_task\<close> raises that error at the first poll
  instead of counting it among the tolerated failures.\<close>

theorem dropped_connection_ends_poll:
  assumes "nonempty (cl_token s) \<noteq> None" "cl_session s = Some c" "uri \<noteq> []"
    and "\<And>q. ht_send ht c q w = (Inl e, w1)" "\<not> is_redfish e"
  shows "poll_task dw (connected ht conf) uri lo hi ((w, s), ps) = (Inl e, ((w1, s), ps))"
proof -
  have get: "rf_get (connected ht conf) uri (w, s) = (Inl e, (w1, s))"
    using assms(1,2,4)
    by (auto simp: connected_def get_json_and_headers_def Let_def with_relogin_def ensure_logged_in_def
        session_for_def send_def bind_run seq_run ret_run the_snd_def on_fst_def split: prod.split option.split)
  have fuel: "poll_fuel = Suc 1800" by (simp add: poll_fuel_def)
  show ?thesis
    using assms(3,5) unfolding poll_task_def fuel poll_loop.simps(2)
    by (simp add: bind_run on_fst_def loop_time_def try_redfish_def attempt_def get flash_poll_ceiling_def)
qed

definition dropped_http :: "unit http" where
  "dropped_http = plain_http\<lparr>ht_send := (\<lambda>c q. throw (Exn Exn_Client ''Server disconnected''))\<rparr>"

theorem dropped_connection_ends_poll_witness:
  "poll_task (\<lambda>_. None) (connected dropped_http bmc_conf) ''/task/1'' 30 80
     (((), new_client\<lparr>cl_token := Some ''t'', cl_session := Some Any_Certificate\<rparr>), \<lparr>ps_cache = [], ps_progress = []\<rparr>) =
   (Inl (Exn Exn_Client ''Server disconnected''),
     (((), new_client\<lparr>cl_token := Some ''t'', cl_session := Some Any_Certificate\<rparr>), \<lparr>ps_cache = [], ps_progress = []\<rparr>))"
  by (rule dropped_connection_ends_poll) (simp_all add: nonempty_def dropped_http_def throw_run)



text \<open>Further property. Closing a client forgets its credentials for good: whatever the BMC answers to the
  DELETE of the session, and even if the transport fails, a closed client holds no token, no
  session URI and no connection, and the close itself raises nothing but a cancellation.\<close>

theorem close_forgets:
  assumes "client_close ht conf (w, s) = (r, (w', s'))"
  shows "(\<forall>e. r = Inl e \<longrightarrow> exn_class e = Exn_Cancelled) \<and>
    (r = Inr () \<longrightarrow> cl_token s' = None \<and> cl_session_uri s' = None \<and> cl_session s' = None)"
  using assms client_close_state [of ht conf w s "()" w' s'] client_close_quiet [of ht conf "(w, s)" _ "(w', s')"]
  by (auto simp: is_exception_def)

theorem close_forgets_witness:
  "\<exists>s'. client_close dropped_http bmc_conf
     ((), new_client\<lparr>cl_token := Some ''t'', cl_session_uri := Some ''/s/1'', cl_session := Some Any_Certificate\<rparr>) =
       (Inr (), ((), s')) \<and> cl_token s' = None"
proof -
  let ?s = "new_client\<lparr>cl_token := Some ''t'', cl_session_uri := Some ''/s/1'', cl_session := Some Any_Certificate\<rparr>"
  obtain r w' s' where c: "client_close dropped_http bmc_conf ((), ?s) = (r, (w', s'))" by (metis surj_pair)
  have "r = Inr ()"
    using c by (simp add: client_close_def logout_def delete_session_def dropped_http_def new_client_def io_run
        on_fst_def on_snd_def the_snd_def nonempty_def is_exception_def cong: io_weak)
  then show ?thesis using close_forgets [OF c] c by auto
qed

text \<open>Further property. A power cycle over a connected client fails only with the text of a Redfish error
  or for want of a system: a status of 400 or more never reaches the plugin's own check, the
  client has already turned it into the error.\<close>

theorem power_cycle_failures:
  assumes "run_power_cycle (connected ht conf) server (ws, ps) = (Inr r, ws')" "\<not> res_okay r"
  shows "res_message r = ''No Systems collection'' \<or> (\<exists>e. is_redfish e \<and> res_message r = exn_str e)"
  by (rule client.power_cycle_failure [OF assms])

definition cached_system :: plugin_state where
  "cached_system = \<lparr>ps_cache = [(''10.0.0.5'', (empty_cap\<lparr>cap_system_reset_target := JStr ''/reset''\<rparr>, 0))], ps_progress = []\<rparr>"

lemma forbidden_cycle:
  "\<exists>r ws'. run_power_cycle (connected forbidding_http bmc_conf) (new_server_info ''10.0.0.5'')
     (((), new_client), cached_system) = (Inr r, ws') \<and> \<not> res_okay r"
proof -
  have ip: "strip ''10.0.0.5'' = ''10.0.0.5''" by code_simp
  show ?thesis
    by (simp add: run_power_cycle_def capability_map_def fresh_cap_def cached_system_def new_server_info_def ip
        connected_def forbidding_http_def plain_http_def cap_ttl_def cap_reset_target_def post_json_at_def
        post_json_def with_relogin_def ensure_logged_in_def login_def post_login_def accept_login_def
        session_for_def send_def request_kwargs_def Let_def new_client_def quiet_redfish_def on_redfish_def
        unpack_post_def unpack_with_def read_or_def io_run on_fst_def on_snd_def the_snd_def nonempty_def
        bmc_conf_def loop_time_def can_retry_after_relogin_def is_client_error_def failed_def
        empty_cap_def cong: io_weak)
qed

theorem power_cycle_failures_witness:
  "\<exists>r ws'. run_power_cycle (connected forbidding_http bmc_conf) (new_server_info ''10.0.0.5'')
     (((), new_client), cached_system) = (Inr r, ws') \<and>
     (res_message r = ''No Systems collection'' \<or> (\<exists>e. is_redfish e \<and> res_message r = exn_str e))"
proof -
  obtain r ws' where "run_power_cycle (connected forbidding_http bmc_conf) (new_server_info ''10.0.0.5'')
     (((), new_client), cached_system) = (Inr r, ws')" "\<not> res_okay r" using forbidden_cycle by blast
  from power_cycle_failures [OF this] this show ?thesis by blast
qed

end
