(* ===== verification/Registry.thy ===== *)
theory Registry
  imports Plugin_Core "HOL-Library.Multiset"
begin

text \<open>
  The plugin registry (\<open>core/plugins_api/registry.py\<close>) and the confidence scores of the bundled
  vendor plugins (\<open>plugins/*/plugin.py\<close>, \<open>match\<close>). A plugin is its identity, key, priority and
  \<open>match\<close>; importing a package is the parameter of \<open>load_bundled\<close>. Scores are the decimal
  constants of the code as rationals; the registry only compares them.
\<close>

section \<open>Probes\<close>

record probe =
  pb_ip :: string
  pb_manufacturer :: json
  pb_model :: json
  pb_redfish_root :: "string option"
  pb_oem_blocks :: "string list"

definition manufacturer_text :: "probe \<Rightarrow> string py" where
  "manufacturer_text p = bind_py (as_str ''lower'' (or_else (pb_manufacturer p) (JStr []))) (\<lambda>s. Inr (lower s))"

definition drop_spaces :: "string \<Rightarrow> string" where
  "drop_spaces s = filter (\<lambda>c. c \<noteq> CHR '' '') s"

definition score_by :: "(string \<Rightarrow> rat option) \<Rightarrow> (string \<Rightarrow> bool) \<Rightarrow> rat \<Rightarrow> probe \<Rightarrow> rat py" where
  "score_by by_name by_block block_score p = bind_py (manufacturer_text p) (\<lambda>m. Inr (case by_name m of
       Some x \<Rightarrow> x
     | None \<Rightarrow> if list_ex (\<lambda>b. by_block (lower b)) (pb_oem_blocks p) then block_score else 0))"

section \<open>The vendors' confidence scores\<close>

definition generic_match :: "probe \<Rightarrow> rat py" where
  "generic_match p = Inr (if nonempty (pb_redfish_root p) \<noteq> None then 1 / 10 else 0)"

definition asrock_match :: "probe \<Rightarrow> rat py" where
  "asrock_match = score_by
     (\<lambda>m. let s = drop_spaces m in if contains ''asrockrack'' s \<or> contains ''asrock'' s then Some (92 / 100) else None)
     (\<lambda>b. contains ''asrock'' (drop_spaces b)) (82 / 100)"

definition asus_match :: "probe \<Rightarrow> rat py" where
  "asus_match = score_by
     (\<lambda>m. if m = ''asus'' \<or> contains ''asustek'' m \<or> contains ''asus technology'' m then Some (92 / 100) else None)
     (contains ''asus'') (82 / 100)"

definition dell_match :: "probe \<Rightarrow> rat py" where
  "dell_match = score_by (\<lambda>m. if starts_with ''dell'' m then Some (92 / 100) else None)
     (contains ''dell'') (82 / 100)"

definition gigabyte_match :: "probe \<Rightarrow> rat py" where
  "gigabyte_match = score_by
     (\<lambda>m. if m = ''gigabyte'' \<or> contains ''gigabyte technology'' m \<or> contains ''giga computing'' m
          then Some (92 / 100) else None)
     (\<lambda>b. contains ''gigabyte'' b \<or> contains ''giga computing'' b) (82 / 100)"

definition lenovo_match :: "probe \<Rightarrow> rat py" where
  "lenovo_match = score_by (\<lambda>m. if m = ''lenovo'' \<or> starts_with ''lenovo '' m then Some (92 / 100) else None)
     (contains ''lenovo'') (82 / 100)"

definition msi_match :: "probe \<Rightarrow> rat py" where
  "msi_match = score_by
     (\<lambda>m. if m = ''msi'' \<or> contains ''micro-star international'' m \<or> contains ''micro star'' m
          then Some (92 / 100) else None)
     (\<lambda>b. let s = strip b in s = ''msi'' \<or> starts_with ''msi.'' s \<or> starts_with ''msi_'' s) (82 / 100)"

definition supermicro_match :: "probe \<Rightarrow> rat py" where
  "supermicro_match = score_by
     (\<lambda>m. if contains ''supermicro'' m \<or> contains ''super micro'' m then Some (9 / 10)
          else if contains ''tyrone'' m then Some (85 / 100) else None)
     (\<lambda>b. contains ''supermicro'' b \<or> contains ''tyrone'' b) (8 / 10)"

definition hpe_match :: "probe \<Rightarrow> rat py" where
  "hpe_match = score_by
     (\<lambda>m. if m = ''hpe'' \<or> contains ''hewlett packard enterprise'' m \<or> contains ''hewlett-packard'' m
          then Some (92 / 100) else None)
     (\<lambda>b. b = ''hpe'' \<or> b = ''hp'') (82 / 100)"

section \<open>Plugins and the registry\<close>

record oem_plugin =
  op_id :: nat
  op_key :: string
  op_priority :: int
  op_match :: "probe \<Rightarrow> rat py"

definition bundled :: "nat \<Rightarrow> string \<Rightarrow> (probe \<Rightarrow> rat py) \<Rightarrow> oem_plugin" where
  "bundled n key mt = \<lparr>op_id = n, op_key = key, op_priority = 0, op_match = mt\<rparr>"

text \<open>The packages under \<open>plugins/\<close> that carry a manifest, and the instances they export.\<close>

definition bundled_packages :: "(string \<times> oem_plugin) list" where
  "bundled_packages =
     [(''supermicro'', bundled 0 ''supermicro'' supermicro_match), (''asrock'', bundled 1 ''asrock'' asrock_match),
      (''asus'', bundled 2 ''asus'' asus_match), (''dell'', bundled 3 ''dell'' dell_match),
      (''generic_redfish'', bundled 4 ''generic_redfish'' generic_match),
      (''gigabyte'', bundled 5 ''gigabyte'' gigabyte_match), (''hpe'', bundled 6 ''hpe'' hpe_match),
      (''lenovo'', bundled 7 ''lenovo'' lenovo_match), (''msi'', bundled 8 ''msi'' msi_match)]"

text \<open>A package that fails to load is logged and skipped.\<close>

definition load_bundled :: "(string \<Rightarrow> oem_plugin option) \<Rightarrow> string list \<Rightarrow> oem_plugin list \<Rightarrow> oem_plugin list" where
  "load_bundled load_package packages plugins = plugins @ List.map_filter load_package (sort packages)"

definition load_entry_points :: "(string \<Rightarrow> oem_plugin option) \<Rightarrow> string list \<Rightarrow> oem_plugin list \<Rightarrow> oem_plugin list" where
  "load_entry_points load_entry entries plugins = plugins @ List.map_filter load_entry entries"

definition by_key :: "oem_plugin list \<Rightarrow> string \<Rightarrow> oem_plugin option" where
  "by_key plugins key = List.find (\<lambda>p. op_key p = key) plugins"

definition resolve_plugin :: "oem_plugin list \<Rightarrow> string option \<Rightarrow> oem_plugin option" where
  "resolve_plugin plugins override = (case nonempty override of None \<Rightarrow> None | Some k \<Rightarrow> by_key plugins k)"

section \<open>Ranking\<close>

text \<open>The sort key of a candidate, the tuple \<open>(-score, -priority, key)\<close>, ordered as Python orders
  tuples.\<close>

datatype rank = Rank (rk_neg_score: rat) (rk_neg_priority: int) (rk_key: string)

definition rank_le :: "rank \<Rightarrow> rank \<Rightarrow> bool" where
  "rank_le a b = (rk_neg_score a < rk_neg_score b \<or> (rk_neg_score a = rk_neg_score b \<and>
     (rk_neg_priority a < rk_neg_priority b \<or> (rk_neg_priority a = rk_neg_priority b \<and> rk_key a \<le> rk_key b))))"

instantiation rank :: linorder
begin

definition less_eq_rank :: "rank \<Rightarrow> rank \<Rightarrow> bool" where
  "less_eq_rank = rank_le"

definition less_rank :: "rank \<Rightarrow> rank \<Rightarrow> bool" where
  "less_rank a b = (a \<le> b \<and> \<not> b \<le> (a :: rank))"

instance
  by standard (auto simp: less_eq_rank_def rank_le_def less_rank_def intro: rank.expand)

end

definition score_of :: "probe \<Rightarrow> oem_plugin \<Rightarrow> rat" where
  "score_of pb p = (case op_match p pb of Inl _ \<Rightarrow> - 1 | Inr x \<Rightarrow> x)"

definition rank_of :: "probe \<Rightarrow> oem_plugin \<Rightarrow> rank" where
  "rank_of pb p = Rank (- score_of pb p) (- op_priority p) (op_key p)"

definition tied :: "probe \<Rightarrow> oem_plugin list \<Rightarrow> bool" where
  "tied pb plugins = (\<exists>p \<in> set plugins. \<exists>q \<in> set plugins. op_id p \<noteq> op_id q \<and> rank_of pb p = rank_of pb q)"

text \<open>\<open>match\<close>. Sorting the tuples compares the plugin objects themselves when two tuples agree up
  to the key, which Python refuses.\<close>

definition match_plugin :: "oem_plugin list \<Rightarrow> probe \<Rightarrow> oem_plugin option py" where
  "match_plugin plugins pb =
     (if tied pb plugins
      then Inl (Exn Exn_Type (quoted ''<'' @ '' not supported between instances of plugins''))
      else Inr (case sort_key (rank_of pb) plugins of
          [] \<Rightarrow> None
        | best # _ \<Rightarrow> if score_of pb best < 0 then None else Some best))"

section \<open>Facts\<close>

lemma sort_key_hd_le:
  fixes f :: "'a \<Rightarrow> 'b :: linorder"
  assumes "sort_key f xs = b # rest" "x \<in> set xs"
  shows "f b \<le> f x"
proof -
  have "sorted (List.map f (b # rest))" using sorted_sort_key [of f xs] assms(1) by simp
  moreover have "x \<in> set (b # rest)" using assms by (metis set_sort)
  ultimately show ?thesis by auto
qed

lemma sort_key_hd_mem: "sort_key f xs = b # rest \<Longrightarrow> b \<in> set xs"
  by (metis list.set_intros(1) set_sort)

lemma score_by_cases: "score_by n b s p = Inr x \<Longrightarrow> (\<exists>m. n m = Some x) \<or> x = s \<or> x = 0"
  by (auto simp: score_by_def bind_py_Inr split: option.splits if_splits)

lemma match_best:
  assumes "match_plugin plugins pb = Inr (Some b)"
  shows "b \<in> set plugins \<and> 0 \<le> score_of pb b \<and> (\<forall>q \<in> set plugins. rank_of pb b \<le> rank_of pb q)"
  using assms by (auto simp: match_plugin_def dest: sort_key_hd_mem sort_key_hd_le split: if_splits list.splits)

lemma rank_le_score: "rank_of pb b \<le> rank_of pb q \<Longrightarrow> score_of pb q \<le> score_of pb b"
  by (auto simp: less_eq_rank_def rank_le_def rank_of_def)

lemma match_none:
  assumes "match_plugin plugins pb = Inr None" "p \<in> set plugins"
  shows "score_of pb p < 0"
proof -
  have "plugins \<noteq> []" using assms(2) by auto
  then obtain b rest where b: "sort_key (rank_of pb) plugins = b # rest"
    by (metis length_0_conv length_sort neq_Nil_conv)
  then have "score_of pb b < 0" using assms(1) by (auto simp: match_plugin_def split: if_splits)
  moreover have "score_of pb p \<le> score_of pb b"
    using sort_key_hd_le [OF b assms(2)] by (rule rank_le_score)
  ultimately show ?thesis by simp
qed

lemma by_key_Some: "by_key plugins k = Some p \<Longrightarrow> p \<in> set plugins \<and> op_key p = k"
  unfolding by_key_def by (auto dest: find_SomeD)

lemma by_key_None: "by_key plugins k = None \<longleftrightarrow> (\<forall>p \<in> set plugins. op_key p \<noteq> k)"
  unfolding by_key_def by (auto simp: find_None_iff)

section \<open>Properties\<close>

text \<open>Property C28. The best plugin wins: a match is a loaded plugin with a non-negative score that
  no loaded plugin beats, first by score, then by priority, then by the smaller key; and no
  match is reported only if every loaded plugin has a negative score (it raised).\<close>

theorem match_plugin_best:
  assumes "match_plugin plugins pb = Inr r"
  shows "(\<forall>b. r = Some b \<longrightarrow> b \<in> set plugins \<and> 0 \<le> score_of pb b \<and>
      (\<forall>q \<in> set plugins. score_of pb q < score_of pb b \<or> (score_of pb q = score_of pb b \<and>
         (op_priority q < op_priority b \<or> (op_priority q = op_priority b \<and> op_key b \<le> op_key q))))) \<and>
    (r = None \<longrightarrow> (\<forall>q \<in> set plugins. score_of pb q < 0))"
proof (intro conjI allI impI ballI)
  fix b q assume b: "r = Some b" and q: "q \<in> set plugins"
  have "rank_of pb b \<le> rank_of pb q" using match_best [of plugins pb b] assms b q by simp
  then show "score_of pb q < score_of pb b \<or> (score_of pb q = score_of pb b \<and>
         (op_priority q < op_priority b \<or> (op_priority q = op_priority b \<and> op_key b \<le> op_key q)))"
    by (auto simp: less_eq_rank_def rank_le_def rank_of_def)
qed (use assms match_best match_none in auto)

definition tyrone_probe :: probe where
  "tyrone_probe = \<lparr>pb_ip = ''10.0.0.5'', pb_manufacturer = JStr ''Tyrone Systems'', pb_model = JNull,
     pb_redfish_root = Some ''https://10.0.0.5:443/redfish/v1/'', pb_oem_blocks = [''Smc'']\<rparr>"

lemma tyrone_scores:
  "List.map (score_of tyrone_probe \<circ> snd) bundled_packages = [85 / 100, 0, 0, 0, 1 / 10, 0, 0, 0, 0]"
  by code_simp

lemma bundled_priorities: "\<forall>p \<in> set (List.map snd bundled_packages). op_priority p = 0"
  by code_simp

lemma bundled_keys: "distinct (List.map (op_key \<circ> snd) bundled_packages)" "distinct (List.map (op_id \<circ> snd) bundled_packages)"
  by code_simp+

lemma bundled_not_tied: "\<not> tied pb (List.map snd bundled_packages)"
proof -
  have "op_id p = op_id q" if "p \<in> set (List.map snd bundled_packages)" "q \<in> set (List.map snd bundled_packages)"
    "op_key p = op_key q" for p q
  proof -
    have "inj_on op_key (set (List.map snd bundled_packages))"
      using bundled_keys(1) distinct_map [of op_key "List.map snd bundled_packages"] by simp
    then have "p = q" by (rule inj_onD [OF _ that(3) that(1) that(2)])
    then show ?thesis by simp
  qed
  note same = this
  show ?thesis
  proof
    assume "tied pb (List.map snd bundled_packages)"
    then obtain p q where "p \<in> set (List.map snd bundled_packages)" "q \<in> set (List.map snd bundled_packages)"
      "op_id p \<noteq> op_id q" "rank_of pb p = rank_of pb q" unfolding tied_def by blast
    then show False using same [of p q] unfolding rank_of_def by simp
  qed
qed

lemma tyrone_match: "match_plugin (List.map snd bundled_packages) tyrone_probe = Inr (Some (snd (hd bundled_packages)))"
proof -
  obtain b where b: "match_plugin (List.map snd bundled_packages) tyrone_probe = Inr b"
    using bundled_not_tied by (simp add: match_plugin_def)
  have sc: "score_of tyrone_probe (snd (hd bundled_packages)) = 85 / 100"
    "\<forall>p \<in> set (List.map snd (tl bundled_packages)). score_of tyrone_probe p < 85 / 100"
    by code_simp+
  have mem: "set (List.map snd bundled_packages) = insert (snd (hd bundled_packages)) (set (List.map snd (tl bundled_packages)))"
    by (simp add: bundled_packages_def)
  show ?thesis
  proof (cases b)
    case None
    then show ?thesis using match_none [of _ tyrone_probe "snd (hd bundled_packages)"] b sc(1) mem by fastforce
  next
    case (Some p)
    note m = match_best [OF b [unfolded Some]]
    have "rank_of tyrone_probe p \<le> rank_of tyrone_probe (snd (hd bundled_packages))" using m mem by blast
    then have "85 / 100 \<le> score_of tyrone_probe p" using rank_le_score sc(1) by metis
    then have "p \<notin> set (List.map snd (tl bundled_packages))" using sc(2) by force
    then have "p = snd (hd bundled_packages)" using m unfolding mem by blast
    then show ?thesis using b Some by simp
  qed
qed

theorem match_plugin_best_witness:
  "list_all (\<lambda>q. score_of tyrone_probe q \<le> score_of tyrone_probe (snd (hd bundled_packages))) (List.map snd bundled_packages)"
  unfolding list_all_iff using match_plugin_best [OF tyrone_match] by fastforce

text \<open>Further property. The load order does not decide: registries with the same plugins, loaded in any
  order, give the same answer for every probe (where plugins are told apart by their identity).\<close>

theorem match_order_independent:
  assumes "mset ps = mset qs" "inj_on op_id (set ps)"
  shows "match_plugin ps pb = match_plugin qs pb"
proof -
  have set: "set ps = set qs" using assms(1) by (rule mset_eq_setD)
  have t: "tied pb ps = tied pb qs" by (simp add: tied_def set)
  show ?thesis
  proof (cases "tied pb ps")
    case True
    then show ?thesis using t by (simp add: match_plugin_def)
  next
    case False
    have "inj_on (rank_of pb) (set ps)"
    proof (rule inj_onI)
      fix p q assume pq: "p \<in> set ps" "q \<in> set ps" "rank_of pb p = rank_of pb q"
      then have "op_id p = op_id q" using False unfolding tied_def by blast
      then show "p = q" using assms(2) pq(1,2) by (auto dest: inj_onD)
    qed
    moreover have "mset ps = mset (sort_key (rank_of pb) qs)" using assms(1) by simp
    ultimately have "sort_key (rank_of pb) ps = sort_key (rank_of pb) qs"
      using sort_key_inj_key_eq sorted_sort_key by blast
    then show ?thesis using t by (simp add: match_plugin_def)
  qed
qed

theorem match_order_independent_witness:
  "match_plugin (rev (List.map snd bundled_packages)) tyrone_probe =
     match_plugin (List.map snd bundled_packages) tyrone_probe"
proof (rule match_order_independent)
  have "inj_on op_id (set (List.map snd bundled_packages))"
    using bundled_keys(2) distinct_map [of op_id "List.map snd bundled_packages"] by simp
  then show "inj_on op_id (set (rev (List.map snd bundled_packages)))" by simp
qed simp

text \<open>Further property. Every Redfish host is routed: with the bundled plugins the match neither raises
  nor comes back empty for a host with a service root, whatever its vendor text, and a vendor
  that scores beats the generic floor.\<close>

theorem bundled_match_total:
  assumes "nonempty (pb_redfish_root pb) \<noteq> None"
  shows "\<exists>b \<in> set (List.map snd bundled_packages). match_plugin (List.map snd bundled_packages) pb = Inr (Some b) \<and>
    1 / 10 \<le> score_of pb b \<and>
    ((\<exists>q \<in> set (List.map snd bundled_packages). 1 / 10 < score_of pb q) \<longrightarrow> op_key b \<noteq> ''generic_redfish'')"
proof -
  let ?ps = "List.map snd bundled_packages"
  let ?g = "bundled 4 ''generic_redfish'' generic_match"
  have g: "?g \<in> set ?ps" by (simp add: bundled_packages_def)
  have gs: "score_of pb ?g = 1 / 10" using assms by (simp add: score_of_def bundled_def generic_match_def)
  obtain r where r: "match_plugin ?ps pb = Inr r" using bundled_not_tied by (simp add: match_plugin_def)
  have "r \<noteq> None" using match_none [of ?ps pb ?g] r g gs by fastforce
  then obtain b where b: "match_plugin ?ps pb = Inr (Some b)" using r by auto
  have best: "b \<in> set ?ps" "\<forall>q \<in> set ?ps. score_of pb q \<le> score_of pb b"
    using match_best [OF b] rank_le_score by blast+
  have "op_key b \<noteq> ''generic_redfish''" if q: "\<exists>q \<in> set ?ps. 1 / 10 < score_of pb q"
  proof
    assume k: "op_key b = ''generic_redfish''"
    have "inj_on op_key (set ?ps)"
      using bundled_keys(1) distinct_map [of op_key ?ps] by simp
    then have "b = ?g" by (rule inj_onD [OF _ _ best(1) g]) (simp add: k bundled_def)
    then show False using q best(2) gs by fastforce
  qed
  then show ?thesis using b best(1) bspec [OF best(2) g] gs by (intro bexI [of _ b]) simp_all
qed

theorem bundled_match_total_witness:
  "\<exists>b \<in> set (List.map snd bundled_packages).
     match_plugin (List.map snd bundled_packages) tyrone_probe = Inr (Some b) \<and> 1 / 10 \<le> score_of tyrone_probe b"
  using bundled_match_total [of tyrone_probe] by (auto simp: tyrone_probe_def nonempty_def)

text \<open>Further property. Operations are routed by hand only: a plugin is resolved for an operation exactly
  when the operator pinned a key and a loaded plugin has it; the probe, and so the scores, play
  no part.\<close>

theorem resolve_plugin_manual:
  assumes "resolve_plugin plugins override = r"
  shows "(\<forall>p. r = Some p \<longrightarrow> override = Some (op_key p) \<and> op_key p \<noteq> [] \<and> p \<in> set plugins) \<and>
    (r = None \<longrightarrow> (\<forall>k. override = Some k \<longrightarrow> k = [] \<or> (\<forall>p \<in> set plugins. op_key p \<noteq> k)))"
  using assms
  by (auto simp: resolve_plugin_def nonempty_def by_key_None split: option.splits if_splits dest: by_key_Some)

theorem resolve_plugin_manual_witness:
  "resolve_plugin (List.map snd bundled_packages) None = None \<and>
   resolve_plugin (List.map snd bundled_packages) (Some ''dell'') \<noteq> None"
  using resolve_plugin_manual [of "List.map snd bundled_packages" "Some ''dell''"]
  by (auto simp: resolve_plugin_def nonempty_def bundled_packages_def bundled_def)

end
