(* ===== verification/Vendors.thy ===== *)
theory Vendors
  imports Redfish_Client Registry
begin

text \<open>
  The vendor plugins: the class attributes and hooks that AMI MegaRAC boards, Dell and Lenovo
  override, the Supermicro update recipe (upload, OEM install, power sequence) and the HPE iLO
  push. A flow of a vendor runs over the connected client's world; \<open>fresh_flow\<close> opens the
  client of one operation.
\<close>

section \<open>Hooks\<close>

definition ami_hooks :: "string \<Rightarrow> hooks" where
  "ami_hooks key = generic_hooks\<lparr>hk_key := key,
     hk_oem_params := (\<lambda>target. Some (JObj [(''ImageType'', JStr target)]))\<rparr>"

definition dell_hooks :: hooks where
  "dell_hooks = generic_hooks\<lparr>hk_key := ''dell'', hk_targets := (\<lambda>_. []), hk_vm_slot := ''RemovableDisk''\<rparr>"

definition lenovo_hooks :: hooks where
  "lenovo_hooks = generic_hooks\<lparr>hk_key := ''lenovo''\<rparr>"

definition hpe_hooks :: hooks where
  "hpe_hooks = generic_hooks\<lparr>hk_key := ''hpe''\<rparr>"

definition fresh_flow :: "('w \<times> client_state, 'a) flow \<Rightarrow> ('w, 'a) flow" where
  "fresh_flow m = (\<lambda>(w, ps). case m ((w, new_client), ps) of (r, ((w', _), ps')) \<Rightarrow> (r, (w', ps')))"

section \<open>Supermicro\<close>

definition fw_inv :: string where
  "fw_inv = ''/redfish/v1/UpdateService/FirmwareInventory''"

definition smc_upload_uri :: string where
  "smc_upload_uri = ''/redfish/v1/UpdateService/upload''"

definition smc_install :: string where
  "smc_install = ''/redfish/v1/UpdateService/Actions/Oem/SmcUpdateService.Install''"

definition smc_sys_reset :: string where
  "smc_sys_reset = ''/redfish/v1/Systems/1/Actions/ComputerSystem.Reset''"

definition smc_params :: "string \<Rightarrow> string \<Rightarrow> json" where
  "smc_params part apply_time = JObj [(''Targets'', JArr [JStr (fw_inv @ ''/'' @ part)]),
     (''@Redfish.OperationApplyTime'', JStr apply_time)]"

definition smc_push :: "'w redfish \<Rightarrow> firmware \<Rightarrow> string \<Rightarrow> string \<Rightarrow> ('w, post_result) io" where
  "smc_push rf fw part apply_time = rf_multipart rf smc_upload_uri (smc_params part apply_time)
     (fw_file_path fw) (fw_name fw) (Some (JObj [(''ImageType'', JStr part)]))"

text \<open>\<open>int(pct * k)\<close> for a float literal \<open>k\<close>.\<close>

definition float_literal :: "rat \<Rightarrow> rat" where
  "float_literal q = (case rnd q of Fin x \<Rightarrow> x | _ \<Rightarrow> 0)"

definition int_times_float :: "int \<Rightarrow> rat \<Rightarrow> pyfloat py" where
  "int_times_float n k = (case rnd (of_int n) of
       Fin x \<Rightarrow> Inr (float_scale (Fin x) (float_literal k))
     | _ \<Rightarrow> Inl (Exn Exn_Overflow ''int too large to convert to float''))"

definition smc_scaled :: "int \<Rightarrow> int \<Rightarrow> rat \<Rightarrow> int py" where
  "smc_scaled base pct k = bind_py (int_times_float pct k) (\<lambda>f. bind_py (int_of_float f) (\<lambda>n. Inr (base + n)))"

definition smc_task_uri :: "post_result \<Rightarrow> json py" where
  "smc_task_uri pr = (if pr_location pr \<noteq> [] then Inr (JStr (pr_location pr))
     else jget_or (or_else (pr_body pr) (JObj [])) ''@odata.id'' (JStr []))"

definition smc_report :: "int \<Rightarrow> json \<Rightarrow> ('w, int \<times> (bool \<times> string) option) flow" where
  "smc_report lastp task = bind (lift_py (percent_of task)) (\<lambda>pct.
     seq (if pct \<noteq> lastp then bind (lift_py (smc_scaled 30 pct (55 / 100))) (progress ''flashing'') else ret ())
     (bind (lift_py (poll_verdict task)) (\<lambda>v. ret (pct, v))))"

fun smc_poll_loop :: "'w redfish \<Rightarrow> json \<Rightarrow> rat \<Rightarrow> nat \<Rightarrow> nat \<Rightarrow> int \<Rightarrow> ('w, bool \<times> string) flow" where
  "smc_poll_loop rf uri deadline 0 errs lastp = throw fuel_out"
| "smc_poll_loop rf uri deadline (Suc fuel) errs lastp = bind (on_fst (loop_time rf)) (\<lambda>now.
     if deadline \<le> now then ret (False, ''flash did not finish within 30 min'') else
     bind (on_fst (try_redfish (get_json_at rf uri))) (\<lambda>r. case r of
       Inl e \<Rightarrow> if 60 \<le> Suc errs then ret (False, unreachable_msg e)
                else seq (on_fst (rf_sleep rf 5)) (smc_poll_loop rf uri deadline fuel (Suc errs) lastp)
     | Inr task \<Rightarrow> bind (smc_report lastp task) (\<lambda>(lastp', v). case v of
           Some verdict \<Rightarrow> ret verdict
         | None \<Rightarrow> seq (on_fst (rf_sleep rf 5)) (smc_poll_loop rf uri deadline fuel 0 lastp'))))"

definition smc_poll_task :: "'w redfish \<Rightarrow> json \<Rightarrow> ('w, bool \<times> string) flow" where
  "smc_poll_task rf uri = (if \<not> truthy uri then ret (True, ''no task returned'')
     else bind (on_fst (loop_time rf)) (\<lambda>now. smc_poll_loop rf uri (now + 1800) 361 0 0))"

text \<open>One look at the task collection: the first task whose name mentions BIOS and whose state is
  terminal decides.\<close>

fun smc_scan_tasks :: "'w redfish \<Rightarrow> json list \<Rightarrow> ('w, (bool \<times> string) option) flow" where
  "smc_scan_tasks rf [] = ret None"
| "smc_scan_tasks rf (ref # refs) =
     bind (on_fst (try_redfish (bind (lift_py (jindex ref ''@odata.id'')) (get_json_at rf)))) (\<lambda>r. case r of
       Inl _ \<Rightarrow> smc_scan_tasks rf refs
     | Inr d \<Rightarrow>
         bind (lift_py (bind_py (jget d ''Name'') (\<lambda>n. jcontains ''BIOS'' (or_else n (JStr []))))) (\<lambda>bios.
         if \<not> bios then smc_scan_tasks rf refs else
         bind (lift_py (jget_or d ''TaskState'' (JStr ''Running''))) (\<lambda>state.
         bind (lift_py (percent_of d)) (\<lambda>pct.
         seq (bind (lift_py (smc_scaled 45 pct (1 / 2))) (progress ''flashing''))
         (if state = JStr ''Completed'' then ret (Some (True, ''completed''))
          else if state \<in> terminal_states
          then ret (Some (False, ''BIOS task ended '' @ quoted (json_str state)))
          else smc_scan_tasks rf refs)))))"

fun smc_bios_loop :: "'w redfish \<Rightarrow> rat \<Rightarrow> nat \<Rightarrow> ('w, bool \<times> string) flow" where
  "smc_bios_loop rf deadline 0 = throw fuel_out"
| "smc_bios_loop rf deadline (Suc fuel) = bind (on_fst (loop_time rf)) (\<lambda>now.
     if deadline \<le> now then ret (True, ''applied (task not observed)'') else
     bind (on_fst (try_redfish (get_json rf ''/redfish/v1/TaskService/Tasks''))) (\<lambda>r. case r of
       Inl _ \<Rightarrow> seq (on_fst (rf_sleep rf 5)) (smc_bios_loop rf deadline fuel)
     | Inr tasks \<Rightarrow>
         bind (lift_py (bind_py (jget_or tasks ''Members'' (JArr [])) jiter)) (\<lambda>refs.
         bind (smc_scan_tasks rf refs) (\<lambda>v. case v of
           Some verdict \<Rightarrow> ret verdict
         | None \<Rightarrow> seq (on_fst (rf_sleep rf 5)) (smc_bios_loop rf deadline fuel)))))"

definition smc_poll_bios_task :: "'w redfish \<Rightarrow> ('w, bool \<times> string) flow" where
  "smc_poll_bios_task rf = bind (on_fst (loop_time rf)) (\<lambda>now.
     seq (on_fst (rf_sleep rf 60)) (smc_bios_loop rf (now + 1800) 361))"

definition smc_power :: "'w redfish \<Rightarrow> server_info \<Rightarrow> string \<Rightarrow> ('w, unit) flow" where
  "smc_power rf server reset_type = bind (capability_map rf server) (\<lambda>c.
     on_fst (quiet_redfish (post_json_at rf (or_else (cap_reset_target c) (JStr smc_sys_reset))
                              (reset_body reset_type))))"

fun smc_power_loop :: "'w redfish \<Rightarrow> string \<Rightarrow> string \<Rightarrow> rat \<Rightarrow> nat \<Rightarrow> ('w, unit) io" where
  "smc_power_loop rf uri want deadline 0 = throw fuel_out"
| "smc_power_loop rf uri want deadline (Suc fuel) = bind (loop_time rf) (\<lambda>now.
     if deadline \<le> now then ret () else
     bind (try_redfish (bind (get_json rf uri) (\<lambda>s. lift_py (jget s ''PowerState'')))) (\<lambda>r.
     if r = Inr (JStr want) then ret ()
     else seq (rf_sleep rf 5) (smc_power_loop rf uri want deadline fuel)))"

definition smc_system_uri :: "cap option \<Rightarrow> string" where
  "smc_system_uri c = the_default ''/redfish/v1/Systems/1''
     (case c of Some m \<Rightarrow> nonempty (cap_system_uri m) | None \<Rightarrow> None)"

definition smc_wait_power :: "'w redfish \<Rightarrow> server_info \<Rightarrow> string \<Rightarrow> nat \<Rightarrow> ('w, unit) flow" where
  "smc_wait_power rf server want timeout = bind (capability_map rf server) (\<lambda>c.
     bind (on_fst (loop_time rf)) (\<lambda>now.
     on_fst (smc_power_loop rf (smc_system_uri c) want (now + of_nat timeout) (Suc timeout))))"

definition smc_read_version :: "'w redfish \<Rightarrow> string \<Rightarrow> ('w, json) io" where
  "smc_read_version rf part = on_redfish
     (bind (get_json rf (fw_inv @ ''/'' @ part)) (\<lambda>d. lift_py (jget d ''Version''))) (\<lambda>_. ret JNull)"

definition smc_done :: "string \<Rightarrow> json \<Rightarrow> firmware \<Rightarrow> plugin_result" where
  "smc_done msg ver fw = \<lparr>res_okay = True, res_message = msg, res_version = or_else ver (JStr (fw_version fw))\<rparr>"

definition smc_update_bmc :: "'w redfish \<Rightarrow> firmware \<Rightarrow> ('w, plugin_result) flow" where
  "smc_update_bmc rf fw = seq (progress ''uploading'' 10)
     (bind (on_fst (try_redfish (smc_push rf fw ''BMC'' ''Immediate''))) (\<lambda>r. case r of
       Inl e \<Rightarrow> ret (failed (''BMC upload failed: '' @ exn_str e))
     | Inr pr \<Rightarrow>
         bind (lift_py (smc_task_uri pr)) (\<lambda>uri.
         seq (progress ''flashing'' 30)
         (bind (smc_poll_task rf uri) (\<lambda>(ok, msg).
          if \<not> ok then ret (failed msg) else
          seq (progress ''rebooting'' 90)
          (bind (on_fst (smc_read_version rf ''BMC'')) (\<lambda>ver.
           ret (smc_done ''BMC flashed; the BMC is resetting.'' ver fw))))))))"

definition smc_upload_task :: "post_result \<Rightarrow> string py" where
  "smc_upload_task pr = (if strip (pr_location pr) \<noteq> [] then Inr (strip (pr_location pr))
     else body_task_uri (pr_body pr))"

text \<open>After the image is ingested: commit it, and on \<open>apply_now\<close> power the host on and watch the
  flash.\<close>

definition smc_install_bios :: "'w redfish \<Rightarrow> server_info \<Rightarrow> firmware \<Rightarrow> bool \<Rightarrow> ('w, plugin_result) flow" where
  "smc_install_bios rf server fw apply_now =
     seq (on_fst (quiet_redfish (rf_post rf smc_install (JObj []))))
     (if \<not> apply_now
      then ret (smc_done ''BIOS staged. It will flash on the next host reboot.'' JNull fw)
      else seq (progress ''rebooting'' 45)
       (seq (smc_power rf server ''On'')
       (seq (smc_wait_power rf server ''On'' 180)
       (bind (smc_poll_bios_task rf) (\<lambda>(ok, msg).
        if \<not> ok then ret (failed msg) else
        seq (progress ''verifying'' 95)
        (bind (on_fst (smc_read_version rf ''BIOS'')) (\<lambda>ver.
         ret (smc_done ''BIOS flashed and applied.'' ver fw))))))))"

definition smc_power_off :: "'w redfish \<Rightarrow> server_info \<Rightarrow> bool \<Rightarrow> ('w, unit) flow" where
  "smc_power_off rf server apply_now = (if \<not> apply_now then ret () else
     seq (progress ''precheck'' 8) (seq (smc_power rf server ''ForceOff'')
       (smc_wait_power rf server ''Off'' 120)))"

definition smc_update_bios :: "'w redfish \<Rightarrow> server_info \<Rightarrow> firmware \<Rightarrow> bool \<Rightarrow> ('w, plugin_result) flow" where
  "smc_update_bios rf server fw apply_now = seq (smc_power_off rf server apply_now)
     (seq (progress ''uploading'' 15)
     (bind (on_fst (try_redfish (smc_push rf fw ''BIOS'' ''OnReset''))) (\<lambda>r. case r of
       Inl e \<Rightarrow> ret (failed (''BIOS upload failed: '' @ exn_str e))
     | Inr pr \<Rightarrow> seq (progress ''flashing'' 30)
         (bind (lift_py (smc_upload_task pr)) (\<lambda>uri.
          if uri = [] then smc_install_bios rf server fw apply_now
          else bind (smc_poll_task rf (JStr uri)) (\<lambda>(ok, msg).
            if \<not> ok then ret (failed (''BIOS upload Task failed: '' @ msg))
            else smc_install_bios rf server fw apply_now))))))"

definition smc_do_update :: "(client_conf \<Rightarrow> 'w redfish) \<Rightarrow> server_info \<Rightarrow> firmware \<Rightarrow> string \<Rightarrow>
    credentials option \<Rightarrow> bool \<Rightarrow> ('w, plugin_result) flow" where
  "smc_do_update mk server fw target creds apply_now = with_client mk server creds (\<lambda>rf.
     if target = ''BMC'' then smc_update_bmc rf fw else smc_update_bios rf server fw apply_now)"

text \<open>\<open>update_hgx\<close> is inherited and calls \<open>_poll_task\<close> with a \<open>progress_band\<close>, which the Supermicro
  override does not take.\<close>

definition smc_banded_poll :: "string \<Rightarrow> int \<Rightarrow> int \<Rightarrow> ('w, bool \<times> string) flow" where
  "smc_banded_poll uri lo hi = throw (Exn Exn_Type
     (''SupermicroPlugin._poll_task() got an unexpected keyword argument '' @ quoted ''progress_band''))"

definition smc_update_hgx :: "(client_conf \<Rightarrow> 'w redfish) \<Rightarrow> server_info \<Rightarrow> firmware \<Rightarrow> credentials option \<Rightarrow>
    ('w, plugin_result) flow" where
  "smc_update_hgx mk server fw creds = with_client mk server creds (\<lambda>rf. run_update_hgx smc_banded_poll rf server fw)"

section \<open>HPE iLO\<close>

text \<open>\<open>Path\<close> on POSIX names: the suffix of the final component, and the sibling with another one.\<close>

definition path_suffix :: "string \<Rightarrow> string" where
  "path_suffix p = (let n = leaf_of p in
     if CHR ''.'' \<in> set (tl n) \<and> last n \<noteq> CHR ''.'' then CHR ''.'' # after_last CHR ''.'' n else [])"

definition with_suffix :: "string \<Rightarrow> string \<Rightarrow> string" where
  "with_suffix p suffix = take (length p - length (path_suffix p)) p @ suffix"

definition hpe_params :: json where
  "hpe_params = JObj [(''UpdateRepository'', JBool False), (''UpdateTarget'', JBool True),
     (''ETag'', JStr ''atag''), (''Section'', JInt 0)]"

definition compsig_missing_msg :: "string \<Rightarrow> string" where
  "compsig_missing_msg p = ''HPE Smart Component '' @ quoted (leaf_of p) @ '' requires a ''
     @ ''matching .compsig signature file next to it ''
     @ ''(expected: '' @ leaf_of (with_suffix p ''.compsig'') @ ''). Refusing to upload '' @ em_dash @ '' ''
     @ ''iLO would reject this at the Verifying stage and ''
     @ ''leave the repository in an inconsistent state.''"

definition hpe_form :: "string \<Rightarrow> string option \<Rightarrow> string \<Rightarrow> form_part list" where
  "hpe_form token compsig p =
     [Form_Text ''sessionKey'' token, Form_Json ''parameters'' hpe_params]
     @ (case compsig of Some f \<Rightarrow> [Form_File ''compsig'' f (leaf_of f)] | None \<Rightarrow> [])
     @ [Form_File ''file'' p (leaf_of p)]"

definition hpe_request :: "string \<Rightarrow> form_part list \<Rightarrow> request" where
  "hpe_request url form = \<lparr>rq_method = ''POST'', rq_url = url,
     rq_headers = [(''Expect'', []), (''OData-Version'', ''4.0'')], rq_auth = None, rq_payload = Form_Body form\<rparr>"

text \<open>The push itself: \<open>None\<close> when iLO took the image, otherwise the failure.\<close>

definition hpe_send :: "'w http \<Rightarrow> client_conf \<Rightarrow> json \<Rightarrow> string \<Rightarrow> string option \<Rightarrow> ('w, string option) client" where
  "hpe_send ht conf push p compsig =
     seq (ensure_logged_in ht conf)
     (bind the_snd (\<lambda>s.
      let form = hpe_form (the_default [] (cl_token s)) compsig p in
      bind (lift_py (as_str ''startswith'' push)) (\<lambda>push_uri.
      let url = base_url_of conf @ (if starts_with ''/'' push_uri then push_uri else ''/'' @ push_uri) in
      bind (session_for ht conf) (\<lambda>c.
      catch_if is_client_error
        (bind (on_fst (ht_send ht c (hpe_request url form))) (\<lambda>resp.
         if 400 \<le> rp_status resp
         then bind (lift_py (rp_text resp)) (\<lambda>text.
           ret (Some (''iLO push HTTP '' @ int_str (rp_status resp) @ '' '' @ take 400 text)))
         else ret None))
        (\<lambda>e. ret (Some (''iLO push failed: '' @ exn_str e)))))))"

definition hpe_state :: "json \<Rightarrow> json py" where
  "hpe_state us = bind_py (sub_obj us ''Oem'') (\<lambda>oem. bind_py (sub_obj oem ''Hpe'') (\<lambda>h.
     bind_py (jget h ''State'') (\<lambda>st. Inr (or_else st (JStr [])))))"

definition hpe_band :: "json \<Rightarrow> int py" where
  "hpe_band state = (if \<not> hashable state then Inl (unhashable state)
     else Inr (the_default 35 (map_of [(JStr ''Idle'', 30), (JStr ''Uploading'', 40), (JStr ''Verifying'', 55),
       (JStr ''Writing'', 70), (JStr ''Updating'', 85)] state)))"

text \<open>The watch of \<open>Oem.Hpe.State\<close>: \<open>Inl\<close> the failure that ends it at once, \<open>Inr\<close> the terminal
  state (empty after the deadline).\<close>

fun hpe_watch_loop :: "'w redfish \<Rightarrow> rat \<Rightarrow> nat \<Rightarrow> nat \<Rightarrow> ('w, string + string) flow" where
  "hpe_watch_loop rf deadline 0 errs = throw fuel_out"
| "hpe_watch_loop rf deadline (Suc fuel) errs = bind (on_fst (loop_time rf)) (\<lambda>now.
     if deadline \<le> now then ret (Inr []) else
     bind (on_fst (try_redfish (get_json rf ''/redfish/v1/UpdateService''))) (\<lambda>r. case r of
       Inl e \<Rightarrow> if 60 \<le> Suc errs
                then ret (Inl (''iLO unreachable for 60 consecutive polls: '' @ exn_str e))
                else seq (on_fst (rf_sleep rf 5)) (hpe_watch_loop rf deadline fuel (Suc errs))
     | Inr us \<Rightarrow> bind (lift_py (hpe_state us)) (\<lambda>state.
         if state = JStr ''Complete'' then ret (Inr ''ok'')
         else if state = JStr ''Error'' then ret (Inr ''error'')
         else bind (lift_py (hpe_band state)) (\<lambda>band.
              seq (progress ''flashing'' band)
              (seq (on_fst (rf_sleep rf 5)) (hpe_watch_loop rf deadline fuel 0))))))"

definition hpe_finish :: "'w redfish \<Rightarrow> firmware \<Rightarrow> string \<Rightarrow> bool \<Rightarrow> string \<Rightarrow> ('w, plugin_result) flow" where
  "hpe_finish rf fw target apply_now terminal =
     (if terminal \<noteq> ''ok''
      then ret (failed (''iLO flash ended in state '' @ quoted (if terminal = [] then ''timeout'' else terminal)))
      else seq (if target = ''BIOS'' \<and> apply_now
                then on_fst (bind (first_system_uri rf) (\<lambda>u. case u of
                       Some t \<Rightarrow> if truthy t then bind (reset_to_apply hpe_hooks rf t None) (\<lambda>_. ret ()) else ret ()
                     | None \<Rightarrow> ret ()))
                else ret ())
       (seq (progress ''verifying'' 95)
       (ret \<lparr>res_okay = True, res_message = (if target = ''BMC'' then ''iLO firmware flashed; iLO is resetting.''
            else if apply_now then ''BIOS flashed and host reset issued.''
            else ''BIOS staged '' @ em_dash @ '' applies on next host reboot.''),
            res_version = JStr (fw_version fw)\<rparr>)))"

definition hpe_push :: "'w http \<Rightarrow> client_conf \<Rightarrow> json \<Rightarrow> firmware \<Rightarrow> string \<Rightarrow> bool \<Rightarrow>
    ('w \<times> client_state, plugin_result) flow" where
  "hpe_push ht conf push_uri fw target apply_now = (let p = fw_file_path fw; rf = connected ht conf in
     seq (progress ''uploading'' 10)
     (bind (on_fst (on_fst (\<lambda>w. (Inr (ht_is_file ht p w, ht_is_file ht (with_suffix p ''.compsig'') w), w))))
       (\<lambda>(is_file, has_sig).
      if \<not> is_file then ret (failed (''firmware blob missing: '' @ p))
      else if lower (path_suffix p) = ''.fwpkg'' \<and> \<not> has_sig then ret (failed (compsig_missing_msg p))
      else bind (on_fst (hpe_send ht conf push_uri p
             (if lower (path_suffix p) = ''.fwpkg'' then Some (with_suffix p ''.compsig'') else None))) (\<lambda>err.
        case err of Some msg \<Rightarrow> ret (failed msg) | None \<Rightarrow>
        seq (progress ''flashing'' 30)
        (bind (on_fst (loop_time rf)) (\<lambda>now.
         bind (hpe_watch_loop rf (now + 1800) 361 0) (\<lambda>end_state. case end_state of
           Inl msg \<Rightarrow> ret (failed msg)
         | Inr terminal \<Rightarrow> hpe_finish rf fw target apply_now terminal)))))))"

text \<open>The generic flow opens a client of its own, while the one of this call stays open.\<close>

definition nested_flow :: "('w \<times> client_state, 'a) flow \<Rightarrow> ('w \<times> client_state, 'a) flow" where
  "nested_flow m = (\<lambda>((w, s), ps). case m ((w, new_client), ps) of (r, ((w', _), ps')) \<Rightarrow> (r, ((w', s), ps')))"

definition hpe_do_update :: "(string \<Rightarrow> rat option) \<Rightarrow> 'w http \<Rightarrow> server_info \<Rightarrow> firmware \<Rightarrow> string \<Rightarrow>
    credentials option \<Rightarrow> bool \<Rightarrow> ('w \<times> client_state, plugin_result) flow" where
  "hpe_do_update dw ht server fw target creds apply_now = bind (lift_py (client_for server creds)) (\<lambda>conf.
     finally_do
       (bind (on_fst (try_redfish (get_json (connected ht conf) ''/redfish/v1/UpdateService''))) (\<lambda>r. case r of
          Inl e \<Rightarrow> ret (failed (''UpdateService unreachable: '' @ exn_str e))
        | Inr us \<Rightarrow> bind (lift_py (jget us ''MultipartHttpPushUri'')) (\<lambda>mp.
            if truthy mp
            then nested_flow (do_update dw hpe_hooks (connected ht) server fw target creds apply_now)
            else bind (lift_py (jget us ''HttpPushUri'')) (\<lambda>push.
                 hpe_push ht conf (or_else push (JStr (fw_inv @ ''/''))) fw target apply_now))))
       (on_fst (client_close ht conf)))"

definition hpe_mount_iso :: "'w http \<Rightarrow> server_info \<Rightarrow> string \<Rightarrow> credentials option \<Rightarrow> ('w, plugin_result) flow" where
  "hpe_mount_iso ht server url creds =
     seq (fresh_flow (eject_iso hpe_hooks (connected ht) server creds))
         (fresh_flow (mount_iso hpe_hooks (connected ht) server url creds))"

section \<open>Facts\<close>

lemma path_suffix_fwpkg:
  "lower (path_suffix ''/fw/ilo6.FWPKG'') = ''.fwpkg''"
  "with_suffix ''/fw/ilo6.FWPKG'' ''.compsig'' = ''/fw/ilo6.compsig''"
  by code_simp+

lemma half_progress: "smc_scaled 45 100 (1 / 2) = Inr 95"
proof -
  have q: "quotient_of (1 / 2) = (1, 2)" by code_simp
  have "rnd (1 / 2) = Fin (1 / 2)" "rnd 100 = Fin 100" "rnd 50 = Fin 50"
    by (simp_all add: py_simps bits_numeral Let_def q)
  then show ?thesis
    by (simp add: smc_scaled_def int_times_float_def float_literal_def float_scale_def int_of_float_def trunc_rat_def)
qed

lemma hgx_banded_fails:
  assumes "run_update_hgx smc_banded_poll rf server fw ws = (Inr r, ws')"
  shows "\<not> res_okay r"
  using assms unfolding run_update_hgx_def smc_banded_poll_def
  by (auto simp: bind_run seq_run ret_run throw_run failed_def Let_def
      split: prod.splits sum.splits if_splits)

section \<open>Properties\<close>

text \<open>Further property. What a vendor's update carries: an AMI MegaRAC board gets the FirmwareInventory
  target and the \<open>ImageType\<close> it requires, iDRAC gets no \<open>Targets\<close> key at all (it would refuse
  the image), and every vendor gets the apply time.\<close>

theorem vendor_update_params:
  "push_params t (hk_targets (ami_hooks k) u) = JObj [(''@Redfish.OperationApplyTime'',
       JStr (if t = ''BMC'' then ''Immediate'' else ''OnReset'')), (''Targets'', JArr [JStr u])] \<and>
   hk_oem_params (ami_hooks k) t = Some (JObj [(''ImageType'', JStr t)]) \<and>
   jcontains ''Targets'' (push_params t (hk_targets dell_hooks u)) = Inr False \<and>
   hk_oem_params dell_hooks t = None \<and> hk_oem_params lenovo_hooks t = None \<and>
   hk_targets lenovo_hooks u = [u]"
  by (simp add: push_params_def ami_hooks_def dell_hooks_def lenovo_hooks_def generic_hooks_def)

text \<open>Further property. An HGX update of a Supermicro host never succeeds: the inherited flow polls with
  a \<open>progress_band\<close>, which \<open>SupermicroPlugin._poll_task\<close> does not accept, so after the image has
  been pushed and a task returned the flow raises \<open>TypeError\<close>; whatever the BMC answers, no run
  reports success.\<close>

theorem smc_hgx_never_succeeds:
  assumes "smc_update_hgx mk server fw creds ws = (Inr r, ws')"
  shows "\<not> res_okay r"
  using assms
  by (auto simp: smc_update_hgx_def with_client_def bind_run lift_run finally_run on_fst_def
      split: prod.splits sum.splits dest: hgx_banded_fails)

theorem smc_hgx_never_succeeds_witness:
  "\<exists>r ws'. smc_update_hgx (\<lambda>_. static_bmc []) (new_server_info ''10.0.0.5'') (sample_fw ''R650'') None
     (10, \<lparr>ps_cache = [(''10.0.0.5'', (empty_cap, 0))], ps_progress = []\<rparr>) = (Inr r, ws') \<and> \<not> res_okay r"
proof -
  have "strip (si_ip (new_server_info ''10.0.0.5'')) = ''10.0.0.5''" by code_simp
  then have c: "fresh_cap 10 (strip (si_ip (new_server_info ''10.0.0.5'')))
      \<lparr>ps_cache = [(''10.0.0.5'', (empty_cap, 0))], ps_progress = l\<rparr> = Some empty_cap" for l
    by (simp add: fresh_cap_def cap_ttl_def)
  have h: "cap_hgx_member_uris empty_cap = []" by (simp add: empty_cap_def)
  have conf: "client_for (new_server_info ''10.0.0.5'') None = Inr \<lparr>cc_host = [], cc_port = 80, cc_scheme = [],
      cc_username = [], cc_password = [], cc_tls = None\<rparr>" by code_simp
  have "\<exists>r ws'. smc_update_hgx (\<lambda>_. static_bmc []) (new_server_info ''10.0.0.5'') (sample_fw ''R650'') None
     (10, \<lparr>ps_cache = [(''10.0.0.5'', (empty_cap, 0))], ps_progress = []\<rparr>) = (Inr r, ws')"
    by (simp add: smc_update_hgx_def with_client_def conf run_update_hgx_def capability_map_def c h
        static_bmc_def io_run on_fst_def the_snd_def loop_time_def Let_def cong: io_weak)
  then show ?thesis using smc_hgx_never_succeeds by blast
qed


definition off_bmc :: "rat redfish" where
  "off_bmc = (static_bmc [(''/redfish/v1/Systems/1'', JObj [(''PowerState'', JStr ''Off'')])])
     \<lparr>rf_multipart := (\<lambda>p j f n oem. throw (Exn Exn_Redfish ''HTTP 500''))\<rparr>"

lemma off_bmc_ops:
  "rf_time off_bmc w = w" "rf_post off_bmc p b w = (Inr \<lparr>pr_status = 200, pr_location = [], pr_body = JNull\<rparr>, w)"
  "rf_get off_bmc ''/redfish/v1/Systems/1'' w = (Inr (JObj [(''PowerState'', JStr ''Off'')], []), w)"
  "rf_multipart off_bmc p j f n oem w = (Inl (Exn Exn_Redfish ''HTTP 500''), w)"
  by (simp_all add: off_bmc_def static_bmc_def tree_get_def ret_run throw_run)

lemma off_bmc_wait: "smc_power_loop off_bmc ''/redfish/v1/Systems/1'' ''Off'' 130 121 10 = (Inr (), 10)"
proof -
  have "(121::nat) = Suc 120" by simp
  show ?thesis
    unfolding \<open>(121::nat) = Suc 120\<close> smc_power_loop.simps(2)
    by (simp add: bind_run loop_time_def off_bmc_ops try_redfish_def attempt_def get_json_def lift_run ret_run
        del: smc_power_loop.simps)
qed

lemma off_bmc_powered:
  "smc_power_off off_bmc (new_server_info ''10.0.0.5'') True
     (10, \<lparr>ps_cache = [(''10.0.0.5'', (empty_cap, 0))], ps_progress = []\<rparr>) =
   (Inr (), (10, \<lparr>ps_cache = [(''10.0.0.5'', (empty_cap, 0))], ps_progress = [(''precheck'', 8)]\<rparr>))"
proof -
  have "strip ''10.0.0.5'' = ''10.0.0.5''" by code_simp
  then have c: "fresh_cap 10 (strip (si_ip (new_server_info ''10.0.0.5'')))
      \<lparr>ps_cache = [(''10.0.0.5'', (empty_cap, 0))], ps_progress = l\<rparr> = Some empty_cap" for l
    by (simp add: fresh_cap_def cap_ttl_def new_server_info_def)
  have u: "smc_system_uri (Some empty_cap) = ''/redfish/v1/Systems/1''" "cap_reset_target (Some empty_cap) = JNull"
    by (simp_all add: smc_system_uri_def cap_reset_target_def empty_cap_def nonempty_def)
  show ?thesis
    by (simp add: smc_power_off_def smc_power_def smc_wait_power_def capability_map_def c u off_bmc_ops off_bmc_wait
        io_run on_fst_def on_snd_def the_snd_def loop_time_def Let_def progress_def quiet_redfish_def
        on_redfish_def post_json_at_def or_else_def del: smc_power_loop.simps cong: io_weak)
qed


text \<open>Further property. A finished BIOS task of an earlier update passes for this one: after the prewait,
  the Supermicro BIOS poll takes the first task of the collection whose name mentions BIOS; if
  that task is an old completed one, the poll reports success at once, whatever became of the
  update under way.\<close>

theorem smc_stale_task_accepted:
  assumes "rf_sleep rf 60 w = (Inr (), w1)" "rf_time rf w1 < rf_time rf w + 1800"
    and "rf_get rf ''/redfish/v1/TaskService/Tasks'' w1 = (Inr (JObj kvs, h), w2)"
    and "map_of kvs ''Members'' = Some (JArr (JObj lnk # rest))" "map_of lnk ''@odata.id'' = Some (JStr u)"
    and "rf_get rf u w2 = (Inr (JObj task, h2), w3)"
    and "map_of task ''Name'' = Some (JStr n)" "contains ''BIOS'' n"
    and "map_of task ''TaskState'' = Some (JStr ''Completed'')" "map_of task ''PercentComplete'' = Some (JInt 100)"
  shows "smc_poll_bios_task rf (w, s) =
    (Inr (True, ''completed''), (w3, s\<lparr>ps_progress := ps_progress s @ [(''flashing'', 95)]\<rparr>))"
proof -
  have n: "n \<noteq> []" using assms(8) by auto
  have fuel: "361 = Suc 360" by simp
  have later: "\<not> rf_time rf w + 1800 \<le> rf_time rf w1" using assms(2) by simp
  have look: "on_fst (try_redfish (bind (lift_py (jindex (JObj lnk) ''@odata.id'')) (get_json_at rf))) (w2, s) =
      (Inr (Inr (JObj task)), (w3, s))"
    using assms(5,6) by (simp add: on_fst_def try_redfish_def attempt_def bind_run lift_run get_json_at_def get_json_def
        ret_run)
  have pct: "percent_of (JObj task) = Inr 100"
    using assms(10) by (simp add: percent_of_def or_else_def)
  have bios: "bind_py (jget (JObj task) ''Name'') (\<lambda>n. jcontains ''BIOS'' (or_else n (JStr []))) = Inr True"
    using assms(7,8) n by (simp add: jget_def or_else_def)
  have state: "jget_or (JObj task) ''TaskState'' (JStr ''Running'') = Inr (JStr ''Completed'')"
    using assms(9) by simp
  have scan: "smc_scan_tasks rf (JObj lnk # rest) (w2, s) =
      (Inr (Some (True, ''completed'')), (w3, s\<lparr>ps_progress := ps_progress s @ [(''flashing'', 95)]\<rparr>))"
    unfolding smc_scan_tasks.simps(2) bind_run [of "on_fst (try_redfish _)"] look prod.case sum.case bios state pct
    by (simp add: bind_run seq_run lift_run ret_run on_snd_def progress_def half_progress)
  have time: "on_fst (loop_time rf) (w1, s) = (Inr (rf_time rf w1), (w1, s))"
    by (simp add: on_fst_def loop_time_def)
  have coll: "on_fst (try_redfish (get_json rf ''/redfish/v1/TaskService/Tasks'')) (w1, s) =
      (Inr (Inr (JObj kvs)), (w2, s))"
    using assms(3) by (simp add: on_fst_def try_redfish_def attempt_def bind_run lift_run get_json_def ret_run)
  have members: "lift_py (bind_py (jget_or (JObj kvs) ''Members'' (JArr [])) jiter) z =
      (Inr (JObj lnk # rest), z)" for z :: "'a \<times> plugin_state"
    using assms(4) by (simp add: lift_run)
  have "smc_bios_loop rf (rf_time rf w + 1800) (Suc 360) (w1, s) =
      (Inr (True, ''completed''), (w3, s\<lparr>ps_progress := ps_progress s @ [(''flashing'', 95)]\<rparr>))"
    unfolding smc_bios_loop.simps(2) bind_run [of "on_fst (loop_time rf)"] time prod.case sum.case if_not_P [OF later]
      bind_run [of "on_fst (try_redfish _)"] coll bind_run [of "lift_py _"] members bind_run [of "smc_scan_tasks _ _"] scan
    by (simp add: ret_run)
  then show ?thesis
    unfolding smc_poll_bios_task_def fuel using assms(1)
    by (simp add: bind_run seq_run on_fst_def loop_time_def del: smc_bios_loop.simps)
qed

definition stale_task :: "(string \<times> json) list" where
  "stale_task = [(''Name'', JStr ''BIOS Update''), (''TaskState'', JStr ''Completed''), (''PercentComplete'', JInt 100)]"

theorem smc_stale_task_accepted_witness:
  "smc_poll_bios_task (static_bmc
     [(''/redfish/v1/TaskService/Tasks'', JObj [(''Members'', JArr [JObj [(''@odata.id'', JStr ''/t/7'')]])]),
      (''/t/7'', JObj stale_task)]) (0, \<lparr>ps_cache = [], ps_progress = []\<rparr>) =
   (Inr (True, ''completed''), (60, \<lparr>ps_cache = [], ps_progress = [(''flashing'', 95)]\<rparr>))"
proof -
  have bios: "contains ''BIOS'' ''BIOS Update''" by code_simp
  show ?thesis
    by (subst smc_stale_task_accepted [where n = "''BIOS Update''" and ?w1.0 = 60 and u = "''/t/7''" and task = stale_task
          and lnk = "[(''@odata.id'', JStr ''/t/7'')]" and rest = "[]"
          and kvs = "[(''Members'', JArr [JObj [(''@odata.id'', JStr ''/t/7'')]])]"])
      (simp_all add: static_bmc_def tree_get_def ret_run stale_task_def bios del: contains.simps)
qed

text \<open>Further property. An HPE Smart Component without its signature file beside it is refused before iLO is
  touched: no login, no push, nothing sent, and only the first progress report is made.\<close>

theorem hpe_unsigned_component_refused:
  assumes "ht_is_file ht (fw_file_path fw) w" "lower (path_suffix (fw_file_path fw)) = ''.fwpkg''"
    and "\<not> ht_is_file ht (with_suffix (fw_file_path fw) ''.compsig'') w"
  shows "hpe_push ht conf push_uri fw target apply_now ((w, s), ps) =
    (Inr (failed (compsig_missing_msg (fw_file_path fw))),
     ((w, s), ps\<lparr>ps_progress := ps_progress ps @ [(''uploading'', 10)]\<rparr>))"
  using assms by (simp add: hpe_push_def Let_def seq_run bind_run progress_def on_snd_def on_fst_def ret_run)

definition signed_fw :: firmware where
  "signed_fw = (sample_fw ''ilo6'')\<lparr>fw_file_path := ''/fw/ilo6.FWPKG''\<rparr>"

theorem hpe_unsigned_component_refused_witness:
  "hpe_push (plain_http\<lparr>ht_is_file := (\<lambda>p w. p = ''/fw/ilo6.FWPKG'')\<rparr>)
     bmc_conf JNull signed_fw ''BMC'' True (((), new_client), \<lparr>ps_cache = [], ps_progress = []\<rparr>) =
   (Inr (failed (compsig_missing_msg ''/fw/ilo6.FWPKG'')),
    (((), new_client), \<lparr>ps_cache = [], ps_progress = [(''uploading'', 10)]\<rparr>))"
proof -
  have "fw_file_path signed_fw = ''/fw/ilo6.FWPKG''" by (simp add: signed_fw_def)
  then show ?thesis
    by (subst hpe_unsigned_component_refused) (simp_all add: path_suffix_fwpkg)
qed

end
