(* ===== verification/Vendor_Waits.thy ===== *)
theory Vendor_Waits
  imports Vendors Plugin_Safety
begin

text \<open>
  The waits of the vendor plugins over the client of the code: the clock does not go back over an
  operation of the client (its logins and its retry included), so the Supermicro polls, its power
  wait and the iLO watch end before their rounds are used up.
\<close>

section \<open>Computations that keep a clock\<close>

text \<open>The clock never goes back over the computation, a value satisfies \<open>Q\<close>, and an exception is one of
  Python's.\<close>

definition clocked :: "('w \<Rightarrow> rat) \<Rightarrow> ('a \<Rightarrow> bool) \<Rightarrow> ('w, 'a) io \<Rightarrow> bool" where
  "clocked clock Q m \<longleftrightarrow> (\<forall>w. case m w of (r, w') \<Rightarrow> clock w \<le> clock w' \<and>
     (case r of Inl e \<Rightarrow> exn_class e \<noteq> Exn_Fuel | Inr x \<Rightarrow> Q x))"

abbreviation keeps_time :: "('w \<Rightarrow> rat) \<Rightarrow> ('w, 'a) io \<Rightarrow> bool" where
  "keeps_time clock m \<equiv> clocked clock (\<lambda>_. True) m"

named_theorems io_ticks \<open>rules for computations that keep a clock\<close>

lemma ticksD:
  assumes "clocked clock Q m" "m w = (r, w')"
  shows "clock w \<le> clock w'" "r = Inl e \<Longrightarrow> exn_class e \<noteq> Exn_Fuel" "r = Inr x \<Longrightarrow> Q x"
  using assms unfolding clocked_def by (auto dest!: spec [of _ w])

lemma ticksI:
  assumes "\<And>w r w'. m w = (r, w') \<Longrightarrow> clock w \<le> clock w' \<and> (case r of Inl e \<Rightarrow> exn_class e \<noteq> Exn_Fuel | Inr x \<Rightarrow> Q x)"
  shows "clocked clock Q m"
  unfolding clocked_def
proof
  fix w
  show "case m w of (r, w') \<Rightarrow> clock w \<le> clock w' \<and> (case r of Inl e \<Rightarrow> exn_class e \<noteq> Exn_Fuel | Inr x \<Rightarrow> Q x)"
    using assms [of w] by (cases "m w") simp
qed

lemma clocked_ret: "Q x \<Longrightarrow> clocked clock Q (ret x)"
  by (rule ticksI) (auto simp: ret_run)

lemma keeps_time_ret [io_ticks]: "keeps_time clock (ret x)"
  by (rule clocked_ret) simp

lemma clocked_throw [io_ticks]: "exn_class e \<noteq> Exn_Fuel \<Longrightarrow> clocked clock Q (throw e)"
  by (rule ticksI) (auto simp: throw_run)

lemma clocked_lift: "(case r of Inl e \<Rightarrow> exn_class e \<noteq> Exn_Fuel | Inr x \<Rightarrow> Q x) \<Longrightarrow> clocked clock Q (lift_py r)"
  by (rule ticksI) (auto simp: lift_run)

lemma keeps_lift [io_ticks]: "py_raises json_error r \<Longrightarrow> keeps_time clock (lift_py r)"
  by (rule clocked_lift) (auto simp: py_raises_def json_error_no_fuel split: sum.split)

lemma clocked_bind:
  assumes "clocked clock Q m" "\<And>x. Q x \<Longrightarrow> clocked clock R (f x)"
  shows "clocked clock R (bind m f)"
proof (rule ticksI)
  fix w r w'
  assume run: "bind m f w = (r, w')"
  obtain r1 w1 where m: "m w = (r1, w1)" by (metis surj_pair)
  show "clock w \<le> clock w' \<and> (case r of Inl e \<Rightarrow> exn_class e \<noteq> Exn_Fuel | Inr x \<Rightarrow> R x)"
  proof (cases r1)
    case (Inl e)
    then show ?thesis using run m ticksD(1,2) [OF assms(1) m] by (auto simp: bind_run)
  next
    case (Inr x)
    then have f: "f x w1 = (r, w')" using run m by (simp add: bind_run)
    have "Q x" using ticksD(3) [OF assms(1) m] Inr by simp
    from ticksD [OF assms(2) [OF this] f] show ?thesis
      using ticksD(1) [OF assms(1) m] by (cases r) auto
  qed
qed

lemma keeps_time_bind [io_ticks]: "keeps_time clock m \<Longrightarrow> (\<And>x. clocked clock R (f x)) \<Longrightarrow> clocked clock R (bind m f)"
  by (rule clocked_bind)

lemma clocked_seq [io_ticks]: "keeps_time clock m \<Longrightarrow> clocked clock R k \<Longrightarrow> clocked clock R (seq m k)"
  unfolding seq_def by (rule clocked_bind)

lemma clocked_catch [io_ticks]:
  assumes "clocked clock Q m" "\<And>e. exn_class e \<noteq> Exn_Fuel \<Longrightarrow> clocked clock Q (h e)"
  shows "clocked clock Q (catch_if p m h)"
proof (rule ticksI)
  fix w r w'
  assume run: "catch_if p m h w = (r, w')"
  obtain r1 w1 where m: "m w = (r1, w1)" by (metis surj_pair)
  note k = ticksD [OF assms(1) m]
  show "clock w \<le> clock w' \<and> (case r of Inl e \<Rightarrow> exn_class e \<noteq> Exn_Fuel | Inr x \<Rightarrow> Q x)"
  proof (cases "\<exists>e. r1 = Inl e \<and> p e")
    case True
    then obtain e where e: "r1 = Inl e" "p e" by blast
    then have h: "h e w1 = (r, w')" using run m by (simp add: catch_run)
    from ticksD [OF assms(2) [OF k(2) [OF e(1)]] h] show ?thesis using k(1) by (cases r) auto
  next
    case False
    then have "r = r1" "w' = w1" using run m by (auto simp: catch_run split: sum.splits)
    then show ?thesis using k by (cases r) auto
  qed
qed

lemma keeps_time_attempt [io_ticks]: "keeps_time clock m \<Longrightarrow> keeps_time clock (try_redfish m)"
  unfolding clocked_def
proof
  fix w
  assume a: "\<forall>w. case m w of (r, w') \<Rightarrow> clock w \<le> clock w' \<and>
     (case r of Inl e \<Rightarrow> exn_class e \<noteq> Exn_Fuel | Inr x \<Rightarrow> True)"
  obtain r w1 where "m w = (r, w1)" by (metis surj_pair)
  then show "case try_redfish m w of (r, w') \<Rightarrow> clock w \<le> clock w' \<and>
     (case r of Inl e \<Rightarrow> exn_class e \<noteq> Exn_Fuel | Inr x \<Rightarrow> True)"
    using spec [OF a, of w] by (cases r) (auto simp: try_redfish_def attempt_def)
qed

lemma clocked_if [io_ticks]: "(b \<Longrightarrow> clocked clock Q m) \<Longrightarrow> (\<not> b \<Longrightarrow> clocked clock Q k) \<Longrightarrow> clocked clock Q (if b then m else k)"
  by simp

lemma clocked_option [io_ticks]:
  "(x = None \<Longrightarrow> clocked clock Q m) \<Longrightarrow> (\<And>y. x = Some y \<Longrightarrow> clocked clock Q (f y)) \<Longrightarrow>
     clocked clock Q (case x of None \<Rightarrow> m | Some y \<Rightarrow> f y)"
  by (cases x) simp_all

lemma clocked_sum [io_ticks]:
  "(\<And>e. x = Inl e \<Longrightarrow> clocked clock Q (m e)) \<Longrightarrow> (\<And>y. x = Inr y \<Longrightarrow> clocked clock Q (f y)) \<Longrightarrow>
     clocked clock Q (case x of Inl e \<Rightarrow> m e | Inr y \<Rightarrow> f y)"
  by (cases x) simp_all

lemma clocked_prod [io_ticks]: "(\<And>a b. x = (a, b) \<Longrightarrow> clocked clock Q (f a b)) \<Longrightarrow> clocked clock Q (case x of (a, b) \<Rightarrow> f a b)"
  by (cases x) simp

lemma clocked_on_fst: "clocked clock Q m \<Longrightarrow> clocked (clock \<circ> fst) Q (on_fst m)"
  unfolding clocked_def by (auto simp: on_fst_def split: prod.splits)

lemma keeps_state [io_ticks]: "keeps_time (clock \<circ> fst) (on_snd f)" "keeps_time (clock \<circ> fst) the_snd"
  by (simp_all add: clocked_def on_snd_def the_snd_def split: prod.split)

lemma keeps_advances: "keeps_time (rf_time rf) m \<longleftrightarrow> advances rf 0 m"
  unfolding clocked_def advances_def by (auto split: prod.splits sum.splits)

section \<open>The client\<close>

text \<open>What the waits rely on of the HTTP library: a request does not turn the clock back, a completed
  sleep moves it by its length, and no exception of theirs is the model's fuel marker.\<close>

definition sound_response :: "response \<Rightarrow> bool" where
  "sound_response resp \<longleftrightarrow> (\<forall>e. rp_json resp = Inl e \<longrightarrow> exn_class e \<noteq> Exn_Fuel)"

definition http_clock_ok :: "'w http \<Rightarrow> bool" where
  "http_clock_ok ht \<longleftrightarrow> (\<forall>c q. clocked (ht_time ht) sound_response (ht_send ht c q)) \<and>
     (\<forall>t \<ge> 0. \<forall>w. case ht_sleep ht t w of
        (Inr _, w') \<Rightarrow> ht_time ht w + t \<le> ht_time ht w'
      | (Inl e, w') \<Rightarrow> exn_class e \<noteq> Exn_Fuel \<and> ht_time ht w \<le> ht_time ht w')"

lemma clocked_send:
  "http_clock_ok ht \<Longrightarrow> clocked (ht_time ht \<circ> fst) sound_response (send ht conf c method url body)"
  unfolding send_def http_clock_ok_def by (intro keeps_time_bind keeps_state clocked_prod clocked_on_fst) blast

lemma keeps_send_then [io_ticks]:
  assumes "http_clock_ok ht" "\<And>resp. sound_response resp \<Longrightarrow> clocked (ht_time ht \<circ> fst) Q (f resp)"
  shows "clocked (ht_time ht \<circ> fst) Q (bind (send ht conf c method url body) f)"
  using clocked_bind [OF clocked_send [OF assms(1)] assms(2)] .

lemma keeps_session_time [io_ticks]: "keeps_time (ht_time ht \<circ> fst) (session_for ht conf)"
  unfolding session_for_def Let_def by (intro io_ticks)

lemma keeps_login_time: "http_clock_ok ht \<Longrightarrow> keeps_time (ht_time ht \<circ> fst) (quiet_redfish (login ht conf))"
  unfolding login_def post_login_def accept_login_def quiet_redfish_def on_redfish_def Let_def
  by (intro io_ticks) simp_all

lemma clocked_relogin:
  assumes "http_clock_ok ht"
  shows "clocked (ht_time ht \<circ> fst) sound_response (with_relogin ht conf method url body)"
  unfolding with_relogin_def ensure_logged_in_def force_relogin_def
  by (intro clocked_seq io_ticks keeps_login_time clocked_send clocked_ret assms)

lemma keeps_get:
  assumes "http_clock_ok ht"
  shows "keeps_time (ht_time ht \<circ> fst) (get_json_and_headers ht conf path)"
  unfolding get_json_and_headers_def Let_def
proof (rule clocked_bind [OF clocked_relogin [OF assms]])
  fix resp
  assume "sound_response resp"
  then show "keeps_time (ht_time ht \<circ> fst) (lift_py (unpack_get (client_url conf path) resp))"
    by (intro clocked_lift) (auto simp: unpack_get_def sound_response_def bind_py_def split: sum.split)
qed

lemma connected_time: "rf_time (connected ht conf) = ht_time ht \<circ> fst"
  by (auto simp: connected_def)

text \<open>The hypothesis of the waiting loops holds of the client the code builds.\<close>

lemma client_clock:
  assumes "http_clock_ok ht"
  shows "clock_ok (connected ht conf)"
  unfolding clock_ok_def
proof (intro conjI allI impI)
  show "advances (connected ht conf) 0 (rf_get (connected ht conf) p)" for p
    using keeps_get [OF assms, of conf p]
    by (simp add: keeps_advances [symmetric] connected_time) (simp add: connected_def)
  show "advances (connected ht conf) t (rf_sleep (connected ht conf) t)" if "0 \<le> t" for t :: rat
    using assms that unfolding http_clock_ok_def advances_def
    by (auto simp: connected_def on_fst_def split: prod.splits sum.splits)
qed

section \<open>One round of a wait\<close>

text \<open>What happens before the sleep keeps the clock, so the rest of the round starts no earlier.\<close>

lemma round_then:
  assumes "keeps_time clock m" "bind m k w = (Inl e, w')"
    and "\<And>x w1. clock w \<le> clock w1 \<Longrightarrow> k x w1 = (Inl e, w') \<Longrightarrow> exn_class e \<noteq> Exn_Fuel"
  shows "exn_class e \<noteq> Exn_Fuel"
proof -
  obtain r w1 where m: "m w = (r, w1)" by (metis surj_pair)
  show ?thesis
  proof (cases r)
    case (Inl e')
    then show ?thesis using assms(2) m ticksD(2) [OF assms(1) m] by (simp add: bind_run)
  next
    case (Inr x)
    then show ?thesis using assms(2,3) m ticksD(1) [OF assms(1) m] by (simp add: bind_run)
  qed
qed

lemma flow_sleep_then:
  assumes "clock_ok rf" "0 \<le> t" "seq (on_fst (rf_sleep rf t)) m ws = (Inl e, ws')"
    and "\<And>v. rf_time rf (fst ws) + t \<le> rf_time rf (fst v) \<Longrightarrow> m v = (Inl e, ws') \<Longrightarrow> exn_class e \<noteq> Exn_Fuel"
  shows "exn_class e \<noteq> Exn_Fuel"
proof -
  obtain w s where ws: "ws = (w, s)" by (cases ws)
  obtain q w1 where q: "rf_sleep rf t w = (q, w1)" by (metis surj_pair)
  show ?thesis
  proof (cases q)
    case (Inl e')
    then show ?thesis using assms(3) q ws advances_Inl [OF clock_sleep [OF assms(1,2)] q [unfolded Inl]]
      by (simp add: seq_run on_fst_def)
  next
    case (Inr u)
    then show ?thesis using assms(3) q ws advances_Inr [OF clock_sleep [OF assms(1,2)] q [unfolded Inr]]
      by (intro assms(4) [of "(w1, s)"]) (simp_all add: seq_run on_fst_def)
  qed
qed

text \<open>A question put to the BMC inside a flow.\<close>

lemma keeps_ask:
  assumes "clock_ok rf"
  shows "keeps_time (rf_time rf \<circ> fst) (on_fst (try_redfish (get_json rf p)))"
    "keeps_time (rf_time rf \<circ> fst) (on_fst (try_redfish (get_json_at rf j)))"
    "keeps_time (rf_time rf \<circ> fst) (on_fst (try_redfish (bind (lift_py (jindex ref k)) (get_json_at rf))))"
proof -
  have g: "keeps_time (rf_time rf) (get_json rf p)" for p
    unfolding keeps_advances by (rule advances_get_json [OF assms])
  have at: "keeps_time (rf_time rf) (get_json_at rf j)" for j
    unfolding get_json_at_def by (intro io_ticks as_str_raises g)
  show "keeps_time (rf_time rf \<circ> fst) (on_fst (try_redfish (get_json rf p)))"
    "keeps_time (rf_time rf \<circ> fst) (on_fst (try_redfish (get_json_at rf j)))"
    "keeps_time (rf_time rf \<circ> fst) (on_fst (try_redfish (bind (lift_py (jindex ref k)) (get_json_at rf))))"
    by (intro clocked_on_fst io_ticks jindex_raises g at)+
qed

lemma keeps_progress [io_ticks]: "keeps_time (clock \<circ> fst) (progress st p)"
  unfolding progress_def by (rule keeps_state)

lemma py_raises_smc_scaled [io_raises]: "py_raises json_error (smc_scaled base pct k)"
proof -
  have "py_raises json_error (int_times_float n k)" for n
    by (simp add: int_times_float_def split: pyfloat.split)
  moreover have "py_raises json_error (int_of_float f)" for f
    by (simp add: int_of_float_def split: pyfloat.split)
  ultimately show ?thesis unfolding smc_scaled_def by (intro io_raises)
qed

lemma keeps_smc_report: "keeps_time (clock \<circ> fst) (smc_report lastp task)"
  unfolding smc_report_def by (intro io_ticks percent_of_raises poll_verdict_raises py_raises_smc_scaled)

lemma keeps_scan_tasks:
  assumes "clock_ok rf"
  shows "keeps_time (rf_time rf \<circ> fst) (smc_scan_tasks rf refs)"
proof (induction refs)
  case (Cons ref refs)
  have name: "py_raises json_error (bind_py (jget d ''Name'') (\<lambda>n. jcontains ''BIOS'' (or_else n (JStr []))))" for d
    by (intro io_raises)
  show ?case
    unfolding smc_scan_tasks.simps
    by (intro io_ticks keeps_ask [OF assms] name jget_or_raises percent_of_raises py_raises_smc_scaled Cons.IH)
qed (simp add: keeps_time_ret)

declare smc_poll_loop.simps [simp del] smc_bios_loop.simps [simp del] smc_power_loop.simps [simp del]
  hpe_watch_loop.simps [simp del]

lemma keeps_flow_time: "keeps_time (rf_time rf \<circ> fst) (on_fst (loop_time rf))"
  by (rule ticksI) (auto simp: on_fst_def loop_time_def)

text \<open>The head of every round: past the deadline the wait is over, else the round goes on.\<close>

lemma before_deadline:
  assumes "bind (on_fst (loop_time rf)) (\<lambda>now. if deadline \<le> now then ret d else k) ws = (Inl e, ws')"
  shows "rf_time rf (fst ws) < deadline" "k ws = (Inl e, ws')"
  using assms by (cases ws; auto simp: bind_run on_fst_def loop_time_def ret_run split: if_splits)+

lemma smc_poll_no_fuel:
  assumes "clock_ok rf"
  shows "deadline - rf_time rf (fst ws) \<le> 5 * of_nat fuel \<Longrightarrow>
    smc_poll_loop rf uri deadline (Suc fuel) errs lastp ws = (Inl e, ws') \<Longrightarrow> exn_class e \<noteq> Exn_Fuel"
proof (induction fuel arbitrary: ws errs lastp)
  case 0
  then show ?case using before_deadline(1) [OF 0(2) [unfolded smc_poll_loop.simps]] by simp
next
  case (Suc fuel)
  have again: "exn_class e \<noteq> Exn_Fuel" if "rf_time rf (fst ws) \<le> rf_time rf (fst v)"
    "seq (on_fst (rf_sleep rf 5)) (smc_poll_loop rf uri deadline (Suc fuel) errs' lastp') v = (Inl e, ws')" for v errs' lastp'
  proof (rule flow_sleep_then [OF assms _ that(2)])
    fix u
    assume u: "rf_time rf (fst v) + 5 \<le> rf_time rf (fst u)" "smc_poll_loop rf uri deadline (Suc fuel) errs' lastp' u = (Inl e, ws')"
    have "deadline - rf_time rf (fst u) \<le> 5 * of_nat fuel" using that(1) u(1) Suc.prems(1) by simp
    then show "exn_class e \<noteq> Exn_Fuel" using u(2) by (rule Suc.IH)
  qed simp
  show ?case
  proof (rule round_then [OF keeps_ask(2) [OF assms] before_deadline(2) [OF Suc.prems(2) [unfolded smc_poll_loop.simps(2) [of _ _ _ "Suc fuel"]]]])
    fix r v
    assume le: "(rf_time rf \<circ> fst) ws \<le> (rf_time rf \<circ> fst) v"
      and run: "(case r of
       Inl e \<Rightarrow> if 60 \<le> Suc errs then ret (False, unreachable_msg e)
                else seq (on_fst (rf_sleep rf 5)) (smc_poll_loop rf uri deadline (Suc fuel) (Suc errs) lastp)
     | Inr task \<Rightarrow> bind (smc_report lastp task) (\<lambda>(lastp', v). case v of
           Some verdict \<Rightarrow> ret verdict
         | None \<Rightarrow> seq (on_fst (rf_sleep rf 5)) (smc_poll_loop rf uri deadline (Suc fuel) 0 lastp'))) v = (Inl e, ws')"
    show "exn_class e \<noteq> Exn_Fuel"
    proof (cases r)
      case (Inl e')
      then show ?thesis using run le by (auto simp: ret_run split: if_splits dest!: again [rotated])
    next
      case (Inr task)
      have "bind (smc_report lastp task) (\<lambda>(lastp', v). case v of
           Some verdict \<Rightarrow> ret verdict
         | None \<Rightarrow> seq (on_fst (rf_sleep rf 5)) (smc_poll_loop rf uri deadline (Suc fuel) 0 lastp')) v = (Inl e, ws')"
        using run Inr by simp
      then show ?thesis
        by (rule round_then [OF keeps_smc_report [of "rf_time rf"]])
          (use le in \<open>auto simp: ret_run split: prod.splits option.splits dest!: again [rotated]\<close>)
    qed
  qed
qed

lemma smc_bios_no_fuel:
  assumes "clock_ok rf"
  shows "deadline - rf_time rf (fst ws) \<le> 5 * of_nat fuel \<Longrightarrow>
    smc_bios_loop rf deadline (Suc fuel) ws = (Inl e, ws') \<Longrightarrow> exn_class e \<noteq> Exn_Fuel"
proof (induction fuel arbitrary: ws)
  case 0
  then show ?case using before_deadline(1) [OF 0(2) [unfolded smc_bios_loop.simps]] by simp
next
  case (Suc fuel)
  have again: "exn_class e \<noteq> Exn_Fuel" if "rf_time rf (fst ws) \<le> rf_time rf (fst v)"
    "seq (on_fst (rf_sleep rf 5)) (smc_bios_loop rf deadline (Suc fuel)) v = (Inl e, ws')" for v
  proof (rule flow_sleep_then [OF assms _ that(2)])
    fix u
    assume u: "rf_time rf (fst v) + 5 \<le> rf_time rf (fst u)" "smc_bios_loop rf deadline (Suc fuel) u = (Inl e, ws')"
    have "deadline - rf_time rf (fst u) \<le> 5 * of_nat fuel" using that(1) u(1) Suc.prems(1) by simp
    then show "exn_class e \<noteq> Exn_Fuel" using u(2) by (rule Suc.IH)
  qed simp
  have members: "py_raises json_error (bind_py (jget_or tasks ''Members'' (JArr [])) jiter)" for tasks
    by (intro io_raises)
  show ?case
  proof (rule round_then [OF keeps_ask(1) [OF assms] before_deadline(2) [OF Suc.prems(2) [unfolded smc_bios_loop.simps(2) [of _ _ "Suc fuel"]]]])
    fix r v
    assume le: "(rf_time rf \<circ> fst) ws \<le> (rf_time rf \<circ> fst) v"
      and run: "(case r of
       Inl _ \<Rightarrow> seq (on_fst (rf_sleep rf 5)) (smc_bios_loop rf deadline (Suc fuel))
     | Inr tasks \<Rightarrow>
         bind (lift_py (bind_py (jget_or tasks ''Members'' (JArr [])) jiter)) (\<lambda>refs.
         bind (smc_scan_tasks rf refs) (\<lambda>v. case v of
           Some verdict \<Rightarrow> ret verdict
         | None \<Rightarrow> seq (on_fst (rf_sleep rf 5)) (smc_bios_loop rf deadline (Suc fuel))))) v = (Inl e, ws')"
    show "exn_class e \<noteq> Exn_Fuel"
    proof (cases r)
      case (Inl e')
      then show ?thesis using run le by (auto dest!: again [rotated])
    next
      case (Inr tasks)
      have "bind (lift_py (bind_py (jget_or tasks ''Members'' (JArr [])) jiter)) (\<lambda>refs.
         bind (smc_scan_tasks rf refs) (\<lambda>v. case v of
           Some verdict \<Rightarrow> ret verdict
         | None \<Rightarrow> seq (on_fst (rf_sleep rf 5)) (smc_bios_loop rf deadline (Suc fuel)))) v = (Inl e, ws')"
        using run Inr by simp
      then show ?thesis
      proof (rule round_then [OF keeps_lift [OF members, of "rf_time rf \<circ> fst"]])
        fix refs v1
        assume le1: "(rf_time rf \<circ> fst) v \<le> (rf_time rf \<circ> fst) v1"
          and "bind (smc_scan_tasks rf refs) (\<lambda>v. case v of
           Some verdict \<Rightarrow> ret verdict
         | None \<Rightarrow> seq (on_fst (rf_sleep rf 5)) (smc_bios_loop rf deadline (Suc fuel))) v1 = (Inl e, ws')"
        then show "exn_class e \<noteq> Exn_Fuel"
          by (elim round_then [OF keeps_scan_tasks [OF assms]])
            (use le in \<open>auto simp: ret_run split: option.splits dest!: again [rotated]\<close>)
      qed
    qed
  qed
qed

lemma smc_power_no_fuel:
  assumes "clock_ok rf"
  shows "deadline - rf_time rf w \<le> 5 * of_nat fuel \<Longrightarrow>
    smc_power_loop rf uri want deadline (Suc fuel) w = (Inl e, w') \<Longrightarrow> exn_class e \<noteq> Exn_Fuel"
proof (induction fuel arbitrary: w)
  case 0
  then show ?case by (simp add: io_run loop_time_def smc_power_loop.simps)
next
  case (Suc fuel)
  have "keeps_time (rf_time rf) (get_json rf uri)"
    unfolding keeps_advances by (rule advances_get_json [OF assms])
  then have ask: "keeps_time (rf_time rf) (try_redfish (bind (get_json rf uri) (\<lambda>s. lift_py (jget s ''PowerState''))))"
    by (intro io_ticks jget_raises)
  have "rf_time rf w < deadline" and run: "bind (try_redfish (bind (get_json rf uri) (\<lambda>s. lift_py (jget s ''PowerState''))))
      (\<lambda>r. if r = Inr (JStr want) then ret ()
           else seq (rf_sleep rf 5) (smc_power_loop rf uri want deadline (Suc fuel))) w = (Inl e, w')"
    using Suc.prems(2) [unfolded smc_power_loop.simps(2) [of _ _ _ _ "Suc fuel"]] by (auto simp: bind_run loop_time_run ret_run split: if_splits)
  from run show ?case
  proof (rule round_then [OF ask])
    fix r v
    assume le: "rf_time rf w \<le> rf_time rf v"
      and "(if r = Inr (JStr want) then ret ()
           else seq (rf_sleep rf 5) (smc_power_loop rf uri want deadline (Suc fuel))) v = (Inl e, w')"
    then have again: "seq (rf_sleep rf 5) (smc_power_loop rf uri want deadline (Suc fuel)) v = (Inl e, w')"
      by (simp add: ret_run split: if_splits)
    show "exn_class e \<noteq> Exn_Fuel"
    proof (rule sleep_then [OF assms _ again])
      fix u
      assume u: "rf_time rf v + 5 \<le> rf_time rf u" "smc_power_loop rf uri want deadline (Suc fuel) u = (Inl e, w')"
      have "deadline - rf_time rf u \<le> 5 * of_nat fuel" using le u(1) Suc.prems(1) by simp
      then show "exn_class e \<noteq> Exn_Fuel" using u(2) by (rule Suc.IH)
    qed simp
  qed
qed

lemma hpe_state_raises: "py_raises json_error (hpe_state us)"
  unfolding hpe_state_def by (intro io_raises)

lemma hpe_band_raises: "py_raises json_error (hpe_band st)"
  unfolding hpe_band_def by (split if_split, intro conjI impI) (simp add: unhashable_def, rule py_raises_Inr)

lemma hpe_watch_no_fuel:
  assumes "clock_ok rf"
  shows "deadline - rf_time rf (fst ws) \<le> 5 * of_nat fuel \<Longrightarrow>
    hpe_watch_loop rf deadline (Suc fuel) errs ws = (Inl e, ws') \<Longrightarrow> exn_class e \<noteq> Exn_Fuel"
proof (induction fuel arbitrary: ws errs)
  case 0
  then show ?case using before_deadline(1) [OF 0(2) [unfolded hpe_watch_loop.simps]] by simp
next
  case (Suc fuel)
  have again: "exn_class e \<noteq> Exn_Fuel" if "rf_time rf (fst ws) \<le> rf_time rf (fst v)"
    "seq (on_fst (rf_sleep rf 5)) (hpe_watch_loop rf deadline (Suc fuel) errs') v = (Inl e, ws')" for v errs'
  proof (rule flow_sleep_then [OF assms _ that(2)])
    fix u
    assume u: "rf_time rf (fst v) + 5 \<le> rf_time rf (fst u)" "hpe_watch_loop rf deadline (Suc fuel) errs' u = (Inl e, ws')"
    have "deadline - rf_time rf (fst u) \<le> 5 * of_nat fuel" using that(1) u(1) Suc.prems(1) by simp
    then show "exn_class e \<noteq> Exn_Fuel" using u(2) by (rule Suc.IH)
  qed simp
  show ?case
  proof (rule round_then [OF keeps_ask(1) [OF assms] before_deadline(2) [OF Suc.prems(2) [unfolded hpe_watch_loop.simps(2) [of _ _ "Suc fuel"]]]])
    fix r v
    assume le: "(rf_time rf \<circ> fst) ws \<le> (rf_time rf \<circ> fst) v"
      and run: "(case r of
       Inl e \<Rightarrow> if 60 \<le> Suc errs
                then ret (Inl (''iLO unreachable for 60 consecutive polls: '' @ exn_str e))
                else seq (on_fst (rf_sleep rf 5)) (hpe_watch_loop rf deadline (Suc fuel) (Suc errs))
     | Inr us \<Rightarrow> bind (lift_py (hpe_state us)) (\<lambda>state.
         if state = JStr ''Complete'' then ret (Inr ''ok'')
         else if state = JStr ''Error'' then ret (Inr ''error'')
         else bind (lift_py (hpe_band state)) (\<lambda>band.
              seq (progress ''flashing'' band)
              (seq (on_fst (rf_sleep rf 5)) (hpe_watch_loop rf deadline (Suc fuel) 0))))) v = (Inl e, ws')"
    show "exn_class e \<noteq> Exn_Fuel"
    proof (cases r)
      case (Inl e')
      then show ?thesis using run le by (auto simp: ret_run split: if_splits dest!: again [rotated])
    next
      case (Inr us)
      have "bind (lift_py (hpe_state us)) (\<lambda>state.
         if state = JStr ''Complete'' then ret (Inr ''ok'')
         else if state = JStr ''Error'' then ret (Inr ''error'')
         else bind (lift_py (hpe_band state)) (\<lambda>band.
              seq (progress ''flashing'' band)
              (seq (on_fst (rf_sleep rf 5)) (hpe_watch_loop rf deadline (Suc fuel) 0)))) v = (Inl e, ws')"
        using run Inr by simp
      then show ?thesis
      proof (rule round_then [OF keeps_lift [OF hpe_state_raises, of "rf_time rf \<circ> fst"]])
        fix st v1
        assume le1: "(rf_time rf \<circ> fst) v \<le> (rf_time rf \<circ> fst) v1"
          and "(if st = JStr ''Complete'' then ret (Inr ''ok'')
         else if st = JStr ''Error'' then ret (Inr ''error'')
         else bind (lift_py (hpe_band st)) (\<lambda>band.
              seq (progress ''flashing'' band)
              (seq (on_fst (rf_sleep rf 5)) (hpe_watch_loop rf deadline (Suc fuel) 0)))) v1 = (Inl e, ws')"
        then have "bind (lift_py (hpe_band st)) (\<lambda>band.
              seq (progress ''flashing'' band)
              (seq (on_fst (rf_sleep rf 5)) (hpe_watch_loop rf deadline (Suc fuel) 0))) v1 = (Inl e, ws')"
          by (simp add: ret_run split: if_splits)
        then show "exn_class e \<noteq> Exn_Fuel"
        proof (rule round_then [OF keeps_lift [OF hpe_band_raises, of "rf_time rf \<circ> fst"]])
          fix band v2
          assume le2: "(rf_time rf \<circ> fst) v1 \<le> (rf_time rf \<circ> fst) v2"
            and run2: "seq (progress ''flashing'' band)
              (seq (on_fst (rf_sleep rf 5)) (hpe_watch_loop rf deadline (Suc fuel) 0)) v2 = (Inl e, ws')"
          from run2 [unfolded seq_def [of "progress ''flashing'' band"]] show "exn_class e \<noteq> Exn_Fuel"
            by (rule round_then [OF keeps_progress [of "rf_time rf"]]) (use le le1 le2 in \<open>auto dest!: again [rotated]\<close>)
        qed
      qed
    qed
  qed
qed

section \<open>Properties\<close>

text \<open>Further property. The vendor waits end over the real client: with an HTTP library that does not turn
  the clock back, the Supermicro task poll, its BIOS poll (with the minute before its first look),
  its wait for a power state and the iLO watch stop on their own within the rounds of the model,
  whatever the BMC answers, logins and retries of the client included.\<close>

theorem vendor_waits_terminate:
  assumes "http_clock_ok ht" and "rf = connected ht conf"
  shows "(smc_poll_task rf uri ws = (Inl e, ws') \<longrightarrow> exn_class e \<noteq> Exn_Fuel) \<and>
    (smc_poll_bios_task rf ws = (Inl e, ws') \<longrightarrow> exn_class e \<noteq> Exn_Fuel) \<and>
    (smc_power_loop rf sys want (rf_time rf w + of_nat timeout) (Suc timeout) w = (Inl e, w') \<longrightarrow> exn_class e \<noteq> Exn_Fuel) \<and>
    (hpe_watch_loop rf (rf_time rf (fst ws) + 1800) 361 0 ws = (Inl e, ws') \<longrightarrow> exn_class e \<noteq> Exn_Fuel)"
proof (intro conjI impI)
  have ok: "clock_ok rf" using client_clock [OF assms(1)] assms(2) by simp
  have fuel: "(361::nat) = Suc 360" by simp
  show "exn_class e \<noteq> Exn_Fuel" if "smc_poll_task rf uri ws = (Inl e, ws')"
  proof -
    have "smc_poll_loop rf uri (rf_time rf (fst ws) + 1800) (Suc 360) 0 0 ws = (Inl e, ws')"
      using that by (cases ws) (auto simp: smc_poll_task_def bind_run on_fst_def loop_time_def ret_run split: if_splits)
    then show ?thesis by (rule smc_poll_no_fuel [OF ok, rotated]) simp
  qed
  show "exn_class e \<noteq> Exn_Fuel" if "smc_poll_bios_task rf ws = (Inl e, ws')"
  proof -
    have "seq (on_fst (rf_sleep rf 60)) (smc_bios_loop rf (rf_time rf (fst ws) + 1800) (Suc 360)) ws = (Inl e, ws')"
      using that unfolding smc_poll_bios_task_def fuel by (cases ws) (simp add: bind_run on_fst_def loop_time_def)
    then show ?thesis
    proof (rule flow_sleep_then [OF ok, rotated])
      fix u
      assume u: "rf_time rf (fst ws) + 60 \<le> rf_time rf (fst u)"
        "smc_bios_loop rf (rf_time rf (fst ws) + 1800) (Suc 360) u = (Inl e, ws')"
      show "exn_class e \<noteq> Exn_Fuel" by (rule smc_bios_no_fuel [OF ok _ u(2)]) (use u(1) in simp)
    qed simp
  qed
  show "exn_class e \<noteq> Exn_Fuel"
    if "smc_power_loop rf sys want (rf_time rf w + of_nat timeout) (Suc timeout) w = (Inl e, w')"
    by (rule smc_power_no_fuel [OF ok _ that]) simp
  show "exn_class e \<noteq> Exn_Fuel" if "hpe_watch_loop rf (rf_time rf (fst ws) + 1800) 361 0 ws = (Inl e, ws')"
    using that unfolding fuel by (rule smc_power_no_fuel [OF ok, rotated] hpe_watch_no_fuel [OF ok, rotated]) simp
qed

text \<open>A BMC that cannot be reached, over a library with a clock that sleeping moves: the Supermicro
  poll raises what the library raised.\<close>

definition dark_http :: "rat http" where
  "dark_http = \<lparr>ht_send = (\<lambda>c q. throw (Exn Exn_Client ''unreachable'')), ht_fingerprint_ok = (\<lambda>_. True),
     ht_is_file = (\<lambda>_ _. False), ht_dial = (\<lambda>_ _. ret ()), ht_time = (\<lambda>w. w), ht_wall = (\<lambda>w. w),
     ht_sleep = (\<lambda>t w. (Inr (), w + t))\<rparr>"

lemma dark_clock: "http_clock_ok dark_http"
  by (simp add: http_clock_ok_def dark_http_def clocked_def throw_run)

lemma dark_poll: "\<exists>ws'. smc_poll_task (connected dark_http (bmc_conf\<lparr>cc_username := []\<rparr>)) (JStr ''/task/1'')
    ((0, new_client), \<lparr>ps_cache = [], ps_progress = []\<rparr>) = (Inl (Exn Exn_Client ''unreachable''), ws')"
proof -
  have fuel: "(361::nat) = Suc 360" by simp
  show ?thesis
    unfolding smc_poll_task_def fuel smc_poll_loop.simps(2)
    by (simp add: io_run on_fst_def loop_time_def connected_def dark_http_def get_json_at_def get_json_def
        get_json_and_headers_def with_relogin_def ensure_logged_in_def session_for_def send_def request_kwargs_def
        new_client_def nonempty_def bmc_conf_def the_snd_def on_snd_def try_redfish_def attempt_def Let_def cong: io_weak)
qed

theorem vendor_waits_terminate_witness: "exn_class (Exn Exn_Client ''unreachable'') \<noteq> Exn_Fuel"
proof -
  obtain ws' where "smc_poll_task (connected dark_http (bmc_conf\<lparr>cc_username := []\<rparr>)) (JStr ''/task/1'')
    ((0, new_client), \<lparr>ps_cache = [], ps_progress = []\<rparr>) = (Inl (Exn Exn_Client ''unreachable''), ws')"
    using dark_poll by blast
  then show ?thesis
    by (rule vendor_waits_terminate [OF dark_clock HOL.refl, THEN conjunct1, rule_format])
qed

end
