(* ===== verification/Decimal_Text.thy ===== *)
theory Decimal_Text
  imports Prelude
begin

text \<open>Facts on the decimal text of integers that parsers and signed messages rest on.\<close>

lemma int_code: "int (code c) = of_char c"
  by (simp add: code_def of_nat_of_char)

lemma code_digit: "0 \<le> m \<Longrightarrow> m < 10 \<Longrightarrow> code (char_of (48 + m)) = nat (48 + m)" for m :: int
  using int_code [of "char_of (48 + m)"] by simp

lemma nat_str_digits: "0 \<le> n \<Longrightarrow> list_all is_digit (nat_str n)"
proof (induction n rule: nat_str.induct)
  case (1 n)
  have "is_digit (char_of (48 + m))" if "0 \<le> m" "m < 10" for m :: int
    using code_digit [OF that] that by (auto simp: is_digit_def Let_def)
  then show ?case using 1 by (cases "n < 10") (simp_all add: nat_str.simps [of n])
qed

lemma nat_str_ne: "nat_str n \<noteq> []"
  by (simp add: nat_str.simps [of n])

lemma nat_str_lead: "0 < n \<Longrightarrow> hd (nat_str n) \<noteq> CHR ''0''"
proof (induction n rule: nat_str.induct)
  case (1 n)
  show ?case
  proof (cases "n < 10")
    case True
    then have "code (char_of (48 + n)) \<noteq> code (CHR ''0'')" using code_digit [of n] 1 by (simp add: code_def)
    then have "char_of (48 + n) \<noteq> CHR ''0''" by metis
    then show ?thesis using True by (simp add: nat_str.simps [of n])
  next
    case False
    then show ?thesis using 1 by (simp add: nat_str.simps [of n] nat_str_ne)
  qed
qed

lemma digits_head: "0 \<le> n \<Longrightarrow> nat_str n = c # cs \<Longrightarrow> c \<noteq> CHR ''-''"
  using nat_str_digits [of n] by (auto simp: is_digit_def code_def)

text \<open>Every character of an integer's text is a digit or the minus sign.\<close>

lemma int_str_chars: "list_all (\<lambda>c. is_digit c \<or> c = CHR ''-'') (int_str i)"
  using nat_str_digits [of i] nat_str_digits [of "- i"] by (auto simp: int_str_def list_all_iff)

lemma nat_str_minus: "0 \<le> n \<Longrightarrow> nat_str n \<noteq> CHR ''-'' # s"
  using digits_head by blast

lemma int_str_eq [simp]: "int_str i = int_str j \<longleftrightarrow> i = j"
proof
  assume eq: "int_str i = int_str j"
  consider "i < 0" "j < 0" | "0 \<le> i" "0 \<le> j" | "i < 0" "0 \<le> j" | "0 \<le> i" "j < 0" by linarith
  then show "i = j"
  proof cases
    case 1
    then have "int_str (- i) = int_str (- j)" using eq by (simp add: int_str_def)
    then have "- i = - j" by (rule int_str_inj [rotated 2]) (use 1 in simp_all)
    then show ?thesis by simp
  next
    case 2
    then show ?thesis using eq by (rule int_str_inj)
  next
    case 3
    then show ?thesis using eq nat_str_minus [of j] by (simp add: int_str_def) (metis nat_str_minus)
  next
    case 4
    then show ?thesis using eq nat_str_minus [of i] by (simp add: int_str_def)
  qed
qed simp

lemma digits_ok_digits: "list_all is_digit s \<Longrightarrow> s \<noteq> [] \<Longrightarrow> digits_ok s"
proof (induction s rule: digits_ok.induct)
  case (3 c d cs)
  then have "d \<noteq> CHR ''_''" by (auto simp: is_digit_def code_def)
  then show ?case using 3 by simp
qed simp_all

lemma parse_nat_str: "0 \<le> n \<Longrightarrow> parse_nat (nat_str n) = Some n"
  using digits_ok_digits [OF nat_str_digits nat_str_ne] nat_str_digits [of n]
  by (simp add: parse_nat_def int_of_digits_nat_str filter_True list_all_iff)

lemma strip_digits: "list_all (\<lambda>c. is_digit c \<or> c = CHR ''-'') s \<Longrightarrow> strip s = s"
proof -
  assume s: "list_all (\<lambda>c. is_digit c \<or> c = CHR ''-'') s"
  have "\<not> is_space c" if "is_digit c \<or> c = CHR ''-''" for c
    using that by (auto simp: is_space_def is_digit_def code_def Let_def)
  then have no: "dropWhile is_space t = t" if "list_all (\<lambda>c. is_digit c \<or> c = CHR ''-'') t" for t
    using that by (cases t) auto
  then show ?thesis using s by (simp add: strip_def lstrip_def rstrip_def list_all_rev)
qed

lemma parse_int_str: "parse_int (int_str i) = Some i"
proof (cases "i < 0")
  case True
  then show ?thesis using parse_nat_str [of "- i"] strip_digits [OF int_str_chars, of i]
    by (simp add: parse_int_def) (simp add: int_str_def)
next
  case False
  then obtain c cs where c: "nat_str i = c # cs" "is_digit c" using nat_str_ne [of i] nat_str_digits [of i] by (cases "nat_str i") auto
  then have "c \<noteq> CHR ''-'' \<and> c \<noteq> CHR ''+''" by (auto simp: is_digit_def code_def)
  then show ?thesis using False parse_nat_str [of i] strip_digits [OF int_str_chars, of i] c
    by (simp add: parse_int_def int_str_def)
qed

end
