(* ===== verification/File_Server.thy ===== *)
theory File_Server
  imports Models Decimal_Text
begin

text \<open>
  \<open>core/services/file_server.py\<close>: signing and checking resource URLs, the address advertised to
  BMCs, and the two handlers. HMAC-SHA256 (\<open>mac\<close>), the sockets and the files on disk are
  parameters; routing and streaming are aiohttp's. A request is its path component and the
  \<open>exp\<close> and \<open>sig\<close> of its query, empty when absent.
\<close>

section \<open>Signed URLs\<close>

definition sign_msg :: "string \<Rightarrow> string \<Rightarrow> int \<Rightarrow> string" where
  "sign_msg resource identifier expiry = resource @ '':'' @ identifier @ '':'' @ int_str expiry"

text \<open>\<open>.encode('ascii')\<close> refuses other characters.\<close>

definition is_ascii :: "string \<Rightarrow> bool" where
  "is_ascii s = list_all (\<lambda>c. code c < 128) s"

definition compute_sig :: "(string \<Rightarrow> string \<Rightarrow> string) \<Rightarrow> string \<Rightarrow> string \<Rightarrow> string \<Rightarrow> int \<Rightarrow> string py" where
  "compute_sig mac secret resource identifier expiry = (let msg = sign_msg resource identifier expiry in
     if is_ascii msg then Inr (mac secret msg)
     else Inl (Exn Exn_Value (quoted ''ascii'' @ '' codec can't encode characters: ordinal not in range(128)'')))"

definition sign :: "(string \<Rightarrow> string \<Rightarrow> string) \<Rightarrow> string \<Rightarrow> rat \<Rightarrow> string \<Rightarrow> string \<Rightarrow> int \<Rightarrow> (int \<times> string) py" where
  "sign mac secret now resource identifier ttl = (let expiry = trunc_rat now + ttl in
     bind_py (compute_sig mac secret resource identifier expiry) (\<lambda>sg. Inr (expiry, sg)))"

definition compare_digest :: "string \<Rightarrow> string \<Rightarrow> bool py" where
  "compare_digest a b = (if is_ascii a \<and> is_ascii b then Inr (a = b)
     else Inl (Exn Exn_Type ''comparing strings with non-ASCII characters is not supported''))"

definition verify :: "(string \<Rightarrow> string \<Rightarrow> string) \<Rightarrow> string \<Rightarrow> rat \<Rightarrow> string \<Rightarrow> string \<Rightarrow> string \<Rightarrow> string \<Rightarrow> bool py" where
  "verify mac secret now resource identifier expiry sg = (case parse_int expiry of
       None \<Rightarrow> Inr False
     | Some e \<Rightarrow> if e < trunc_rat now then Inr False
         else bind_py (compute_sig mac secret resource identifier e) (\<lambda>expected. compare_digest expected sg))"

section \<open>The server\<close>

record file_server =
  fs_secret :: string
  fs_public_base :: "string option"

definition iso_ttl :: int where
  "iso_ttl = 2 * 60 * 60"

definition autoinstall_ttl :: int where
  "autoinstall_ttl = 5 * 60"

definition signed_url :: "(string \<Rightarrow> string \<Rightarrow> string) \<Rightarrow> file_server \<Rightarrow> rat \<Rightarrow> string \<Rightarrow> string \<Rightarrow> int \<Rightarrow> string py" where
  "signed_url mac fs now resource identifier ttl = (case fs_public_base fs of
       None \<Rightarrow> Inl (Exn Exn_Runtime (''File server has not been started '' @ em_dash @ '' call start() before ''
                 @ ''generating signed URLs.''))
     | Some base \<Rightarrow> bind_py (sign mac (fs_secret fs) now resource identifier ttl) (\<lambda>(expiry, sg).
         Inr (base @ ''/'' @ resource @ ''/'' @ identifier @ ''?exp='' @ int_str expiry @ ''&sig='' @ sg)))"

definition signed_iso_url :: "(string \<Rightarrow> string \<Rightarrow> string) \<Rightarrow> file_server \<Rightarrow> rat \<Rightarrow> string \<Rightarrow> string py" where
  "signed_iso_url mac fs now sha = signed_url mac fs now ''iso'' sha iso_ttl"

definition signed_autoinstall_url :: "(string \<Rightarrow> string \<Rightarrow> string) \<Rightarrow> file_server \<Rightarrow> rat \<Rightarrow> string \<Rightarrow> string py" where
  "signed_autoinstall_url mac fs now token = signed_url mac fs now ''autoinstall'' token autoinstall_ttl"

subsection \<open>The advertised address\<close>

text \<open>What the operating system answers: the source address of a route to the probe target
  (\<open>None\<close> on an \<open>OSError\<close>), and the host's own addresses. \<open>private_ip\<close> is \<open>ipaddress\<close>'s verdict
  private, not loopback, not link-local (\<open>None\<close> for a text that is no IPv4 address).\<close>

record net_view =
  nv_route :: "string option"
  nv_addrs :: "string list option"
  nv_private :: "string \<Rightarrow> bool option"

definition detect_advertise_host :: "net_view \<Rightarrow> string option" where
  "detect_advertise_host nv =
     (let by_route = (case nv_route nv of Some a \<Rightarrow> if a \<noteq> [] \<and> \<not> starts_with ''0.'' a then Some a else None | None \<Rightarrow> None) in
      case by_route of Some a \<Rightarrow> Some a
      | None \<Rightarrow> List.find (\<lambda>a. \<not> starts_with ''127.'' a \<and> nv_private nv a = Some True) (the_default [] (nv_addrs nv)))"

definition http_url :: "string \<Rightarrow> int \<Rightarrow> string" where
  "http_url host port = ''http://'' @ host @ '':'' @ int_str port"

definition resolve_advertise_url :: "net_view \<Rightarrow> string \<Rightarrow> int \<Rightarrow> string" where
  "resolve_advertise_url nv host port =
     (if host \<noteq> [] \<and> host \<notin> {''0.0.0.0'', ''::''} then http_url host port
      else case nonempty (detect_advertise_host nv) of Some a \<Rightarrow> http_url a port | None \<Rightarrow> http_url host port)"

text \<open>\<open>start\<close>, with the result of binding the socket; a failed bind leaves the server as it was.\<close>

definition start_server :: "net_view \<Rightarrow> string \<Rightarrow> int \<Rightarrow> string option \<Rightarrow> unit py \<Rightarrow> file_server \<Rightarrow> unit py \<times> file_server" where
  "start_server nv host port public_base bound fs = (case bound of
       Inl e \<Rightarrow> (Inl e, fs)
     | Inr _ \<Rightarrow> (Inr (), fs\<lparr>fs_public_base := Some (case nonempty public_base of Some u \<Rightarrow> u
         | None \<Rightarrow> (case nonempty (fs_public_base fs) of Some u \<Rightarrow> u | None \<Rightarrow> resolve_advertise_url nv host port))\<rparr>))"

subsection \<open>Handlers\<close>

datatype fs_response = Text_Response nat string | File_Response string

definition handle_iso :: "(string \<Rightarrow> string \<Rightarrow> string) \<Rightarrow> file_server \<Rightarrow> string \<Rightarrow> (string \<Rightarrow> bool) \<Rightarrow> rat \<Rightarrow>
    string \<Rightarrow> string \<Rightarrow> string \<Rightarrow> fs_response py" where
  "handle_iso mac fs iso_dir is_file now sha expiry sg =
     bind_py (verify mac (fs_secret fs) now ''iso'' sha expiry sg) (\<lambda>ok.
     let path = iso_dir @ ''/'' @ sha @ ''.iso'' in
     Inr (if \<not> ok then Text_Response 403 ''bad signature''
          else if \<not> is_file path then Text_Response 404 ''not found'' else File_Response path))"

definition handle_autoinstall :: "(string \<Rightarrow> string \<Rightarrow> string) \<Rightarrow> file_server \<Rightarrow> (string \<Rightarrow> string option) option \<Rightarrow> rat \<Rightarrow>
    string \<Rightarrow> string \<Rightarrow> string \<Rightarrow> fs_response py" where
  "handle_autoinstall mac fs provider now token expiry sg =
     bind_py (verify mac (fs_secret fs) now ''autoinstall'' token expiry sg) (\<lambda>ok.
     Inr (if \<not> ok then Text_Response 403 ''bad signature''
          else case provider of None \<Rightarrow> Text_Response 503 ''no provider''
            | Some f \<Rightarrow> (case f token of None \<Rightarrow> Text_Response 404 ''unknown token'' | Some body \<Rightarrow> Text_Response 200 body)))"

section \<open>Facts\<close>

lemma signature_accepted:
  "verify mac secret now resource identifier expiry sg = Inr True \<longleftrightarrow>
   (\<exists>e. parse_int expiry = Some e \<and> trunc_rat now \<le> e \<and> is_ascii (sign_msg resource identifier e) \<and>
      is_ascii sg \<and> mac secret (sign_msg resource identifier e) = sg)"
  by (auto simp: verify_def compute_sig_def compare_digest_def bind_py_Inr Let_def split: option.splits if_splits)

text \<open>The signed message determines its three parts, as resource names and expiry have no colon.\<close>

lemma int_str_colon: "CHR '':'' \<notin> set (int_str i)"
  using int_str_chars [of i] by (auto simp: list_all_iff is_digit_def code_def)

lemma append_sep: "c \<notin> set a \<Longrightarrow> c \<notin> set b \<Longrightarrow> a @ c # x = b @ c # y \<Longrightarrow> a = b \<and> x = y"
proof (induction a arbitrary: b)
  case Nil
  then show ?case by (cases b) auto
next
  case (Cons z a)
  then show ?case by (cases b) auto
qed

lemma append_sep_last:
  assumes "c \<notin> set x" "c \<notin> set y" "a @ c # x = b @ c # y"
  shows "a = b \<and> x = y"
proof -
  have "rev x @ c # rev a = rev y @ c # rev b" using arg_cong [OF assms(3), of rev] by simp
  then have "rev x = rev y \<and> rev a = rev b" by (intro append_sep) (use assms(1,2) in auto)
  then show ?thesis by simp
qed

lemma sign_msg_inj:
  assumes "sign_msg r i e = sign_msg r' i' e'" "CHR '':'' \<notin> set r" "CHR '':'' \<notin> set r'"
  shows "r = r' \<and> i = i' \<and> e = e'"
proof -
  have "r = r' \<and> i @ CHR '':'' # int_str e = i' @ CHR '':'' # int_str e'"
    using append_sep [OF assms(2,3)] assms(1) by (simp add: sign_msg_def)
  then show ?thesis using append_sep_last [OF int_str_colon int_str_colon, of i e i' e'] by simp
qed

section \<open>Properties\<close>



end
