(* ===== verification/Store.thy ===== *)
theory Store
  imports Models
begin

text \<open>
  SQLite tables as the repositories use them: a table is the list of its rows in the order of
  their \<open>INTEGER PRIMARY KEY\<close>, an insert takes the largest key plus one (so the key of a deleted
  last row is used again), \<open>UPDATE ... WHERE\<close> and \<open>DELETE ... WHERE\<close> act on the rows that satisfy
  a predicate. The locale \<open>row_store\<close> states what the repositories rely on.
\<close>

section \<open>Tables\<close>

type_synonym 'r table = "(int \<times> 'r) list"

definition row :: "'r table \<Rightarrow> int \<Rightarrow> 'r option" where
  "row t i = map_of t i"

definition next_rowid :: "'r table \<Rightarrow> int" where
  "next_rowid t = foldr (\<lambda>(i, _) m. max i m) t 0 + 1"

definition insert_row :: "'r \<Rightarrow> 'r table \<Rightarrow> int \<times> 'r table" where
  "insert_row r t = (next_rowid t, t @ [(next_rowid t, r)])"

definition update_where :: "(int \<Rightarrow> 'r \<Rightarrow> bool) \<Rightarrow> ('r \<Rightarrow> 'r) \<Rightarrow> 'r table \<Rightarrow> 'r table" where
  "update_where p f t = List.map (\<lambda>(i, r). (i, if p i r then f r else r)) t"

definition delete_where :: "(int \<Rightarrow> 'r \<Rightarrow> bool) \<Rightarrow> 'r table \<Rightarrow> 'r table" where
  "delete_where p t = filter (\<lambda>(i, r). \<not> p i r) t"

definition find_row :: "(int \<Rightarrow> 'r \<Rightarrow> bool) \<Rightarrow> 'r table \<Rightarrow> (int \<times> 'r) option" where
  "find_row p t = List.find (\<lambda>(i, r). p i r) t"

definition count_where :: "(int \<Rightarrow> 'r \<Rightarrow> bool) \<Rightarrow> 'r table \<Rightarrow> nat" where
  "count_where p t = length (filter (\<lambda>(i, r). p i r) t)"

definition update_row :: "int \<Rightarrow> ('r \<Rightarrow> 'r) \<Rightarrow> 'r table \<Rightarrow> 'r table" where
  "update_row i = update_where (\<lambda>j _. j = i)"

fun insert_all :: "'r list \<Rightarrow> 'r table \<Rightarrow> int list \<times> 'r table" where
  "insert_all [] t = ([], t)"
| "insert_all (r # rs) t = (case insert_row r t of (i, t1) \<Rightarrow> (case insert_all rs t1 of (is, t2) \<Rightarrow> (i # is, t2)))"

definition table_ok :: "'r table \<Rightarrow> bool" where
  "table_ok t = (sorted_wrt (<) (List.map fst t) \<and> (\<forall>(i, _) \<in> set t. 0 < i))"

definition integrity :: "string \<Rightarrow> exn" where
  "integrity msg = Exn Exn_Integrity msg"

section \<open>The laws of a table\<close>

locale row_store =
  fixes lookup :: "'t \<Rightarrow> int \<Rightarrow> 'r option"
    and ins :: "'r \<Rightarrow> 't \<Rightarrow> int \<times> 't"
    and upd :: "(int \<Rightarrow> 'r \<Rightarrow> bool) \<Rightarrow> ('r \<Rightarrow> 'r) \<Rightarrow> 't \<Rightarrow> 't"
    and del :: "(int \<Rightarrow> 'r \<Rightarrow> bool) \<Rightarrow> 't \<Rightarrow> 't"
    and ok :: "'t \<Rightarrow> bool"
  assumes ins_ok: "ok t \<Longrightarrow> ins r t = (i, t') \<Longrightarrow> ok t'"
    and ins_fresh: "ok t \<Longrightarrow> ins r t = (i, t') \<Longrightarrow> lookup t i = None"
    and ins_lookup: "ok t \<Longrightarrow> ins r t = (i, t') \<Longrightarrow> lookup t' j = (if j = i then Some r else lookup t j)"
    and upd_ok: "ok t \<Longrightarrow> ok (upd p f t)"
    and upd_lookup: "lookup (upd p f t) j = map_option (\<lambda>r. if p j r then f r else r) (lookup t j)"
    and del_ok: "ok t \<Longrightarrow> ok (del p t)"
    and del_lookup: "ok t \<Longrightarrow> lookup (del p t) j =
      (case lookup t j of None \<Rightarrow> None | Some r \<Rightarrow> if p j r then None else Some r)"
begin

text \<open>Frame rules: what an operation leaves alone.\<close>

lemma ins_keeps: "ok t \<Longrightarrow> ins r t = (i, t') \<Longrightarrow> lookup t j = Some x \<Longrightarrow> lookup t' j = Some x"
  using ins_fresh [of t r i t'] ins_lookup [of t r i t' j] by auto

lemma upd_other: "(\<And>r. lookup t j = Some r \<Longrightarrow> \<not> p j r) \<Longrightarrow> lookup (upd p f t) j = lookup t j"
  by (cases "lookup t j") (auto simp: upd_lookup)

lemma upd_hit: "lookup t j = Some r \<Longrightarrow> p j r \<Longrightarrow> lookup (upd p f t) j = Some (f r)"
  by (simp add: upd_lookup)

lemma upd_dom: "lookup (upd p f t) j = None \<longleftrightarrow> lookup t j = None"
  by (simp add: upd_lookup)

text \<open>A property of single rows that the operations respect holds of every row.\<close>

definition rows_all :: "('r \<Rightarrow> bool) \<Rightarrow> 't \<Rightarrow> bool" where
  "rows_all P t \<longleftrightarrow> (\<forall>i r. lookup t i = Some r \<longrightarrow> P r)"

lemma rows_all_ins: "ok t \<Longrightarrow> ins r t = (i, t') \<Longrightarrow> P r \<Longrightarrow> rows_all P t \<Longrightarrow> rows_all P t'"
  by (auto simp: rows_all_def ins_lookup split: if_splits)

lemma rows_all_upd: "rows_all P t \<Longrightarrow> (\<And>r. P r \<Longrightarrow> P (f r)) \<Longrightarrow> rows_all P (upd p f t)"
  by (auto simp: rows_all_def upd_lookup)

lemma rows_all_del: "ok t \<Longrightarrow> rows_all P t \<Longrightarrow> rows_all P (del p t)"
  by (auto simp: rows_all_def del_lookup split: option.splits if_splits)

end

section \<open>The tables are such stores\<close>

lemma foldr_max_ge: "(i, r) \<in> set t \<Longrightarrow> i \<le> foldr (\<lambda>(i, _) m. max i m) t (0::int)"
  by (induction t) auto

lemma next_rowid_gt: "(i, r) \<in> set t \<Longrightarrow> i < next_rowid t"
  using foldr_max_ge [of i r t] by (simp add: next_rowid_def)

lemma next_rowid_pos: "0 < next_rowid t"
proof -
  have "0 \<le> foldr (\<lambda>(i, _) m. max i m) t (0::int)" by (induction t) auto
  then show ?thesis by (simp add: next_rowid_def)
qed

lemma table_ok_Nil [simp]: "table_ok []"
  by (simp add: table_ok_def)

lemma table_ok_insert: "table_ok t \<Longrightarrow> insert_row r t = (i, t') \<Longrightarrow> table_ok t'"
  using next_rowid_pos [of t] next_rowid_gt [of _ _ t]
  by (auto simp: table_ok_def insert_row_def sorted_wrt_append)

lemma map_fst_update [simp]: "List.map fst (update_where p f t) = List.map fst t"
  by (induction t) (auto simp: update_where_def)

lemma table_ok_update: "table_ok t \<Longrightarrow> table_ok (update_where p f t)"
proof -
  assume ok: "table_ok t"
  have "fst ` set (update_where p f t) = fst ` set t"
    using map_fst_update [of p f t] by (metis list.set_map)
  then have "\<forall>i \<in> fst ` set (update_where p f t). 0 < i" using ok by (auto simp: table_ok_def)
  then show ?thesis using ok by (auto simp: table_ok_def)
qed

lemma sorted_wrt_filter_fst: "sorted_wrt (<) (List.map fst t) \<Longrightarrow> sorted_wrt (<) (List.map fst (filter q t))"
  by (induction t) auto

lemma table_ok_delete: "table_ok t \<Longrightarrow> table_ok (delete_where p t)"
  by (auto simp: table_ok_def delete_where_def intro: sorted_wrt_filter_fst)

lemma table_ok_distinct: "table_ok t \<Longrightarrow> distinct (List.map fst t)"
  by (auto simp: table_ok_def strict_sorted_iff)

lemma row_mem: "table_ok t \<Longrightarrow> row t i = Some r \<longleftrightarrow> (i, r) \<in> set t"
  using table_ok_distinct [of t] by (simp add: row_def)

lemma row_update: "row (update_where p f t) j = map_option (\<lambda>r. if p j r then f r else r) (row t j)"
  by (induction t) (auto simp: row_def update_where_def)

lemma row_next: "row t (next_rowid t) = None"
  using next_rowid_gt [of "next_rowid t" _ t] by (force simp: row_def map_of_eq_None_iff)

lemma row_insert: "insert_row r t = (i, t') \<Longrightarrow> row t' j = (if j = i then Some r else row t j)"
  using row_next [of t] by (auto simp: insert_row_def row_def map_of_append map_add_def split: option.splits)

lemma row_delete:
  assumes "table_ok t"
  shows "row (delete_where p t) j = (case row t j of None \<Rightarrow> None | Some r \<Rightarrow> if p j r then None else Some r)"
proof -
  have iff: "row (delete_where p t) j = Some r \<longleftrightarrow> row t j = Some r \<and> \<not> p j r" for r
    using row_mem [OF assms, of j r] row_mem [OF table_ok_delete [OF assms, of p], of j r]
    by (auto simp: delete_where_def)
  show ?thesis
  proof (cases "row t j")
    case None
    then have "row (delete_where p t) j \<noteq> Some r" for r using iff [of r] by simp
    then show ?thesis using None by (cases "row (delete_where p t) j") auto
  next
    case (Some r)
    then have "row (delete_where p t) j = Some r \<longleftrightarrow> \<not> p j r" "row (delete_where p t) j = Some x \<Longrightarrow> x = r" for x
      using iff [of r] iff [of x] by auto
    then show ?thesis using Some by (cases "row (delete_where p t) j") auto
  qed
qed

interpretation table: row_store row insert_row update_where delete_where table_ok
proof unfold_locales
  fix t :: "'a table" and r i t' j
  assume "table_ok t" "insert_row r t = (i, t')"
  then show "row t i = None" using row_next [of t] by (simp add: insert_row_def)
qed (simp_all add: table_ok_insert row_insert table_ok_update row_update table_ok_delete row_delete)

section \<open>Batches, single rows and searches\<close>

lemma row_update_row: "row (update_row i f t) j = (if j = i then map_option f (row t j) else row t j)"
  by (cases "row t j") (auto simp: update_row_def row_update)

lemma table_ok_update_row [simp]: "table_ok t \<Longrightarrow> table_ok (update_row i f t)"
  by (simp add: update_row_def table_ok_update)

lemma find_row_Some:
  assumes "find_row p t = Some (i, r)"
  shows "(i, r) \<in> set t \<and> p i r"
proof -
  obtain k where "k < length t" "t ! k = (i, r)" "p i r"
    using assms unfolding find_row_def find_Some_iff by (metis (mono_tags, lifting) case_prod_conv)
  then show ?thesis by (metis nth_mem)
qed

lemma find_row_None: "find_row p t = None \<Longrightarrow> (i, r) \<in> set t \<Longrightarrow> \<not> p i r"
  by (auto simp: find_row_def find_None_iff)

lemma insert_all_length: "insert_all rs t = (is, t') \<Longrightarrow> length is = length rs"
  by (induction rs arbitrary: t "is" t') (auto split: prod.splits)

lemma insert_all_ok: "table_ok t \<Longrightarrow> insert_all rs t = (is, t') \<Longrightarrow> table_ok t'"
  by (induction rs arbitrary: t "is" t') (auto split: prod.splits dest: table_ok_insert)

text \<open>The keys of a batch are new and distinct, and each of its rows is found under its key.\<close>

lemma insert_all_rows:
  assumes "insert_all rs t = (is, t')"
  shows "distinct is \<and> (\<forall>i \<in> set is. row t i = None) \<and>
    (\<forall>j. row t' j = (case map_of (zip is rs) j of Some r \<Rightarrow> Some r | None \<Rightarrow> row t j))"
  using assms
proof (induction rs arbitrary: t "is" t')
  case (Cons r rs)
  obtain i t1 where i: "insert_row r t = (i, t1)" by fastforce
  obtain ks where ks: "insert_all rs t1 = (ks, t')" "is = i # ks"
    using Cons.prems i by (auto split: prod.splits)
  have fresh: "row t i = None" using i row_next [of t] by (simp add: insert_row_def)
  note IH = Cons.IH [OF ks(1)]
  have "i \<notin> set ks" using IH row_insert [OF i, of i] by auto
  moreover have "row t k = None" if "k \<in> set ks" for k
    using that IH row_insert [OF i, of k] by (auto split: if_splits)
  moreover have "map_of (zip ks rs) i = None"
    using \<open>i \<notin> set ks\<close> by (auto simp: map_of_eq_None_iff dest: set_zip_leftD)
  ultimately show ?case using IH fresh row_insert [OF i] ks(2) by (auto split: option.splits)
qed simp

end
