(* ===== verification/Database.thy ===== *)
theory Database
  imports Store
begin

text \<open>
  The SQLite database: the tables of \<open>data/migrations/*.sql\<close> with the columns the code writes
  (\<open>servers.cred_id\<close>, \<open>servers.tags\<close> and \<open>update_tasks.retries\<close> are never written), the
  constraints the schema declares, and the migration runner of \<open>data/database.py\<close>. A \<open>TEXT\<close> column
  that may be \<open>NULL\<close> is a \<open>string option\<close>.
\<close>

section \<open>Rows\<close>

text \<open>The columns that discovery writes (\<open>_FIELDS\<close> of the servers repository).\<close>

record server_fields =
  sf_hostname :: "string option"
  sf_manufacturer :: "string option"
  sf_oem :: "string option"
  sf_model :: "string option"
  sf_serial :: "string option"
  sf_bmc_version :: "string option"
  sf_bios_version :: "string option"
  sf_power_state :: "string option"
  sf_status :: string
  sf_protocol :: "string option"
  sf_redfish_root :: "string option"
  sf_tls_fpr :: "string option"

record server_row =
  sr_ip :: string
  sr_fields :: server_fields
  sr_oem_override :: "string option"
  sr_disks_json :: "string option"
  sr_disks_at :: "string option"
  sr_last_seen :: "string option"
  sr_discovered_at :: "string option"
  sr_updated_at :: "string option"

record firmware_row =
  fr_name :: string
  fr_type :: string
  fr_oem :: string
  fr_model :: "string option"
  fr_version :: string
  fr_file_path :: string
  fr_sha256 :: string
  fr_size_bytes :: "int option"
  fr_signature :: "string option"
  fr_uploaded_at :: "string option"
  fr_uploaded_by :: "string option"
  fr_notes :: "string option"

record iso_row =
  ir_name :: string
  ir_os_family :: string
  ir_os_version :: string
  ir_arch :: "string option"
  ir_file_path :: string
  ir_sha256 :: string
  ir_size_bytes :: "int option"
  ir_source_url :: "string option"
  ir_uploaded_at :: "string option"
  ir_uploaded_by :: "string option"
  ir_notes :: "string option"

record disk_profile_row =
  dp_name :: string
  dp_strategy :: string
  dp_allow_nonempty :: int
  dp_on_no_match :: string
  dp_created_at :: "string option"
  dp_notes :: "string option"

record credential_row =
  cr_label :: "string option"
  cr_username :: string
  cr_secret_enc :: "nat list"
  cr_scope :: "string option"
  cr_created_at :: "string option"

record activity_row =
  ac_ts :: string
  ac_level :: string
  ac_category :: string
  ac_actor :: "string option"
  ac_server_id :: "int option"
  ac_job_id :: "int option"
  ac_message :: string
  ac_detail :: "string option"

record job_row =
  jb_created_at :: string
  jb_created_by :: string
  jb_fw_type :: string
  jb_concurrency :: int
  jb_apply_time :: string
  jb_state :: string
  jb_total :: int
  jb_succeeded :: int
  jb_failed :: int

record task_row =
  tk_job_id :: int
  tk_server_id :: "int option"
  tk_firmware_id :: "int option"
  tk_state :: string
  tk_progress :: int
  tk_version_before :: "string option"
  tk_version_after :: "string option"
  tk_redfish_task :: "string option"
  tk_message :: "string option"
  tk_started_at :: "string option"
  tk_finished_at :: "string option"

record prov_job_row =
  pj_created_at :: string
  pj_created_by :: string
  pj_iso_id :: "int option"
  pj_os_profile_id :: "int option"
  pj_disk_profile_id :: "int option"
  pj_concurrency :: int
  pj_state :: string
  pj_total :: int
  pj_succeeded :: int
  pj_failed :: int
  pj_confirm_token :: string

record prov_task_row =
  pt_job_id :: int
  pt_server_id :: "int option"
  pt_resolved_disk :: "string option"
  pt_cfg_sha :: "string option"
  pt_state :: string
  pt_progress :: int
  pt_message :: "string option"
  pt_started_at :: "string option"
  pt_finished_at :: "string option"

text \<open>No operation writes \<open>os_profiles\<close>, so only its keys matter.\<close>

record db =
  db_servers :: "server_row table"
  db_firmware :: "firmware_row table"
  db_isos :: "iso_row table"
  db_disk_profiles :: "disk_profile_row table"
  db_os_profiles :: "unit table"
  db_jobs :: "job_row table"
  db_tasks :: "task_row table"
  db_prov_jobs :: "prov_job_row table"
  db_prov_tasks :: "prov_task_row table"
  db_credentials :: "credential_row table"
  db_settings :: "(string \<times> string) list"
  db_activity :: "activity_row table"

definition empty_db :: db where
  "empty_db = \<lparr>db_servers = [], db_firmware = [], db_isos = [], db_disk_profiles = [], db_os_profiles = [],
     db_jobs = [], db_tasks = [], db_prov_jobs = [], db_prov_tasks = [], db_credentials = [], db_settings = [],
     db_activity = []\<rparr>"

section \<open>Constraints of the schema\<close>

text \<open>A foreign key is \<open>NULL\<close> or the key of a row of the referenced table.\<close>

definition fk_ok :: "int option \<Rightarrow> 'r table \<Rightarrow> bool" where
  "fk_ok x t = (case x of None \<Rightarrow> True | Some i \<Rightarrow> row t i \<noteq> None)"

definition unique_col :: "('r \<Rightarrow> 'c) \<Rightarrow> 'r table \<Rightarrow> bool" where
  "unique_col c t = distinct (List.map (c \<circ> snd) t)"

definition tables_ok :: "db \<Rightarrow> bool" where
  "tables_ok d = (table_ok (db_servers d) \<and> table_ok (db_firmware d) \<and> table_ok (db_isos d) \<and>
     table_ok (db_disk_profiles d) \<and> table_ok (db_jobs d) \<and> table_ok (db_tasks d) \<and>
     table_ok (db_prov_jobs d) \<and> table_ok (db_prov_tasks d) \<and> table_ok (db_credentials d) \<and>
     table_ok (db_activity d))"

definition uniques_ok :: "db \<Rightarrow> bool" where
  "uniques_ok d = (unique_col sr_ip (db_servers d) \<and> unique_col fr_sha256 (db_firmware d) \<and>
     unique_col ir_sha256 (db_isos d) \<and> distinct (List.map fst (db_settings d)))"

definition task_refs_ok :: "db \<Rightarrow> task_row \<Rightarrow> bool" where
  "task_refs_ok d r = (row (db_jobs d) (tk_job_id r) \<noteq> None \<and> fk_ok (tk_server_id r) (db_servers d) \<and>
     fk_ok (tk_firmware_id r) (db_firmware d))"

definition prov_job_refs_ok :: "db \<Rightarrow> prov_job_row \<Rightarrow> bool" where
  "prov_job_refs_ok d r = (fk_ok (pj_iso_id r) (db_isos d) \<and> fk_ok (pj_os_profile_id r) (db_os_profiles d) \<and>
     fk_ok (pj_disk_profile_id r) (db_disk_profiles d))"

definition prov_task_refs_ok :: "db \<Rightarrow> prov_task_row \<Rightarrow> bool" where
  "prov_task_refs_ok d r = (row (db_prov_jobs d) (pt_job_id r) \<noteq> None \<and> fk_ok (pt_server_id r) (db_servers d))"

definition refs_ok :: "db \<Rightarrow> bool" where
  "refs_ok d = ((\<forall>(_, r) \<in> set (db_tasks d). task_refs_ok d r) \<and>
     (\<forall>(_, r) \<in> set (db_prov_jobs d). prov_job_refs_ok d r) \<and>
     (\<forall>(_, r) \<in> set (db_prov_tasks d). prov_task_refs_ok d r))"

definition db_ok :: "db \<Rightarrow> bool" where
  "db_ok d = (tables_ok d \<and> uniques_ok d \<and> refs_ok d)"

section \<open>Writing a whitelisted set of columns\<close>

datatype sqlval = SqlText string | SqlInt int

fun join_str :: "string \<Rightarrow> string list \<Rightarrow> string" where
  "join_str sep [] = []"
| "join_str sep [x] = x"
| "join_str sep (x # y # ys) = x @ sep @ join_str sep (y # ys)"

definition safe_set_clauses :: "(string \<times> sqlval) list \<Rightarrow> string list \<Rightarrow> (string \<times> sqlval list) py" where
  "safe_set_clauses pairs allowed = (case List.find (\<lambda>(c, _). c \<notin> set allowed) pairs of
       Some (c, _) \<Rightarrow> Inl (Exn Exn_Value (''Refusing to UPDATE unknown column '' @ py_repr c))
     | None \<Rightarrow> Inr (join_str '', '' (List.map (\<lambda>(c, _). c @ ''=?'') pairs), List.map snd pairs))"

definition opt_pair :: "string \<Rightarrow> ('a \<Rightarrow> sqlval) \<Rightarrow> 'a option \<Rightarrow> (string \<times> sqlval) list" where
  "opt_pair c f x = (case x of None \<Rightarrow> [] | Some v \<Rightarrow> [(c, f v)])"

section \<open>Migrations\<close>

text \<open>\<open>migrate\<close> over the version ledger: the files are applied in name order, those not above the
  largest recorded version are skipped, a file whose script fails (\<open>run\<close> is the effect of
  \<open>executescript\<close>) ends the run. \<open>executescript\<close> commits the transaction opened by
  \<open>BEGIN IMMEDIATE\<close> first, so what a failed script has done stays done.\<close>

definition ledger_version :: "int list \<Rightarrow> int" where
  "ledger_version ledger = foldr max ledger 0"

definition file_version :: "string \<Rightarrow> int py" where
  "file_version stem = (let v = fst (partition_str ''_'' stem) in case parse_int v of
       Some n \<Rightarrow> Inr n
     | None \<Rightarrow> Inl (Exn Exn_Value (''invalid literal for int() with base 10: '' @ py_repr v)))"

fun apply_migrations :: "(string \<Rightarrow> ('s, unit) io) \<Rightarrow> int \<Rightarrow> string list \<Rightarrow> ('s \<times> int list, unit) io" where
  "apply_migrations run current [] = ret ()"
| "apply_migrations run current (f # fs) = bind (lift_py (file_version f)) (\<lambda>v.
     if v \<le> current then apply_migrations run current fs
     else seq (on_fst (run f)) (seq (on_snd (\<lambda>ledger. List.insert v ledger)) (apply_migrations run current fs)))"

definition migrate :: "(string \<Rightarrow> ('s, unit) io) \<Rightarrow> string list \<Rightarrow> ('s \<times> int list, unit) io" where
  "migrate run files = bind the_snd (\<lambda>ledger. apply_migrations run (ledger_version ledger) (sort files))"

text \<open>A second run over the same files does nothing.\<close>

lemma ledger_version_nonneg: "0 \<le> ledger_version l"
  by (induction l) (auto simp: ledger_version_def)

lemma ledger_version_ge: "v \<in> set l \<Longrightarrow> v \<le> ledger_version l"
  by (induction l) (auto simp: ledger_version_def)

lemma apply_ledger:
  assumes "apply_migrations run cur fs (s, l) = (Inr (), (s', l'))"
  shows "set l \<subseteq> set l' \<and> (\<forall>f \<in> set fs. \<exists>v. file_version f = Inr v \<and> (v \<le> cur \<or> v \<in> set l'))"
  using assms
proof (induction fs arbitrary: s l)
  case (Cons f fs)
  obtain v where v: "file_version f = Inr v"
    using Cons.prems by (cases "file_version f") (auto simp: io_run)
  show ?case
  proof (cases "v \<le> cur")
    case True
    then have "apply_migrations run cur fs (s, l) = (Inr (), (s', l'))"
      using Cons.prems v by (simp add: bind_run lift_run)
    then show ?thesis using Cons.IH v True by auto
  next
    case False
    obtain r s1 where r: "run f s = (r, s1)" by fastforce
    have "apply_migrations run cur fs (s1, List.insert v l) = (Inr (), (s', l'))"
      using Cons.prems v False r
      by (cases r) (simp_all add: bind_run seq_run lift_run on_fst_def on_snd_def)
    then show ?thesis using Cons.IH [of s1 "List.insert v l"] v by auto
  qed
qed (simp add: ret_run)

lemma apply_skips:
  assumes "\<forall>f \<in> set fs. \<exists>v. file_version f = Inr v \<and> v \<le> cur"
  shows "apply_migrations run cur fs w = (Inr (), w)"
  using assms
proof (induction fs)
  case (Cons f fs)
  then obtain v where "file_version f = Inr v" "v \<le> cur" by auto
  then show ?case using Cons by (simp add: bind_run lift_run)
qed (simp add: ret_run)

lemma ledger_version_mono: "set l \<subseteq> set l' \<Longrightarrow> ledger_version l \<le> ledger_version l'"
  using ledger_version_ge [of _ l'] ledger_version_nonneg [of l']
  by (induction l) (auto simp: ledger_version_def)

section \<open>Facts on constraints\<close>

lemma fk_ok_simps [simp]: "fk_ok None t" "fk_ok (Some i) t \<longleftrightarrow> row t i \<noteq> None"
  by (simp_all add: fk_ok_def)

lemma unique_col_insert:
  "unique_col c t \<Longrightarrow> c r \<notin> c ` snd ` set t \<Longrightarrow> insert_row r t = (i, t') \<Longrightarrow> unique_col c t'"
  by (auto simp: unique_col_def insert_row_def image_comp)

lemma unique_col_update: "unique_col c t \<Longrightarrow> (\<And>r. c (f r) = c r) \<Longrightarrow> unique_col c (update_where p f t)"
proof -
  assume "\<And>r. c (f r) = c r"
  then have "List.map (c \<circ> snd) (update_where p f t) = List.map (c \<circ> snd) t"
    by (auto simp: update_where_def)
  then show "unique_col c t \<Longrightarrow> unique_col c (update_where p f t)" by (simp add: unique_col_def)
qed

lemma distinct_map_filter_col: "distinct (List.map h t) \<Longrightarrow> distinct (List.map h (filter q t))"
  by (rule distinct_map_filter)

lemma unique_col_delete: "unique_col c t \<Longrightarrow> unique_col c (delete_where p t)"
  by (simp add: unique_col_def delete_where_def distinct_map_filter)

lemma safe_set_allowed:
  "(\<forall>p \<in> set pairs. fst p \<in> set allowed) \<Longrightarrow> \<exists>sql. safe_set_clauses pairs allowed = Inr sql"
  by (auto simp: safe_set_clauses_def find_Some_iff split: option.splits) (metis fst_conv nth_mem)

lemma safe_set_refused:
  "safe_set_clauses pairs allowed = Inl e \<Longrightarrow> exn_class e = Exn_Value"
  by (auto simp: safe_set_clauses_def split: option.splits)

end
