(* ===== verification/Catalog_Repos.thy ===== *)
theory Catalog_Repos
  imports Database "HOL-Library.Option_ord" "HOL-Library.AList"
begin

text \<open>
  The repositories of servers, firmware, ISOs, disk profiles, credentials, settings and activity
  (\<open>data/repositories/*.py\<close>), one definition per method over the database record. \<open>now\<close> is the
  text of \<open>_now()\<close>. A method that the schema can refuse returns an error value. Reads return
  the keys along with the rows.
\<close>

section \<open>Servers (servers_repo.py)\<close>

definition server_list :: "db \<Rightarrow> (int \<times> server_row) list" where
  "server_list d = db_servers d"

definition server_get :: "db \<Rightarrow> int \<Rightarrow> server_row option" where
  "server_get d sid = row (db_servers d) sid"

definition server_by_ip :: "db \<Rightarrow> string \<Rightarrow> (int \<times> server_row) option" where
  "server_by_ip d ip = find_row (\<lambda>_ r. sr_ip r = ip) (db_servers d)"

definition status_of :: "server_row \<Rightarrow> string" where
  "status_of r = sf_status (sr_fields r)"

definition status_counts :: "db \<Rightarrow> (string \<times> nat) list" where
  "status_counts d = (''total'', length (db_servers d)) #
     List.map (\<lambda>s. (s, count_where (\<lambda>_ r. status_of r = s) (db_servers d)))
       [''online'', ''needs_update'', ''failed'', ''offline'']"

text \<open>Two known serials that differ prove that the address went to other hardware.\<close>

definition hw_changed :: "string option \<Rightarrow> string option \<Rightarrow> bool" where
  "hw_changed old new = (strip (the_default [] old) \<noteq> [] \<and> strip (the_default [] new) \<noteq> [] \<and>
     strip (the_default [] old) \<noteq> strip (the_default [] new))"

definition refresh_row :: "string \<Rightarrow> server_fields \<Rightarrow> bool \<Rightarrow> server_row \<Rightarrow> server_row" where
  "refresh_row now cols swapped r =
     (if swapped then r\<lparr>sr_oem_override := None, sr_disks_json := None, sr_disks_at := None\<rparr> else r)
       \<lparr>sr_fields := cols, sr_last_seen := Some now, sr_updated_at := Some now\<rparr>"

definition new_server_row :: "string \<Rightarrow> string \<Rightarrow> server_fields \<Rightarrow> server_row" where
  "new_server_row now ip cols = \<lparr>sr_ip = ip, sr_fields = cols, sr_oem_override = None, sr_disks_json = None,
     sr_disks_at = None, sr_last_seen = Some now, sr_discovered_at = Some now, sr_updated_at = Some now\<rparr>"

definition server_upsert :: "string \<Rightarrow> string \<Rightarrow> server_fields \<Rightarrow> db \<Rightarrow> int \<times> db" where
  "server_upsert now ip cols d = (case server_by_ip d ip of
       Some (sid, existing) \<Rightarrow>
         (sid, d\<lparr>db_servers := update_where (\<lambda>_ r. sr_ip r = ip)
            (refresh_row now cols (hw_changed (sf_serial (sr_fields existing)) (sf_serial cols)))
            (db_servers d)\<rparr>)
     | None \<Rightarrow> (case insert_row (new_server_row now ip cols) (db_servers d) of
         (sid, t) \<Rightarrow> (sid, d\<lparr>db_servers := t\<rparr>)))"

definition set_oem_override :: "string \<Rightarrow> int \<Rightarrow> string option \<Rightarrow> db \<Rightarrow> bool \<times> db" where
  "set_oem_override now sid oem d = (row (db_servers d) sid \<noteq> None,
     d\<lparr>db_servers := update_row sid (\<lambda>r. r\<lparr>sr_oem_override := oem, sr_updated_at := Some now\<rparr>) (db_servers d)\<rparr>)"

definition set_status :: "string \<Rightarrow> int \<Rightarrow> string \<Rightarrow> db \<Rightarrow> db" where
  "set_status now sid st d = d\<lparr>db_servers := update_row sid
     (\<lambda>r. r\<lparr>sr_fields := (sr_fields r)\<lparr>sf_status := st\<rparr>, sr_updated_at := Some now\<rparr>) (db_servers d)\<rparr>"

definition set_disks_by_ip :: "string \<Rightarrow> string \<Rightarrow> string \<Rightarrow> db \<Rightarrow> bool \<times> db" where
  "set_disks_by_ip now ip disks d = (case server_by_ip d ip of
       None \<Rightarrow> (False, d)
     | Some (sid, _) \<Rightarrow> (True, d\<lparr>db_servers := update_row sid
         (\<lambda>r. r\<lparr>sr_disks_json := Some disks, sr_disks_at := Some now, sr_updated_at := Some now\<rparr>) (db_servers d)\<rparr>))"

record fpr_change =
  fc_id :: int
  fc_old :: "string option"
  fc_new :: string
  fc_changed :: bool

definition set_tls_fpr_by_ip :: "string \<Rightarrow> string \<Rightarrow> string \<Rightarrow> db \<Rightarrow> fpr_change option \<times> db" where
  "set_tls_fpr_by_ip now ip fpr d = (case server_by_ip d ip of
       None \<Rightarrow> (None, d)
     | Some (sid, r) \<Rightarrow> (let old = sf_tls_fpr (sr_fields r) in
         (Some \<lparr>fc_id = sid, fc_old = old, fc_new = fpr, fc_changed = (nonempty old \<noteq> None \<and> old \<noteq> Some fpr)\<rparr>,
          d\<lparr>db_servers := update_row sid
            (\<lambda>r. r\<lparr>sr_fields := (sr_fields r)\<lparr>sf_tls_fpr := Some fpr\<rparr>, sr_updated_at := Some now\<rparr>)
            (db_servers d)\<rparr>)))"

definition server_delete :: "int \<Rightarrow> db \<Rightarrow> db" where
  "server_delete sid d = d\<lparr>db_servers := delete_where (\<lambda>i _. i = sid) (db_servers d),
     db_tasks := update_where (\<lambda>_ r. tk_server_id r = Some sid) (\<lambda>r. r\<lparr>tk_server_id := None\<rparr>) (db_tasks d),
     db_prov_tasks := update_where (\<lambda>_ r. pt_server_id r = Some sid) (\<lambda>r. r\<lparr>pt_server_id := None\<rparr>) (db_prov_tasks d)\<rparr>"

definition server_count :: "db \<Rightarrow> nat" where
  "server_count d = length (db_servers d)"

section \<open>Firmware (firmware_repo.py)\<close>

text \<open>\<open>ORDER BY uploaded_at DESC, id DESC\<close>.\<close>

definition newest_first :: "('r \<Rightarrow> string option) \<Rightarrow> 'r table \<Rightarrow> 'r table" where
  "newest_first stamp t = rev (sort_key (\<lambda>(_, r). stamp r) t)"

definition firmware_list :: "db \<Rightarrow> (int \<times> firmware_row) list" where
  "firmware_list d = newest_first fr_uploaded_at (db_firmware d)"

definition firmware_get :: "db \<Rightarrow> int \<Rightarrow> firmware_row option" where
  "firmware_get d fid = row (db_firmware d) fid"

definition firmware_exists_sha :: "db \<Rightarrow> string \<Rightarrow> bool" where
  "firmware_exists_sha d sha = (find_row (\<lambda>_ r. fr_sha256 r = sha) (db_firmware d) \<noteq> None)"

definition firmware_add :: "string \<Rightarrow> firmware_row \<Rightarrow> db \<Rightarrow> int \<times> db" where
  "firmware_add now fw d =
     (let r = fw\<lparr>fr_uploaded_at := Some (the_default now (nonempty (fr_uploaded_at fw)))\<rparr> in
      case find_row (\<lambda>_ x. fr_sha256 x = fr_sha256 fw) (db_firmware d) of
        Some (fid, _) \<Rightarrow> (fid, d)
      | None \<Rightarrow> (case insert_row r (db_firmware d) of (fid, t) \<Rightarrow> (fid, d\<lparr>db_firmware := t\<rparr>)))"

definition firmware_delete :: "int \<Rightarrow> db \<Rightarrow> firmware_row option \<times> db" where
  "firmware_delete fid d = (row (db_firmware d) fid, d\<lparr>db_firmware := delete_where (\<lambda>i _. i = fid) (db_firmware d),
     db_tasks := update_where (\<lambda>_ r. tk_firmware_id r = Some fid) (\<lambda>r. r\<lparr>tk_firmware_id := None\<rparr>) (db_tasks d)\<rparr>)"

definition firmware_count :: "db \<Rightarrow> nat" where
  "firmware_count d = length (db_firmware d)"

section \<open>ISOs (iso_repo.py)\<close>

definition iso_list :: "db \<Rightarrow> (int \<times> iso_row) list" where
  "iso_list d = newest_first ir_uploaded_at (db_isos d)"

definition iso_get :: "db \<Rightarrow> int \<Rightarrow> iso_row option" where
  "iso_get d iid = row (db_isos d) iid"

definition iso_get_by_sha :: "db \<Rightarrow> string \<Rightarrow> (int \<times> iso_row) option" where
  "iso_get_by_sha d sha = find_row (\<lambda>_ r. ir_sha256 r = sha) (db_isos d)"

definition iso_exists_sha :: "db \<Rightarrow> string \<Rightarrow> bool" where
  "iso_exists_sha d sha = (iso_get_by_sha d sha \<noteq> None)"

definition iso_add :: "string \<Rightarrow> iso_row \<Rightarrow> db \<Rightarrow> int \<times> db" where
  "iso_add now img d =
     (let r = img\<lparr>ir_uploaded_at := Some (the_default now (nonempty (ir_uploaded_at img))),
                  ir_arch := Some (the_default ''x86_64'' (nonempty (ir_arch img)))\<rparr> in
      case iso_get_by_sha d (ir_sha256 img) of
        Some (iid, _) \<Rightarrow> (iid, d)
      | None \<Rightarrow> (case insert_row r (db_isos d) of (iid, t) \<Rightarrow> (iid, d\<lparr>db_isos := t\<rparr>)))"

definition iso_delete :: "int \<Rightarrow> db \<Rightarrow> iso_row option \<times> db" where
  "iso_delete iid d = (row (db_isos d) iid, d\<lparr>db_isos := delete_where (\<lambda>i _. i = iid) (db_isos d),
     db_prov_jobs := update_where (\<lambda>_ r. pj_iso_id r = Some iid) (\<lambda>r. r\<lparr>pj_iso_id := None\<rparr>) (db_prov_jobs d)\<rparr>)"

definition iso_count :: "db \<Rightarrow> nat" where
  "iso_count d = length (db_isos d)"

section \<open>Disk profiles (disk_profile_repo.py)\<close>

definition profile_list :: "db \<Rightarrow> (int \<times> disk_profile_row) list" where
  "profile_list d = db_disk_profiles d"

definition profile_get :: "db \<Rightarrow> int \<Rightarrow> disk_profile_row option" where
  "profile_get d pid = row (db_disk_profiles d) pid"

definition profile_add :: "string \<Rightarrow> string \<Rightarrow> string \<Rightarrow> bool \<Rightarrow> string \<Rightarrow> string option \<Rightarrow> db \<Rightarrow> int \<times> db" where
  "profile_add now name strategy allow_nonempty on_no_match notes d =
     (case insert_row \<lparr>dp_name = name, dp_strategy = strategy, dp_allow_nonempty = (if allow_nonempty then 1 else 0),
          dp_on_no_match = on_no_match, dp_created_at = Some now, dp_notes = notes\<rparr> (db_disk_profiles d) of
        (pid, t) \<Rightarrow> (pid, d\<lparr>db_disk_profiles := t\<rparr>))"

definition profile_delete :: "int \<Rightarrow> db \<Rightarrow> disk_profile_row option \<times> db" where
  "profile_delete pid d = (row (db_disk_profiles d) pid,
     d\<lparr>db_disk_profiles := delete_where (\<lambda>i _. i = pid) (db_disk_profiles d),
       db_prov_jobs := update_where (\<lambda>_ r. pj_disk_profile_id r = Some pid)
         (\<lambda>r. r\<lparr>pj_disk_profile_id := None\<rparr>) (db_prov_jobs d)\<rparr>)"

definition profile_count :: "db \<Rightarrow> nat" where
  "profile_count d = length (db_disk_profiles d)"

section \<open>Credentials (credentials_repo.py)\<close>

text \<open>\<open>list\<close> leaves the secret out.\<close>

definition credential_list :: "db \<Rightarrow> (int \<times> string option \<times> string \<times> string option \<times> string option) list" where
  "credential_list d = List.map (\<lambda>(i, c). (i, cr_label c, cr_username c, cr_scope c, cr_created_at c)) (db_credentials d)"

definition credential_add :: "string \<Rightarrow> string \<Rightarrow> string \<Rightarrow> nat list \<Rightarrow> string \<Rightarrow> db \<Rightarrow> int \<times> db" where
  "credential_add now label user secret scope d =
     (case insert_row \<lparr>cr_label = Some label, cr_username = user, cr_secret_enc = secret, cr_scope = Some scope,
          cr_created_at = Some now\<rparr> (db_credentials d) of
        (cid, t) \<Rightarrow> (cid, d\<lparr>db_credentials := t\<rparr>))"

definition credential_get :: "db \<Rightarrow> int \<Rightarrow> credential_row option" where
  "credential_get d cid = row (db_credentials d) cid"

text \<open>\<open>ORDER BY id DESC LIMIT 1\<close>: the most recently added one.\<close>

definition find_for_scope :: "db \<Rightarrow> string \<Rightarrow> (int \<times> credential_row) option" where
  "find_for_scope d scope = List.find (\<lambda>(_, c). cr_scope c = Some scope) (rev (db_credentials d))"

definition credential_delete :: "int \<Rightarrow> db \<Rightarrow> db" where
  "credential_delete cid d = d\<lparr>db_credentials := delete_where (\<lambda>i _. i = cid) (db_credentials d)\<rparr>"

definition credential_count :: "db \<Rightarrow> nat" where
  "credential_count d = length (db_credentials d)"

section \<open>Settings and activity (settings_repo.py, activity_repo.py)\<close>

definition setting_get :: "db \<Rightarrow> string \<Rightarrow> string option \<Rightarrow> string option" where
  "setting_get d key dflt = (case map_of (db_settings d) key of Some v \<Rightarrow> Some v | None \<Rightarrow> dflt)"

definition setting_set :: "string \<Rightarrow> string \<Rightarrow> db \<Rightarrow> db" where
  "setting_set key value d = d\<lparr>db_settings := AList.update key value (db_settings d)\<rparr>"

definition settings_all :: "db \<Rightarrow> (string \<times> string) list" where
  "settings_all d = db_settings d"

definition activity_log :: "string \<Rightarrow> activity_row \<Rightarrow> db \<Rightarrow> int \<times> db" where
  "activity_log now a d = (case insert_row (if ac_ts a = [] then a\<lparr>ac_ts := now\<rparr> else a) (db_activity d) of
     (aid, t) \<Rightarrow> (aid, d\<lparr>db_activity := t\<rparr>))"

definition activity_recent :: "db \<Rightarrow> nat \<Rightarrow> (int \<times> activity_row) list" where
  "activity_recent d limit = take limit (newest_first (Some \<circ> ac_ts) (db_activity d))"

definition activity_count :: "db \<Rightarrow> nat" where
  "activity_count d = length (db_activity d)"

end
