(* ===== verification/Vault.thy ===== *)
theory Vault
  imports Catalog_Repos
begin

text \<open>
  The credential vault (\<open>core/security/credential_vault.py\<close>) and the scope resolution of
  \<open>core/services/credentials_service.py\<close>. DPAPI is a parameter; base64 and UTF-8, which the plain
  fallback uses, are written out. Characters are those up to U+00FF, as all text of the model.
\<close>

section \<open>UTF-8\<close>

definition utf8_char :: "char \<Rightarrow> nat list" where
  "utf8_char c = (let n = of_char c :: nat in if n < 128 then [n] else [192 + n div 64, 128 + n mod 64])"

definition utf8_encode :: "string \<Rightarrow> nat list" where
  "utf8_encode s = concat (List.map utf8_char s)"

fun utf8_decode :: "nat list \<Rightarrow> string py" where
  "utf8_decode [] = Inr []"
| "utf8_decode [b] = (if b < 128 then Inr [char_of b] else Inl (Exn Exn_Value ''utf-8: unexpected end of data''))"
| "utf8_decode (b # c # bs) =
     (if b < 128 then bind_py (utf8_decode (c # bs)) (\<lambda>s. Inr (char_of b # s))
      else if 194 \<le> b \<and> b \<le> 195 \<and> 128 \<le> c \<and> c < 192
      then bind_py (utf8_decode bs) (\<lambda>s. Inr (char_of ((b - 192) * 64 + (c - 128)) # s))
      else Inl (Exn Exn_Value ''utf-8: invalid byte''))"

section \<open>Base64\<close>

definition b64_char :: "nat \<Rightarrow> nat" where
  "b64_char n = (if n < 26 then 65 + n else if n < 52 then 71 + n else if n < 62 then n - 4 else if n = 62 then 43 else 47)"

definition b64_val :: "nat \<Rightarrow> nat option" where
  "b64_val c = (if 65 \<le> c \<and> c \<le> 90 then Some (c - 65) else if 97 \<le> c \<and> c \<le> 122 then Some (c - 71)
     else if 48 \<le> c \<and> c \<le> 57 then Some (c + 4) else if c = 43 then Some 62 else if c = 47 then Some 63 else None)"

fun b64_encode :: "nat list \<Rightarrow> nat list" where
  "b64_encode [] = []"
| "b64_encode [a] = [b64_char (a div 4), b64_char (a mod 4 * 16), 61, 61]"
| "b64_encode [a, b] = [b64_char (a div 4), b64_char (a mod 4 * 16 + b div 16), b64_char (b mod 16 * 4), 61]"
| "b64_encode (a # b # c # bs) = [b64_char (a div 4), b64_char (a mod 4 * 16 + b div 16),
     b64_char (b mod 16 * 4 + c div 64), b64_char (c mod 64)] @ b64_encode bs"

text \<open>The decoder of \<open>binascii\<close> in its lenient mode: characters outside the alphabet are skipped,
  a complete pad ends the input; \<open>q\<close> is the position in the quad, \<open>left\<close> the bits left over.\<close>

fun b64_loop :: "nat list \<Rightarrow> nat \<Rightarrow> nat \<Rightarrow> nat \<Rightarrow> nat list py" where
  "b64_loop [] q pads left = (if q = 0 then Inr []
     else if q = 1 then Inl (Exn Exn_Value ''Invalid base64-encoded string'')
     else Inl (Exn Exn_Value ''Incorrect padding''))"
| "b64_loop (c # cs) q pads left =
     (if c = 61
      then (if 2 \<le> q \<and> 4 \<le> q + (pads + 1) then Inr [] else b64_loop cs q (if 2 \<le> q then pads + 1 else pads) left)
      else case b64_val c of
        None \<Rightarrow> b64_loop cs q pads left
      | Some v \<Rightarrow>
          if q = 0 then b64_loop cs 1 0 v
          else if q = 1 then bind_py (b64_loop cs 2 0 (v mod 16)) (\<lambda>bs. Inr ((left * 4 + v div 16) # bs))
          else if q = 2 then bind_py (b64_loop cs 3 0 (v mod 4)) (\<lambda>bs. Inr ((left * 16 + v div 4) # bs))
          else bind_py (b64_loop cs 0 0 0) (\<lambda>bs. Inr ((left * 64 + v) # bs)))"

definition b64_decode :: "nat list \<Rightarrow> nat list py" where
  "b64_decode cs = b64_loop cs 0 0 0"

section \<open>The vault\<close>

record vault =
  va_dpapi :: bool
  va_allow_plain :: bool
  va_protect :: "nat list \<Rightarrow> nat list py"
  va_unprotect :: "nat list \<Rightarrow> nat list py"

definition plain_prefix :: "nat list" where
  "plain_prefix = List.map of_char ''PLAIN:''"

definition encrypt :: "vault \<Rightarrow> string \<Rightarrow> nat list py" where
  "encrypt v plaintext = (let data = utf8_encode plaintext in
     if va_dpapi v then va_protect v data
     else if \<not> va_allow_plain v
     then Inl (Exn Exn_Vault (''Refusing to encrypt: pywin32 (DPAPI) is not installed and the ''
       @ ''plaintext fallback is not enabled. For dev/CI, set '' @ ''CLUSTERONE_ALLOW_PLAINTEXT_VAULT=1.''))
     else Inr (plain_prefix @ b64_encode data))"

definition decrypt :: "vault \<Rightarrow> nat list \<Rightarrow> string py" where
  "decrypt v ciphertext =
     (if ciphertext = [] then Inr []
      else if take (length plain_prefix) ciphertext = plain_prefix
      then bind_py (b64_decode (drop (length plain_prefix) ciphertext)) utf8_decode
      else if va_dpapi v then bind_py (va_unprotect v ciphertext) utf8_decode
      else Inl (Exn Exn_Vault ''Encrypted credential found but pywin32 is not installed on this host''))"

definition is_secure :: "vault \<Rightarrow> bool" where
  "is_secure v = va_dpapi v"

section \<open>The credentials service\<close>

definition credentials_add :: "vault \<Rightarrow> stamp \<Rightarrow> string \<Rightarrow> string \<Rightarrow> string \<Rightarrow> string \<Rightarrow> db \<Rightarrow> (int \<times> db) py" where
  "credentials_add v now label user pw scope d =
     bind_py (encrypt v pw) (\<lambda>secret. Inr (credential_add now label user secret scope d))"

definition scopes :: "string option \<Rightarrow> string option \<Rightarrow> string list" where
  "scopes ip oem = (case nonempty ip of Some i \<Rightarrow> [''host:'' @ i] | None \<Rightarrow> [])
     @ (case nonempty oem of Some k \<Rightarrow> [''oem:'' @ k] | None \<Rightarrow> []) @ [''default'']"

fun resolve_scopes :: "vault \<Rightarrow> db \<Rightarrow> string list \<Rightarrow> credentials option" where
  "resolve_scopes v d [] = None"
| "resolve_scopes v d (scope # rest) = (case find_for_scope d scope of
       None \<Rightarrow> resolve_scopes v d rest
     | Some (_, r) \<Rightarrow> (case decrypt v (cr_secret_enc r) of
         Inl _ \<Rightarrow> None
       | Inr pw \<Rightarrow> Some \<lparr>username = cr_username r, password = pw\<rparr>))"

definition credentials_resolve :: "vault \<Rightarrow> db \<Rightarrow> string option \<Rightarrow> string option \<Rightarrow> credentials option" where
  "credentials_resolve v d ip oem = resolve_scopes v d (scopes ip oem)"

section \<open>Facts\<close>

lemma of_char_bound: "(of_char c :: nat) < 256"
  using of_char_mod_256 [of c, where 'a = nat] by (metis mod_less_divisor zero_less_numeral)

lemma utf8_decode_ascii: "b < 128 \<Longrightarrow> utf8_decode (b # bs) = bind_py (utf8_decode bs) (\<lambda>s. Inr (char_of b # s))"
  by (cases bs) simp_all

lemma utf8_round: "utf8_decode (utf8_encode s) = Inr s"
proof (induction s)
  case (Cons c s)
  let ?n = "of_char c :: nat"
  show ?case
  proof (cases "?n < 128")
    case True
    then show ?thesis using Cons by (simp add: utf8_encode_def utf8_char_def utf8_decode_ascii)
  next
    case False
    then have "2 \<le> ?n div 64" "?n div 64 \<le> 3" using of_char_bound [of c] by linarith+
    then show ?thesis using Cons False by (simp add: utf8_encode_def utf8_char_def Let_def)
  qed
qed (simp add: utf8_encode_def)

lemma utf8_bytes: "b \<in> set (utf8_encode s) \<Longrightarrow> b < 256"
proof -
  assume "b \<in> set (utf8_encode s)"
  then obtain c where "b \<in> set (utf8_char c)" by (auto simp: utf8_encode_def)
  moreover have "of_char c div 64 < (64 :: nat)" using of_char_bound [of c] by linarith
  ultimately show "b < 256" using of_char_bound [of c] by (auto simp: utf8_char_def Let_def split: if_splits)
qed

lemma b64_val_char: "n < 64 \<Longrightarrow> b64_val (b64_char n) = Some n"
  by (auto simp: b64_val_def b64_char_def)

lemma b64_char_pad: "n < 64 \<Longrightarrow> b64_char n \<noteq> 61"
  by (auto simp: b64_char_def)

lemma b64_loop_char:
  assumes "n < 64"
  shows "b64_loop (b64_char n # cs) q pads left =
     (if q = 0 then b64_loop cs 1 0 n
      else if q = 1 then bind_py (b64_loop cs 2 0 (n mod 16)) (\<lambda>bs. Inr ((left * 4 + n div 16) # bs))
      else if q = 2 then bind_py (b64_loop cs 3 0 (n mod 4)) (\<lambda>bs. Inr ((left * 16 + n div 4) # bs))
      else bind_py (b64_loop cs 0 0 0) (\<lambda>bs. Inr ((left * 64 + n) # bs)))"
  using assms by (simp add: b64_val_char b64_char_pad)

lemma b64_loop_pad:
  "b64_loop (61 # cs) q pads left =
     (if 2 \<le> q \<and> 4 \<le> q + (pads + 1) then Inr [] else b64_loop cs q (if 2 \<le> q then pads + 1 else pads) left)"
  by simp

declare b64_loop.simps(2) [simp del]

lemma b64_round: "(\<forall>b \<in> set bs. b < 256) \<Longrightarrow> b64_decode (b64_encode bs) = Inr bs"
  unfolding b64_decode_def
proof (induction bs rule: b64_encode.induct)
  case (2 a)
  then have "a div 4 < 64" "a mod 4 * 16 < 64" by auto
  then show ?case by (simp add: b64_loop_char b64_loop_pad)
next
  case (3 a b)
  then have "a div 4 < 64" "a mod 4 * 16 + b div 16 < 64" "b mod 16 * 4 < 64" "b div 16 < 16" by auto
  then show ?case by (simp add: b64_loop_char b64_loop_pad)
next
  case (4 a b c bs)
  then have "a div 4 < 64" "a mod 4 * 16 + b div 16 < 64" "b mod 16 * 4 + c div 64 < 64" "b div 16 < 16" "c div 64 < 4"
    "c mod 64 < 64" by auto
  then show ?case using 4 by (simp add: b64_loop_char)
qed simp

lemma plain_drop: "drop (length plain_prefix) (plain_prefix @ x) = x" "take (length plain_prefix) (plain_prefix @ x) = plain_prefix"
  by simp_all

lemma plain_prefix_ne: "plain_prefix \<noteq> []"
  by (simp add: plain_prefix_def)

section \<open>Properties\<close>

text \<open>Property C31. What the vault stores can be read back: a password encrypted by the plain fallback, or
  by a DPAPI whose unprotect undoes its protect (and whose blobs are not empty and do not begin
  with the plain marker), decrypts to itself, whatever its characters.\<close>

theorem vault_round_trip:
  assumes "encrypt v pw = Inr c"
    and "\<And>x y. va_dpapi v \<Longrightarrow> va_protect v x = Inr y \<Longrightarrow>
      va_unprotect v y = Inr x \<and> y \<noteq> [] \<and> take (length plain_prefix) y \<noteq> plain_prefix"
  shows "decrypt v c = Inr pw"
proof (cases "va_dpapi v")
  case True
  then have "va_protect v (utf8_encode pw) = Inr c" using assms(1) by (simp add: encrypt_def Let_def)
  then show ?thesis using assms(2) [OF True] True by (auto simp: decrypt_def utf8_round)
next
  case False
  then have c: "c = plain_prefix @ b64_encode (utf8_encode pw)"
    using assms(1) by (simp add: encrypt_def Let_def split: if_splits)
  have "b64_decode (b64_encode (utf8_encode pw)) = Inr (utf8_encode pw)" using b64_round utf8_bytes by blast
  then show ?thesis unfolding c decrypt_def plain_drop using plain_prefix_ne by (simp add: utf8_round)
qed

definition dev_vault :: vault where
  "dev_vault = \<lparr>va_dpapi = False, va_allow_plain = True, va_protect = (\<lambda>x. Inr x), va_unprotect = (\<lambda>x. Inr x)\<rparr>"

text \<open>A stand-in for DPAPI: its blobs are the bytes behind a one-byte header.\<close>

definition header_vault :: vault where
  "header_vault = \<lparr>va_dpapi = True, va_allow_plain = False, va_protect = (\<lambda>x. Inr (1 # x)), va_unprotect = (\<lambda>x. Inr (tl x))\<rparr>"

theorem vault_round_trip_witness:
  "decrypt header_vault (1 # utf8_encode ''p4ss'') = Inr ''p4ss'' \<and>
   decrypt dev_vault (plain_prefix @ b64_encode (utf8_encode ''p4ss'')) = Inr ''p4ss''"
proof
  show "decrypt header_vault (1 # utf8_encode ''p4ss'') = Inr ''p4ss''"
    by (rule vault_round_trip) (auto simp: encrypt_def header_vault_def plain_prefix_def)
  show "decrypt dev_vault (plain_prefix @ b64_encode (utf8_encode ''p4ss'')) = Inr ''p4ss''"
    by (rule vault_round_trip) (simp_all add: encrypt_def dev_vault_def Let_def)
qed

text \<open>Further property. No silent fall-through: the credential of the most specific scope that has one decides.
  If a \<open>host:\<close> credential is stored for the address, the result is that credential, decrypted,
  or nothing when its secret does not decrypt; an \<open>oem:\<close> or default credential is never used
  instead.\<close>

theorem resolve_most_specific:
  assumes "ip \<noteq> []" "find_for_scope d (''host:'' @ ip) = Some (cid, r)"
  shows "credentials_resolve v d (Some ip) oem =
    (case decrypt v (cr_secret_enc r) of Inl _ \<Rightarrow> None | Inr pw \<Rightarrow> Some \<lparr>username = cr_username r, password = pw\<rparr>)"
  using assms by (simp add: credentials_resolve_def scopes_def nonempty_def)

definition rotated_db :: db where
  "rotated_db = snd (credential_add ''t1'' ''host'' ''root'' [7, 2, 3] ''host:10.0.0.5''
     (snd (credential_add ''t0'' ''all'' ''admin'' (plain_prefix @ b64_encode (utf8_encode ''p4ss'')) ''default'' empty_db)))"

lemma rotated_scopes:
  "credentials_resolve dev_vault rotated_db (Some ''10.0.0.9'') None = Some \<lparr>username = ''admin'', password = ''p4ss''\<rparr>"
  by code_simp

theorem resolve_most_specific_witness:
  "credentials_resolve dev_vault rotated_db (Some ''10.0.0.5'') None = None"
proof -
  let ?r = "\<lparr>cr_label = Some ''host'', cr_username = ''root'', cr_secret_enc = [7, 2, 3],
      cr_scope = Some ''host:10.0.0.5'', cr_created_at = Some ''t1''\<rparr>"
  have "find_for_scope rotated_db (''host:'' @ ''10.0.0.5'') = Some (2, ?r)" by code_simp
  moreover have "decrypt dev_vault (cr_secret_enc ?r) = Inl (Exn Exn_Vault
      ''Encrypted credential found but pywin32 is not installed on this host'')" by code_simp
  ultimately show ?thesis using resolve_most_specific [of "''10.0.0.5''" rotated_db 2 ?r dev_vault None] by simp
qed

end
