(* ===== verification/Job_Repos.thy ===== *)
theory Job_Repos
  imports Catalog_Repos
begin

text \<open>
  The repositories of update jobs and provisioning jobs (\<open>jobs_repo.py\<close>, \<open>provisioning_repo.py\<close>).
  Their updates go through a whitelisted list of columns; creating a row checks its foreign
  keys. \<open>task_ledger\<close> is the contract the two orchestrators rely on.
\<close>

section \<open>Update jobs\<close>

definition create_job :: "string \<Rightarrow> string \<Rightarrow> int \<Rightarrow> string \<Rightarrow> string \<Rightarrow> db \<Rightarrow> int \<times> db" where
  "create_job now ftype concurrency apply_time created_by d =
     (case insert_row \<lparr>jb_created_at = now, jb_created_by = created_by, jb_fw_type = ftype,
          jb_concurrency = concurrency, jb_apply_time = apply_time, jb_state = ''pending'', jb_total = 0,
          jb_succeeded = 0, jb_failed = 0\<rparr> (db_jobs d) of
        (jid, t) \<Rightarrow> (jid, d\<lparr>db_jobs := t\<rparr>))"

definition job_update_cols :: "string list" where
  "job_update_cols = [''state'', ''total'', ''succeeded'', ''failed'']"

definition task_update_cols :: "string list" where
  "task_update_cols = [''state'', ''progress'', ''message'', ''version_after'', ''redfish_task'', ''finished_at'']"

definition set_job_col :: "string \<times> sqlval \<Rightarrow> job_row \<Rightarrow> job_row" where
  "set_job_col cv r = (case cv of
       (c, SqlText s) \<Rightarrow> if c = ''state'' then r\<lparr>jb_state := s\<rparr> else r
     | (c, SqlInt n) \<Rightarrow> if c = ''total'' then r\<lparr>jb_total := n\<rparr> else if c = ''succeeded'' then r\<lparr>jb_succeeded := n\<rparr>
         else if c = ''failed'' then r\<lparr>jb_failed := n\<rparr> else r)"

definition job_pairs :: "string \<Rightarrow> int option \<Rightarrow> int option \<Rightarrow> int option \<Rightarrow> (string \<times> sqlval) list" where
  "job_pairs state n_total succeeded failed = (''state'', SqlText state) # opt_pair ''total'' SqlInt n_total
     @ opt_pair ''succeeded'' SqlInt succeeded @ opt_pair ''failed'' SqlInt failed"

definition update_job_state :: "int \<Rightarrow> string \<Rightarrow> int option \<Rightarrow> int option \<Rightarrow> int option \<Rightarrow> db \<Rightarrow> db py" where
  "update_job_state jid state n_total succeeded failed d = (let pairs = job_pairs state n_total succeeded failed in
     bind_py (safe_set_clauses pairs job_update_cols) (\<lambda>_.
       Inr (d\<lparr>db_jobs := update_row jid (fold set_job_col pairs) (db_jobs d)\<rparr>)))"

definition get_job :: "db \<Rightarrow> int \<Rightarrow> job_row option" where
  "get_job d jid = row (db_jobs d) jid"

definition list_jobs :: "db \<Rightarrow> nat \<Rightarrow> (int \<times> job_row) list" where
  "list_jobs d limit = take limit (rev (db_jobs d))"

definition create_task :: "string \<Rightarrow> int \<Rightarrow> int \<Rightarrow> int \<Rightarrow> string option \<Rightarrow> db \<Rightarrow> (int \<times> db) py" where
  "create_task now jid sid fid version_before d =
     (let r = \<lparr>tk_job_id = jid, tk_server_id = Some sid, tk_firmware_id = Some fid, tk_state = ''queued'',
        tk_progress = 0, tk_version_before = version_before, tk_version_after = None, tk_redfish_task = None,
        tk_message = None, tk_started_at = Some now, tk_finished_at = None\<rparr> in
      if task_refs_ok d r
      then Inr (case insert_row r (db_tasks d) of (tid, t) \<Rightarrow> (tid, d\<lparr>db_tasks := t\<rparr>))
      else Inl (integrity ''FOREIGN KEY constraint failed''))"

definition set_task_col :: "string \<times> sqlval \<Rightarrow> task_row \<Rightarrow> task_row" where
  "set_task_col cv r = (case cv of
       (c, SqlText s) \<Rightarrow> if c = ''state'' then r\<lparr>tk_state := s\<rparr> else if c = ''message'' then r\<lparr>tk_message := Some s\<rparr>
         else if c = ''version_after'' then r\<lparr>tk_version_after := Some s\<rparr>
         else if c = ''redfish_task'' then r\<lparr>tk_redfish_task := Some s\<rparr>
         else if c = ''finished_at'' then r\<lparr>tk_finished_at := Some s\<rparr> else r
     | (c, SqlInt n) \<Rightarrow> if c = ''progress'' then r\<lparr>tk_progress := n\<rparr> else r)"

definition state_pairs :: "string \<Rightarrow> string list \<Rightarrow> string option \<Rightarrow> int option \<Rightarrow> (string \<times> sqlval) list" where
  "state_pairs now terminal state progress = (case state of None \<Rightarrow> [] | Some s \<Rightarrow>
     (''state'', SqlText s) # (if s \<in> set terminal
        then (''finished_at'', SqlText now) # (if s = ''completed'' \<and> progress = None then [(''progress'', SqlInt 100)] else [])
        else []))"

definition task_pairs :: "string \<Rightarrow> string option \<Rightarrow> int option \<Rightarrow> string option \<Rightarrow> string option \<Rightarrow>
    string option \<Rightarrow> (string \<times> sqlval) list" where
  "task_pairs now state progress message version_after redfish_task =
     state_pairs now [''completed'', ''failed''] state progress @ opt_pair ''progress'' SqlInt progress
     @ opt_pair ''message'' SqlText message @ opt_pair ''version_after'' SqlText version_after
     @ opt_pair ''redfish_task'' SqlText redfish_task"

definition update_task :: "string \<Rightarrow> int \<Rightarrow> string option \<Rightarrow> int option \<Rightarrow> string option \<Rightarrow> string option \<Rightarrow>
    string option \<Rightarrow> db \<Rightarrow> db py" where
  "update_task now tid state progress message version_after redfish_task d =
     (let pairs = task_pairs now state progress message version_after redfish_task in
      if pairs = [] then Inr d
      else bind_py (safe_set_clauses pairs task_update_cols) (\<lambda>_.
        Inr (d\<lparr>db_tasks := update_row tid (fold set_task_col pairs) (db_tasks d)\<rparr>)))"

definition get_task :: "db \<Rightarrow> int \<Rightarrow> task_row option" where
  "get_task d tid = row (db_tasks d) tid"

definition list_tasks :: "db \<Rightarrow> int \<Rightarrow> (int \<times> task_row) list" where
  "list_tasks d jid = filter (\<lambda>(_, r). tk_job_id r = jid) (db_tasks d)"

text \<open>The left joins: what a deleted server or firmware leaves is \<open>None\<close>.\<close>

definition joined :: "int option \<Rightarrow> 'r table \<Rightarrow> 'r option" where
  "joined k t = (case k of None \<Rightarrow> None | Some i \<Rightarrow> row t i)"

definition list_tasks_with_server :: "db \<Rightarrow> int \<Rightarrow> (int \<times> task_row \<times> server_row option \<times> firmware_row option) list" where
  "list_tasks_with_server d jid = List.map (\<lambda>(i, r). (i, r, joined (tk_server_id r) (db_servers d),
     joined (tk_firmware_id r) (db_firmware d))) (list_tasks d jid)"

definition latest_running_job :: "db \<Rightarrow> (int \<times> job_row) option" where
  "latest_running_job d = List.find (\<lambda>(_, r). jb_state r \<in> {''pending'', ''running''}) (rev (db_jobs d))"

definition live_task_states :: "string list" where
  "live_task_states = [''queued'', ''precheck'', ''uploading'', ''flashing'', ''rebooting'', ''verifying'']"

definition list_non_terminal_tasks :: "db \<Rightarrow> (int \<times> task_row) list" where
  "list_non_terminal_tasks d = filter (\<lambda>(_, r). tk_state r \<in> set live_task_states) (db_tasks d)"

definition live_job :: "job_row \<Rightarrow> bool" where
  "live_job r = (jb_state r \<in> {''pending'', ''running''})"

definition fail_non_terminal_jobs :: "db \<Rightarrow> nat \<times> db" where
  "fail_non_terminal_jobs d = (count_where (\<lambda>_. live_job) (db_jobs d),
     d\<lparr>db_jobs := update_where (\<lambda>_. live_job) (\<lambda>r. r\<lparr>jb_state := ''failed''\<rparr>) (db_jobs d)\<rparr>)"

definition fail_non_terminal_jobs_except :: "int list \<Rightarrow> db \<Rightarrow> nat \<times> db" where
  "fail_non_terminal_jobs_except keep d = (count_where (\<lambda>j r. live_job r \<and> j \<notin> set keep) (db_jobs d),
     d\<lparr>db_jobs := update_where (\<lambda>j r. live_job r \<and> j \<notin> set keep) (\<lambda>r. r\<lparr>jb_state := ''failed''\<rparr>) (db_jobs d)\<rparr>)"

definition count_state :: "string \<Rightarrow> string list \<Rightarrow> nat" where
  "count_state s states = length (filter (\<lambda>x. x = s) states)"

record job_summary =
  js_state :: string
  js_total :: nat
  js_succeeded :: nat
  js_failed :: nat

definition summarize :: "string list \<Rightarrow> job_summary" where
  "summarize states = (let ok = count_state ''completed'' states; bad = count_state ''failed'' states in
     \<lparr>js_state = (if list_ex (\<lambda>s. s \<notin> {''completed'', ''failed''}) states then ''running''
                  else if bad = 0 then ''completed'' else if ok = 0 then ''failed'' else ''completed_with_errors''),
      js_total = length states, js_succeeded = ok, js_failed = bad\<rparr>)"

definition finalize_job_from_tasks :: "int \<Rightarrow> db \<Rightarrow> (job_summary option \<times> db) py" where
  "finalize_job_from_tasks jid d = (let states = List.map (tk_state \<circ> snd) (list_tasks d jid) in
     if states = [] then Inr (None, d)
     else let s = summarize states in
       bind_py (update_job_state jid (js_state s) (Some (int (js_total s))) (Some (int (js_succeeded s)))
                  (Some (int (js_failed s))) d) (\<lambda>d'. Inr (Some s, d')))"

section \<open>Provisioning jobs\<close>

definition prov_create_job :: "string \<Rightarrow> int \<Rightarrow> int option \<Rightarrow> int option \<Rightarrow> int \<Rightarrow> string \<Rightarrow> string \<Rightarrow> db \<Rightarrow> (int \<times> db) py" where
  "prov_create_job now iid os_profile disk_profile concurrency confirm created_by d =
     (let r = \<lparr>pj_created_at = now, pj_created_by = created_by, pj_iso_id = Some iid, pj_os_profile_id = os_profile,
        pj_disk_profile_id = disk_profile, pj_concurrency = concurrency, pj_state = ''pending'', pj_total = 0,
        pj_succeeded = 0, pj_failed = 0, pj_confirm_token = confirm\<rparr> in
      if prov_job_refs_ok d r
      then Inr (case insert_row r (db_prov_jobs d) of (jid, t) \<Rightarrow> (jid, d\<lparr>db_prov_jobs := t\<rparr>))
      else Inl (integrity ''FOREIGN KEY constraint failed''))"

definition prov_task_cols :: "string list" where
  "prov_task_cols = [''state'', ''progress'', ''message'', ''rendered_cfg_sha'', ''finished_at'']"

definition set_prov_job_col :: "string \<times> sqlval \<Rightarrow> prov_job_row \<Rightarrow> prov_job_row" where
  "set_prov_job_col cv r = (case cv of
       (c, SqlText s) \<Rightarrow> if c = ''state'' then r\<lparr>pj_state := s\<rparr> else r
     | (c, SqlInt n) \<Rightarrow> if c = ''total'' then r\<lparr>pj_total := n\<rparr> else if c = ''succeeded'' then r\<lparr>pj_succeeded := n\<rparr>
         else if c = ''failed'' then r\<lparr>pj_failed := n\<rparr> else r)"

definition prov_update_job_state :: "int \<Rightarrow> string \<Rightarrow> int option \<Rightarrow> int option \<Rightarrow> int option \<Rightarrow> db \<Rightarrow> db py" where
  "prov_update_job_state jid state n_total succeeded failed d = (let pairs = job_pairs state n_total succeeded failed in
     bind_py (safe_set_clauses pairs job_update_cols) (\<lambda>_.
       Inr (d\<lparr>db_prov_jobs := update_row jid (fold set_prov_job_col pairs) (db_prov_jobs d)\<rparr>)))"

definition prov_get_job :: "db \<Rightarrow> int \<Rightarrow> prov_job_row option" where
  "prov_get_job d jid = row (db_prov_jobs d) jid"

definition prov_list_jobs :: "db \<Rightarrow> nat \<Rightarrow> (int \<times> prov_job_row) list" where
  "prov_list_jobs d limit = take limit (rev (db_prov_jobs d))"

definition prov_create_task :: "string \<Rightarrow> int \<Rightarrow> int \<Rightarrow> string option \<Rightarrow> db \<Rightarrow> (int \<times> db) py" where
  "prov_create_task now jid sid resolved d =
     (let r = \<lparr>pt_job_id = jid, pt_server_id = Some sid, pt_resolved_disk = resolved, pt_cfg_sha = None,
        pt_state = ''queued'', pt_progress = 0, pt_message = None, pt_started_at = Some now, pt_finished_at = None\<rparr> in
      if prov_task_refs_ok d r
      then Inr (case insert_row r (db_prov_tasks d) of (tid, t) \<Rightarrow> (tid, d\<lparr>db_prov_tasks := t\<rparr>))
      else Inl (integrity ''FOREIGN KEY constraint failed''))"

definition set_prov_task_col :: "string \<times> sqlval \<Rightarrow> prov_task_row \<Rightarrow> prov_task_row" where
  "set_prov_task_col cv r = (case cv of
       (c, SqlText s) \<Rightarrow> if c = ''state'' then r\<lparr>pt_state := s\<rparr> else if c = ''message'' then r\<lparr>pt_message := Some s\<rparr>
         else if c = ''rendered_cfg_sha'' then r\<lparr>pt_cfg_sha := Some s\<rparr>
         else if c = ''finished_at'' then r\<lparr>pt_finished_at := Some s\<rparr> else r
     | (c, SqlInt n) \<Rightarrow> if c = ''progress'' then r\<lparr>pt_progress := n\<rparr> else r)"

definition prov_terminal :: "string list" where
  "prov_terminal = [''completed'', ''failed'', ''cancelled'']"

definition prov_task_pairs :: "string \<Rightarrow> string option \<Rightarrow> int option \<Rightarrow> string option \<Rightarrow> string option \<Rightarrow> (string \<times> sqlval) list" where
  "prov_task_pairs now state progress message cfg_sha =
     state_pairs now prov_terminal state progress @ opt_pair ''progress'' SqlInt progress
     @ opt_pair ''message'' SqlText message @ opt_pair ''rendered_cfg_sha'' SqlText cfg_sha"

definition prov_update_task :: "string \<Rightarrow> int \<Rightarrow> string option \<Rightarrow> int option \<Rightarrow> string option \<Rightarrow> string option \<Rightarrow> db \<Rightarrow> db py" where
  "prov_update_task now tid state progress message cfg_sha d =
     (let pairs = prov_task_pairs now state progress message cfg_sha in
      if pairs = [] then Inr d
      else bind_py (safe_set_clauses pairs prov_task_cols) (\<lambda>_.
        Inr (d\<lparr>db_prov_tasks := update_row tid (fold set_prov_task_col pairs) (db_prov_tasks d)\<rparr>)))"

definition prov_get_task :: "db \<Rightarrow> int \<Rightarrow> prov_task_row option" where
  "prov_get_task d tid = row (db_prov_tasks d) tid"

definition prov_list_tasks :: "db \<Rightarrow> int \<Rightarrow> (int \<times> prov_task_row \<times> server_row option) list" where
  "prov_list_tasks d jid = List.map (\<lambda>(i, r). (i, r, joined (pt_server_id r) (db_servers d)))
     (filter (\<lambda>(_, r). pt_job_id r = jid) (db_prov_tasks d))"

definition prov_live :: "prov_task_row \<Rightarrow> bool" where
  "prov_live r = (pt_state r \<notin> set prov_terminal)"

definition prov_non_terminal_tasks :: "db \<Rightarrow> (int \<times> prov_task_row) list" where
  "prov_non_terminal_tasks d = filter (\<lambda>(_, r). prov_live r) (db_prov_tasks d)"

definition prov_fail_tasks :: "string \<Rightarrow> string \<Rightarrow> db \<Rightarrow> nat \<times> db" where
  "prov_fail_tasks now message d = (count_where (\<lambda>_. prov_live) (db_prov_tasks d),
     d\<lparr>db_prov_tasks := update_where (\<lambda>_. prov_live)
       (\<lambda>r. r\<lparr>pt_state := ''failed'', pt_finished_at := Some now, pt_message := Some message\<rparr>) (db_prov_tasks d)\<rparr>)"

definition prov_live_job :: "prov_job_row \<Rightarrow> bool" where
  "prov_live_job r = (pj_state r \<in> {''pending'', ''running''})"

definition prov_fail_jobs :: "db \<Rightarrow> nat \<times> db" where
  "prov_fail_jobs d = (count_where (\<lambda>_. prov_live_job) (db_prov_jobs d),
     d\<lparr>db_prov_jobs := update_where (\<lambda>_. prov_live_job) (\<lambda>r. r\<lparr>pj_state := ''failed''\<rparr>) (db_prov_jobs d)\<rparr>)"

section \<open>The whitelists are never hit\<close>

definition put_job :: "int \<Rightarrow> string \<Rightarrow> int option \<Rightarrow> int option \<Rightarrow> int option \<Rightarrow> db \<Rightarrow> db" where
  "put_job jid state n_total succeeded failed d =
     d\<lparr>db_jobs := update_row jid (fold set_job_col (job_pairs state n_total succeeded failed)) (db_jobs d)\<rparr>"

definition put_task :: "string \<Rightarrow> int \<Rightarrow> string option \<Rightarrow> int option \<Rightarrow> string option \<Rightarrow> string option \<Rightarrow> db \<Rightarrow> db" where
  "put_task now tid state progress message version_after d =
     d\<lparr>db_tasks := update_row tid (fold set_task_col (task_pairs now state progress message version_after None)) (db_tasks d)\<rparr>"

lemma set_opt_pair: "set (opt_pair c f x) = (case x of None \<Rightarrow> {} | Some v \<Rightarrow> {(c, f v)})"
  by (simp add: opt_pair_def split: option.split)

lemma job_pairs_cols: "p \<in> set (job_pairs s t a b) \<Longrightarrow> fst p \<in> set job_update_cols"
  by (auto simp: job_pairs_def set_opt_pair job_update_cols_def split: option.splits)

lemma task_pairs_cols: "p \<in> set (task_pairs now s n m v r) \<Longrightarrow> fst p \<in> set task_update_cols"
  by (auto simp: task_pairs_def state_pairs_def set_opt_pair task_update_cols_def split: option.splits if_splits)

lemma prov_task_pairs_cols: "p \<in> set (prov_task_pairs now s n m v) \<Longrightarrow> fst p \<in> set prov_task_cols"
  by (auto simp: prov_task_pairs_def state_pairs_def set_opt_pair prov_task_cols_def split: option.splits if_splits)

lemma update_job_state_put: "update_job_state jid s t a b d = Inr (put_job jid s t a b d)"
  using safe_set_allowed [of "job_pairs s t a b" job_update_cols] job_pairs_cols
  by (auto simp: update_job_state_def put_job_def Let_def)

lemma update_row_id: "update_row i id t = t"
  by (induction t) (auto simp: update_row_def update_where_def split: if_splits)

lemma update_task_put: "update_task now tid s n m v None d = Inr (put_task now tid s n m v d)"
proof (cases "task_pairs now s n m v None = []")
  case True
  then have "fold set_task_col (task_pairs now s n m v None) = id" by (simp add: fun_eq_iff)
  then show ?thesis using True by (simp only: update_task_def put_task_def update_row_id Let_def) simp
next
  case False
  then show ?thesis
    using safe_set_allowed [of "task_pairs now s n m v None" task_update_cols] task_pairs_cols
    by (auto simp: update_task_def put_task_def Let_def)
qed

text \<open>With the Task URI: the form used on resume paths and by tests.\<close>

lemma update_task_Inr:
  assumes "update_task now tid s n m v u d = Inr d'"
  shows "d' = d\<lparr>db_tasks := update_row tid (fold set_task_col (task_pairs now s n m v u)) (db_tasks d)\<rparr>"
proof (cases "task_pairs now s n m v u = []")
  case True
  then have "fold set_task_col (task_pairs now s n m v u) = id" by (simp add: fun_eq_iff)
  then show ?thesis using True assms by (simp add: update_task_def Let_def update_row_id)
next
  case False
  then show ?thesis using assms by (auto simp: update_task_def Let_def bind_py_Inr)
qed

definition put_prov_job :: "int \<Rightarrow> string \<Rightarrow> int option \<Rightarrow> int option \<Rightarrow> int option \<Rightarrow> db \<Rightarrow> db" where
  "put_prov_job jid state n_total succeeded failed d = d\<lparr>db_prov_jobs :=
     update_row jid (fold set_prov_job_col (job_pairs state n_total succeeded failed)) (db_prov_jobs d)\<rparr>"

definition put_prov_task :: "string \<Rightarrow> int \<Rightarrow> string option \<Rightarrow> int option \<Rightarrow> string option \<Rightarrow> string option \<Rightarrow> db \<Rightarrow> db" where
  "put_prov_task now tid state progress message cfg_sha d = d\<lparr>db_prov_tasks :=
     update_row tid (fold set_prov_task_col (prov_task_pairs now state progress message cfg_sha)) (db_prov_tasks d)\<rparr>"

lemma prov_update_job_state_put: "prov_update_job_state jid s t a b d = Inr (put_prov_job jid s t a b d)"
  using safe_set_allowed [of "job_pairs s t a b" job_update_cols] job_pairs_cols
  by (auto simp: prov_update_job_state_def put_prov_job_def Let_def)

lemma prov_update_task_put: "prov_update_task now tid s n m c d = Inr (put_prov_task now tid s n m c d)"
proof (cases "prov_task_pairs now s n m c = []")
  case True
  then have "fold set_prov_task_col (prov_task_pairs now s n m c) = id" by (simp add: fun_eq_iff)
  then show ?thesis using True by (simp only: prov_update_task_def put_prov_task_def update_row_id Let_def) simp
next
  case False
  then show ?thesis
    using safe_set_allowed [of "prov_task_pairs now s n m c" prov_task_cols] prov_task_pairs_cols
    by (auto simp: prov_update_task_def put_prov_task_def Let_def)
qed

lemma finalize_Inr:
  assumes "finalize_job_from_tasks jid d = Inr (s, d')"
  shows "d' = d \<or> (\<exists>st t a b. d' = put_job jid st t a b d)"
  using assms by (auto simp: finalize_job_from_tasks_def Let_def update_job_state_put split: if_splits)

text \<open>Column updates leave the references of a row alone.\<close>

lemma set_task_col_refs:
  "tk_job_id (fold set_task_col ps r) = tk_job_id r" "tk_server_id (fold set_task_col ps r) = tk_server_id r"
  "tk_firmware_id (fold set_task_col ps r) = tk_firmware_id r"
  by (induction ps arbitrary: r) (auto simp: set_task_col_def split: prod.splits sqlval.splits)

lemma set_prov_job_col_refs:
  "pj_iso_id (fold set_prov_job_col ps r) = pj_iso_id r"
  "pj_os_profile_id (fold set_prov_job_col ps r) = pj_os_profile_id r"
  "pj_disk_profile_id (fold set_prov_job_col ps r) = pj_disk_profile_id r"
  by (induction ps arbitrary: r) (auto simp: set_prov_job_col_def split: prod.splits sqlval.splits)

lemma set_prov_task_col_refs:
  "pt_job_id (fold set_prov_task_col ps r) = pt_job_id r" "pt_server_id (fold set_prov_task_col ps r) = pt_server_id r"
  by (induction ps arbitrary: r) (auto simp: set_prov_task_col_def split: prod.splits sqlval.splits)

end
