(* ===== verification/Service_Env.thy ===== *)
theory Service_Env
  imports Vault Job_Repos Vendors
begin

text \<open>
  What the orchestrators and the power service share: the site they run on (the loaded plugins
  and what each of them does, the Redfish client, the file system, the vault), the database
  next to the outside world, server rows as plugin arguments, and the choice of credentials.
  A service method is a computation over \<open>'w \<times> db\<close>.
\<close>

section \<open>Plugins as drivers\<close>

text \<open>What an installed plugin does to the world \<open>'w\<close> (which holds the BMCs and the plugin's
  own cache). An update also says which progress reports it made, in order.\<close>

record 'w driver =
  dr_validate :: "server_info \<Rightarrow> firmware \<Rightarrow> compat_result"
  dr_update_bmc :: "server_info \<Rightarrow> firmware \<Rightarrow> credentials \<Rightarrow> bool \<Rightarrow> 'w \<Rightarrow> plugin_result py \<times> (string \<times> int) list \<times> 'w"
  dr_update_bios :: "server_info \<Rightarrow> firmware \<Rightarrow> credentials \<Rightarrow> bool \<Rightarrow> 'w \<Rightarrow> plugin_result py \<times> (string \<times> int) list \<times> 'w"
  dr_update_hgx :: "server_info \<Rightarrow> firmware \<Rightarrow> credentials \<Rightarrow> bool \<Rightarrow> 'w \<Rightarrow> plugin_result py \<times> (string \<times> int) list \<times> 'w"
  dr_mount_iso :: "server_info \<Rightarrow> string \<Rightarrow> credentials \<Rightarrow> ('w, plugin_result) io"
  dr_eject_iso :: "server_info \<Rightarrow> credentials \<Rightarrow> ('w, plugin_result) io"
  dr_set_boot_once :: "server_info \<Rightarrow> string \<Rightarrow> credentials \<Rightarrow> ('w, plugin_result) io"
  dr_power_cycle :: "server_info \<Rightarrow> credentials \<Rightarrow> ('w, plugin_result) io"
  dr_power_action :: "server_info \<Rightarrow> string \<Rightarrow> credentials \<Rightarrow> ('w, plugin_result) io"
  dr_power_state :: "server_info \<Rightarrow> credentials \<Rightarrow> ('w, json) io"

text \<open>A plugin flow as such an operation: the plugin's cache is part of the world.\<close>

type_synonym cap_cache = "(string \<times> (cap \<times> rat)) list"

definition reported :: "('w, 'a) flow \<Rightarrow> 'w \<times> cap_cache \<Rightarrow> 'a py \<times> (string \<times> int) list \<times> ('w \<times> cap_cache)" where
  "reported m = (\<lambda>(w, c). case m (w, \<lparr>ps_cache = c, ps_progress = []\<rparr>) of
     (r, (w', ps)) \<Rightarrow> (r, ps_progress ps, (w', ps_cache ps)))"

definition unreported :: "('w, 'a) flow \<Rightarrow> ('w \<times> cap_cache, 'a) io" where
  "unreported m = (\<lambda>x. case reported m x of (r, _, x') \<Rightarrow> (r, x'))"

definition generic_driver :: "(string \<Rightarrow> rat option) \<Rightarrow> hooks \<Rightarrow> (client_conf \<Rightarrow> 'w redfish) \<Rightarrow> ('w \<times> cap_cache) driver" where
  "generic_driver dw hk mk = \<lparr>dr_validate = validate,
     dr_update_bmc = (\<lambda>s fw c now. reported (do_update dw hk mk s fw ''BMC'' (Some c) now)),
     dr_update_bios = (\<lambda>s fw c now. reported (do_update dw hk mk s fw ''BIOS'' (Some c) now)),
     dr_update_hgx = (\<lambda>s fw c now. reported (update_hgx dw mk s fw (Some c))),
     dr_mount_iso = (\<lambda>s url c. unreported (mount_iso hk mk s url (Some c))),
     dr_eject_iso = (\<lambda>s c. unreported (eject_iso hk mk s (Some c))),
     dr_set_boot_once = (\<lambda>s t c. unreported (set_boot_once mk s t (Some c))),
     dr_power_cycle = (\<lambda>s c. unreported (power_cycle mk s (Some c))),
     dr_power_action = (\<lambda>s a c. unreported (power_action mk s a (Some c))),
     dr_power_state = (\<lambda>s c. unreported (get_power_state mk s (Some c)))\<rparr>"

section \<open>The site\<close>

record 'w site =
  st_plugins :: "oem_plugin list"
  st_driver :: "oem_plugin \<Rightarrow> 'w driver"
  st_client :: "client_conf \<Rightarrow> 'w redfish"
  st_file_sha :: "string \<Rightarrow> 'w \<Rightarrow> string option py"
  st_vault :: "vault option"
  st_now :: "'w \<Rightarrow> string"

text \<open>A database write at the current time; a refused write raises and changes nothing.\<close>

definition store :: "'w site \<Rightarrow> (string \<Rightarrow> db \<Rightarrow> db py) \<Rightarrow> ('w \<times> db, unit) io" where
  "store st f = (\<lambda>(w, d). case f (st_now st w) d of Inl e \<Rightarrow> (Inl e, (w, d)) | Inr d' \<Rightarrow> (Inr (), (w, d')))"

definition read_db :: "(db \<Rightarrow> 'a) \<Rightarrow> ('w \<times> db, 'a) io" where
  "read_db f = (\<lambda>(w, d). (Inr (f d), (w, d)))"

definition log_event :: "'w site \<Rightarrow> string \<Rightarrow> string \<Rightarrow> string \<Rightarrow> int option \<Rightarrow> int option \<Rightarrow> ('w \<times> db, unit) io" where
  "log_event st level category message sid jid = store st (\<lambda>now d. Inr (snd (activity_log now
     \<lparr>ac_ts = [], ac_level = level, ac_category = category, ac_actor = None, ac_server_id = sid, ac_job_id = jid,
      ac_message = message, ac_detail = None\<rparr> d)))"

section \<open>Servers and credentials\<close>

definition pinned_oem :: "server_row \<Rightarrow> string option" where
  "pinned_oem r = nonempty (Some (strip (the_default [] (sr_oem_override r))))"

definition effective_oem :: "server_row \<Rightarrow> string option" where
  "effective_oem r = (case pinned_oem r of Some k \<Rightarrow> Some k | None \<Rightarrow> sf_oem (sr_fields r))"

definition info_from_row :: "string option \<Rightarrow> server_row \<Rightarrow> server_info" where
  "info_from_row oem r = (let f = sr_fields r in (new_server_info (sr_ip r))\<lparr>si_hostname := sf_hostname f,
     si_manufacturer := sf_manufacturer f, si_oem := oem, si_model := sf_model f, si_serial := sf_serial f,
     si_bmc_version := sf_bmc_version f, si_bios_version := sf_bios_version f,
     si_redfish_root := sf_redfish_root f, si_tls_fingerprint := sf_tls_fpr f\<rparr>)"

definition no_credentials :: credentials where
  "no_credentials = \<lparr>username = [], password = []\<rparr>"

definition vault_credentials :: "'w site \<Rightarrow> db \<Rightarrow> server_info \<Rightarrow> credentials" where
  "vault_credentials st d info = (case st_vault st of None \<Rightarrow> no_credentials
     | Some v \<Rightarrow> the_default no_credentials (credentials_resolve v d (Some (si_ip info)) (si_oem info)))"

text \<open>Inline credentials win when they have a user name.\<close>

definition resolve_creds :: "'w site \<Rightarrow> db \<Rightarrow> credentials \<Rightarrow> server_info \<Rightarrow> credentials" where
  "resolve_creds st d ui info = (if username ui \<noteq> [] then ui else vault_credentials st d info)"

definition runtime :: "string \<Rightarrow> exn" where
  "runtime msg = Exn Exn_Runtime msg"

text \<open>The plugin the operator pinned for a server.\<close>

definition pinned_plugin :: "'w site \<Rightarrow> server_row \<Rightarrow> oem_plugin option" where
  "pinned_plugin st r = resolve_plugin (st_plugins st) (pinned_oem r)"

definition limit_to :: "int \<Rightarrow> int \<Rightarrow> int \<Rightarrow> int" where
  "limit_to lo hi x = max lo (min hi x)"

text \<open>Whether a step of the plugin returned and reported success.\<close>

definition step_ok :: "plugin_result py \<Rightarrow> bool" where
  "step_ok m = (case m of Inr r \<Rightarrow> res_okay r | Inl _ \<Rightarrow> False)"

section \<open>Facts\<close>

lemma store_run: "store st f (w, d) = (case f (st_now st w) d of Inl e \<Rightarrow> (Inl e, (w, d)) | Inr d' \<Rightarrow> (Inr (), (w, d')))"
  by (simp add: store_def)

lemma read_db_run: "read_db f (w, d) = (Inr (f d), (w, d))"
  by (simp add: read_db_def)

lemma limit_to_bounds: "lo \<le> hi \<Longrightarrow> lo \<le> limit_to lo hi x \<and> limit_to lo hi x \<le> hi"
  by (simp add: limit_to_def)

lemma pinned_plugin_Some: "pinned_plugin st r = Some p \<Longrightarrow>
    p \<in> set (st_plugins st) \<and> pinned_oem r = Some (op_key p)"
  by (auto simp: pinned_plugin_def resolve_plugin_def nonempty_def split: option.splits if_splits dest: by_key_Some)

end
