(* ===== verification/Update_Orchestrator.thy ===== *)
theory Update_Orchestrator
  imports Service_Env
begin

text \<open>
  \<open>core/services/update_orchestrator.py\<close>: creating a job, one flash task from its pre-flight checks
  to the recorded result, the verdict on a job, and what a restart makes of interrupted tasks.
  The callbacks of the UI are left out. The scheduling of a job's tasks is in \<open>Job_Pool\<close>.
\<close>

section \<open>Writes to a task row\<close>

definition report :: "'w site \<Rightarrow> int \<Rightarrow> string \<Rightarrow> int \<Rightarrow> string \<Rightarrow> ('w \<times> db, unit) io" where
  "report st tid state pct msg =
     store st (\<lambda>now. update_task now tid (Some state) (Some pct) (Some msg) None None)"

text \<open>Running a plugin's update: its reports reach the task row before its result is looked at.\<close>

definition drive_update :: "'w site \<Rightarrow> int \<Rightarrow> ('w \<Rightarrow> plugin_result py \<times> (string \<times> int) list \<times> 'w) \<Rightarrow>
    ('w \<times> db, plugin_result) io" where
  "drive_update st tid op = (\<lambda>(w, d). case op w of (r, reports, w') \<Rightarrow>
     seq (for_each (\<lambda>(s, p). report st tid s p []) reports) (lift_py r) (w', d))"

text \<open>How \<open>sqlite3\<close> binds a Python value to a \<open>TEXT\<close> column.\<close>

fun bind_text :: "json \<Rightarrow> string option py" where
  "bind_text JNull = Inr None"
| "bind_text (JStr s) = Inr (Some s)"
| "bind_text (JBool b) = Inr (Some (if b then ''1'' else ''0''))"
| "bind_text (JInt i) = (if - (2 ^ 63) \<le> i \<and> i < 2 ^ 63 then Inr (Some (int_str i))
     else Inl (Exn Exn_Overflow ''Python int too large to convert to SQLite INTEGER''))"
| "bind_text (JFloat f) = Inr (if f = NaN then None else Some (json_repr (JFloat f)))"
| "bind_text j = Inl (Exn Exn_Database (''Error binding parameter: type '' @ quoted (py_type j) @ '' is not supported''))"

section \<open>Starting a job\<close>

definition version_before :: "firmware_row \<Rightarrow> server_row \<Rightarrow> string option" where
  "version_before fw r = (if fr_type fw = ''BMC'' then sf_bmc_version (sr_fields r)
     else if fr_type fw = ''BIOS'' then sf_bios_version (sr_fields r) else None)"

fun create_tasks :: "string \<Rightarrow> int \<Rightarrow> int \<Rightarrow> firmware_row \<Rightarrow> int list \<Rightarrow> db \<Rightarrow> (int list \<times> db) py" where
  "create_tasks now jid fid fw [] d = Inr ([], d)"
| "create_tasks now jid fid fw (sid # sids) d = (case server_get d sid of
       None \<Rightarrow> create_tasks now jid fid fw sids d
     | Some r \<Rightarrow> bind_py (create_task now jid sid fid (version_before fw r) d) (\<lambda>(tid, d1).
         bind_py (create_tasks now jid fid fw sids d1) (\<lambda>(tids, d2). Inr (tid # tids, d2))))"

record job_start =
  jo_id :: int
  jo_tasks :: "int list"
  jo_firmware :: firmware_row
  jo_concurrency :: int

definition lookup_firmware :: "db \<Rightarrow> int \<Rightarrow> firmware_row option" where
  "lookup_firmware d fid = (case firmware_get d fid of
       Some r \<Rightarrow> Some r
     | None \<Rightarrow> map_option snd (List.find (\<lambda>(i, _). i = fid) (firmware_list d)))"

definition started_msg :: "int \<Rightarrow> firmware_row \<Rightarrow> nat \<Rightarrow> string" where
  "started_msg jid fw n = ''Update job #'' @ int_str jid @ '' started '' @ em_dash @ '' '' @ fr_type fw @ '' ''
     @ fr_version fw @ '' on '' @ int_str (int n) @ '' server(s)''"

definition log_row :: "string \<Rightarrow> string \<Rightarrow> string \<Rightarrow> int option \<Rightarrow> activity_row" where
  "log_row level category msg jid = \<lparr>ac_ts = [], ac_level = level, ac_category = category, ac_actor = None,
     ac_server_id = None, ac_job_id = jid, ac_message = msg, ac_detail = None\<rparr>"

definition start_job :: "string \<Rightarrow> int list \<Rightarrow> int \<Rightarrow> int \<Rightarrow> db \<Rightarrow> ((string + job_start) \<times> db) py" where
  "start_job now sids fid concurrency d =
     (if sids = [] then Inr (Inl ''No servers selected'', d)
      else let conc = limit_to 1 64 concurrency in
      case lookup_firmware d fid of
        None \<Rightarrow> Inr (Inl ''Firmware not found'', d)
      | Some fw \<Rightarrow>
          (case create_job now (fr_type fw) conc ''OnReset'' ''user'' d of (jid, d1) \<Rightarrow>
           bind_py (create_tasks now jid fid fw sids d1) (\<lambda>(tids, d2).
           bind_py (update_job_state jid ''running'' (Some (int (length tids))) None None d2) (\<lambda>d3.
           Inr (Inr \<lparr>jo_id = jid, jo_tasks = tids, jo_firmware = fw, jo_concurrency = conc\<rparr>,
                snd (activity_log now (log_row ''info'' ''update'' (started_msg jid fw (length tids)) (Some jid)) d3))))))"

section \<open>Checks before a flash\<close>

definition verify_firmware_sha :: "(string \<Rightarrow> 'w \<Rightarrow> string option py) \<Rightarrow> firmware_row \<Rightarrow> ('w, bool \<times> string) io" where
  "verify_firmware_sha file_sha fw = (\<lambda>w.
     let expected = lower (fr_sha256 fw); path = fr_file_path fw in
     if expected = [] then (Inr (False, ''firmware has no stored sha256''), w)
     else if starts_with ''seed://'' path
     then (Inr (False, ''demo firmware has no backing file '' @ em_dash @ '' re-import the real image''), w)
     else case file_sha path w of
       Inl e \<Rightarrow> (Inl e, w)
     | Inr None \<Rightarrow> (Inr (False, ''firmware file missing: '' @ path), w)
     | Inr (Some actual) \<Rightarrow>
         (Inr (if lower actual \<noteq> expected
               then (False, ''SHA-256 mismatch '' @ em_dash @ '' firmware file altered since import'')
               else (True, ''ok'')), w))"

definition parse_redfish_root :: "string option \<Rightarrow> (string \<times> int \<times> string) py" where
  "parse_redfish_root url = (case nonempty url of
       None \<Rightarrow> Inr ([], 443, ''https'')
     | Some r \<Rightarrow> bind_py (split_base (rstrip_char CHR ''/'' (replace_str ''/redfish/v1/'' [] r)))
         (\<lambda>(scheme, host, port). Inr (host, port, if scheme = [] then ''https'' else scheme)))"

definition conf_for :: "string option \<Rightarrow> credentials \<Rightarrow> string option \<Rightarrow> client_conf py" where
  "conf_for url creds tls = bind_py (parse_redfish_root url) (\<lambda>(host, port, scheme). Inr
     \<lparr>cc_host = host, cc_port = port, cc_scheme = scheme, cc_username = username creds,
      cc_password = password creds, cc_tls = tls\<rparr>)"

definition banned_banks :: "string list" where
  "banned_banks = [''Backup'', ''Golden'', ''Staging'', ''Image2'', ''Image_2'']"

definition banned :: "string \<Rightarrow> bool" where
  "banned i = list_ex (\<lambda>b. contains b i) banned_banks"

definition target_found :: "string \<Rightarrow> string list \<Rightarrow> bool" where
  "target_found ftype ids =
     (if ftype = ''BIOS'' then list_ex (\<lambda>i. (contains ''BIOS'' i \<or> contains ''UEFI'' i) \<and> \<not> banned i) ids
      else if ftype = ''BMC''
      then list_ex (\<lambda>i. list_ex (\<lambda>k. contains k i) [''BMC'', ''iDRAC'', ''iLO'', ''XCC'', ''Manager''] \<and> \<not> banned i) ids
      else True)"

definition target_label_of :: "string \<Rightarrow> string list \<Rightarrow> string" where
  "target_label_of ftype ids =
     the_default ftype (List.find (\<lambda>i. contains ftype (upper i) \<and> \<not> banned i) ids)"

definition update_task_ref :: "json \<Rightarrow> bool py" where
  "update_task_ref m = bind_py (jget m ''@odata.id'') (\<lambda>u.
     bind_py (as_str ''lower'' (or_else u (JStr []))) (\<lambda>s. Inr (contains ''update'' (lower s))))"

text \<open>\<open>Some n\<close> when tasks of the collection look like running updates.\<close>

definition busy_check :: "'w redfish \<Rightarrow> ('w, nat) io" where
  "busy_check rf = bind (try_redfish (get_json rf ''/redfish/v1/TaskService/Tasks'')) (\<lambda>r. case r of
       Inl _ \<Rightarrow> ret 0
     | Inr tasks \<Rightarrow> bind (lift_py (sub_list tasks ''Members'')) (\<lambda>ms.
         bind (lift_py (map_py update_task_ref ms)) (\<lambda>bs. ret (length (filter id bs)))))"

definition member_leaf :: "json \<Rightarrow> string py" where
  "member_leaf m = bind_py (jindex m ''@odata.id'') (\<lambda>u. bind_py (as_str ''rsplit'' u) (\<lambda>s. Inr (leaf_of s)))"

definition is_404_text :: "exn \<Rightarrow> bool" where
  "is_404_text e = (contains ''404'' (exn_str e) \<or> contains ''Not Found'' (exn_str e))"

text \<open>\<open>Inl\<close> the refusal, \<open>Inr\<close> the label of the target for the progress row.\<close>

definition target_check :: "'w redfish \<Rightarrow> string \<Rightarrow> ('w, string + string) io" where
  "target_check rf ftype =
     bind (try_redfish (get_json rf ''/redfish/v1/UpdateService/FirmwareInventory'')) (\<lambda>r. case r of
       Inl e \<Rightarrow> ret (if is_404_text e then Inr ftype
                    else Inl (''FirmwareInventory probe failed ('' @ exn_str e @ ''). Refusing ''
                      @ ''to proceed '' @ em_dash @ '' transient probe failure could mask a ''
                      @ ''missing-target condition and corrupt a rollback bank.''))
     | Inr fi \<Rightarrow> bind (lift_py (sub_list fi ''Members'')) (\<lambda>ms.
         bind (lift_py (map_py member_leaf ms)) (\<lambda>ids.
         ret (if target_found ftype ids then Inr (target_label_of ftype ids)
              else Inl (''No '' @ ftype @ '' target in FirmwareInventory (saw: ''
                        @ json_repr (JArr (List.map JStr ids)) @ '')'')))))"

definition ready_msg :: "json \<Rightarrow> string \<Rightarrow> json \<Rightarrow> string" where
  "ready_msg push label oem = replace_str ''  '' '' '' (''BMC ready '' @ em_dash @ '' push='' @ json_str push
     @ '' target='' @ label @ '' vendor='' @ json_str oem)"

definition run_preflight :: "'w redfish \<Rightarrow> server_info \<Rightarrow> string \<Rightarrow> ('w, bool \<times> string) io" where
  "run_preflight rf info ftype =
     bind (try_redfish (get_json rf ''/redfish/v1/UpdateService'')) (\<lambda>r. case r of
       Inl e \<Rightarrow> ret (False, si_ip info @ '' '' @ exn_str e)
     | Inr us \<Rightarrow>
     bind (lift_py (jget_or us ''ServiceEnabled'' (JBool True))) (\<lambda>enabled.
     if \<not> truthy enabled then ret (False, ''UpdateService is disabled on the BMC'') else
     bind (lift_py (jget us ''MultipartHttpPushUri'')) (\<lambda>mp.
     bind (lift_py (jget us ''HttpPushUri'')) (\<lambda>hp.
     let push = or_else mp hp in
     if \<not> truthy push
     then ret (False, ''BMC advertises no upload URI (no MultipartHttpPushUri / HttpPushUri)'') else
     bind (busy_check rf) (\<lambda>n.
     if 0 < n
     then ret (False, ''BMC is busy ('' @ int_str (int n) @ '' active task(s)) '' @ em_dash
                      @ '' wait or cancel them first'') else
     bind (target_check rf ftype) (\<lambda>t. case t of
       Inl why \<Rightarrow> ret (False, why)
     | Inr label \<Rightarrow> bind (lift_py (jget_or us ''Oem'' (JObj []))) (\<lambda>oem. ret (True, ready_msg push label oem))))))))"

definition preflight_bmc :: "'w site \<Rightarrow> server_info \<Rightarrow> string \<Rightarrow> credentials \<Rightarrow> ('w, bool \<times> string) io" where
  "preflight_bmc st info ftype creds =
     bind (lift_py (conf_for (si_redfish_root info) creds (si_tls_fingerprint info))) (\<lambda>conf.
     finally_do (run_preflight (st_client st conf) info ftype) (rf_close (st_client st conf)))"

section \<open>One task\<close>

definition to_firmware :: "firmware_row \<Rightarrow> firmware" where
  "to_firmware r = \<lparr>fw_name = fr_name r, fw_type = fr_type r, fw_oem = fr_oem r, fw_version = fr_version r,
     fw_file_path = fr_file_path r, fw_sha256 = fr_sha256 r, fw_model = fr_model r,
     fw_size_bytes = the_default 0 (fr_size_bytes r)\<rparr>"

definition update_op :: "'w driver \<Rightarrow> string \<Rightarrow> server_info \<Rightarrow> firmware \<Rightarrow> credentials \<Rightarrow> bool \<Rightarrow>
    'w \<Rightarrow> plugin_result py \<times> (string \<times> int) list \<times> 'w" where
  "update_op dr ftype = (if ftype = ''BMC'' then dr_update_bmc dr else if ftype = ''BIOS'' then dr_update_bios dr
     else dr_update_hgx dr)"

definition no_oem_msg :: string where
  "no_oem_msg = ''No OEM selected for this server '' @ em_dash @ '' open the server panel and ''
     @ ''choose the vendor before flashing''"

definition no_plugin_msg :: "string \<Rightarrow> string" where
  "no_plugin_msg key = ''Selected OEM '' @ quoted key @ '' has no installed plugin '' @ em_dash @ '' ''
     @ ''re-select the vendor in the server panel''"

text \<open>The server of a task, or why there is none to flash.\<close>

definition task_server :: "db \<Rightarrow> int \<Rightarrow> server_row py" where
  "task_server d tid = (case get_task d tid of
       None \<Rightarrow> Inl (runtime ''Task vanished from DB'')
     | Some t \<Rightarrow> (case (case tk_server_id t of Some sid \<Rightarrow> server_get d sid | None \<Rightarrow> None) of
         None \<Rightarrow> Inl (runtime ''Server not found'')
       | Some r \<Rightarrow> if nonempty (sf_redfish_root (sr_fields r)) = None
                   then Inl (runtime ''Server has no Redfish endpoint (re-run discovery)'') else Inr r))"

definition task_plugin :: "'w site \<Rightarrow> server_row \<Rightarrow> (string \<times> oem_plugin) py" where
  "task_plugin st r = (case pinned_oem r of
       None \<Rightarrow> Inl (runtime no_oem_msg)
     | Some key \<Rightarrow> (case pinned_plugin st r of
         None \<Rightarrow> Inl (runtime (no_plugin_msg key))
       | Some p \<Rightarrow> Inr (key, p)))"

definition require :: "bool \<Rightarrow> string \<Rightarrow> ('u, unit) io" where
  "require b why = (if b then ret () else throw (runtime why))"

text \<open>From the verified server to the plugin's result.\<close>

definition flash_server :: "'w site \<Rightarrow> int \<Rightarrow> firmware_row \<Rightarrow> credentials \<Rightarrow> bool \<Rightarrow> server_row \<Rightarrow> string \<Rightarrow> oem_plugin \<Rightarrow>
    ('w \<times> db, json) io" where
  "flash_server st tid fw ui apply_now r key p =
     (let info = info_from_row (Some key) r; img = to_firmware fw; dr = st_driver st p in
      seq (report st tid ''precheck'' 5 [])
      (let compat = dr_validate dr info img in
      seq (require (cr_compatible compat) (''Pre-flight failed: '' @ cr_reason compat))
      (bind (read_db (\<lambda>d. resolve_creds st d ui info)) (\<lambda>creds.
      bind (on_fst (preflight_bmc st info (fr_type fw) creds)) (\<lambda>(ok, msg).
      seq (require ok (''BMC pre-flight failed: '' @ msg))
      (seq (report st tid ''precheck'' 8 msg)
      (bind (drive_update st tid (update_op dr (fr_type fw) info img creds apply_now)) (\<lambda>res.
      seq (require (res_okay res) (if res_message res = [] then ''Update failed'' else res_message res))
      (ret (res_version res))))))))))"

definition real_task :: "'w site \<Rightarrow> int \<Rightarrow> firmware_row \<Rightarrow> credentials \<Rightarrow> bool \<Rightarrow> ('w \<times> db, json) io" where
  "real_task st tid fw ui apply_now =
     bind (bind (read_db (\<lambda>d. task_server d tid)) lift_py) (\<lambda>r.
     bind (on_fst (verify_firmware_sha (st_file_sha st) fw)) (\<lambda>(ok, msg).
     seq (require ok (''Firmware integrity check failed: '' @ msg))
     (bind (lift_py (task_plugin st r)) (\<lambda>(key, p). flash_server st tid fw ui apply_now r key p))))"

definition refresh_server :: "string \<Rightarrow> int \<Rightarrow> string \<Rightarrow> json \<Rightarrow> db \<Rightarrow> db py" where
  "refresh_server now sid ftype version d = (if \<not> truthy version then Inr d else case server_get d sid of
       None \<Rightarrow> Inr d
     | Some r \<Rightarrow> bind_py (bind_text version) (\<lambda>v. let f = sr_fields r in
         Inr (snd (server_upsert now (sr_ip r) ((if ftype = ''BMC'' then f\<lparr>sf_bmc_version := v\<rparr>
           else if ftype = ''BIOS'' then f\<lparr>sf_bios_version := v\<rparr> else f)\<lparr>sf_status := ''online''\<rparr>) d))))"

definition record_success :: "'w site \<Rightarrow> int \<Rightarrow> string \<Rightarrow> json \<Rightarrow> ('w \<times> db, unit) io" where
  "record_success st tid ftype version =
     seq (report st tid ''completed'' 100 [])
     (bind (lift_py (bind_text version)) (\<lambda>v.
     seq (store st (\<lambda>now. update_task now tid (Some ''completed'') None None v None))
     (store st (\<lambda>now d. case get_task d tid of
        Some t \<Rightarrow> (case tk_server_id t of Some sid \<Rightarrow> refresh_server now sid ftype version d | None \<Rightarrow> Inr d)
      | None \<Rightarrow> Inr d))))"

definition run_task :: "'w site \<Rightarrow> int \<Rightarrow> firmware_row \<Rightarrow> credentials \<Rightarrow> bool \<Rightarrow> ('w \<times> db, bool) io" where
  "run_task st tid fw ui apply_now =
     bind (attempt (\<lambda>_. True) (bind (real_task st tid fw ui apply_now) (record_success st tid (fr_type fw)))) (\<lambda>r.
     case r of
       Inr _ \<Rightarrow> ret True
     | Inl e \<Rightarrow> seq (report st tid ''failed'' 0 (if is_exception e then exn_str e else ''Cancelled'')) (ret False))"

text \<open>What \<open>run_one\<close> does once it holds the semaphore and the job is not cancelled.\<close>

definition run_one :: "'w site \<Rightarrow> int \<Rightarrow> firmware_row \<Rightarrow> credentials \<Rightarrow> bool \<Rightarrow> ('w \<times> db, bool) io" where
  "run_one st tid fw ui apply_now = catch_if is_exception (run_task st tid fw ui apply_now) (\<lambda>e.
     seq (store st (\<lambda>now. update_task now tid (Some ''failed'') (Some 0)
            (Some (take 300 (''Internal error: '' @ exn_name (exn_class e) @ '': '' @ exn_str e))) None None))
     (ret False))"

definition mark_cancelled :: "string \<Rightarrow> int \<Rightarrow> db \<Rightarrow> db py" where
  "mark_cancelled now tid = update_task now tid (Some ''failed'') None (Some ''Cancelled'') None None"

section \<open>The verdict on a job\<close>

definition compute_final_state :: "bool \<Rightarrow> nat \<Rightarrow> nat \<Rightarrow> string" where
  "compute_final_state cancelled n_ok n_bad =
     (if cancelled then ''cancelled'' else if 0 < n_bad \<and> n_ok = 0 then ''failed''
      else if 0 < n_bad then ''completed_with_errors'' else ''completed'')"

definition job_level :: "nat \<Rightarrow> nat \<Rightarrow> string" where
  "job_level n_ok n_bad = (if n_bad = 0 then ''success'' else if n_ok = 0 then ''error'' else ''warning'')"

definition finish_job :: "string \<Rightarrow> int \<Rightarrow> bool \<Rightarrow> nat \<Rightarrow> nat \<Rightarrow> db \<Rightarrow> db py" where
  "finish_job now jid cancelled n_ok n_bad d =
     bind_py (update_job_state jid (compute_final_state cancelled n_ok n_bad) None (Some (int n_ok))
                (Some (int n_bad)) d) (\<lambda>d1.
     Inr (snd (activity_log now (log_row (job_level n_ok n_bad) ''update''
       (''Update job #'' @ int_str jid @ '' finished '' @ em_dash @ '' '' @ int_str (int n_ok) @ '' succeeded, ''
        @ int_str (int n_bad) @ '' failed'') (Some jid)) d1)))"

section \<open>Restart\<close>

definition no_uri_msg :: string where
  "no_uri_msg = ''App was restarted; task has no Task URI to resume '' @ em_dash @ '' please re-run.''"

definition has_task_uri :: "task_row \<Rightarrow> bool" where
  "has_task_uri t = (nonempty (tk_redfish_task t) \<noteq> None)"

fun fail_tasks :: "string \<Rightarrow> int list \<Rightarrow> db \<Rightarrow> db py" where
  "fail_tasks now [] d = Inr d"
| "fail_tasks now (tid # tids) d =
     bind_py (update_task now tid (Some ''failed'') (Some 0) (Some no_uri_msg) None None d) (fail_tasks now tids)"

fun finalize_jobs :: "int list \<Rightarrow> db \<Rightarrow> db py" where
  "finalize_jobs [] d = Inr d"
| "finalize_jobs (j # js) d = bind_py (finalize_job_from_tasks j d) (\<lambda>(_, d'). finalize_jobs js d')"

text \<open>The startup sweep: how many tasks it touched, and the tasks to poll once.\<close>

definition resume_interrupted :: "string \<Rightarrow> db \<Rightarrow> ((nat \<times> (int \<times> task_row) list) \<times> db) py" where
  "resume_interrupted now d =
     (let tasks = list_non_terminal_tasks d;
          lost = filter (\<lambda>(_, t). \<not> has_task_uri t) tasks;
          resumable = filter (\<lambda>(_, t). has_task_uri t) tasks;
          keep = List.map (\<lambda>(_, t). tk_job_id t) resumable in
      bind_py (fail_tasks now (List.map fst lost) d) (\<lambda>d1.
      let d2 = (if lost = [] then d1 else snd (activity_log now (log_row ''warning'' ''update''
             (int_str (int (length lost)) @ '' task(s) without saved Task URI marked failed on startup'') None) d1)) in
      bind_py (finalize_jobs (filter (\<lambda>j. j \<notin> set keep) (remdups (List.map (\<lambda>(_, t). tk_job_id t) tasks))) d2) (\<lambda>d3.
      let d4 = snd (fail_non_terminal_jobs_except (remdups keep) d3) in
      Inr ((length lost + length resumable, resumable),
           if resumable = [] then d4 else snd (activity_log now (log_row ''info'' ''update''
             (''Resuming '' @ int_str (int (length resumable)) @ '' task(s) from saved Task URIs on startup'') None) d4)))))"

definition resumed_state :: "json \<Rightarrow> int \<Rightarrow> (string \<times> int) py" where
  "resumed_state task saved = bind_py (jget task ''TaskState'') (\<lambda>s.
     bind_py (as_str ''lower'' (or_else s (JStr ''Running''))) (\<lambda>state.
     bind_py (jget_or task ''PercentComplete'' (JInt saved)) (\<lambda>p.
     bind_py (jint (or_else p (JInt 0))) (\<lambda>pct. Inr (lower state, pct)))))"

definition last_message :: "json \<Rightarrow> json py" where
  "last_message task = bind_py (jget task ''Messages'') (\<lambda>m. let msgs = or_else m (JArr []) in
     if truthy msgs then bind_py (jlast msgs) (\<lambda>l. jget_or l ''Message'' (JStr [])) else Inr (JStr []))"

definition settle_resumed :: "'w site \<Rightarrow> int \<Rightarrow> int \<Rightarrow> json \<Rightarrow> ('w \<times> db, unit) io" where
  "settle_resumed st tid saved task = bind (lift_py (resumed_state task saved)) (\<lambda>(state, pct).
     if state = ''completed''
     then seq (report st tid ''completed'' 100 ''Resumed: BMC reports completed.'')
          (log_event st ''success'' ''update'' (''task#'' @ int_str tid @ '' resumed and finalized as completed'') None None)
     else if state \<in> {''exception'', ''killed'', ''cancelled''}
     then bind (lift_py (last_message task)) (\<lambda>detail.
          seq (report st tid ''failed'' pct (strip (''Resumed: BMC reports '' @ state @ ''. '' @ json_str detail)))
          (log_event st ''warning'' ''update'' (''task#'' @ int_str tid @ '' resumed and finalized as '' @ state) None None))
     else seq (report st tid ''flashing'' pct (''Resumed: BMC reports '' @ state @ '' ('' @ int_str pct @ ''%).''))
          (log_event st ''info'' ''update'' (''task#'' @ int_str tid @ '' resumed; BMC reports '' @ state @ '' ('' @ int_str pct
             @ ''%)'') None None))"

definition resume_creds :: "'w site \<Rightarrow> db \<Rightarrow> server_row \<Rightarrow> credentials option" where
  "resume_creds st d r = (case st_vault st of None \<Rightarrow> None
     | Some v \<Rightarrow> credentials_resolve v d (Some (sr_ip r)) (effective_oem r))"

text \<open>The poll itself; the client is closed before the answer is looked at.\<close>

definition poll_saved_task :: "'w site \<Rightarrow> server_row \<Rightarrow> credentials \<Rightarrow> client_conf \<Rightarrow> string \<Rightarrow> ('w, exn + json) io" where
  "poll_saved_task st r creds conf uri =
     finally_do (attempt is_exception (get_json (st_client st conf) uri)) (rf_close (st_client st conf))"

definition resume_failed :: "string \<Rightarrow> exn \<Rightarrow> string" where
  "resume_failed uri e = (if is_redfish e
     then ''Resume: Task URI '' @ uri @ '' unreachable ('' @ exn_str e @ '') '' @ em_dash @ '' please re-run.''
     else ''Resume: client init failed ('' @ exn_name (exn_class e) @ '': '' @ exn_str e @ '')'')"

definition resume_task_inner :: "'w site \<Rightarrow> int \<Rightarrow> task_row \<Rightarrow> ('w \<times> db, unit) io" where
  "resume_task_inner st tid t =
     bind (read_db (\<lambda>d. case tk_server_id t of Some sid \<Rightarrow> server_get d sid | None \<Rightarrow> None)) (\<lambda>sr. case sr of
       None \<Rightarrow> report st tid ''failed'' 0 ''Resume: server vanished from DB''
     | Some r \<Rightarrow> bind (read_db (\<lambda>d. resume_creds st d r)) (\<lambda>cr. case cr of
         None \<Rightarrow> report st tid ''failed'' 0 ''Resume: no saved credential for this BMC''
       | Some creds \<Rightarrow>
           bind (lift_py (conf_for (sf_redfish_root (sr_fields r)) creds (sf_tls_fpr (sr_fields r)))) (\<lambda>conf.
           bind (on_fst (poll_saved_task st r creds conf (the_default [] (tk_redfish_task t)))) (\<lambda>ans. case ans of
             Inl e \<Rightarrow> report st tid ''failed'' (tk_progress t) (resume_failed (the_default [] (tk_redfish_task t)) e)
           | Inr task \<Rightarrow> settle_resumed st tid (tk_progress t) task))))"

definition resume_one_task :: "'w site \<Rightarrow> int \<Rightarrow> task_row \<Rightarrow> ('w \<times> db, unit) io" where
  "resume_one_task st tid t = finally_do (resume_task_inner st tid t)
     (catch_if is_exception (store st (\<lambda>_ d. bind_py (finalize_job_from_tasks (tk_job_id t) d) (\<lambda>(_, d'). Inr d')))
        (\<lambda>_. ret ()))"

end
