(* ===== verification/Job_Pool.thy ===== *)
theory Job_Pool
  imports Prelude
begin

text \<open>
  The scheduling that both orchestrators use for the tasks of a job: one coroutine per task, a
  semaphore, a cancel event, two counters, and \<open>gather\<close> at the end. A step is what happens
  between two awaits; which coroutine moves next is left open. What a task does to the data is
  a parameter, and so are the changes others make meanwhile.
\<close>

section \<open>Workers and their steps\<close>

datatype phase = Spawned | Waiting | Running | Finished bool

record 'd pool =
  pl_work :: "(int \<times> phase) list"
  pl_permits :: nat
  pl_cancel :: bool
  pl_ok :: nat
  pl_bad :: nat
  pl_data :: 'd

record 'd effects =
  ef_mark :: "int \<Rightarrow> 'd \<Rightarrow> 'd \<Rightarrow> bool"
  ef_work :: "int \<Rightarrow> 'd \<Rightarrow> 'd \<Rightarrow> bool"
  ef_end :: "int \<Rightarrow> bool \<Rightarrow> 'd \<Rightarrow> 'd \<Rightarrow> bool"
  ef_env :: "'d \<Rightarrow> 'd \<Rightarrow> bool"

definition phase_of :: "'d pool \<Rightarrow> int \<Rightarrow> phase option" where
  "phase_of s t = map_of (pl_work s) t"

definition set_phase :: "int \<Rightarrow> phase \<Rightarrow> 'd pool \<Rightarrow> 'd pool" where
  "set_phase t p s = s\<lparr>pl_work := List.map (\<lambda>(u, q). (u, if u = t then p else q)) (pl_work s)\<rparr>"

definition settle :: "int \<Rightarrow> bool \<Rightarrow> 'd \<Rightarrow> 'd pool \<Rightarrow> 'd pool" where
  "settle t good d s = (set_phase t (Finished good) s)
     \<lparr>pl_ok := pl_ok s + (if good then 1 else 0), pl_bad := pl_bad s + (if good then 0 else 1), pl_data := d\<rparr>"

definition new_pool :: "nat \<Rightarrow> int list \<Rightarrow> 'd \<Rightarrow> 'd pool" where
  "new_pool conc ids d = \<lparr>pl_work = List.map (\<lambda>t. (t, Spawned)) ids, pl_permits = conc, pl_cancel = False,
     pl_ok = 0, pl_bad = 0, pl_data = d\<rparr>"

text \<open>\<open>skip\<close> and \<open>drop\<close> are the two checks of the cancel event, before and after the semaphore was
  acquired; the permit of a dropped worker is returned in the same step.\<close>

inductive pool_step :: "'d effects \<Rightarrow> 'd pool \<Rightarrow> 'd pool \<Rightarrow> bool" for ef where
  cancel: "pool_step ef s (s\<lparr>pl_cancel := True\<rparr>)"
| skip: "phase_of s t = Some Spawned \<Longrightarrow> pl_cancel s \<Longrightarrow> ef_mark ef t (pl_data s) d \<Longrightarrow>
    pool_step ef s (settle t False d s)"
| queue: "phase_of s t = Some Spawned \<Longrightarrow> \<not> pl_cancel s \<Longrightarrow> pool_step ef s (set_phase t Waiting s)"
| drop: "phase_of s t = Some Waiting \<Longrightarrow> 0 < pl_permits s \<Longrightarrow> pl_cancel s \<Longrightarrow> ef_mark ef t (pl_data s) d \<Longrightarrow>
    pool_step ef s (settle t False d s)"
| enter: "phase_of s t = Some Waiting \<Longrightarrow> 0 < pl_permits s \<Longrightarrow> \<not> pl_cancel s \<Longrightarrow>
    pool_step ef s ((set_phase t Running s)\<lparr>pl_permits := pl_permits s - 1\<rparr>)"
| work: "phase_of s t = Some Running \<Longrightarrow> ef_work ef t (pl_data s) d \<Longrightarrow> pool_step ef s (s\<lparr>pl_data := d\<rparr>)"
| leave: "phase_of s t = Some Running \<Longrightarrow> ef_end ef t good (pl_data s) d \<Longrightarrow>
    pool_step ef s ((settle t good d s)\<lparr>pl_permits := pl_permits s + 1\<rparr>)"
| env: "ef_env ef (pl_data s) d \<Longrightarrow> pool_step ef s (s\<lparr>pl_data := d\<rparr>)"

inductive_cases pool_stepE [elim]: "pool_step ef s s'"

inductive pool_reach :: "'d effects \<Rightarrow> 'd pool \<Rightarrow> 'd pool \<Rightarrow> bool" for ef s0 where
  refl: "pool_reach ef s0 s0"
| step: "pool_reach ef s0 s \<Longrightarrow> pool_step ef s s' \<Longrightarrow> pool_reach ef s0 s'"

definition finished :: "'d pool \<Rightarrow> bool" where
  "finished s = list_all (\<lambda>(_, p). p = Finished True \<or> p = Finished False) (pl_work s)"

definition count_phase :: "(phase \<Rightarrow> bool) \<Rightarrow> 'd pool \<Rightarrow> nat" where
  "count_phase P s = length (filter (P \<circ> snd) (pl_work s))"

abbreviation running :: "'d pool \<Rightarrow> nat" where
  "running \<equiv> count_phase (\<lambda>p. p = Running)"

section \<open>Counting workers\<close>

lemma count_set_phase:
  assumes "distinct (List.map fst l)" "map_of l t = Some q"
  shows "length (filter (P \<circ> snd) (List.map (\<lambda>(u, r). (u, if u = t then p else r)) l)) + (if P q then 1 else 0) =
    length (filter (P \<circ> snd) l) + (if P p then 1 else 0)"
  using assms
proof (induction l)
  case (Cons x l)
  obtain u r where x: "x = (u, r)" by fastforce
  show ?case
  proof (cases "u = t")
    case True
    then have "t \<notin> fst ` set l" using Cons.prems x by auto
    then have "List.map (\<lambda>(u, r). (u, if u = t then p else r)) l = l"
      by (intro map_idI) (force split: prod.splits)
    then show ?thesis using Cons.prems True x by auto
  next
    case False
    then show ?thesis using Cons x by auto
  qed
qed simp

lemma count_phase_set:
  assumes "distinct (List.map fst (pl_work s))" "phase_of s t = Some q"
  shows "count_phase P (set_phase t p s) + (if P q then 1 else 0) = count_phase P s + (if P p then 1 else 0)"
  using count_set_phase [of "pl_work s" t q P p] assms by (simp add: count_phase_def set_phase_def phase_of_def)

lemma set_phase_simps [simp]:
  "pl_permits (set_phase t p s) = pl_permits s" "pl_cancel (set_phase t p s) = pl_cancel s"
  "pl_ok (set_phase t p s) = pl_ok s" "pl_bad (set_phase t p s) = pl_bad s" "pl_data (set_phase t p s) = pl_data s"
  "List.map fst (pl_work (set_phase t p s)) = List.map fst (pl_work s)"
  by (simp_all add: set_phase_def comp_def case_prod_beta)

lemma settle_simps [simp]:
  "pl_permits (settle t g d s) = pl_permits s" "pl_cancel (settle t g d s) = pl_cancel s"
  "pl_ok (settle t g d s) = pl_ok s + (if g then 1 else 0)" "pl_bad (settle t g d s) = pl_bad s + (if g then 0 else 1)"
  "pl_data (settle t g d s) = d" "pl_work (settle t g d s) = pl_work (set_phase t (Finished g) s)"
  by (simp_all add: settle_def)

lemma count_phase_work: "pl_work s = pl_work s' \<Longrightarrow> count_phase P s = count_phase P s'"
  by (simp add: count_phase_def)

lemma count_phase_upd [simp]:
  "count_phase P (s\<lparr>pl_permits := n\<rparr>) = count_phase P s" "count_phase P (s\<lparr>pl_cancel := b\<rparr>) = count_phase P s"
  "count_phase P (s\<lparr>pl_data := d\<rparr>) = count_phase P s"
  "count_phase P (settle t g d s) = count_phase P (set_phase t (Finished g) s)"
  by (simp_all add: count_phase_def)

section \<open>The invariant\<close>

definition pool_inv :: "nat \<Rightarrow> int list \<Rightarrow> 'd pool \<Rightarrow> bool" where
  "pool_inv conc ids s = (List.map fst (pl_work s) = ids \<and> distinct ids \<and>
     pl_permits s + running s = conc \<and>
     pl_ok s = count_phase (\<lambda>p. p = Finished True) s \<and> pl_bad s = count_phase (\<lambda>p. p = Finished False) s)"

lemma pool_inv_new: "distinct ids \<Longrightarrow> pool_inv conc ids (new_pool conc ids d)"
  by (auto simp: pool_inv_def new_pool_def count_phase_def comp_def filter_empty_conv)

lemma pool_inv_step:
  assumes "pool_step ef s s'" "pool_inv conc ids s"
  shows "pool_inv conc ids s'"
proof -
  have d: "distinct (List.map fst (pl_work s))" using assms(2) by (simp add: pool_inv_def)
  note cs = count_phase_set [OF d]
  show ?thesis
    using assms
  proof cases
    case (skip t d')
    then show ?thesis using assms(2) cs [OF skip(2), of "\<lambda>p. p = Running" "Finished False"]
        cs [OF skip(2), of "\<lambda>p. p = Finished True" "Finished False"]
        cs [OF skip(2), of "\<lambda>p. p = Finished False" "Finished False"] by (simp add: pool_inv_def)
  next
    case (queue t)
    then show ?thesis using assms(2) cs [OF queue(2), of "\<lambda>p. p = Running" Waiting]
        cs [OF queue(2), of "\<lambda>p. p = Finished True" Waiting]
        cs [OF queue(2), of "\<lambda>p. p = Finished False" Waiting] by (simp add: pool_inv_def)
  next
    case (drop t d')
    then show ?thesis using assms(2) cs [OF drop(2), of "\<lambda>p. p = Running" "Finished False"]
        cs [OF drop(2), of "\<lambda>p. p = Finished True" "Finished False"]
        cs [OF drop(2), of "\<lambda>p. p = Finished False" "Finished False"] by (simp add: pool_inv_def)
  next
    case (enter t)
    then show ?thesis using assms(2) cs [OF enter(2), of "\<lambda>p. p = Running" Running]
        cs [OF enter(2), of "\<lambda>p. p = Finished True" Running]
        cs [OF enter(2), of "\<lambda>p. p = Finished False" Running] by (simp add: pool_inv_def)
  next
    case (leave t g d')
    then show ?thesis using assms(2) cs [OF leave(2), of "\<lambda>p. p = Running" "Finished g"]
        cs [OF leave(2), of "\<lambda>p. p = Finished True" "Finished g"]
        cs [OF leave(2), of "\<lambda>p. p = Finished False" "Finished g"] by (cases g) (simp_all add: pool_inv_def)
  qed (simp_all add: pool_inv_def)
qed

lemma pool_inv_reach:
  assumes "pool_reach ef s0 s" "pool_inv conc ids s0"
  shows "pool_inv conc ids s"
  using assms by induction (auto intro: pool_inv_step)

lemma pool_running_le: "pool_inv conc ids s \<Longrightarrow> running s \<le> conc"
  by (simp add: pool_inv_def)

lemma finished_counts:
  assumes "pool_inv conc ids s" "finished s"
  shows "pl_ok s + pl_bad s = length ids"
proof -
  have "length (filter (\<lambda>x. snd x = Finished True) l) + length (filter (\<lambda>x. snd x = Finished False) l) = length l"
    if "list_all (\<lambda>(_, p). p = Finished True \<or> p = Finished False) l" for l :: "(int \<times> phase) list"
    using that by (induction l) auto
  then show ?thesis using assms by (auto simp: pool_inv_def finished_def count_phase_def comp_def)
qed

section \<open>Progress and cancellation\<close>

text \<open>No deadlock: as long as a worker is not finished, some worker can take a step of its own.\<close>

lemma pool_progress:
  assumes "pool_inv conc ids s" "0 < conc" "\<not> finished s"
    and "\<And>t d. \<exists>d'. ef_mark ef t d d'" "\<And>t d. \<exists>g d'. ef_end ef t g d d'"
  shows "\<exists>s'. pool_step ef s s' \<and> pl_work s' \<noteq> pl_work s"
proof -
  have dist: "distinct (List.map fst (pl_work s))" using assms(1) by (simp add: pool_inv_def)
  have change: "pl_work (set_phase t p s) \<noteq> pl_work s" if "phase_of s t = Some q" "p \<noteq> q" for t p q
    using count_phase_set [OF dist that(1), of "\<lambda>x. x = p" p] that(2) by (auto simp: count_phase_def)
  obtain t p where tp: "(t, p) \<in> set (pl_work s)" "p \<noteq> Finished True" "p \<noteq> Finished False"
    using assms(3) by (auto simp: finished_def list_all_iff)
  have ph: "phase_of s t = Some p" using tp(1) dist by (simp add: phase_of_def)
  consider "p = Spawned" | "p = Running" | "p = Waiting" using tp(2,3) by (cases p) auto
  then show ?thesis
  proof cases
    case 1
    obtain d' where "ef_mark ef t (pl_data s) d'" using assms(4) by blast
    then have "pl_cancel s \<Longrightarrow> pool_step ef s (settle t False d' s)" using ph 1 by (auto intro: pool_step.skip)
    moreover have "\<not> pl_cancel s \<Longrightarrow> pool_step ef s (set_phase t Waiting s)" using ph 1 by (auto intro: pool_step.queue)
    ultimately show ?thesis using change [OF ph, of "Finished False"] change [OF ph, of Waiting] 1
      by (cases "pl_cancel s") auto
  next
    case 2
    obtain g d' where "ef_end ef t g (pl_data s) d'" using assms(5) by blast
    then have "pool_step ef s ((settle t g d' s)\<lparr>pl_permits := pl_permits s + 1\<rparr>)"
      by (rule pool_step.leave [OF ph [unfolded 2]])
    then show ?thesis using change [OF ph, of "Finished g"] 2 by auto
  next
    case 3
    show ?thesis
    proof (cases "0 < pl_permits s")
      case True
      obtain d' where "ef_mark ef t (pl_data s) d'" using assms(4) by blast
      then have "pl_cancel s \<Longrightarrow> pool_step ef s (settle t False d' s)" using ph 3 True by (auto intro: pool_step.drop)
      moreover have "\<not> pl_cancel s \<Longrightarrow> pool_step ef s ((set_phase t Running s)\<lparr>pl_permits := pl_permits s - 1\<rparr>)"
        by (rule pool_step.enter [OF ph [unfolded 3] True])
      ultimately show ?thesis using change [OF ph, of "Finished False"] change [OF ph, of Running] 3
        by (cases "pl_cancel s") auto
    next
      case False
      then have "0 < running s" using assms(1,2) by (auto simp: pool_inv_def)
      then obtain u where u: "(u, Running) \<in> set (pl_work s)"
        by (auto simp: count_phase_def filter_empty_conv)
      then have pu: "phase_of s u = Some Running" using dist by (simp add: phase_of_def)
      obtain g d' where "ef_end ef u g (pl_data s) d'" using assms(5) by blast
      then have "pool_step ef s ((settle u g d' s)\<lparr>pl_permits := pl_permits s + 1\<rparr>)" by (rule pool_step.leave [OF pu])
      then show ?thesis using change [OF pu, of "Finished g"] by auto
    qed
  qed
qed

text \<open>A worker moves at most three times, so the steps of the workers themselves run out.\<close>

fun phase_rank :: "phase \<Rightarrow> nat" where
  "phase_rank Spawned = 3"
| "phase_rank Waiting = 2"
| "phase_rank Running = 1"
| "phase_rank (Finished _) = 0"

definition pool_rank :: "'d pool \<Rightarrow> nat" where
  "pool_rank s = sum_list (List.map (phase_rank \<circ> snd) (pl_work s))"

lemma rank_set_phase:
  assumes "distinct (List.map fst (pl_work s))" "phase_of s t = Some q"
  shows "pool_rank (set_phase t p s) + phase_rank q = pool_rank s + phase_rank p"
proof -
  have "sum_list (List.map (phase_rank \<circ> snd) (List.map (\<lambda>(u, r). (u, if u = t then p else r)) l)) + phase_rank q =
      sum_list (List.map (phase_rank \<circ> snd) l) + phase_rank p"
    if "distinct (List.map fst l)" "map_of l t = Some q" for l
    using that
  proof (induction l)
    case (Cons x l)
    obtain u r where x: "x = (u, r)" by fastforce
    show ?case
    proof (cases "u = t")
      case True
      then have "t \<notin> fst ` set l" using Cons.prems x by auto
      then have "List.map (\<lambda>(u, r). (u, if u = t then p else r)) l = l"
        by (intro map_idI) (force split: prod.splits)
      then show ?thesis using Cons.prems True x by simp
    next
      case False
      then show ?thesis using Cons x by simp
    qed
  qed simp
  then show ?thesis using assms by (simp add: pool_rank_def set_phase_def phase_of_def)
qed

lemma pool_rank_upd [simp]:
  "pool_rank (s\<lparr>pl_permits := n\<rparr>) = pool_rank s" "pool_rank (s\<lparr>pl_cancel := b\<rparr>) = pool_rank s"
  "pool_rank (s\<lparr>pl_data := d\<rparr>) = pool_rank s" "pool_rank (settle t g d s) = pool_rank (set_phase t (Finished g) s)"
  by (simp_all add: pool_rank_def)

lemma rank_step:
  assumes "pool_step ef s s'" "pool_inv conc ids s"
  shows "pl_work s' = pl_work s \<or> pool_rank s' < pool_rank s"
proof -
  have d: "distinct (List.map fst (pl_work s))" using assms(2) by (simp add: pool_inv_def)
  show ?thesis
    using assms(1)
  proof cases
    case (skip t d')
    then show ?thesis using rank_set_phase [OF d skip(2), of "Finished False"] by simp
  next
    case (queue t)
    then show ?thesis using rank_set_phase [OF d queue(2), of Waiting] by simp
  next
    case (drop t d')
    then show ?thesis using rank_set_phase [OF d drop(2), of "Finished False"] by simp
  next
    case (enter t)
    then show ?thesis using rank_set_phase [OF d enter(2), of Running] by simp
  next
    case (leave t g d')
    then show ?thesis using rank_set_phase [OF d leave(2), of "Finished g"] by simp
  qed simp_all
qed

lemma pool_rank_new: "pool_rank (new_pool conc ids d) = 3 * length ids"
  by (induction ids) (auto simp: pool_rank_def new_pool_def)

lemma rank_reach:
  assumes "pool_reach ef s0 s" "pool_inv conc ids s0"
  shows "pool_rank s \<le> pool_rank s0"
  using assms
proof (induction rule: pool_reach.induct)
  case (step s s')
  then have "pl_work s' = pl_work s \<or> pool_rank s' < pool_rank s" using rank_step pool_inv_reach by blast
  then show ?case using step by (auto simp: pool_rank_def)
qed simp

text \<open>Once cancelled, the job starts no further task.\<close>

lemma phase_of_set: "phase_of (set_phase t p s) u = (if u = t \<and> phase_of s t \<noteq> None then Some p else phase_of s u)"
proof -
  have "map_of (List.map (\<lambda>(u, q). (u, if u = t then p else q)) l) u =
      (if u = t \<and> map_of l t \<noteq> None then Some p else map_of l u)" for l :: "(int \<times> phase) list"
    by (induction l) auto
  then show ?thesis by (simp add: phase_of_def set_phase_def)
qed

lemma phase_of_upd [simp]:
  "phase_of (s\<lparr>pl_permits := n\<rparr>) u = phase_of s u" "phase_of (s\<lparr>pl_cancel := b\<rparr>) u = phase_of s u"
  "phase_of (s\<lparr>pl_data := d\<rparr>) u = phase_of s u" "phase_of (settle t g d s) u = phase_of (set_phase t (Finished g) s) u"
  by (simp_all add: phase_of_def)

lemma cancelled_step:
  assumes "pool_step ef s s'" "pl_cancel s"
  shows "pl_cancel s' \<and> (phase_of s' t = Some Running \<longrightarrow> phase_of s t = Some Running)"
  using assms by cases (auto simp: phase_of_set split: if_splits)

lemma cancelled_reach:
  assumes "pool_reach ef s s'" "pl_cancel s" "phase_of s' t = Some Running"
  shows "phase_of s t = Some Running"
proof -
  have "pl_cancel s' \<and> (phase_of s' t = Some Running \<longrightarrow> phase_of s t = Some Running)"
    using assms(1) by induction (use assms(2) cancelled_step in auto)
  then show ?thesis using assms(3) by simp
qed

lemma cancelled_stays: "pool_reach ef s s' \<Longrightarrow> pl_cancel s \<Longrightarrow> pl_cancel s'"
  by (induction rule: pool_reach.induct) (use cancelled_step in auto)

text \<open>From every reachable state the pool can be run to its end.\<close>

lemma pool_reach_trans: "pool_reach ef s s' \<Longrightarrow> pool_reach ef s' s'' \<Longrightarrow> pool_reach ef s s''"
  by (rotate_tac, induction rule: pool_reach.induct) (auto intro: pool_reach.step)

lemma can_finish:
  assumes "pool_inv conc ids s" "0 < conc"
    and "\<And>t d. \<exists>d'. ef_mark ef t d d'" "\<And>t d. \<exists>g d'. ef_end ef t g d d'"
  shows "\<exists>s'. pool_reach ef s s' \<and> finished s'"
  using assms(1)
proof (induction "pool_rank s" arbitrary: s rule: less_induct)
  case less
  show ?case
  proof (cases "finished s")
    case True
    then show ?thesis using pool_reach.refl by blast
  next
    case False
    then obtain s1 where s1: "pool_step ef s s1" "pl_work s1 \<noteq> pl_work s"
      using pool_progress [OF less.prems assms(2)] assms(3,4) by blast
    then have "pool_rank s1 < pool_rank s" "pool_inv conc ids s1"
      using rank_step less.prems pool_inv_step by blast+
    then obtain s' where "pool_reach ef s1 s'" "finished s'" using less.hyps by blast
    then show ?thesis using pool_reach_trans pool_reach.step [OF pool_reach.refl s1(1)] by blast
  qed
qed

section \<open>The ledger of task states\<close>

text \<open>What the schedule needs of the data: every effect on a task shows in that task's state
  alone, and the state it ends in tells whether it succeeded.\<close>

locale job_ledger =
  fixes ef :: "'d effects" and state :: "'d \<Rightarrow> int \<Rightarrow> string option" and bad :: "string set"
  assumes completed_not_bad: "''completed'' \<notin> bad"
    and mark_state: "ef_mark ef t d d' \<Longrightarrow> state d t \<noteq> None \<Longrightarrow> \<exists>b \<in> bad. state d' t = Some b"
    and mark_frame: "ef_mark ef t d d' \<Longrightarrow> u \<noteq> t \<Longrightarrow> state d' u = state d u"
    and work_keeps: "ef_work ef t d d' \<Longrightarrow> state d t \<noteq> None \<Longrightarrow> state d' t \<noteq> None"
    and work_frame: "ef_work ef t d d' \<Longrightarrow> u \<noteq> t \<Longrightarrow> state d' u = state d u"
    and end_good: "ef_end ef t True d d' \<Longrightarrow> state d t \<noteq> None \<Longrightarrow> state d' t = Some ''completed''"
    and end_bad: "ef_end ef t False d d' \<Longrightarrow> state d t \<noteq> None \<Longrightarrow> \<exists>b \<in> bad. state d' t = Some b"
    and end_frame: "ef_end ef t g d d' \<Longrightarrow> u \<noteq> t \<Longrightarrow> state d' u = state d u"
    and env_frame: "ef_env ef d d' \<Longrightarrow> state d u \<noteq> None \<Longrightarrow> state d' u = state d u"
begin

definition in_phase :: "phase \<Rightarrow> string option \<Rightarrow> bool" where
  "in_phase p x = (case p of Finished True \<Rightarrow> x = Some ''completed'' | Finished False \<Rightarrow> (\<exists>b \<in> bad. x = Some b)
     | _ \<Rightarrow> x \<noteq> None)"

definition ledger_ok :: "'d pool \<Rightarrow> bool" where
  "ledger_ok s = (\<forall>t p. phase_of s t = Some p \<longrightarrow> in_phase p (state (pl_data s) t))"

lemma in_phase_simps [simp]:
  "in_phase Spawned x \<longleftrightarrow> x \<noteq> None" "in_phase Waiting x \<longleftrightarrow> x \<noteq> None" "in_phase Running x \<longleftrightarrow> x \<noteq> None"
  "in_phase (Finished True) x \<longleftrightarrow> x = Some ''completed''" "in_phase (Finished False) x \<longleftrightarrow> (\<exists>b \<in> bad. x = Some b)"
  by (simp_all add: in_phase_def)

lemma ledger_okD: "ledger_ok s \<Longrightarrow> phase_of s t = Some p \<Longrightarrow> in_phase p (state (pl_data s) t)"
  by (simp add: ledger_ok_def)

lemma ledger_step:
  assumes "pool_step ef s s'" "ledger_ok s"
  shows "ledger_ok s'"
  using assms
proof cases
  case (skip t d')
  then have "\<exists>b \<in> bad. state d' t = Some b" using ledger_okD [OF assms(2) skip(2)] mark_state [OF skip(4)] by simp
  then show ?thesis using skip ledger_okD [OF assms(2)] mark_frame [OF skip(4)]
    by (auto simp: ledger_ok_def phase_of_set split: if_splits)
next
  case (drop t d')
  then have "\<exists>b \<in> bad. state d' t = Some b" using ledger_okD [OF assms(2) drop(2)] mark_state [OF drop(5)] by simp
  then show ?thesis using drop ledger_okD [OF assms(2)] mark_frame [OF drop(5)]
    by (auto simp: ledger_ok_def phase_of_set split: if_splits)
next
  case (work t d')
  have "in_phase p (state d' u)" if "phase_of s u = Some p" for u p
    using ledger_okD [OF assms(2) that] work that work_keeps [OF work(3)] work_frame [OF work(3), of u]
    by (cases "u = t") auto
  then show ?thesis using work by (simp add: ledger_ok_def)
next
  case (leave t g d')
  then have "in_phase (Finished g) (state d' t)"
    using ledger_okD [OF assms(2) leave(2)] end_good end_bad by (cases g) auto
  then show ?thesis using leave ledger_okD [OF assms(2)] end_frame [OF leave(3)]
    by (auto simp: ledger_ok_def phase_of_set split: if_splits)
next
  case (env d')
  have "in_phase p (state d' u)" if "phase_of s u = Some p" for u p
    using ledger_okD [OF assms(2) that] env_frame [OF env(2), of u] completed_not_bad
    by (cases "state (pl_data s) u"; cases p rule: phase.exhaust) (auto simp: in_phase_def split: bool.splits)
  then show ?thesis using env by (simp add: ledger_ok_def)
next
  case (queue t)
  then show ?thesis using ledger_okD [OF assms(2)] ledger_okD [OF assms(2) queue(2)] by (auto simp: ledger_ok_def phase_of_set split: if_splits)
next
  case (enter t)
  then show ?thesis using ledger_okD [OF assms(2)] ledger_okD [OF assms(2) enter(2)] by (auto simp: ledger_ok_def phase_of_set split: if_splits)
qed (simp add: ledger_ok_def)

lemma ledger_reach:
  assumes "pool_reach ef s0 s" "ledger_ok s0"
  shows "ledger_ok s"
  using assms by induction (auto intro: ledger_step)

lemma ledger_new: "(\<forall>t \<in> set ids. state d t \<noteq> None) \<Longrightarrow> ledger_ok (new_pool conc ids d)"
  by (auto simp: ledger_ok_def phase_of_def new_pool_def map_of_eq_None_iff dest!: map_of_SomeD)

text \<open>When every worker is finished the counters are the numbers of rows in each outcome.\<close>

lemma ledger_counts:
  assumes "ledger_ok s" "pool_inv conc ids s" "finished s"
  shows "pl_ok s = length (filter (\<lambda>t. state (pl_data s) t = Some ''completed'') ids) \<and>
    pl_bad s = length (filter (\<lambda>t. \<exists>b \<in> bad. state (pl_data s) t = Some b) ids)"
proof -
  let ?st = "state (pl_data s)"
  have dist: "distinct (List.map fst (pl_work s))" and ids: "ids = List.map fst (pl_work s)"
    using assms(2) by (auto simp: pool_inv_def)
  have "in_phase p (?st t)" if "(t, p) \<in> set (pl_work s)" for t p
    using ledger_okD [OF assms(1)] that dist by (simp add: phase_of_def)
  moreover have "p = Finished True \<or> p = Finished False" if "(t, p) \<in> set (pl_work s)" for t p
    using assms(3) that by (auto simp: finished_def list_all_iff)
  ultimately have eq: "\<forall>x \<in> set (pl_work s). (snd x = Finished True \<longleftrightarrow> ?st (fst x) = Some ''completed'') \<and>
      (snd x = Finished False \<longleftrightarrow> (\<exists>b \<in> bad. ?st (fst x) = Some b))"
    using completed_not_bad by fastforce
  then have "filter (\<lambda>x. snd x = Finished True) (pl_work s) = filter (\<lambda>x. ?st (fst x) = Some ''completed'') (pl_work s)"
    "filter (\<lambda>x. snd x = Finished False) (pl_work s) = filter (\<lambda>x. \<exists>b \<in> bad. ?st (fst x) = Some b) (pl_work s)"
    by (auto cong: filter_cong)
  then show ?thesis using assms(2)
    by (simp add: pool_inv_def count_phase_def ids comp_def filter_map [of _ fst])
qed

end

end
