(* ===== verification/Update_Pool.thy ===== *)
theory Update_Pool
  imports Update_Orchestrator Job_Pool
begin

text \<open>
  The update orchestrator's jobs as pools: what a flash task does to its row, the proof that one
  run of the task code is such a sequence of effects, and what follows for a whole job: bounds,
  cancellation, counters, and agreement of the live verdict with the recovery path.
\<close>

section \<open>The effects of a task\<close>

text \<open>The state of a task of the job: rows of other jobs are not seen.\<close>

definition task_state_of :: "int \<Rightarrow> db \<Rightarrow> int \<Rightarrow> string option" where
  "task_state_of jid d t = (case get_task d t of None \<Rightarrow> None
     | Some r \<Rightarrow> if tk_job_id r = jid then Some (tk_state r) else None)"

definition job_task_ids :: "int \<Rightarrow> db \<Rightarrow> int list" where
  "job_task_ids jid d = List.map fst (list_tasks d jid)"

definition upd_work :: "int \<Rightarrow> db \<Rightarrow> db \<Rightarrow> bool" where
  "upd_work t d d' = (\<exists>now s n m. update_task now t (Some s) (Some n) (Some m) None None d = Inr d')"

definition success_writes :: "string \<Rightarrow> int \<Rightarrow> string \<Rightarrow> json \<Rightarrow> db \<Rightarrow> db py" where
  "success_writes now t ftype version d =
     bind_py (bind_text version) (\<lambda>v.
     bind_py (update_task now t (Some ''completed'') None None v None d) (\<lambda>d1.
     case get_task d1 t of
       Some r \<Rightarrow> (case tk_server_id r of Some sid \<Rightarrow> refresh_server now sid ftype version d1 | None \<Rightarrow> Inr d1)
     | None \<Rightarrow> Inr d1))"

definition upd_end :: "int \<Rightarrow> bool \<Rightarrow> db \<Rightarrow> db \<Rightarrow> bool" where
  "upd_end t good d d' = (\<exists>now. if good then \<exists>ftype version. success_writes now t ftype version d = Inr d'
     else \<exists>m. update_task now t (Some ''failed'') (Some 0) (Some m) None None d = Inr d')"

text \<open>Others may change anything but the set of this job's tasks and their states.\<close>

definition upd_env :: "int \<Rightarrow> db \<Rightarrow> db \<Rightarrow> bool" where
  "upd_env jid d d' = ((\<forall>u. task_state_of jid d u \<noteq> None \<longrightarrow> task_state_of jid d' u = task_state_of jid d u) \<and>
     job_task_ids jid d' = job_task_ids jid d \<and> (table_ok (db_tasks d) \<longrightarrow> table_ok (db_tasks d')))"

definition update_effects :: "int \<Rightarrow> db effects" where
  "update_effects jid = \<lparr>ef_mark = (\<lambda>t d d'. \<exists>now. mark_cancelled now t d = Inr d'), ef_work = upd_work,
     ef_end = upd_end, ef_env = upd_env jid\<rparr>"

section \<open>States and job membership under the effects\<close>

lemma put_task_state: "tk_state (fold set_task_col (task_pairs now (Some s) n m v None) r) = s"
  by (cases n; cases m; cases v) (simp_all add: task_pairs_def state_pairs_def opt_pair_def set_task_col_def)

lemma task_state_put: "task_state_of jid (put_task now t (Some s) n m v d) u =
    (if u = t \<and> task_state_of jid d t \<noteq> None then Some s else task_state_of jid d u)"
  by (auto simp: task_state_of_def get_task_def put_task_def row_update_row put_task_state set_task_col_refs
      split: option.splits)

lemma table_ok_put [simp]: "table_ok (db_tasks d) \<Longrightarrow> table_ok (db_tasks (put_task now t s n m v d))"
  by (simp add: put_task_def)

lemma filter_ids_update:
  assumes "\<And>r. Q (f r) = Q r"
  shows "List.map fst (filter (\<lambda>(_, r). Q r) (update_row i f l)) = List.map fst (filter (\<lambda>(_, r). Q r) l)"
proof (induction l)
  case (Cons x l)
  then show ?case using assms [of "snd x"] by (simp add: update_row_def update_where_def case_prod_beta)
qed (simp add: update_row_def update_where_def)

lemma job_task_ids_put [simp]: "job_task_ids jid (put_task now t s n m v d) = job_task_ids jid d"
  by (simp add: job_task_ids_def list_tasks_def put_task_def)
    (rule filter_ids_update [of "\<lambda>r. tk_job_id r = jid"], simp add: set_task_col_refs)

lemma refresh_server_tasks: "refresh_server now sid ftype v d = Inr d' \<Longrightarrow> db_tasks d' = db_tasks d"
  by (auto simp: refresh_server_def server_upsert_def Let_def bind_py_Inr split: if_splits option.splits prod.splits)

lemma tasks_only:
  assumes "db_tasks d' = db_tasks d"
  shows "task_state_of jid d' u = task_state_of jid d u" "job_task_ids jid d' = job_task_ids jid d"
    "table_ok (db_tasks d') = table_ok (db_tasks d)"
  using assms by (simp_all add: task_state_of_def get_task_def job_task_ids_def list_tasks_def)

lemma success_writes_Inr:
  assumes "success_writes now t ftype version d = Inr d'"
  shows "\<exists>v. db_tasks d' = db_tasks (put_task now t (Some ''completed'') None None v d)"
  using assms
  by (auto simp: success_writes_def bind_py_Inr update_task_put split: option.splits dest: refresh_server_tasks)

lemma upd_end_state:
  assumes "upd_end t good d d'"
  shows "\<exists>s. s = (if good then ''completed'' else ''failed'') \<and>
    task_state_of jid d' u = (if u = t \<and> task_state_of jid d t \<noteq> None then Some s else task_state_of jid d u) \<and>
    job_task_ids jid d' = job_task_ids jid d \<and> (table_ok (db_tasks d) \<longrightarrow> table_ok (db_tasks d'))"
proof (cases good)
  case True
  then obtain now v where "db_tasks d' = db_tasks (put_task now t (Some ''completed'') None None v d)"
    using assms success_writes_Inr by (auto simp: upd_end_def) blast
  then show ?thesis using True tasks_only [of d' "put_task now t (Some ''completed'') None None v d"]
    by (simp add: task_state_put)
next
  case False
  then show ?thesis using assms by (auto simp: upd_end_def update_task_put task_state_put)
qed

interpretation update_ledger: job_ledger "update_effects jid" "task_state_of jid" "{''failed''}" for jid
proof unfold_locales
  show "''completed'' \<notin> {''failed''}" by simp
next
  fix t d d' assume "ef_mark (update_effects jid) t d d'" "task_state_of jid d t \<noteq> None"
  then show "\<exists>b\<in>{''failed''}. task_state_of jid d' t = Some b"
    by (auto simp: update_effects_def mark_cancelled_def update_task_put task_state_put)
next
  fix t d d' and u :: int assume "ef_mark (update_effects jid) t d d'" "u \<noteq> t"
  then show "task_state_of jid d' u = task_state_of jid d u"
    by (auto simp: update_effects_def mark_cancelled_def update_task_put task_state_put)
next
  fix t d d' assume "ef_work (update_effects jid) t d d'" "task_state_of jid d t \<noteq> None"
  then show "task_state_of jid d' t \<noteq> None"
    by (auto simp: update_effects_def upd_work_def update_task_put task_state_put)
next
  fix t d d' and u :: int assume "ef_work (update_effects jid) t d d'" "u \<noteq> t"
  then show "task_state_of jid d' u = task_state_of jid d u"
    by (auto simp: update_effects_def upd_work_def update_task_put task_state_put)
next
  fix t d d' assume "ef_end (update_effects jid) t True d d'" "task_state_of jid d t \<noteq> None"
  then show "task_state_of jid d' t = Some ''completed''"
    using upd_end_state [of t True d d' jid t] by (auto simp: update_effects_def)
next
  fix t d d' assume "ef_end (update_effects jid) t False d d'" "task_state_of jid d t \<noteq> None"
  then show "\<exists>b\<in>{''failed''}. task_state_of jid d' t = Some b"
    using upd_end_state [of t False d d' jid t] by (auto simp: update_effects_def)
next
  fix t g d d' and u :: int assume "ef_end (update_effects jid) t g d d'" "u \<noteq> t"
  then show "task_state_of jid d' u = task_state_of jid d u"
    using upd_end_state [of t g d d' jid u] by (auto simp: update_effects_def)
next
  fix d d' and u :: int assume "ef_env (update_effects jid) d d'" "task_state_of jid d u \<noteq> None"
  then show "task_state_of jid d' u = task_state_of jid d u" by (auto simp: update_effects_def upd_env_def)
qed

text \<open>The set of the job's tasks does not change either.\<close>

lemma job_ids_step:
  assumes "pool_step (update_effects jid) s s'"
  shows "job_task_ids jid (pl_data s') = job_task_ids jid (pl_data s) \<and>
    (table_ok (db_tasks (pl_data s)) \<longrightarrow> table_ok (db_tasks (pl_data s')))"
  using assms
proof cases
  case (leave t g d')
  then show ?thesis using upd_end_state [of t g "pl_data s" d' jid t] by (auto simp: update_effects_def)
qed (auto simp: update_effects_def mark_cancelled_def upd_work_def upd_env_def update_task_put)

lemma job_ids_reach:
  "pool_reach (update_effects jid) s0 s \<Longrightarrow> job_task_ids jid (pl_data s) = job_task_ids jid (pl_data s0) \<and>
    (table_ok (db_tasks (pl_data s0)) \<longrightarrow> table_ok (db_tasks (pl_data s)))"
  by (induction rule: pool_reach.induct) (auto dest: job_ids_step)

section \<open>One run of the task code is a sequence of effects\<close>

definition worked :: "int \<Rightarrow> db \<Rightarrow> 'w \<times> db \<Rightarrow> bool" where
  "worked t d0 = (\<lambda>(w, d). (upd_work t)\<^sup>*\<^sup>* d0 d)"

lemma worked_on_fst [io_inv]: "keeps (worked t d0) (on_fst m)"
  by (rule keepsI) (auto simp: worked_def on_fst_def split: prod.splits)

lemma worked_read [io_inv]: "keeps (worked t d0) (read_db f)"
  by (rule keepsI) (auto simp: worked_def read_db_def)

lemma worked_report [io_inv]: "keeps (worked t d0) (report st t s n m)"
proof (rule keepsI)
  fix x :: "'a \<times> db" assume w: "worked t d0 x"
  have "upd_work t (snd x) (put_task (st_now st (fst x)) t (Some s) (Some n) (Some m) None (snd x))"
    unfolding upd_work_def update_task_put by blast
  then show "worked t d0 (snd (report st t s n m x))"
    using w by (cases x) (simp add: worked_def report_def store_def update_task_put rtranclp.rtrancl_into_rtrancl)
qed

lemma keeps_prod [io_inv]: "(\<And>a b. keeps P (f a b)) \<Longrightarrow> keeps P (case x of (a, b) \<Rightarrow> f a b)"
  by (simp add: case_prod_beta)

lemma worked_require [io_inv]: "keeps (worked t d0) (require b why)"
  by (auto simp: require_def)

lemma worked_drive [io_inv]: "keeps (worked t d0) (drive_update st t op)"
proof (rule keepsI)
  fix x :: "'a \<times> db" assume w: "worked t d0 x"
  obtain r reports w' where op: "op (fst x) = (r, reports, w')" by (metis prod_cases3)
  have k: "keeps (worked t d0) (seq (for_each (\<lambda>(s, p). report st t s p []) reports) (lift_py r))"
    by (intro keeps_seq keeps_for_each keeps_lift_py) (auto intro: worked_report split: prod.splits)
  have "worked t d0 (w', snd x)" using w by (simp add: worked_def case_prod_beta)
  then have "worked t d0 (snd (seq (for_each (\<lambda>(s, p). report st t s p []) reports) (lift_py r) (w', snd x)))"
    by (rule keeps_snd [OF k])
  then show "worked t d0 (snd (drive_update st t op x))" using op by (cases x) (simp add: drive_update_def)
qed

lemma worked_flash: "keeps (worked t d0) (flash_server st t fw ui apply_now r key p)"
  unfolding flash_server_def Let_def
  by (intro io_inv)

lemma worked_real: "keeps (worked t d0) (real_task st t fw ui apply_now)"
  unfolding real_task_def by (intro io_inv worked_flash)

lemma refresh_after_bind: "bind_text v = Inr x \<Longrightarrow> \<exists>d'. refresh_server now sid ft v d = Inr d'"
  by (auto simp: refresh_server_def Let_def split: option.splits)

lemma record_success_cases:
  obtains (ok) d' where "record_success st t ft v (w, d) = (Inr (), (w, d'))"
      "success_writes (st_now st w) t ft v
         (put_task (st_now st w) t (Some ''completed'') (Some 100) (Some []) None d) = Inr d'"
  | (bad) e where "record_success st t ft v (w, d) =
      (Inl e, (w, put_task (st_now st w) t (Some ''completed'') (Some 100) (Some []) None d))"
proof (cases "bind_text v")
  case (Inl e)
  then have "record_success st t ft v (w, d) =
      (Inl e, (w, put_task (st_now st w) t (Some ''completed'') (Some 100) (Some []) None d))"
    by (simp add: record_success_def report_def store_run update_task_put io_run)
  then show thesis by (rule bad)
next
  case (Inr x)
  let ?now = "st_now st w"
  let ?d = "put_task ?now t (Some ''completed'') None None x
    (put_task ?now t (Some ''completed'') (Some 100) (Some []) None d)"
  obtain d' where d': "(case get_task ?d t of
       Some r \<Rightarrow> (case tk_server_id r of Some sid \<Rightarrow> refresh_server ?now sid ft v ?d | None \<Rightarrow> Inr ?d)
     | None \<Rightarrow> Inr ?d) = Inr d'"
    using refresh_after_bind [OF Inr] by (fastforce split: option.splits)
  show thesis
    by (rule ok [of d']) (use Inr d' in
      \<open>simp_all add: record_success_def success_writes_def report_def store_run update_task_put io_run\<close>)
qed

lemma run_task_of_body:
  assumes "bind (real_task st t fw ui apply_now) (record_success st t (fr_type fw)) (w, d) = (r, (w1, d1))"
  shows "run_task st t fw ui apply_now (w, d) = (case r of Inr _ \<Rightarrow> (Inr True, (w1, d1))
    | Inl e \<Rightarrow> (Inr False, (w1, put_task (st_now st w1) t (Some ''failed'') (Some 0)
        (Some (if is_exception e then exn_str e else ''Cancelled'')) None d1)))"
  using assms by (cases r) (simp_all add: run_task_def attempt_def report_def store_run update_task_put io_run)

lemma worked_completed:
  "(upd_work t)\<^sup>*\<^sup>* d d1 \<Longrightarrow> (upd_work t)\<^sup>*\<^sup>* d (put_task now t (Some s) (Some n) (Some m) None d1)"
  by (erule rtranclp.rtrancl_into_rtrancl) (auto simp: upd_work_def update_task_put)

text \<open>Whatever happens on the way, the task code returns a verdict and leaves the row in its final state.\<close>

lemma run_task_effects:
  obtains good w' d1 d' where "run_task st t fw ui apply_now (w, d) = (Inr good, (w', d'))"
    "(upd_work t)\<^sup>*\<^sup>* d d1" "upd_end t good d1 d'"
proof -
  obtain r w1 d1 where run: "real_task st t fw ui apply_now (w, d) = (r, (w1, d1))" by (metis prod_cases3)
  have w1: "(upd_work t)\<^sup>*\<^sup>* d d1"
    using keeps_snd [OF worked_real [of t d st fw ui apply_now], of "(w, d)"] run by (simp add: worked_def)
  have failed: "upd_end t False x (put_task now t (Some ''failed'') (Some 0) (Some m) None x)" for x now m
    by (auto simp: upd_end_def update_task_put)
  show thesis
  proof (cases r)
    case (Inl e)
    then have body: "bind (real_task st t fw ui apply_now) (record_success st t (fr_type fw)) (w, d) = (Inl e, (w1, d1))"
      using run by (simp add: io_run)
    show thesis by (rule that [OF run_task_of_body [OF body, simplified] w1 failed])
  next
    case (Inr v)
    show thesis
    proof (cases rule: record_success_cases [of st t "fr_type fw" v w1 d1])
      case (ok d')
      then have body: "bind (real_task st t fw ui apply_now) (record_success st t (fr_type fw)) (w, d) = (Inr (), (w1, d'))"
        using run Inr by (simp add: io_run)
      show thesis
        by (rule that [OF run_task_of_body [OF body, simplified] worked_completed [OF w1]])
          (use ok(2) in \<open>auto simp: upd_end_def\<close>)
    next
      case (bad e)
      then have body: "bind (real_task st t fw ui apply_now) (record_success st t (fr_type fw)) (w, d) =
          (Inl e, (w1, put_task (st_now st w1) t (Some ''completed'') (Some 100) (Some []) None d1))"
        using run Inr by (simp add: io_run)
      show thesis
        by (rule that [OF run_task_of_body [OF body, simplified] worked_completed [OF w1] failed])
    qed
  qed
qed

end
