(* ===== verification/Db_Integrity.thy ===== *)
theory Db_Integrity
  imports Job_Repos
begin

text \<open>
  What every repository operation keeps of the database: keys are distinct and increasing,
  server addresses and image hashes unique, and every foreign key points to an existing row.
  \<open>db_step\<close> is one operation of one repository, \<open>db_reach\<close> what they make of an empty database.
\<close>

section \<open>Operations as steps\<close>

inductive db_step :: "db \<Rightarrow> db \<Rightarrow> bool" where
  upsert: "db_step d (snd (server_upsert now ip cols d))"
| oem: "db_step d (snd (set_oem_override now sid oem d))"
| status: "db_step d (set_status now sid st d)"
| disks: "db_step d (snd (set_disks_by_ip now ip disks d))"
| fpr: "db_step d (snd (set_tls_fpr_by_ip now ip f d))"
| del_server: "db_step d (server_delete sid d)"
| add_fw: "db_step d (snd (firmware_add now fw d))"
| del_fw: "db_step d (snd (firmware_delete fid d))"
| add_iso: "db_step d (snd (iso_add now img d))"
| del_iso: "db_step d (snd (iso_delete iid d))"
| add_profile: "db_step d (snd (profile_add now name strategy allow onm notes d))"
| del_profile: "db_step d (snd (profile_delete pid d))"
| add_cred: "db_step d (snd (credential_add now label user secret scope d))"
| del_cred: "db_step d (credential_delete cid d)"
| setting: "db_step d (setting_set key v d)"
| log: "db_step d (snd (activity_log now a d))"
| new_job: "db_step d (snd (create_job now ftype conc apply_time by d))"
| job: "update_job_state jid st n_total succ fail d = Inr d' \<Longrightarrow> db_step d d'"
| new_task: "create_task now jid sid fid ver d = Inr (tid, d') \<Longrightarrow> db_step d d'"
| task: "update_task now tid st prog msg ver uri d = Inr d' \<Longrightarrow> db_step d d'"
| fail_jobs: "db_step d (snd (fail_non_terminal_jobs d))"
| fail_jobs_except: "db_step d (snd (fail_non_terminal_jobs_except keep d))"
| finalize: "finalize_job_from_tasks jid d = Inr (s, d') \<Longrightarrow> db_step d d'"
| new_prov_job: "prov_create_job now iid osp dp conc confirm by d = Inr (jid, d') \<Longrightarrow> db_step d d'"
| prov_job: "prov_update_job_state jid st n_total succ fail d = Inr d' \<Longrightarrow> db_step d d'"
| new_prov_task: "prov_create_task now jid sid resolved d = Inr (tid, d') \<Longrightarrow> db_step d d'"
| prov_task: "prov_update_task now tid st prog msg sha d = Inr d' \<Longrightarrow> db_step d d'"
| prov_fail: "db_step d (snd (prov_fail_tasks now msg d))"
| prov_fail_jobs: "db_step d (snd (prov_fail_jobs d))"

inductive db_reach :: "db \<Rightarrow> bool" where
  start: "db_reach empty_db"
| step: "db_reach d \<Longrightarrow> db_step d d' \<Longrightarrow> db_reach d'"

section \<open>References survive\<close>

definition grows :: "'a table \<Rightarrow> 'a table \<Rightarrow> bool" where
  "grows t t' = (\<forall>i. row t i \<noteq> None \<longrightarrow> row t' i \<noteq> None)"

lemma grows_refl [simp]: "grows t t"
  by (simp add: grows_def)

lemma grows_update [simp]: "grows t (update_where p f t)" "grows t (update_row i f t)"
  by (simp_all add: grows_def row_update row_update_row)

lemma grows_insert [simp]: "insert_row r t = (i, t') \<Longrightarrow> grows t t'"
  by (simp add: grows_def row_insert)

lemma fk_grows: "grows t t' \<Longrightarrow> fk_ok x t \<Longrightarrow> fk_ok x t'"
  by (cases x) (auto simp: grows_def)

lemma task_refs_grows:
  "task_refs_ok d r \<Longrightarrow> grows (db_jobs d) (db_jobs d') \<Longrightarrow> grows (db_servers d) (db_servers d') \<Longrightarrow>
     grows (db_firmware d) (db_firmware d') \<Longrightarrow> task_refs_ok d' r"
  unfolding task_refs_ok_def using fk_grows [of "db_servers d" "db_servers d'" "tk_server_id r"]
    fk_grows [of "db_firmware d" "db_firmware d'" "tk_firmware_id r"] by (auto simp: grows_def)

lemma prov_job_refs_grows:
  "prov_job_refs_ok d r \<Longrightarrow> grows (db_isos d) (db_isos d') \<Longrightarrow> grows (db_os_profiles d) (db_os_profiles d') \<Longrightarrow>
     grows (db_disk_profiles d) (db_disk_profiles d') \<Longrightarrow> prov_job_refs_ok d' r"
  unfolding prov_job_refs_ok_def using fk_grows [of "db_isos d" "db_isos d'" "pj_iso_id r"]
    fk_grows [of "db_os_profiles d" "db_os_profiles d'" "pj_os_profile_id r"]
    fk_grows [of "db_disk_profiles d" "db_disk_profiles d'" "pj_disk_profile_id r"] by blast

lemma prov_task_refs_grows:
  "prov_task_refs_ok d r \<Longrightarrow> grows (db_prov_jobs d) (db_prov_jobs d') \<Longrightarrow> grows (db_servers d) (db_servers d') \<Longrightarrow>
     prov_task_refs_ok d' r"
  unfolding prov_task_refs_ok_def using fk_grows [of "db_servers d" "db_servers d'" "pt_server_id r"]
  by (auto simp: grows_def)

text \<open>An operation that only adds rows or changes columns other than the references.\<close>

definition rows_from :: "('r \<Rightarrow> 'k) \<Rightarrow> ('r \<Rightarrow> bool) \<Rightarrow> 'r table \<Rightarrow> 'r table \<Rightarrow> bool" where
  "rows_from key fresh t t' = (\<forall>(i, r) \<in> set t'. fresh r \<or> (\<exists>r0. (i, r0) \<in> set t \<and> key r = key r0))"

lemma rows_from_refl [simp]: "rows_from key fresh t t"
  by (auto simp: rows_from_def)

lemma rows_from_update: "(\<And>r. key (f r) = key r) \<Longrightarrow> rows_from key fresh t (update_where p f t)"
  by (auto simp: rows_from_def update_where_def)

lemma rows_from_insert: "insert_row r t = (i, t') \<Longrightarrow> fresh r \<Longrightarrow> rows_from key fresh t t'"
  by (auto simp: rows_from_def insert_row_def)

definition task_key :: "task_row \<Rightarrow> int \<times> int option \<times> int option" where
  "task_key r = (tk_job_id r, tk_server_id r, tk_firmware_id r)"

definition prov_job_key :: "prov_job_row \<Rightarrow> int option \<times> int option \<times> int option" where
  "prov_job_key r = (pj_iso_id r, pj_os_profile_id r, pj_disk_profile_id r)"

definition prov_task_key :: "prov_task_row \<Rightarrow> int \<times> int option" where
  "prov_task_key r = (pt_job_id r, pt_server_id r)"

lemma rows_fromD: "rows_from key fresh t t' \<Longrightarrow> (i, r) \<in> set t' \<Longrightarrow> fresh r \<or> (\<exists>r0. (i, r0) \<in> set t \<and> key r = key r0)"
  by (auto simp: rows_from_def)

lemma task_refs_key: "task_key r = task_key r0 \<Longrightarrow> task_refs_ok d r = task_refs_ok d r0"
  by (simp add: task_refs_ok_def task_key_def)

lemma prov_job_refs_key: "prov_job_key r = prov_job_key r0 \<Longrightarrow> prov_job_refs_ok d r = prov_job_refs_ok d r0"
  by (simp add: prov_job_refs_ok_def prov_job_key_def)

lemma prov_task_refs_key: "prov_task_key r = prov_task_key r0 \<Longrightarrow> prov_task_refs_ok d r = prov_task_refs_ok d r0"
  by (simp add: prov_task_refs_ok_def prov_task_key_def)

lemma refs_okD:
  "refs_ok d \<Longrightarrow> (i, r) \<in> set (db_tasks d) \<Longrightarrow> task_refs_ok d r"
  "refs_ok d \<Longrightarrow> (i, q) \<in> set (db_prov_jobs d) \<Longrightarrow> prov_job_refs_ok d q"
  "refs_ok d \<Longrightarrow> (i, u) \<in> set (db_prov_tasks d) \<Longrightarrow> prov_task_refs_ok d u"
  by (auto simp: refs_ok_def)

lemma refs_ok_mono:
  assumes "refs_ok d"
    and "grows (db_jobs d) (db_jobs d')" "grows (db_servers d) (db_servers d')" "grows (db_firmware d) (db_firmware d')"
    and "grows (db_isos d) (db_isos d')" "grows (db_os_profiles d) (db_os_profiles d')"
    and "grows (db_disk_profiles d) (db_disk_profiles d')" "grows (db_prov_jobs d) (db_prov_jobs d')"
    and "rows_from task_key (task_refs_ok d) (db_tasks d) (db_tasks d')"
    and "rows_from prov_job_key (prov_job_refs_ok d) (db_prov_jobs d) (db_prov_jobs d')"
    and "rows_from prov_task_key (prov_task_refs_ok d) (db_prov_tasks d) (db_prov_tasks d')"
  shows "refs_ok d'"
proof -
  have "task_refs_ok d' r" if r: "(i, r) \<in> set (db_tasks d')" for i r
  proof -
    have "task_refs_ok d r"
      using rows_fromD [OF assms(9) r] refs_okD [OF assms(1)] task_refs_key by blast
    then show ?thesis using assms(2-4) by (rule task_refs_grows)
  qed
  moreover have "prov_job_refs_ok d' r" if r: "(i, r) \<in> set (db_prov_jobs d')" for i r
  proof -
    have "prov_job_refs_ok d r"
      using rows_fromD [OF assms(10) r] refs_okD [OF assms(1)] prov_job_refs_key by blast
    then show ?thesis using assms(5-7) by (rule prov_job_refs_grows)
  qed
  moreover have "prov_task_refs_ok d' r" if r: "(i, r) \<in> set (db_prov_tasks d')" for i r
  proof -
    have "prov_task_refs_ok d r"
      using rows_fromD [OF assms(11) r] refs_okD [OF assms(1)] prov_task_refs_key by blast
    then show ?thesis using assms(8,3) by (rule prov_task_refs_grows)
  qed
  ultimately show ?thesis by (auto simp: refs_ok_def)
qed

text \<open>Deleting a row and clearing the references to it.\<close>

lemma fk_delete:
  assumes "table_ok t" "fk_ok x t" "x \<noteq> Some k"
  shows "fk_ok x (delete_where (\<lambda>i _. i = k) t)"
  using assms by (cases x) (auto simp: row_delete split: option.splits)

lemma task_key_cols: "task_key (fold set_task_col ps r) = task_key r"
  by (simp add: task_key_def set_task_col_refs)

lemma prov_job_key_cols: "prov_job_key (fold set_prov_job_col ps r) = prov_job_key r"
  by (simp add: prov_job_key_def set_prov_job_col_refs)

lemma prov_task_key_cols: "prov_task_key (fold set_prov_task_col ps r) = prov_task_key r"
  by (simp add: prov_task_key_def set_prov_task_col_refs)

lemmas op_defs = server_upsert_def set_oem_override_def set_status_def set_disks_by_ip_def set_tls_fpr_by_ip_def
  server_delete_def firmware_add_def firmware_delete_def iso_add_def iso_delete_def profile_add_def profile_delete_def
  credential_add_def credential_delete_def setting_set_def activity_log_def create_job_def create_task_def
  fail_non_terminal_jobs_def fail_non_terminal_jobs_except_def prov_create_job_def prov_create_task_def
  prov_fail_tasks_def prov_fail_jobs_def update_job_state_put prov_update_job_state_put prov_update_task_put
  put_job_def put_prov_job_def put_prov_task_def

section \<open>Keys and uniqueness\<close>

lemma table_ok_snoc: "table_ok t \<Longrightarrow> table_ok (t @ [(next_rowid t, r)])"
  using table_ok_insert [of t r] by (simp add: insert_row_def)

lemma step_tables_ok: "db_step d d' \<Longrightarrow> tables_ok d \<Longrightarrow> tables_ok d'"
proof (induction rule: db_step.induct)
  case (task now tid st prog msg ver uri d d')
  then show ?case using update_task_Inr [OF task(1)] by (simp add: tables_ok_def)
next
  case (finalize jid d s d')
  then show ?case using finalize_Inr by (fastforce simp: put_job_def tables_ok_def)
qed (simp_all add: tables_ok_def op_defs Let_def insert_row_def table_ok_snoc table_ok_update table_ok_delete
    split: option.split prod.split if_splits, auto simp: table_ok_snoc table_ok_update)

lemma unique_col_snoc: "unique_col c (t @ [(i, r)]) \<longleftrightarrow> unique_col c t \<and> c r \<notin> c ` snd ` set t"
  by (auto simp: unique_col_def image_comp)

lemma find_row_fresh: "find_row (\<lambda>_ r. c r = x) t = None \<Longrightarrow> x \<notin> c ` snd ` set t"
  by (auto dest: find_row_None)

lemma refresh_row_ip [simp]: "sr_ip (refresh_row now cols b r) = sr_ip r"
  by (simp add: refresh_row_def)

lemma step_uniques_ok: "db_step d d' \<Longrightarrow> uniques_ok d \<Longrightarrow> uniques_ok d'"
proof (induction rule: db_step.induct)
  case (task now tid st prog msg ver uri d d')
  then show ?case using update_task_Inr [OF task(1)] by (simp add: uniques_ok_def)
next
  case (finalize jid d s d')
  then show ?case using finalize_Inr by (fastforce simp: put_job_def uniques_ok_def)
qed (auto simp: uniques_ok_def op_defs Let_def insert_row_def unique_col_snoc unique_col_update unique_col_delete
    server_by_ip_def iso_get_by_sha_def new_server_row_def update_row_def distinct_update
    split: option.split if_splits dest!: find_row_fresh)

section \<open>References\<close>

lemma refs_del_server:
  assumes "tables_ok d" "refs_ok d"
  shows "refs_ok (server_delete sid d)"
proof -
  have t: "table_ok (db_servers d)" using assms(1) by (simp add: tables_ok_def)
  have "task_refs_ok (server_delete sid d) r" if r: "(i, r) \<in> set (db_tasks (server_delete sid d))" for i r
  proof -
    obtain r0 where "(i, r0) \<in> set (db_tasks d)" "r = (if tk_server_id r0 = Some sid then r0\<lparr>tk_server_id := None\<rparr> else r0)"
      using r by (auto simp: server_delete_def update_where_def)
    then show ?thesis using refs_okD(1) [OF assms(2)] t
      by (auto simp: task_refs_ok_def server_delete_def intro: fk_delete)
  qed
  moreover have "prov_task_refs_ok (server_delete sid d) r" if r: "(i, r) \<in> set (db_prov_tasks (server_delete sid d))" for i r
  proof -
    obtain r0 where "(i, r0) \<in> set (db_prov_tasks d)" "r = (if pt_server_id r0 = Some sid then r0\<lparr>pt_server_id := None\<rparr> else r0)"
      using r by (auto simp: server_delete_def update_where_def)
    then show ?thesis using refs_okD(3) [OF assms(2)] t
      by (auto simp: prov_task_refs_ok_def server_delete_def intro: fk_delete)
  qed
  ultimately show ?thesis
    using refs_okD(2) [OF assms(2)] by (auto simp: refs_ok_def server_delete_def prov_job_refs_ok_def)
qed

lemma refs_del_firmware:
  assumes "tables_ok d" "refs_ok d"
  shows "refs_ok (snd (firmware_delete fid d))"
proof -
  have t: "table_ok (db_firmware d)" using assms(1) by (simp add: tables_ok_def)
  have "task_refs_ok (snd (firmware_delete fid d)) r" if r: "(i, r) \<in> set (db_tasks (snd (firmware_delete fid d)))" for i r
  proof -
    obtain r0 where "(i, r0) \<in> set (db_tasks d)"
      "r = (if tk_firmware_id r0 = Some fid then r0\<lparr>tk_firmware_id := None\<rparr> else r0)"
      using r by (auto simp: firmware_delete_def update_where_def)
    then show ?thesis using refs_okD(1) [OF assms(2)] t
      by (auto simp: task_refs_ok_def firmware_delete_def intro: fk_delete)
  qed
  then show ?thesis using refs_okD(2,3) [OF assms(2)]
    by (auto simp: refs_ok_def firmware_delete_def prov_job_refs_ok_def prov_task_refs_ok_def)
qed

lemma refs_del_iso:
  assumes "tables_ok d" "refs_ok d"
  shows "refs_ok (snd (iso_delete iid d))"
proof -
  have t: "table_ok (db_isos d)" using assms(1) by (simp add: tables_ok_def)
  have "prov_job_refs_ok (snd (iso_delete iid d)) r" if r: "(i, r) \<in> set (db_prov_jobs (snd (iso_delete iid d)))" for i r
  proof -
    obtain r0 where "(i, r0) \<in> set (db_prov_jobs d)" "r = (if pj_iso_id r0 = Some iid then r0\<lparr>pj_iso_id := None\<rparr> else r0)"
      using r by (auto simp: iso_delete_def update_where_def)
    then show ?thesis using refs_okD(2) [OF assms(2)] t
      by (auto simp: prov_job_refs_ok_def iso_delete_def intro: fk_delete)
  qed
  moreover have "grows (db_prov_jobs d) (db_prov_jobs (snd (iso_delete iid d)))" by (simp add: iso_delete_def)
  ultimately show ?thesis using refs_okD(1,3) [OF assms(2)]
    by (auto simp: refs_ok_def iso_delete_def task_refs_ok_def prov_task_refs_ok_def grows_def)
qed

lemma refs_del_profile:
  assumes "tables_ok d" "refs_ok d"
  shows "refs_ok (snd (profile_delete pid d))"
proof -
  have t: "table_ok (db_disk_profiles d)" using assms(1) by (simp add: tables_ok_def)
  have "prov_job_refs_ok (snd (profile_delete pid d)) r"
    if r: "(i, r) \<in> set (db_prov_jobs (snd (profile_delete pid d)))" for i r
  proof -
    obtain r0 where "(i, r0) \<in> set (db_prov_jobs d)"
      "r = (if pj_disk_profile_id r0 = Some pid then r0\<lparr>pj_disk_profile_id := None\<rparr> else r0)"
      using r by (auto simp: profile_delete_def update_where_def)
    then show ?thesis using refs_okD(2) [OF assms(2)] t
      by (auto simp: prov_job_refs_ok_def profile_delete_def intro: fk_delete)
  qed
  moreover have "grows (db_prov_jobs d) (db_prov_jobs (snd (profile_delete pid d)))" by (simp add: profile_delete_def)
  ultimately show ?thesis using refs_okD(1,3) [OF assms(2)]
    by (auto simp: refs_ok_def profile_delete_def task_refs_ok_def prov_task_refs_ok_def grows_def)
qed

lemma step_refs_ok: "db_step d d' \<Longrightarrow> tables_ok d \<Longrightarrow> refs_ok d \<Longrightarrow> refs_ok d'"
proof (induction rule: db_step.induct)
  case (del_server d sid)
  then show ?case by (rule refs_del_server)
next
  case (del_fw d fid)
  then show ?case by (rule refs_del_firmware)
next
  case (del_iso d iid)
  then show ?case by (rule refs_del_iso)
next
  case (del_profile d pid)
  then show ?case by (rule refs_del_profile)
qed (auto simp: op_defs Let_def update_row_def task_key_def prov_job_key_def prov_task_key_def
    set_task_col_refs set_prov_job_col_refs set_prov_task_col_refs
    dest!: update_task_Inr finalize_Inr split: option.splits prod.splits if_splits
    elim!: refs_ok_mono intro!: rows_from_update intro: rows_from_insert)

lemma reach_db_ok: "db_reach d \<Longrightarrow> db_ok d"
proof (induction rule: db_reach.induct)
  case start
  then show ?case by (simp add: db_ok_def empty_db_def tables_ok_def uniques_ok_def refs_ok_def unique_col_def)
next
  case (step d d')
  then show ?case using step_tables_ok step_uniques_ok step_refs_ok by (auto simp: db_ok_def)
qed

section \<open>Properties\<close>

text \<open>Property C16. The database stays well-formed: whatever sequence of repository calls is made of an
  empty database, deletions and job recovery included, keys are increasing and unique, no two
  servers share an address and no two images a hash, and every reference of a task or job is
  \<open>NULL\<close> or points to a row that exists.\<close>

theorem repositories_keep_db_ok: "db_reach d \<Longrightarrow> tables_ok d \<and> uniques_ok d \<and> refs_ok d"
  using reach_db_ok by (auto simp: db_ok_def)

definition blank_fields :: server_fields where
  "blank_fields = \<lparr>sf_hostname = None, sf_manufacturer = None, sf_oem = None, sf_model = None, sf_serial = None,
     sf_bmc_version = None, sf_bios_version = None, sf_power_state = None, sf_status = ''online'', sf_protocol = None,
     sf_redfish_root = None, sf_tls_fpr = None\<rparr>"

definition one_server :: db where
  "one_server = snd (server_upsert ''t0'' ''10.0.0.5'' blank_fields empty_db)"

theorem repositories_keep_db_ok_witness:
  "let d = server_delete 1 (snd (create_job ''t1'' ''BMC'' 4 ''OnReset'' ''user'' one_server)) in
     tables_ok d \<and> uniques_ok d \<and> refs_ok d"
  unfolding one_server_def Let_def
  by (rule repositories_keep_db_ok [OF db_reach.step [OF db_reach.step [OF db_reach.step
        [OF db_reach.start db_step.upsert] db_step.new_job] db_step.del_server]])

text \<open>Property C17. An address that went to other hardware loses what was bound to the old machine: an
  upsert of a known address keeps the row and its key, stores the new columns, and clears the
  operator's OEM choice and the cached disks exactly when both serials are known and differ.\<close>

theorem upsert_known_address:
  assumes "db_ok d" "row (db_servers d) sid = Some r" "sr_ip r = ip"
  shows "\<exists>r' d'. server_upsert now ip cols d = (sid, d') \<and> row (db_servers d') sid = Some r' \<and>
    sr_ip r' = ip \<and> sr_fields r' = cols \<and>
    (if hw_changed (sf_serial (sr_fields r)) (sf_serial cols)
     then sr_oem_override r' = None \<and> sr_disks_json r' = None
     else sr_oem_override r' = sr_oem_override r \<and> sr_disks_json r' = sr_disks_json r) \<and>
    list_all (\<lambda>(k, x). k = sid \<or> row (db_servers d') k = Some x) (db_servers d)"
proof -
  have t: "table_ok (db_servers d)" and u: "unique_col sr_ip (db_servers d)"
    using assms(1) by (simp_all add: db_ok_def tables_ok_def uniques_ok_def)
  have mem: "(sid, r) \<in> set (db_servers d)" using assms(2) t by (simp add: row_mem)
  have "inj_on (sr_ip \<circ> snd) (set (db_servers d))" using u unfolding unique_col_def distinct_map by simp
  note inj = inj_onD [OF this]
  have only: "k = sid \<and> x = r" if "(k, x) \<in> set (db_servers d)" "sr_ip x = ip" for k x
    using inj [OF _ that(1) mem] that(2) assms(3) by simp
  obtain k x where f: "server_by_ip d ip = Some (k, x)"
    using find_row_None [of "\<lambda>_ r. sr_ip r = ip" "db_servers d" sid r] mem assms(3)
    by (cases "server_by_ip d ip") (auto simp: server_by_ip_def)
  then have k: "k = sid" "x = r" using only find_row_Some by (auto simp: server_by_ip_def dest!: find_row_Some)
  let ?t = "update_where (\<lambda>_ r. sr_ip r = ip) (refresh_row now cols (hw_changed (sf_serial (sr_fields r)) (sf_serial cols)))
    (db_servers d)"
  have "row ?t k' = Some x'" if "(k', x') \<in> set (db_servers d)" "k' \<noteq> sid" for k' x'
    using that only t by (auto simp: row_update row_mem)
  then have rest: "list_all (\<lambda>(k, x). k = sid \<or> row ?t k = Some x) (db_servers d)" by (auto simp: list_all_iff)
  show ?thesis
    using f k rest assms(2,3) by (auto simp: server_upsert_def row_update refresh_row_def)
qed

theorem upsert_known_address_witness:
  "\<exists>r' d'. server_upsert ''t2'' ''10.0.0.5'' (blank_fields\<lparr>sf_serial := Some ''S2''\<rparr>) one_server = (1, d') \<and>
     row (db_servers d') 1 = Some r' \<and> sr_fields r' = blank_fields\<lparr>sf_serial := Some ''S2''\<rparr>"
proof -
  have "row (db_servers one_server) 1 = Some (new_server_row ''t0'' ''10.0.0.5'' blank_fields)"
    by (simp add: one_server_def server_upsert_def server_by_ip_def find_row_def empty_db_def insert_row_def
        next_rowid_def row_def)
  then show ?thesis
    using upsert_known_address [of one_server 1 "new_server_row ''t0'' ''10.0.0.5'' blank_fields" "''10.0.0.5''" "''t2''"
        "blank_fields\<lparr>sf_serial := Some ''S2''\<rparr>"]
      reach_db_ok [OF db_reach.step [OF db_reach.start db_step.upsert], of "''t0''" "''10.0.0.5''" blank_fields]
    by (auto simp: one_server_def new_server_row_def)
qed

end
