(* ===== verification/Update_Jobs.thy ===== *)
theory Update_Jobs
  imports Update_Pool Db_Integrity
begin

text \<open>
  A whole update job: what \<open>start_job\<close> leaves in the database, the run of the job's pool to the
  end, the verdict, and the sweep at startup. The properties of the update orchestrator are here.
\<close>

section \<open>What starting a job does\<close>

definition queued_for :: "int \<Rightarrow> int \<times> task_row \<Rightarrow> bool" where
  "queued_for jid = (\<lambda>(_, r). tk_job_id r = jid \<and> tk_state r = ''queued'')"

lemma create_task_rows:
  assumes "create_task now jid sid fid v d = Inr (tid, d')"
  shows "\<exists>r. db_tasks d' = db_tasks d @ [(tid, r)] \<and> queued_for jid (tid, r) \<and>
    (table_ok (db_tasks d) \<longrightarrow> table_ok (db_tasks d')) \<and> db_jobs d' = db_jobs d"
  using assms table_ok_insert [of "db_tasks d" _ tid "db_tasks d'"]
  by (auto simp: create_task_def Let_def insert_row_def queued_for_def split: if_splits)

lemma create_tasks_rows:
  assumes "create_tasks now jid fid fw sids d = Inr (tids, d')"
  shows "\<exists>rows. db_tasks d' = db_tasks d @ rows \<and> List.map fst rows = tids \<and> list_all (queued_for jid) rows \<and>
    (table_ok (db_tasks d) \<longrightarrow> table_ok (db_tasks d')) \<and> db_jobs d' = db_jobs d"
  using assms
proof (induction sids arbitrary: tids d)
  case (Cons sid sids)
  show ?case
  proof (cases "server_get d sid")
    case None
    then show ?thesis using Cons by simp
  next
    case (Some r)
    then obtain tid d1 ts where c: "create_task now jid sid fid (version_before fw r) d = Inr (tid, d1)"
      "create_tasks now jid fid fw sids d1 = Inr (ts, d')" "tids = tid # ts"
      using Cons.prems by (auto simp: bind_py_Inr)
    obtain r1 where r1: "db_tasks d1 = db_tasks d @ [(tid, r1)]" "queued_for jid (tid, r1)"
      "table_ok (db_tasks d) \<longrightarrow> table_ok (db_tasks d1)" "db_jobs d1 = db_jobs d"
      using create_task_rows [OF c(1)] by blast
    obtain rows where rows: "db_tasks d' = db_tasks d1 @ rows" "List.map fst rows = ts" "list_all (queued_for jid) rows"
      "table_ok (db_tasks d1) \<longrightarrow> table_ok (db_tasks d')" "db_jobs d' = db_jobs d1"
      using Cons.IH [OF c(2)] by blast
    then show ?thesis using r1 c(3) by (intro exI [of _ "(tid, r1) # rows"]) auto
  qed
qed auto

text \<open>The tasks of a started job are all the rows that carry its number; each exists, once, and is queued.\<close>

lemma start_job_tasks:
  assumes "start_job now sids fid conc d = Inr (Inr js, d')" "db_ok d"
  shows "jo_tasks js = job_task_ids (jo_id js) d' \<and> distinct (jo_tasks js) \<and>
    list_all (\<lambda>t. task_state_of (jo_id js) d' t = Some ''queued'') (jo_tasks js) \<and> jo_concurrency js = limit_to 1 64 conc"
proof -
  obtain fw jid d1 tids d2 where s: "create_job now (fr_type fw) (limit_to 1 64 conc) ''OnReset'' ''user'' d = (jid, d1)"
    "create_tasks now jid fid fw sids d1 = Inr (tids, d2)" "jo_id js = jid" "jo_tasks js = tids"
    "jo_concurrency js = limit_to 1 64 conc" "db_tasks d' = db_tasks d2"
    using assms(1) by (auto simp: start_job_def Let_def bind_py_Inr update_job_state_put put_job_def activity_log_def
        insert_row_def split: if_splits option.splits prod.splits)
  have d1: "db_tasks d1 = db_tasks d" "row (db_jobs d) jid = None"
    using s(1) row_next [of "db_jobs d"] by (auto simp: create_job_def insert_row_def)
  have ok: "table_ok (db_tasks d)" using assms(2) by (simp add: db_ok_def tables_ok_def)
  obtain rows where rows: "db_tasks d2 = db_tasks d @ rows" "List.map fst rows = tids" "list_all (queued_for jid) rows"
    "table_ok (db_tasks d2)"
    using create_tasks_rows [OF s(2)] ok d1 by auto
  have "tk_job_id r \<noteq> jid" if "(i, r) \<in> set (db_tasks d)" for i r
    using refs_okD(1) [of d i r] assms(2) that d1(2) by (auto simp: db_ok_def task_refs_ok_def)
  then have "filter (\<lambda>(_, r). tk_job_id r = jid) (db_tasks d) = []" by (auto simp: filter_empty_conv)
  moreover have "filter (\<lambda>(_, r). tk_job_id r = jid) rows = rows"
    using rows(3) by (intro filter_True) (auto simp: list_all_iff queued_for_def)
  ultimately have "job_task_ids jid d' = tids"
    using s(6) rows by (simp add: job_task_ids_def list_tasks_def)
  moreover have "distinct tids" using table_ok_distinct [OF rows(4)] rows(1,2) by simp
  moreover have "task_state_of jid d' t = Some ''queued''" if t: "t \<in> set tids" for t
  proof -
    obtain r where "(t, r) \<in> set rows" using t rows(2) by auto
    then show ?thesis using rows row_mem [OF rows(4), of t r] s(6)
      by (auto simp: task_state_of_def get_task_def list_all_iff queued_for_def)
  qed
  ultimately show ?thesis using s by (simp add: list_all_iff)
qed

section \<open>Runs of a job\<close>

text \<open>\<open>_run_job\<close>: one worker per task, as many permits as the job's concurrency.\<close>

definition job_pool :: "job_start \<Rightarrow> db \<Rightarrow> db pool" where
  "job_pool js d = new_pool (nat (jo_concurrency js)) (jo_tasks js) d"

lemma job_pool_inv:
  assumes "start_job now sids fid conc d = Inr (Inr js, d')" "db_ok d"
    "pool_reach (update_effects jid) (job_pool js d') s"
  shows "pool_inv (nat (limit_to 1 64 conc)) (jo_tasks js) s"
  using start_job_tasks [OF assms(1,2)]
  by (intro pool_inv_reach [OF assms(3)]) (auto simp: job_pool_def pool_inv_new)

lemma list_tasks_states:
  assumes "table_ok (db_tasks d)"
  shows "List.map (tk_state \<circ> snd) (list_tasks d jid) = List.map (the \<circ> task_state_of jid d) (job_task_ids jid d)"
  using row_mem [OF assms, THEN iffD2]
  by (auto simp: job_task_ids_def list_tasks_def task_state_of_def get_task_def)

lemma start_job_table:
  assumes "start_job now sids fid conc d = Inr (Inr js, d')" "db_ok d"
  shows "table_ok (db_tasks d')"
proof -
  obtain jid d1 fw tids d2 where s: "create_job now (fr_type fw) (limit_to 1 64 conc) ''OnReset'' ''user'' d = (jid, d1)"
    "create_tasks now jid fid fw sids d1 = Inr (tids, d2)" "db_tasks d' = db_tasks d2"
    using assms(1) by (auto simp: start_job_def Let_def bind_py_Inr update_job_state_put put_job_def activity_log_def
        insert_row_def split: if_splits option.splits prod.splits)
  have "db_tasks d1 = db_tasks d" using s(1) by (auto simp: create_job_def insert_row_def)
  then show ?thesis using create_tasks_rows [OF s(2)] s(3) assms(2) by (auto simp: db_ok_def tables_ok_def)
qed

text \<open>At the end of a job, the counters and the rows tell the same story.\<close>

lemma job_end_counts:
  assumes "start_job now sids fid conc d = Inr (Inr js, d')" "db_ok d"
    "pool_reach (update_effects (jo_id js)) (job_pool js d') s" "finished s"
  shows "let states = List.map (tk_state \<circ> snd) (list_tasks (pl_data s) (jo_id js)) in
    length states = length (jo_tasks js) \<and> pl_ok s + pl_bad s = length states \<and>
    pl_ok s = count_state ''completed'' states \<and> pl_bad s = count_state ''failed'' states"
proof -
  let ?f = "task_state_of (jo_id js) (pl_data s)"
  note st = start_job_tasks [OF assms(1,2)]
  have inv: "pool_inv (nat (limit_to 1 64 conc)) (jo_tasks js) s" by (rule job_pool_inv [OF assms(1-3)])
  have "update_ledger.ledger_ok (jo_id js) (job_pool js d')"
    unfolding job_pool_def by (rule update_ledger.ledger_new) (use st in \<open>auto simp: list_all_iff\<close>)
  then have "update_ledger.ledger_ok (jo_id js) s" by (rule update_ledger.ledger_reach [OF assms(3)])
  note counts = update_ledger.ledger_counts [OF this inv assms(4)]
  have ids: "job_task_ids (jo_id js) (pl_data s) = jo_tasks js" "table_ok (db_tasks (pl_data s))"
    using job_ids_reach [OF assms(3)] st start_job_table [OF assms(1,2)] by (auto simp: job_pool_def new_pool_def)
  have known: "\<exists>x. ?f t = Some x" if t: "t \<in> set (jo_tasks js)" for t
  proof -
    obtain r where "(t, r) \<in> set (db_tasks (pl_data s))" "tk_job_id r = jo_id js"
      using t ids(1) [symmetric] by (auto simp: job_task_ids_def list_tasks_def)
    then show ?thesis using row_mem [OF ids(2), THEN iffD2] by (auto simp: task_state_of_def get_task_def)
  qed
  have "length (filter (\<lambda>x. x = a) (List.map (the \<circ> ?f) (jo_tasks js))) = length (filter (\<lambda>t. ?f t = Some a) (jo_tasks js))" for a
    unfolding filter_map length_map comp_def using known by (intro arg_cong [where f = length] filter_cong) auto
  then show ?thesis
    using counts finished_counts [OF inv assms(4)] list_tasks_states [OF ids(2), of "jo_id js"] ids(1)
    by (simp add: count_state_def)
qed

section \<open>What a task does to the outside world\<close>

lemma report_run: "report st t s n m (w, d) = (Inr (), (w, put_task (st_now st w) t (Some s) (Some n) (Some m) None d))"
  by (simp add: report_def store_run update_task_put)

lemma require_run: "require b why x = (if b then (Inr (), x) else (Inl (runtime why), x))"
  by (simp add: require_def ret_run throw_run)

lemma reports_world: "fst (snd (for_each (\<lambda>(s, p). report st t s p []) rs (w, d))) = w"
proof (induction rs arbitrary: d)
  case (Cons x rs)
  then show ?case by (cases x) (simp add: seq_run report_run)
qed (simp add: ret_run)

lemma drive_world: "fst (snd (drive_update st t op (w, d))) = snd (snd (op w))"
proof -
  obtain r rs w' where op: "op w = (r, rs, w')" by (metis prod_cases3)
  obtain a w1 d1 where f: "for_each (\<lambda>(s, p). report st t s p []) rs (w', d) = (a, (w1, d1))" by (metis prod_cases3)
  have "w1 = w'" using reports_world [of st t rs w' d] f by simp
  then show ?thesis using op f by (cases a; cases r) (simp_all add: drive_update_def seq_run lift_run)
qed

lemma put_task_creds [simp]: "db_credentials (put_task now t s n m v d) = db_credentials d"
  by (simp add: put_task_def)

lemma resolve_scopes_put: "resolve_scopes v (put_task now t s n m x d) l = resolve_scopes v d l"
  by (induction l) (simp_all add: find_for_scope_def split: option.split)

lemma resolve_creds_put [simp]: "resolve_creds st (put_task now t s n m v d) ui info = resolve_creds st d ui info"
  by (simp add: resolve_creds_def vault_credentials_def credentials_resolve_def resolve_scopes_put split: option.split)

lemma verify_world: "\<exists>r. verify_firmware_sha f fw w = (r, w)"
  by (auto simp: verify_firmware_sha_def Let_def split: sum.splits option.splits)

lemma verify_True:
  "verify_firmware_sha f fw w = (Inr (True, m), w') \<Longrightarrow>
     \<exists>actual. f (fr_file_path fw) w = Inr (Some actual) \<and> lower actual = lower (fr_sha256 fw) \<and> fr_sha256 fw \<noteq> []"
  by (auto simp: verify_firmware_sha_def Let_def lower_def split: sum.splits option.splits if_splits)

text \<open>What flashing a server does outside the database, given the plugin and the pre-flight.\<close>

definition flash_world :: "'w site \<Rightarrow> firmware_row \<Rightarrow> credentials \<Rightarrow> bool \<Rightarrow> db \<Rightarrow> server_row \<Rightarrow> string \<Rightarrow> oem_plugin \<Rightarrow>
    'w \<Rightarrow> 'w" where
  "flash_world st fw ui apply_now d r key p w = (let info = info_from_row (Some key) r; dr = st_driver st p;
       creds = resolve_creds st d ui info in
     if \<not> cr_compatible (dr_validate dr info (to_firmware fw)) then w
     else case preflight_bmc st info (fr_type fw) creds w of
         (Inr (True, _), w1) \<Rightarrow> snd (snd (update_op dr (fr_type fw) info (to_firmware fw) creds apply_now w1))
       | (_, w1) \<Rightarrow> w1)"

lemma bind_fst_world:
  assumes "\<And>x w' d'. m (w, d) = (Inr x, (w', d')) \<Longrightarrow> fst (snd (f x (w', d'))) = w'"
  shows "fst (snd (bind m f (w, d))) = fst (snd (m (w, d)))"
proof -
  obtain r w' d' where m: "m (w, d) = (r, (w', d'))" by (metis prod_cases3)
  then show ?thesis using assms by (cases r) (auto simp: bind_run)
qed

lemma bind_on_fst: "bind (on_fst m) f (w, d) =
    (case m w of (Inl e, w') \<Rightarrow> (Inl e, (w', d)) | (Inr x, w') \<Rightarrow> f x (w', d))"
  by (simp add: bind_def on_fst_def split: prod.split sum.split)

lemma bind_read_db: "bind (read_db f) g (w, d) = g (f d) (w, d)"
  by (simp add: bind_def read_db_def)

lemma flash_server_world:
  "fst (snd (flash_server st t fw ui apply_now r key p (w, d))) = flash_world st fw ui apply_now d r key p w"
proof -
  let ?info = "info_from_row (Some key) r" and ?dr = "st_driver st p" and ?now = "st_now st w"
  let ?creds = "resolve_creds st d ui ?info"
  obtain pf w1 where pf: "preflight_bmc st ?info (fr_type fw) ?creds w = (pf, w1)" by fastforce
  have rest: "fst (snd (bind (drive_update st t op) (\<lambda>res. seq (require (okay res) (why res)) (ret (ver res))) (w', d'))) =
      snd (snd (op w'))" for op okay why ver w' d'
    using drive_world [of st t op w' d'] by (subst bind_fst_world) (auto simp: seq_run require_run ret_run)
  show ?thesis
    using pf by (cases pf) (auto simp: flash_server_def flash_world_def Let_def seq_run bind_read_db bind_on_fst
      report_run require_run rest split: prod.splits)
qed

lemma real_task_world:
  "fst (snd (real_task st t fw ui apply_now (w, d))) = w \<or>
   (\<exists>r key p actual. task_server d t = Inr r \<and> pinned_oem r = Some key \<and> pinned_plugin st r = Some p \<and>
      st_file_sha st (fr_file_path fw) w = Inr (Some actual) \<and> lower actual = lower (fr_sha256 fw) \<and> fr_sha256 fw \<noteq> [] \<and>
      fst (snd (real_task st t fw ui apply_now (w, d))) = flash_world st fw ui apply_now d r key p w)"
proof -
  obtain v where v: "verify_firmware_sha (st_file_sha st) fw w = (v, w)" using verify_world by metis
  show ?thesis
  proof (cases "task_server d t")
    case (Inl e)
    then show ?thesis by (simp add: real_task_def bind_assoc bind_read_db bind_run [of "lift_py _"] lift_run)
  next
    case (Inr r)
    then have run: "real_task st t fw ui apply_now (w, d) = (case v of Inl e \<Rightarrow> (Inl e, (w, d)) | Inr (ok, msg) \<Rightarrow>
        if ok then (case task_plugin st r of Inl e \<Rightarrow> (Inl e, (w, d))
          | Inr (key, p) \<Rightarrow> flash_server st t fw ui apply_now r key p (w, d))
        else (Inl (runtime (''Firmware integrity check failed: '' @ msg)), (w, d)))"
      using v by (simp add: real_task_def bind_assoc bind_read_db bind_on_fst bind_run [of "lift_py _"] lift_run
          seq_run require_run split: sum.splits prod.splits)
    show ?thesis
    proof (cases "\<exists>m key p. v = Inr (True, m) \<and> task_plugin st r = Inr (key, p)")
      case True
      then obtain m key p where vt: "v = Inr (True, m)" and pl: "task_plugin st r = Inr (key, p)" by blast
      have "pinned_oem r = Some key" "pinned_plugin st r = Some p"
        using pl by (auto simp: task_plugin_def split: option.splits)
      then show ?thesis using verify_True [of "st_file_sha st" fw w m w] v vt pl run Inr flash_server_world by fastforce
    next
      case False
      then have "fst (snd (real_task st t fw ui apply_now (w, d))) = w"
        unfolding run by (cases v) (auto split: sum.splits)
      then show ?thesis by blast
    qed
  qed
qed

lemma run_task_world: "fst (snd (run_one st t fw ui apply_now (w, d))) = fst (snd (real_task st t fw ui apply_now (w, d)))"
proof -
  obtain r w1 d1 where run: "real_task st t fw ui apply_now (w, d) = (r, (w1, d1))" by (metis prod_cases3)
  have rec: "\<exists>r2 d2. record_success st t (fr_type fw) v (w1, d1) = (r2, (w1, d2))" for v
    by (cases rule: record_success_cases [of st t "fr_type fw" v w1 d1]) auto
  have "\<exists>r2 d2. bind (real_task st t fw ui apply_now) (record_success st t (fr_type fw)) (w, d) = (r2, (w1, d2))"
  proof (cases r)
    case (Inr v)
    then show ?thesis using run rec [of v] by (simp add: bind_run)
  qed (use run in \<open>simp add: bind_run\<close>)
  then obtain r2 d2 where body: "bind (real_task st t fw ui apply_now) (record_success st t (fr_type fw)) (w, d) = (r2, (w1, d2))"
    by blast
  show ?thesis using run_task_of_body [OF body] run by (simp add: run_one_def catch_run split: sum.splits)
qed

section \<open>The sweep at startup\<close>

definition fail_lost :: "string \<Rightarrow> int list \<Rightarrow> db \<Rightarrow> db" where
  "fail_lost now = fold (\<lambda>t. put_task now t (Some ''failed'') (Some 0) (Some no_uri_msg) None)"

lemma fail_tasks_fold: "fail_tasks now tids d = Inr (fail_lost now tids d)"
  by (induction tids arbitrary: d) (simp_all add: fail_lost_def update_task_put)

lemma finalize_jobs_total: "\<exists>d'. finalize_jobs js d = Inr d' \<and> db_tasks d' = db_tasks d"
proof (induction js arbitrary: d)
  case (Cons j js)
  have "\<exists>s d1. finalize_job_from_tasks j d = Inr (s, d1) \<and> db_tasks d1 = db_tasks d"
    by (simp add: finalize_job_from_tasks_def Let_def update_job_state_put put_job_def)
  then show ?case using Cons by (metis (no_types, lifting) bind_py_Inr case_prod_conv finalize_jobs.simps(2))
qed simp

lemma activity_tables [simp]:
  "db_jobs (snd (activity_log now a d)) = db_jobs d" "db_tasks (snd (activity_log now a d)) = db_tasks d"
  "db_prov_jobs (snd (activity_log now a d)) = db_prov_jobs d" "db_prov_tasks (snd (activity_log now a d)) = db_prov_tasks d"
  by (simp_all add: activity_log_def insert_row_def)

lemma finalize_after_log:
  "\<exists>d'. finalize_jobs js (if b then d else snd (activity_log now a d)) = Inr d' \<and> db_tasks d' = db_tasks d"
  using finalize_jobs_total [of js "if b then d else snd (activity_log now a d)"] by (cases b) auto

text \<open>Rows in live states after failing a set of them: the others, unchanged.\<close>

lemma fail_lost_tasks:
  "db_tasks (fail_lost now tids d) = List.map (\<lambda>(i, r). (i, if i \<in> set tids
     then fold set_task_col (task_pairs now (Some ''failed'') (Some 0) (Some no_uri_msg) None None) r else r)) (db_tasks d)"
proof (induction tids arbitrary: d)
  case (Cons t tids)
  let ?f = "fold set_task_col (task_pairs now (Some ''failed'') (Some 0) (Some no_uri_msg) None None)"
  have "?f (?f r) = ?f r" for r
    by (simp add: task_pairs_def state_pairs_def opt_pair_def set_task_col_def)
  then show ?case
    using Cons.IH [of "put_task now t (Some ''failed'') (Some 0) (Some no_uri_msg) None d"]
    by (auto simp: fail_lost_def put_task_def update_row_def update_where_def)
qed (simp add: fail_lost_def)

lemma filter_live_failed:
  assumes "\<And>r. \<not> live (f r)"
  shows "filter (\<lambda>(_, r). live r) (List.map (\<lambda>(i, r). (i, if i \<in> A then f r else r)) l) =
    filter (\<lambda>(i, r). live r \<and> i \<notin> A) l"
  using assms by (induction l) (auto split: if_splits)

lemma lost_keys:
  assumes "distinct (List.map fst l)"
  shows "filter (\<lambda>(i, r). live r \<and> i \<notin> set (List.map fst (filter (\<lambda>(_, r). \<not> q r) (filter (\<lambda>(_, r). live r) l)))) l =
    filter (\<lambda>(_, r). q r) (filter (\<lambda>(_, r). live r) l)"
proof -
  let ?lost = "List.map fst (filter (\<lambda>(_, r). \<not> q r) (filter (\<lambda>(_, r). live r) l))"
  have "i \<in> set ?lost \<longleftrightarrow> (\<exists>r. (i, r) \<in> set l \<and> live r \<and> \<not> q r)" for i
    by (auto simp: image_iff)
  moreover have "r' = r" if "(i, r) \<in> set l" "(i, r') \<in> set l" for i r r'
    using eq_key_imp_eq_value [OF assms that] by simp
  ultimately have "i \<notin> set ?lost \<longleftrightarrow> q r" if "(i, r) \<in> set l" "live r" for i r
    using that by metis
  then show ?thesis unfolding filter_filter by (intro filter_cong) auto
qed

lemma except_live: "set (List.map fst (filter (\<lambda>(_, r). live_job r) (db_jobs (snd (fail_non_terminal_jobs_except keep d))))) \<subseteq> set keep"
  by (auto simp: fail_non_terminal_jobs_except_def update_where_def live_job_def split: if_splits)

text \<open>When every row is in one of the two outcomes, the rows decide like the counters.\<close>

lemma count_state_all:
  assumes "count_state a states + count_state b states = length states" "a \<noteq> b"
  shows "\<not> list_ex (\<lambda>s. s \<notin> {a, b}) states"
  using assms
proof (induction states)
  case (Cons x xs)
  have "length (filter (\<lambda>x. x = a) l) + length (filter (\<lambda>x. x = b) l) \<le> length l" for l
    using assms(2) by (induction l) auto
  from this [of xs] show ?case using Cons by (auto simp: count_state_def split: if_splits)
qed (simp add: count_state_def)

lemma summarize_state:
  "count_state ''completed'' states + count_state ''failed'' states = length states \<Longrightarrow>
   js_state (summarize states) = (if count_state ''failed'' states = 0 then ''completed''
     else if count_state ''completed'' states = 0 then ''failed'' else ''completed_with_errors'')"
  using count_state_all [of "''completed''" states "''failed''"] by (simp add: summarize_def Let_def)

section \<open>Effects that are always possible\<close>

lemma effects_total:
  "\<exists>d'. ef_mark (update_effects jid) t d d'" "\<exists>g d'. ef_end (update_effects jid) t g d d'"
proof -
  have "upd_end t False d (put_task now t (Some ''failed'') (Some 0) (Some m) None d)" for now m
    by (auto simp: upd_end_def update_task_put)
  then show "\<exists>g d'. ef_end (update_effects jid) t g d d'" by (auto simp: update_effects_def)
qed (auto simp: update_effects_def mark_cancelled_def update_task_put)

section \<open>Properties\<close>

text \<open>A database with one server and one image, and a job started on them.\<close>

definition image_row :: firmware_row where
  "image_row = \<lparr>fr_name = ''bmc.bin'', fr_type = ''BMC'', fr_oem = ''dell'', fr_model = None, fr_version = ''2.0'',
     fr_file_path = ''/fw/bmc.bin'', fr_sha256 = ''ab'', fr_size_bytes = None, fr_signature = None,
     fr_uploaded_at = None, fr_uploaded_by = None, fr_notes = None\<rparr>"

definition shop_db :: db where
  "shop_db = snd (firmware_add ''t0'' image_row one_server)"

definition shop_task :: task_row where
  "shop_task = \<lparr>tk_job_id = 1, tk_server_id = Some 1, tk_firmware_id = Some 1, tk_state = ''queued'',
     tk_progress = 0, tk_version_before = None, tk_version_after = None, tk_redfish_task = None,
     tk_message = None, tk_started_at = Some ''t1'', tk_finished_at = None\<rparr>"

definition shop_job :: job_start where
  "shop_job = \<lparr>jo_id = 1, jo_tasks = [1], jo_firmware = image_row\<lparr>fr_uploaded_at := Some ''t0''\<rparr>, jo_concurrency = 64\<rparr>"

definition started_db :: db where
  "started_db = (case start_job ''t1'' [1] 1 100 shop_db of Inr (_, d) \<Rightarrow> d | _ \<Rightarrow> empty_db)"

lemma shop_ok: "db_ok shop_db"
  unfolding shop_db_def one_server_def
  by (rule reach_db_ok [OF db_reach.step [OF db_reach.step [OF db_reach.start db_step.upsert] db_step.add_fw]])

lemma shop_started: "start_job ''t1'' [1] 1 100 shop_db = Inr (Inr shop_job, started_db)"
proof -
  have "(case start_job ''t1'' [1] 1 100 shop_db of Inr (Inr js, _) \<Rightarrow> js = shop_job | _ \<Rightarrow> False)" by code_simp
  then show ?thesis by (auto simp: started_db_def split: sum.splits prod.splits)
qed

text \<open>The job is cancelled before its only worker moved.\<close>

definition cancelled_pool :: "db pool" where
  "cancelled_pool = (job_pool shop_job started_db)\<lparr>pl_cancel := True\<rparr>"

definition settled_pool :: "db pool" where
  "settled_pool = settle 1 False (put_task ''t2'' 1 (Some ''failed'') None (Some ''Cancelled'') None started_db) cancelled_pool"

lemma reach_cancelled: "pool_reach (update_effects 1) (job_pool shop_job started_db) cancelled_pool"
  unfolding cancelled_pool_def by (rule pool_reach.step [OF pool_reach.refl pool_step.cancel])

lemma reach_settled: "pool_reach (update_effects 1) (job_pool shop_job started_db) settled_pool"
  unfolding settled_pool_def
proof (rule pool_reach.step [OF reach_cancelled pool_step.skip])
  show "phase_of cancelled_pool 1 = Some Spawned" "pl_cancel cancelled_pool"
    by (simp_all add: cancelled_pool_def job_pool_def shop_job_def new_pool_def phase_of_def)
  show "ef_mark (update_effects 1) 1 (pl_data cancelled_pool)
      (put_task ''t2'' 1 (Some ''failed'') None (Some ''Cancelled'') None started_db)"
    by (auto simp: update_effects_def mark_cancelled_def update_task_put cancelled_pool_def job_pool_def new_pool_def)
qed

text \<open>Further property. A job never has more tasks in flight than asked for: the requested concurrency is
  brought into 1..64, and in every state the job's workers can reach under any schedule, the
  number of running tasks is at most that.\<close>

theorem job_concurrency_bounded:
  assumes "start_job now sids fid conc d = Inr (Inr js, d')" "db_ok d"
    and "pool_reach (update_effects (jo_id js)) (job_pool js d') s"
  shows "1 \<le> jo_concurrency js \<and> jo_concurrency js \<le> 64 \<and> int (running s) \<le> jo_concurrency js"
  using start_job_tasks [OF assms(1,2)] pool_running_le [OF job_pool_inv [OF assms]] limit_to_bounds [of 1 64 conc] by auto

theorem job_concurrency_bounded_witness:
  "1 \<le> jo_concurrency shop_job \<and> jo_concurrency shop_job \<le> 64 \<and> int (running cancelled_pool) \<le> jo_concurrency shop_job"
  by (rule job_concurrency_bounded [OF shop_started shop_ok]) (simp add: shop_job_def reach_cancelled [unfolded shop_job_def])

text \<open>Property C9. A job is never stuck: in every reachable state either all its workers are finished, or
  one of them can take a step that brings it closer to its end; each worker has at most three such
  steps.\<close>

theorem job_never_stuck:
  assumes "start_job now sids fid conc d = Inr (Inr js, d')" "db_ok d"
    and "pool_reach (update_effects (jo_id js)) (job_pool js d') s"
  shows "pool_rank s \<le> 3 * length (jo_tasks js) \<and>
    (finished s \<or> (\<exists>s'. pool_step (update_effects (jo_id js)) s s' \<and> pool_rank s' < pool_rank s))"
proof -
  have inv: "pool_inv (nat (limit_to 1 64 conc)) (jo_tasks js) s" by (rule job_pool_inv [OF assms])
  have "pool_inv (nat (limit_to 1 64 conc)) (jo_tasks js) (job_pool js d')" by (rule job_pool_inv [OF assms(1,2) pool_reach.refl])
  then have "pool_rank s \<le> 3 * length (jo_tasks js)" using rank_reach [OF assms(3)] by (simp add: job_pool_def pool_rank_new)
  moreover have "\<exists>s'. pool_step (update_effects (jo_id js)) s s' \<and> pl_work s' \<noteq> pl_work s" if "\<not> finished s"
    using pool_progress [OF inv _ that effects_total] limit_to_bounds [of 1 64 conc] by simp
  ultimately show ?thesis using rank_step [OF _ inv] by blast
qed

theorem job_never_stuck_witness:
  "pool_rank cancelled_pool \<le> 3 * length (jo_tasks shop_job) \<and>
    (finished cancelled_pool \<or> (\<exists>s'. pool_step (update_effects (jo_id shop_job)) cancelled_pool s' \<and>
       pool_rank s' < pool_rank cancelled_pool))"
  by (rule job_never_stuck [OF shop_started shop_ok]) (simp add: shop_job_def reach_cancelled [unfolded shop_job_def])

text \<open>Property C11. Cancelling a job stops the queue at once: in every state reachable after the cancel, the
  only running tasks are those that were already running, and the cancel is never taken back.\<close>

theorem cancelled_job_starts_nothing:
  assumes "pool_reach (update_effects jid) s s'" "pl_cancel s" "phase_of s' t = Some Running"
  shows "pl_cancel s' \<and> phase_of s t = Some Running"
  using cancelled_stays [OF assms(1,2)] cancelled_reach [OF assms] by simp

definition running_pool :: "db pool" where
  "running_pool = (set_phase 1 Running (job_pool shop_job started_db))\<lparr>pl_cancel := True\<rparr>"

theorem cancelled_job_starts_nothing_witness:
  "pl_cancel running_pool \<and> phase_of running_pool 1 = Some Running"
  by (rule cancelled_job_starts_nothing [OF pool_reach.refl [of "update_effects 1"]])
    (simp_all add: running_pool_def job_pool_def new_pool_def set_phase_def phase_of_def shop_job_def)



text \<open>Property C6. A task that runs always settles: whatever the server, the file, the vendor plugin or the
  BMC do, the task code returns a verdict, raises nothing, leaves its own row \<open>completed\<close> or
  \<open>failed\<close> accordingly, and changes the state of no other task. It is a run of the pool's
  effects for that task.\<close>

theorem run_one_settles:
  "\<exists>good w' d1 d'. run_one st t fw ui apply_now (w, d) = (Inr good, (w', d')) \<and>
     (upd_work t)\<^sup>*\<^sup>* d d1 \<and> upd_end t good d1 d' \<and>
     (\<forall>u. task_state_of jid d' u =
        (if u = t then map_option (\<lambda>_. if good then ''completed'' else ''failed'') (task_state_of jid d t)
         else task_state_of jid d u))"
proof -
  obtain good w' d1 d' where run: "run_task st t fw ui apply_now (w, d) = (Inr good, (w', d'))"
    and steps: "(upd_work t)\<^sup>*\<^sup>* d d1" and e: "upd_end t good d1 d'"
    by (rule run_task_effects)
  have "\<forall>u. (task_state_of jid d1 u = None \<longleftrightarrow> task_state_of jid d u = None) \<and>
      (u \<noteq> t \<longrightarrow> task_state_of jid d1 u = task_state_of jid d u)"
    using steps by induction (auto simp: upd_work_def update_task_put task_state_put split: if_splits)
  then have "\<forall>u. task_state_of jid d' u =
      (if u = t then map_option (\<lambda>_. if good then ''completed'' else ''failed'') (task_state_of jid d t)
       else task_state_of jid d u)"
    using upd_end_state [OF e, of jid] by (auto simp: map_option_case split: option.splits)
  then show ?thesis using run steps e by (auto simp: run_one_def catch_run)
qed

text \<open>Property C1. What a flash task may do to the outside world. Either nothing, or: the task's server
  exists and has a Redfish root, the image file is there and its hash is the one stored at
  import, the operator pinned an OEM key with an installed plugin, and then the world changes by
  \<open>flash_world\<close> alone: the plugin found the image compatible, the BMC's pre-flight ran, and the
  plugin's update ran only if the pre-flight passed.\<close>

theorem flash_only_after_checks:
  "fst (snd (run_one st t fw ui apply_now (w, d))) = w \<or>
   (\<exists>r key p actual. task_server d t = Inr r \<and> nonempty (sf_redfish_root (sr_fields r)) \<noteq> None \<and>
      st_file_sha st (fr_file_path fw) w = Inr (Some actual) \<and> lower actual = lower (fr_sha256 fw) \<and> fr_sha256 fw \<noteq> [] \<and>
      pinned_oem r = Some key \<and> p \<in> set (st_plugins st) \<and> op_key p = key \<and>
      cr_compatible (dr_validate (st_driver st p) (info_from_row (Some key) r) (to_firmware fw)) \<and>
      fst (snd (run_one st t fw ui apply_now (w, d))) = flash_world st fw ui apply_now d r key p w)"
proof -
  have root: "nonempty (sf_redfish_root (sr_fields r)) \<noteq> None" if "task_server d t = Inr r" for r
    using that by (auto simp: task_server_def split: option.splits if_splits)
  show ?thesis
    using real_task_world [of st t fw ui apply_now w d] root pinned_plugin_Some [of st]
    unfolding run_task_world by (fastforce simp: flash_world_def Let_def)
qed

text \<open>Further property. The sweep at startup leaves nothing hanging: it always succeeds, afterwards the live
  tasks are exactly those with a saved Task URI (which are handed to the poll, unchanged), and
  every job still shown as pending or running owns such a task.\<close>

theorem startup_sweep:
  assumes "table_ok (db_tasks d)"
  shows "\<exists>rs d'. resume_interrupted now d = Inr ((length (list_non_terminal_tasks d), rs), d') \<and>
    rs = filter (\<lambda>(_, t). has_task_uri t) (list_non_terminal_tasks d) \<and> list_non_terminal_tasks d' = rs \<and>
    set (List.map fst (filter (\<lambda>(_, r). live_job r) (db_jobs d'))) \<subseteq> set (List.map (\<lambda>(_, t). tk_job_id t) rs)"
proof -
  let ?live = "\<lambda>r. tk_state r \<in> set live_task_states"
  let ?tasks = "list_non_terminal_tasks d"
  let ?lost = "filter (\<lambda>(_, t). \<not> has_task_uri t) ?tasks" and ?rs = "filter (\<lambda>(_, t). has_task_uri t) ?tasks"
  let ?d1 = "fail_lost now (List.map fst ?lost) d"
  have "length (filter (\<lambda>(_, t). \<not> has_task_uri t) l) + length (filter (\<lambda>(_, t). has_task_uri t) l) = length l"
    for l :: "(int \<times> task_row) list" by (induction l) auto
  then have len: "length ?lost + length ?rs = length ?tasks" .
  have live1: "filter (\<lambda>(_, r). ?live r) (db_tasks ?d1) = ?rs"
    unfolding fail_lost_tasks
    using filter_live_failed [of ?live "fold set_task_col (task_pairs now (Some ''failed'') (Some 0) (Some no_uri_msg) None None)"
        "set (List.map fst ?lost)" "db_tasks d"]
      lost_keys [OF table_ok_distinct [OF assms], of ?live has_task_uri]
    by (simp add: put_task_state live_task_states_def list_non_terminal_tasks_def)
  obtain d3 where d3: "finalize_jobs (filter (\<lambda>j. j \<notin> set (List.map (\<lambda>(_, t). tk_job_id t) ?rs))
      (remdups (List.map (\<lambda>(_, t). tk_job_id t) ?tasks)))
      (if ?lost = [] then ?d1 else snd (activity_log now (log_row ''warning'' ''update''
             (int_str (int (length ?lost)) @ '' task(s) without saved Task URI marked failed on startup'') None) ?d1)) = Inr d3"
    "db_tasks d3 = db_tasks ?d1"
    using finalize_after_log by blast
  let ?d4 = "snd (fail_non_terminal_jobs_except (remdups (List.map (\<lambda>(_, t). tk_job_id t) ?rs)) d3)"
  have jobs: "set (List.map fst (filter (\<lambda>(_, r). live_job r) (db_jobs ?d4))) \<subseteq> set (List.map (\<lambda>(_, t). tk_job_id t) ?rs)"
    using except_live [of "remdups (List.map (\<lambda>(_, t). tk_job_id t) ?rs)" d3] by simp
  have tasks: "db_tasks ?d4 = db_tasks ?d1" using d3(2) by (simp add: fail_non_terminal_jobs_except_def)
  let ?d5 = "if ?rs = [] then ?d4 else snd (activity_log now (log_row ''info'' ''update'' (''Resuming ''
    @ int_str (int (length ?rs)) @ '' task(s) from saved Task URIs on startup'') None) ?d4)"
  have run: "resume_interrupted now d = Inr ((length ?tasks, ?rs), ?d5)"
    by (simp only: resume_interrupted_def Let_def fail_tasks_fold bind_py_simps d3(1) len)
  have d5: "db_tasks ?d5 = db_tasks ?d4" "db_jobs ?d5 = db_jobs ?d4" by (simp_all only: activity_tables split: if_split) auto
  have "list_non_terminal_tasks ?d5 = ?rs" using live1 tasks d5(1) by (simp only: list_non_terminal_tasks_def)
  then show ?thesis using run jobs unfolding d5(2) [symmetric] by blast
qed

theorem startup_sweep_witness:
  "\<exists>d'. resume_interrupted ''t9'' started_db = Inr ((1, []), d') \<and> list_non_terminal_tasks d' = []"
proof -
  have "list_non_terminal_tasks started_db = [(1, shop_task)]" by code_simp
  moreover have "table_ok (db_tasks started_db)" using start_job_table [OF shop_started shop_ok] .
  ultimately show ?thesis
    using startup_sweep [of started_db "''t9''"] by (auto simp: shop_task_def has_task_uri_def nonempty_def)
qed

end
