(* ===== verification/Library_Service.thy ===== *)
theory Library_Service
  imports Update_Jobs Decimal_Text
begin

text \<open>
  \<open>firmware_service.py\<close>, \<open>iso_service.py\<close> and \<open>settings_service.py\<close>, with the settings keys of
  \<open>SettingsController\<close>. A file system is a map from paths to contents; directories are not kept, so
  creating one and removing an empty one leave no trace. SHA-256 is a parameter. A copy writes
  the whole source or, when the disk is full or the source goes away, a prefix of it and raises.
\<close>

section \<open>Files\<close>

type_synonym files = "string \<Rightarrow> string option"

datatype copy_outcome = Copied | Copy_Failed nat

definition path_name :: "string \<Rightarrow> string" where
  "path_name p = after_last (CHR ''/'') p"

definition copy_file :: "copy_outcome \<Rightarrow> string \<Rightarrow> string \<Rightarrow> files \<Rightarrow> unit py \<times> files" where
  "copy_file oc src dest fs = (case fs src of
       None \<Rightarrow> (Inl (Exn Exn_FileNotFound src), fs)
     | Some c \<Rightarrow> if src = dest then (Inl (Exn Exn_OS (src @ '' and '' @ dest @ '' are the same file'')), fs)
         else (case oc of Copied \<Rightarrow> (Inr (), fs(dest \<mapsto> c))
           | Copy_Failed n \<Rightarrow> (Inl (Exn Exn_OS ''copy failed''), fs(dest \<mapsto> take n c))))"

section \<open>Firmware\<close>

record firmware_meta =
  fm_type :: string
  fm_oem :: string
  fm_version :: string
  fm_model :: "string option"
  fm_notes :: "string option"

definition firmware_path :: "string \<Rightarrow> string \<Rightarrow> string \<Rightarrow> string" where
  "firmware_path dir sha src = dir @ ''/'' @ sha @ ''/'' @ path_name src"

definition firmware_entry :: "string \<Rightarrow> string \<Rightarrow> string \<Rightarrow> int \<Rightarrow> firmware_meta \<Rightarrow> firmware_row" where
  "firmware_entry src dest sha size_b meta = \<lparr>fr_name = path_name src, fr_type = fm_type meta, fr_oem = fm_oem meta,
     fr_model = fm_model meta, fr_version = fm_version meta, fr_file_path = dest, fr_sha256 = sha,
     fr_size_bytes = Some size_b, fr_signature = None, fr_uploaded_at = None, fr_uploaded_by = Some ''user'',
     fr_notes = fm_notes meta\<rparr>"

definition firmware_import :: "(string \<Rightarrow> string) \<Rightarrow> string \<Rightarrow> copy_outcome \<Rightarrow> string \<Rightarrow> firmware_meta \<Rightarrow> string \<Rightarrow>
    (files \<times> db, int option) io" where
  "firmware_import sha_of dir oc now meta src = (\<lambda>(fs, d). case fs src of
       None \<Rightarrow> (Inl (Exn Exn_FileNotFound src), (fs, d))
     | Some c \<Rightarrow> (let sha = sha_of c; dest = firmware_path dir sha src in
         if firmware_exists_sha d sha then (Inr None, (fs, d))
         else (case copy_file oc src dest fs of
             (Inl e, fs') \<Rightarrow> (Inl e, (fs', d))
           | (Inr _, fs') \<Rightarrow> (case firmware_add now (firmware_entry src dest sha (int (length c)) meta) d of
               (fid, d') \<Rightarrow> (Inr (Some fid), (fs', d'))))))"

text \<open>The file of a deleted row is unlinked when its path starts with the library's directory.\<close>

definition unlink_in :: "string \<Rightarrow> string \<Rightarrow> files \<Rightarrow> files" where
  "unlink_in dir p fs = (if p \<noteq> [] \<and> starts_with dir p then fs(p := None) else fs)"

definition firmware_remove :: "string \<Rightarrow> int \<Rightarrow> files \<times> db \<Rightarrow> firmware_row option \<times> (files \<times> db)" where
  "firmware_remove dir fid = (\<lambda>(fs, d). case firmware_delete fid d of
       (Some r, d') \<Rightarrow> (Some r, (unlink_in dir (fr_file_path r) fs, d'))
     | (None, d') \<Rightarrow> (None, (fs, d')))"

section \<open>ISO images\<close>

record iso_meta =
  im_family :: string
  im_version :: string
  im_arch :: string
  im_source_url :: "string option"
  im_notes :: "string option"

definition iso_path :: "string \<Rightarrow> string \<Rightarrow> string" where
  "iso_path dir sha = dir @ ''/'' @ sha @ ''.iso''"

definition iso_entry :: "string \<Rightarrow> string \<Rightarrow> string \<Rightarrow> int \<Rightarrow> iso_meta \<Rightarrow> iso_row" where
  "iso_entry src dest sha size_b meta = \<lparr>ir_name = path_name src, ir_os_family = lower (im_family meta),
     ir_os_version = im_version meta, ir_arch = Some (im_arch meta), ir_file_path = dest, ir_sha256 = sha,
     ir_size_bytes = Some size_b, ir_source_url = im_source_url meta, ir_uploaded_at = None,
     ir_uploaded_by = Some ''user'', ir_notes = im_notes meta\<rparr>"

definition iso_import :: "(string \<Rightarrow> string) \<Rightarrow> string \<Rightarrow> copy_outcome \<Rightarrow> string \<Rightarrow> iso_meta \<Rightarrow> string \<Rightarrow>
    (files \<times> db, int option) io" where
  "iso_import sha_of dir oc now meta src = (\<lambda>(fs, d). case fs src of
       None \<Rightarrow> (Inl (Exn Exn_FileNotFound src), (fs, d))
     | Some c \<Rightarrow> (let sha = sha_of c; dest = iso_path dir sha in
         if iso_get_by_sha d sha \<noteq> None then (Inr None, (fs, d))
         else (case (if fs dest = None then copy_file oc src dest fs else (Inr (), fs)) of
             (Inl e, fs') \<Rightarrow> (Inl e, (fs', d))
           | (Inr _, fs') \<Rightarrow> (case iso_add now (iso_entry src dest sha (int (length c)) meta) d of
               (iid, d') \<Rightarrow> (Inr (Some iid), (fs', d'))))))"

definition iso_remove :: "string \<Rightarrow> int \<Rightarrow> files \<times> db \<Rightarrow> iso_row option \<times> (files \<times> db)" where
  "iso_remove dir iid = (\<lambda>(fs, d). case iso_delete iid d of
       (Some r, d') \<Rightarrow> (Some r, (unlink_in dir (ir_file_path r) fs, d'))
     | (None, d') \<Rightarrow> (None, (fs, d')))"

section \<open>Settings\<close>

definition get_int :: "db \<Rightarrow> string \<Rightarrow> int \<Rightarrow> int" where
  "get_int d key dflt = (case setting_get d key None of
       None \<Rightarrow> dflt
     | Some v \<Rightarrow> if v = [] then dflt else the_default dflt (parse_int v))"

text \<open>Key, default, lower and upper bound.\<close>

definition setting_keys :: "(string \<times> int \<times> int \<times> int) list" where
  "setting_keys = [(''update_concurrency'', 4, 1, 999), (''connect_timeout_s'', 10, 1, 120),
     (''operation_timeout_min'', 30, 1, 480), (''log_retention_days'', 90, 1, 365)]"

definition typed_int :: "db \<Rightarrow> string \<Rightarrow> int option" where
  "typed_int d key = map_option (\<lambda>(dflt, _, _). get_int d key dflt) (map_of setting_keys key)"

definition set_typed_int :: "string \<Rightarrow> int \<Rightarrow> db \<Rightarrow> db option" where
  "set_typed_int key v d = map_option (\<lambda>(_, lo, hi). setting_set key (int_str (limit_to lo hi v)) d) (map_of setting_keys key)"

definition get_bool :: "db \<Rightarrow> string \<Rightarrow> bool \<Rightarrow> bool" where
  "get_bool d key dflt = (case setting_get d key None of None \<Rightarrow> dflt
     | Some v \<Rightarrow> lower v \<in> {''1'', ''true'', ''yes'', ''on''})"

definition set_bool :: "string \<Rightarrow> bool \<Rightarrow> db \<Rightarrow> db" where
  "set_bool key b d = setting_set key (if b then ''1'' else ''0'') d"

section \<open>Facts\<close>

lemma setting_get_set: "setting_get (setting_set key v d) k dflt = (if k = key then Some v else setting_get d k dflt)"
  by (simp add: setting_get_def setting_set_def update_conv')

lemma int_str_ne: "int_str i \<noteq> []"
  by (simp add: int_str_def nat_str_ne)

lemma get_int_set: "get_int (setting_set key (int_str i) d) key dflt = i"
  by (simp add: get_int_def setting_get_set int_str_ne parse_int_str)

lemma exists_sha_add:
  "\<not> firmware_exists_sha d (fr_sha256 fw) \<Longrightarrow> firmware_add now fw d = (fid, d') \<Longrightarrow>
    firmware_get d' fid = Some (fw\<lparr>fr_uploaded_at := Some (the_default now (nonempty (fr_uploaded_at fw)))\<rparr>)"
  using row_insert [of "fw\<lparr>fr_uploaded_at := Some (the_default now (nonempty (fr_uploaded_at fw)))\<rparr>" "db_firmware d"]
  by (auto simp: firmware_add_def firmware_exists_sha_def firmware_get_def Let_def split: prod.splits option.splits)

lemma iso_add_get:
  "iso_get_by_sha d (ir_sha256 img) = None \<Longrightarrow> iso_add now img d = (iid, d') \<Longrightarrow>
    \<exists>r. iso_get d' iid = Some r \<and> ir_sha256 r = ir_sha256 img \<and> ir_file_path r = ir_file_path img \<and> ir_size_bytes r = ir_size_bytes img"
  using row_insert [of "img\<lparr>ir_uploaded_at := Some (the_default now (nonempty (ir_uploaded_at img))),
      ir_arch := Some (the_default ''x86_64'' (nonempty (ir_arch img)))\<rparr>" "db_isos d"]
  by (auto simp: iso_add_def iso_get_def Let_def split: prod.splits option.splits)

section \<open>Properties\<close>

text \<open>Property C38. An imported firmware image is what it says: the row that is added carries the hash of the
  file the operator chose, the copy it points to has exactly that content (so the check before a
  flash will accept it), and no other file changes; a second image with the same hash changes
  nothing, and an import that fails leaves the catalogue alone.\<close>

theorem firmware_import_faithful:
  "case firmware_import sha_of dir oc now meta src (fs, d) of
     (Inr (Some fid), (fs', d')) \<Rightarrow> \<exists>c r. fs src = Some c \<and> firmware_get d' fid = Some r \<and> fr_sha256 r = sha_of c \<and>
        fr_file_path r = firmware_path dir (sha_of c) src \<and> fs' = fs(fr_file_path r \<mapsto> c)
   | (Inr None, x') \<Rightarrow> x' = (fs, d)
   | (Inl _, (_, d')) \<Rightarrow> d' = d"
proof (cases "fs src")
  case None
  then show ?thesis by (simp add: firmware_import_def)
next
  case (Some c)
  let ?dest = "firmware_path dir (sha_of c) src"
  let ?fw = "firmware_entry src ?dest (sha_of c) (int (length c)) meta"
  obtain fid d' where a: "firmware_add now ?fw d = (fid, d')" by fastforce
  have "firmware_get d' fid = Some (?fw\<lparr>fr_uploaded_at := Some now\<rparr>)" if "\<not> firmware_exists_sha d (sha_of c)"
    using exists_sha_add [OF _ a] that by (simp add: firmware_entry_def nonempty_def)
  then show ?thesis using Some a
    by (cases oc) (auto simp: firmware_import_def copy_file_def Let_def firmware_entry_def)
qed

text \<open>Further property. The ISO library trusts what it finds on disk: when a file with the image's name is already in
  the library's directory, for instance the first part of a copy that was interrupted, importing
  the image succeeds without copying, and the new row vouches with the image's hash and size for
  a file whose content is something else.\<close>

theorem iso_import_trusts_leftover:
  assumes "fs src = Some c" "iso_get_by_sha d (sha_of c) = None" "fs (iso_path dir (sha_of c)) = Some left"
  shows "\<exists>iid d' r. iso_import sha_of dir oc now meta src (fs, d) = (Inr (Some iid), (fs, d')) \<and> iso_get d' iid = Some r \<and>
    ir_sha256 r = sha_of c \<and> ir_size_bytes r = Some (int (length c)) \<and> fs (ir_file_path r) = Some left"
proof -
  let ?dest = "iso_path dir (sha_of c)"
  let ?img = "iso_entry src ?dest (sha_of c) (int (length c)) meta"
  obtain iid d' where a: "iso_add now ?img d = (iid, d')" by fastforce
  then show ?thesis using assms iso_add_get [OF _ a] by (auto simp: iso_import_def Let_def iso_entry_def)
qed

theorem iso_import_trusts_leftover_witness:
  "\<exists>fs d'. iso_import (\<lambda>c. c) ''/iso'' (Copy_Failed 1) ''t0'' \<lparr>im_family = ''rocky'', im_version = ''9'', im_arch = [],
       im_source_url = None, im_notes = None\<rparr> ''/u/a.iso'' ([''/u/a.iso'' \<mapsto> ''ABC''], empty_db) = (Inl (Exn Exn_OS ''copy failed''), (fs, empty_db)) \<and>
     (\<exists>iid d' r. iso_import (\<lambda>c. c) ''/iso'' Copied ''t1'' \<lparr>im_family = ''rocky'', im_version = ''9'', im_arch = [],
       im_source_url = None, im_notes = None\<rparr> ''/u/a.iso'' (fs, empty_db) = (Inr (Some iid), (fs, d')) \<and> iso_get d' iid = Some r \<and>
       ir_sha256 r = ''ABC'' \<and> fs (ir_file_path r) = Some ''A'')"
proof -
  have none: "iso_get_by_sha empty_db s = None" for s by (simp add: iso_get_by_sha_def find_row_def empty_db_def)
  let ?fs = "[''/u/a.iso'' \<mapsto> ''ABC'', ''/iso/ABC.iso'' \<mapsto> ''A'']"
  let ?meta = "\<lparr>im_family = ''rocky'', im_version = ''9'', im_arch = [], im_source_url = None, im_notes = None\<rparr>"
  have first: "iso_import (\<lambda>c. c) ''/iso'' (Copy_Failed 1) ''t0'' ?meta ''/u/a.iso'' ([''/u/a.iso'' \<mapsto> ''ABC''], empty_db)
      = (Inl (Exn Exn_OS ''copy failed''), (?fs, empty_db))"
    by (simp add: iso_import_def none iso_path_def copy_file_def)
  have src: "?fs ''/u/a.iso'' = Some ''ABC''" and left': "?fs (iso_path ''/iso'' ((\<lambda>c. c) ''ABC'')) = Some ''A''" by (simp_all add: iso_path_def)
  obtain iid d' r where "iso_import (\<lambda>c. c) ''/iso'' Copied ''t1'' ?meta ''/u/a.iso'' (?fs, empty_db) = (Inr (Some iid), (?fs, d'))"
    and "iso_get d' iid = Some r" and "ir_sha256 r = ''ABC''" and "?fs (ir_file_path r) = Some ''A''"
    using iso_import_trusts_leftover [of ?fs "''/u/a.iso''" "''ABC''" empty_db "\<lambda>c. c" "''/iso''" "''A''" Copied "''t1''" ?meta,
        OF src none left'] by blast
  with first show ?thesis by blast
qed

text \<open>Further property. A setting that is saved is what is read afterwards, brought into the bounds of its key, and
  saving it changes no other setting.\<close>

theorem settings_round_trip:
  assumes "map_of setting_keys key = Some (dflt, lo, hi)"
  shows "\<exists>d'. set_typed_int key v d = Some d' \<and> typed_int d' key = Some (limit_to lo hi v) \<and> lo \<le> limit_to lo hi v \<and> limit_to lo hi v \<le> hi \<and>
    (\<forall>k. k = key \<or> setting_get d' k None = setting_get d k None)"
proof -
  have "lo \<le> hi" using map_of_SomeD [OF assms] by (auto simp: setting_keys_def)
  then show ?thesis using assms limit_to_bounds [of lo hi v]
    by (auto simp: set_typed_int_def typed_int_def get_int_set setting_get_set)
qed

theorem settings_round_trip_witness:
  "\<exists>d'. set_typed_int ''connect_timeout_s'' 500 empty_db = Some d' \<and> typed_int d' ''connect_timeout_s'' = Some 120"
  using settings_round_trip [of "''connect_timeout_s''" 10 1 120 500 empty_db] by (auto simp: setting_keys_def limit_to_def)

end
