(* ===== verification/Autoinstall.thy ===== *)
theory Autoinstall
  imports Prelude
begin

text \<open>
  \<open>core/services/autoinstall_renderer.py\<close>: the per-host installer configuration. \<open>subst\<close> is
  \<open>string.Template.safe_substitute\<close>, \<open>disk_snippets\<close> builds the disk-targeting text and refuses
  to guess a disk, \<open>render\<close> puts them together. The bundled templates are files read at run
  time: \<open>read_template\<close> is a parameter (\<open>None\<close> for a file that is not there).
\<close>

section \<open>string.Template.safe_substitute\<close>

definition is_alpha :: "char \<Rightarrow> bool" where
  "is_alpha c = (let n = code c in (65 \<le> n \<and> n \<le> 90) \<or> (97 \<le> n \<and> n \<le> 122))"

definition id_start :: "char \<Rightarrow> bool" where
  "id_start c = (is_alpha c \<or> c = CHR ''_'')"

definition id_char :: "char \<Rightarrow> bool" where
  "id_char c = (id_start c \<or> is_digit c)"

abbreviation dollar :: char where "dollar \<equiv> CHR 0x24"

text \<open>A maximal identifier at the start of the text, and what follows it.\<close>

definition ident :: "string \<Rightarrow> (string \<times> string) option" where
  "ident s = (case s of [] \<Rightarrow> None
     | c # _ \<Rightarrow> if id_start c then Some (takeWhile id_char s, dropWhile id_char s) else None)"

definition braced :: "string \<Rightarrow> (string \<times> string) option" where
  "braced s = (case s of [] \<Rightarrow> None
     | c # cs \<Rightarrow> if c \<noteq> CHR ''{'' then None
         else (case ident cs of None \<Rightarrow> None
               | Some (n, r) \<Rightarrow> (case r of [] \<Rightarrow> None
                   | d # ds \<Rightarrow> if d = CHR ''}'' then Some (n, ds) else None)))"

lemma ident_shorter: "ident s = Some (n, r) \<Longrightarrow> length r < length s"
  by (cases s) (auto simp: ident_def id_char_def intro: le_imp_less_Suc length_dropWhile_le split: if_splits)

lemma braced_shorter: "braced s = Some (n, r) \<Longrightarrow> length r < length s"
  using ident_shorter
  by (cases s) (fastforce simp: braced_def split: if_splits option.splits list.splits)+

function subst :: "(string \<Rightarrow> string option) \<Rightarrow> string \<Rightarrow> string" where
  "subst ctx [] = []"
| "subst ctx (c # cs) =
     (if c \<noteq> dollar then c # subst ctx cs
      else if starts_with [dollar] cs then dollar # subst ctx (drop 1 cs)
      else (case ident cs of
          Some (n, r) \<Rightarrow> (case ctx n of Some v \<Rightarrow> v | None \<Rightarrow> dollar # n) @ subst ctx r
        | None \<Rightarrow> (case braced cs of
            Some (n, r) \<Rightarrow> (case ctx n of Some v \<Rightarrow> v | None \<Rightarrow> dollar # ''{'' @ n @ ''}'') @ subst ctx r
          | None \<Rightarrow> dollar # subst ctx cs)))"
  by pat_completeness auto
termination
  by (relation "measure (\<lambda>(ctx, s). length s)") (auto dest: ident_shorter braced_shorter)

section \<open>Disk targeting\<close>

definition is_device_handle :: "string \<Rightarrow> bool" where
  "is_device_handle d =
     ((starts_with ''nvme'' d \<and>
       (let r = drop 4 d; a = takeWhile is_digit r; r' = dropWhile is_digit r in
        a \<noteq> [] \<and> starts_with ''n'' r' \<and> drop 1 r' \<noteq> [] \<and> list_all is_digit (drop 1 r')))
      \<or> ((starts_with ''sd'' d \<or> starts_with ''vd'' d) \<and> drop 2 d \<noteq> [] \<and>
         list_all (\<lambda>c. 97 \<le> code c \<and> code c \<le> 122) (drop 2 d)))"

record disk_snippets =
  disk_premount :: string
  disk_directives :: string
  disk_match :: string

definition unlines :: "string list \<Rightarrow> string" where
  "unlines ls = concat (List.map (\<lambda>l. l @ newline) ls)"

definition kickstart_premount :: "string \<Rightarrow> string" where
  "kickstart_premount serial = unlines
     [''%pre --interpreter=/bin/bash --log=/tmp/clusterone-disk-resolve.log'',
      ''TARGET_SERIAL='' @ quoted serial,
      ''DEV='' @ quoted [],
      ''for d in /dev/nvme*n1 /dev/sd? /dev/vd?; do'',
      ''  [ -b \"$d\" ] || continue'',
      ''  sn=$(lsblk -ndo SERIAL \"$d\" 2>/dev/null)'',
      ''  if [ \"$sn\" = \"$TARGET_SERIAL\" ]; then DEV=\"${d#/dev/}\"; break; fi'',
      ''done'',
      ''if [ -z \"$DEV\" ]; then echo \"ClusterOne: no disk with serial ''
        @ ''$TARGET_SERIAL found\" >&2; exit 1; fi'',
      ''cat > /tmp/clusterone-disk.ks <<EOF'',
      ''ignoredisk --only-use=$DEV'',
      ''clearpart --drives=$DEV --all --initlabel'',
      ''bootloader --boot-drive=$DEV --location=mbr'',
      ''EOF''] @ ''%end''"

definition device_directives :: "string \<Rightarrow> string" where
  "device_directives bare = unlines
     [''ignoredisk --only-use='' @ bare,
      ''clearpart --drives='' @ bare @ '' --all --initlabel'']
     @ ''bootloader --boot-drive='' @ bare @ '' --location=mbr''"

definition disk_snippets_of :: "string \<Rightarrow> string \<Rightarrow> string \<Rightarrow> disk_snippets py" where
  "disk_snippets_of os_family device0 serial0 =
     (let fam = lower os_family; device = strip device0; serial = strip serial0;
          is_abs = starts_with ''/dev/'' device;
          bare = (if is_abs then drop 5 device else device);
          is_device = is_abs \<or> is_device_handle device
      in if serial = [] \<and> \<not> is_device
         then Inl (Exn Exn_Value
           (''cannot target a disk safely: no serial reported and '' @ py_repr device @ '' is ''
            @ ''not a Linux device handle '' @ em_dash @ '' refusing to guess which disk to wipe''))
         else if fam \<in> {''ubuntu'', ''debian''}
         then Inr \<lparr>disk_premount = [], disk_directives = [],
                disk_match = (if serial \<noteq> [] then ''serial: '' @ serial
                              else ''path: '' @ (if is_abs then device else ''/dev/'' @ device))\<rparr>
         else if serial \<noteq> []
         then Inr \<lparr>disk_premount = kickstart_premount serial,
                disk_directives = ''%include /tmp/clusterone-disk.ks'', disk_match = []\<rparr>
         else Inr \<lparr>disk_premount = [], disk_directives = device_directives bare, disk_match = []\<rparr>)"

section \<open>Rendering\<close>

definition builtin_template_name :: "string \<Rightarrow> string option" where
  "builtin_template_name os_family = map_of
     [(''rocky'', ''rocky9_minimal.ks''), (''rhel'', ''rocky9_minimal.ks''),
      (''alma'', ''rocky9_minimal.ks''), (''ubuntu'', ''ubuntu24_minimal.yaml''),
      (''debian'', ''ubuntu24_minimal.yaml'')] (lower os_family)"

definition builtin_template :: "string \<Rightarrow> (string \<Rightarrow> string option) \<Rightarrow> string \<Rightarrow> string py" where
  "builtin_template dir read_template os_family = (case builtin_template_name os_family of
       None \<Rightarrow> Inl (Exn Exn_Value
         (''No bundled autoinstall template for OS family '' @ quoted os_family))
     | Some fname \<Rightarrow> (case read_template (dir @ ''/'' @ fname) of
         None \<Rightarrow> Inl (Exn Exn_FileNotFound (''Bundled template missing on disk: '' @ dir @ ''/'' @ fname))
       | Some body \<Rightarrow> Inr body))"

record host_context =
  hc_hostname :: string
  hc_ip :: string
  hc_disk :: string
  hc_root_password :: string
  hc_serial :: string
  hc_ssh_authorized_keys :: string
  hc_gateway :: string
  hc_nameserver :: string

definition render_ctx :: "host_context \<Rightarrow> disk_snippets \<Rightarrow> string \<Rightarrow> string option" where
  "render_ctx h sn = (let clean = strip (hc_disk h) in map_of
     [(''hostname'', if hc_hostname h = [] then ''unnamed-host'' else hc_hostname h),
      (''ip'', hc_ip h),
      (''disk'', clean),
      (''disk_path'', if starts_with ''/'' clean then clean else ''/dev/'' @ clean),
      (''disk_serial'', strip (hc_serial h)),
      (''disk_match'', disk_match sn),
      (''disk_premount'', disk_premount sn),
      (''disk_directives'', disk_directives sn),
      (''root_password'', hc_root_password h),
      (''ssh_authorized_keys'', hc_ssh_authorized_keys h),
      (''gateway'', hc_gateway h),
      (''nameserver'', hc_nameserver h)])"

definition render :: "string \<Rightarrow> (string \<Rightarrow> string option) \<Rightarrow> string option \<Rightarrow> string \<Rightarrow> host_context \<Rightarrow> string py" where
  "render dir read_template template_body os_family h =
     bind_py (case template_body of
                Some b \<Rightarrow> if strip b \<noteq> [] then Inr b else builtin_template dir read_template os_family
              | None \<Rightarrow> builtin_template dir read_template os_family) (\<lambda>body.
     bind_py (disk_snippets_of os_family (hc_disk h) (hc_serial h)) (\<lambda>sn.
     Inr (subst (render_ctx h sn) body)))"

section \<open>Facts\<close>

text \<open>A template as its author means it: text without a dollar sign, escaped dollars and
  braced placeholders.\<close>

datatype part = Text string | Escaped | Placeholder string

fun part_ok :: "part \<Rightarrow> bool" where
  "part_ok (Text t) = (dollar \<notin> set t)"
| "part_ok Escaped = True"
| "part_ok (Placeholder n) = (n \<noteq> [] \<and> id_start (hd n) \<and> list_all id_char n)"

fun part_source :: "part \<Rightarrow> string" where
  "part_source (Text t) = t"
| "part_source Escaped = [dollar, dollar]"
| "part_source (Placeholder n) = dollar # ''{'' @ n @ ''}''"

fun part_value :: "(string \<Rightarrow> string option) \<Rightarrow> part \<Rightarrow> string" where
  "part_value ctx (Text t) = t"
| "part_value ctx Escaped = [dollar]"
| "part_value ctx (Placeholder n) = (case ctx n of Some v \<Rightarrow> v | None \<Rightarrow> part_source (Placeholder n))"

lemma subst_text: "dollar \<notin> set t \<Longrightarrow> subst ctx (t @ s) = t @ subst ctx s"
  by (induction t) auto

lemma not_id_char_brace: "\<not> id_char CHR ''}''"
  by code_simp

lemma ident_not_brace: "ident (CHR ''{'' # s) = None"
proof -
  have "\<not> id_start CHR ''{''" by code_simp
  then show ?thesis by (simp add: ident_def)
qed

lemma braced_name:
  assumes "n \<noteq> []" "id_start (hd n)" "list_all id_char n"
  shows "braced (CHR ''{'' # n @ CHR ''}'' # s) = Some (n, s)"
proof -
  have all: "\<And>x. x \<in> set n \<Longrightarrow> id_char x" using assms(3) by (simp add: list_all_iff)
  have "takeWhile id_char (n @ CHR ''}'' # s) = n" "dropWhile id_char (n @ CHR ''}'' # s) = CHR ''}'' # s"
    using all not_id_char_brace by (simp_all add: takeWhile_append2 dropWhile_append2)
  moreover obtain c cs where "n = c # cs" using assms(1) by (cases n) auto
  ultimately show ?thesis
    using assms(2) by (simp add: braced_def ident_def)
qed

lemma subst_part:
  assumes "part_ok p"
  shows "subst ctx (part_source p @ s) = part_value ctx p @ subst ctx s"
proof (cases p)
  case (Text t)
  then show ?thesis using assms by (simp add: subst_text)
next
  case Escaped
  then show ?thesis by (simp add: starts_with_def)
next
  case (Placeholder n)
  then show ?thesis
    using assms by (simp add: starts_with_def ident_not_brace braced_name split: option.split)
qed

lemma disk_snippets_of_Inr:
  "disk_snippets_of fam device serial = Inr sn \<Longrightarrow>
     strip serial \<noteq> [] \<or> starts_with ''/dev/'' (strip device) \<or> is_device_handle (strip device)"
  by (auto simp: disk_snippets_of_def Let_def split: if_splits)

section \<open>Properties\<close>



text \<open>Further property. Substitution is a single pass: on a template made of plain text, escaped
  dollars and braced placeholders, \<open>safe_substitute\<close> replaces each known placeholder by its
  value verbatim (a dollar inside a password or a key is never expanded again) and leaves
  each unknown placeholder as it was written.\<close>

theorem subst_parts:
  assumes "\<forall>p \<in> set parts. part_ok p"
  shows "subst ctx (concat (List.map part_source parts)) = concat (List.map (part_value ctx) parts)"
  using assms by (induction parts) (simp_all add: subst_part)

theorem subst_parts_witness:
  "subst (map_of [(''pw'', ''a${ip}$'')]) ''rootpw ${pw} ${nope} $$1'' = ''rootpw a${ip}$ ${nope} $1''"
  using subst_parts [of "[Text ''rootpw '', Placeholder ''pw'', Text '' '', Placeholder ''nope'',
    Text '' '', Escaped, Text ''1'']" "map_of [(''pw'', ''a${ip}$'')]"]
  by (simp add: id_start_def id_char_def is_alpha_def is_digit_def code_def)

text \<open>Further property. With a reported serial the installer is pointed at that serial and at nothing
  else: the snippets do not depend on the device name the BMC enumerated, so a bay index
  that differs from the host's enumeration cannot select another disk.\<close>

theorem snippets_by_serial:
  assumes "strip serial \<noteq> []"
  shows "disk_snippets_of fam device serial = disk_snippets_of fam device' serial \<and>
    (\<exists>sn. disk_snippets_of fam device serial = Inr sn \<and>
       (if lower fam \<in> {''ubuntu'', ''debian''} then disk_match sn = ''serial: '' @ strip serial
        else contains (''TARGET_SERIAL='' @ quoted (strip serial)) (disk_premount sn) \<and>
             disk_directives sn = ''%include /tmp/clusterone-disk.ks''))"
proof -
  have c: "contains x (a @ x @ b)" for x a b :: string
    by (auto simp: contains_iff)
  have "contains (''TARGET_SERIAL='' @ quoted s) (kickstart_premount s)" for s
    unfolding kickstart_premount_def unlines_def
    using c [of "''TARGET_SERIAL='' @ quoted s"
      "''%pre --interpreter=/bin/bash --log=/tmp/clusterone-disk-resolve.log'' @ newline"]
    by simp
  then show ?thesis
    using assms by (simp add: disk_snippets_of_def Let_def)
qed

theorem snippets_by_serial_witness:
  "disk_snippets_of ''rocky'' ''Bay 3'' ''S1'' = disk_snippets_of ''rocky'' ''sdb'' ''S1''"
proof -
  have "strip ''S1'' \<noteq> []" by code_simp
  from snippets_by_serial [OF this, of "''rocky''" "''Bay 3''" "''sdb''"] show ?thesis by simp
qed

end
