(* ===== verification/Json_Text.thy ===== *)
theory Json_Text
  imports Json Decimal_Text
begin

text \<open>
  \<open>json.dumps\<close> (default arguments) and \<open>json.loads\<close>: the text in which the code keeps drive lists,
  resolved disks and settings. A code point outside the model's strings is not decoded, and
  \<open>None\<close> stands for a \<open>JSONDecodeError\<close>. The round trip is proved for every value whose floats
  read back, which is decided by computing.
\<close>

section \<open>Writing\<close>

text \<open>Code points: a character stands for its own code, except that 151 is the em dash.\<close>

definition point_of :: "char \<Rightarrow> nat" where
  "point_of c = (if c = CHR 0x97 then 0x2014 else code c)"

definition char_at :: "nat \<Rightarrow> char option" where
  "char_at n = (if n = 0x2014 then Some CHR 0x97 else if n < 256 \<and> n \<noteq> 151 then Some (char_of n) else None)"

definition hex4 :: "nat \<Rightarrow> string" where
  "hex4 n = [hex_digit (n div 4096 mod 16), hex_digit (n div 256 mod 16), hex_digit (n div 16 mod 16), hex_digit (n mod 16)]"

definition short_escapes :: "(char \<times> char) list" where
  "short_escapes = [(CHR 0x22, CHR 0x22), (CHR 0x5C, CHR 0x5C), (CHR 0x08, CHR ''b''), (CHR 0x0C, CHR ''f''),
     (CHR 0x0A, CHR ''n''), (CHR 0x0D, CHR ''r''), (CHR 0x09, CHR ''t'')]"

definition json_escape :: "char \<Rightarrow> string" where
  "json_escape c = (case map_of short_escapes c of
       Some e \<Rightarrow> [CHR 0x5C, e]
     | None \<Rightarrow> if 32 \<le> code c \<and> code c \<le> 126 then [c] else CHR 0x5C # CHR ''u'' # hex4 (point_of c))"

definition str_body :: "string \<Rightarrow> string" where
  "str_body s = concat (List.map json_escape s) @ [CHR 0x22]"

definition dump_str :: "string \<Rightarrow> string" where
  "dump_str s = CHR 0x22 # str_body s"

definition dump_float :: "pyfloat \<Rightarrow> string" where
  "dump_float f = (case f of Fin _ \<Rightarrow> float_repr f | Infinite s \<Rightarrow> if s then ''-Infinity'' else ''Infinity'' | NaN \<Rightarrow> ''NaN'')"

fun dumps :: "json \<Rightarrow> string" where
  "dumps JNull = ''null''"
| "dumps (JBool b) = (if b then ''true'' else ''false'')"
| "dumps (JInt i) = int_str i"
| "dumps (JFloat f) = dump_float f"
| "dumps (JStr s) = dump_str s"
| "dumps (JArr xs) = ''['' @ comma_sep (List.map dumps xs) @ '']''"
| "dumps (JObj kvs) = ''{'' @ comma_sep (List.map (\<lambda>(k, v). dump_str k @ '': '' @ dumps v) kvs) @ ''}''"

section \<open>Reading\<close>

definition hex_value :: "char \<Rightarrow> nat option" where
  "hex_value c = (let n = code c in if 48 \<le> n \<and> n \<le> 57 then Some (n - 48)
     else if 97 \<le> n \<and> n \<le> 102 then Some (n - 87) else if 65 \<le> n \<and> n \<le> 70 then Some (n - 55) else None)"

definition read_hex4 :: "char \<Rightarrow> char \<Rightarrow> char \<Rightarrow> char \<Rightarrow> nat option" where
  "read_hex4 a b c d = (case (hex_value a, hex_value b, hex_value c, hex_value d) of
       (Some w, Some x, Some y, Some z) \<Rightarrow> Some (4096 * w + 256 * x + 16 * y + z) | _ \<Rightarrow> None)"

definition unescapes :: "(char \<times> char) list" where
  "unescapes = (CHR ''/'', CHR ''/'') # List.map (\<lambda>(c, e). (e, c)) short_escapes"

definition push_char :: "char option \<Rightarrow> (string \<times> string) option \<Rightarrow> (string \<times> string) option" where
  "push_char c r = (case (c, r) of (Some c, Some (s, rest)) \<Rightarrow> Some (c # s, rest) | _ \<Rightarrow> None)"

text \<open>The rest of a string literal, after its opening quote.\<close>

fun scan_str :: "string \<Rightarrow> (string \<times> string) option" where
  "scan_str [] = None"
| "scan_str (c # cs) =
     (if c = CHR 0x22 then Some ([], cs)
      else if c = CHR 0x5C then (case cs of
          [] \<Rightarrow> None
        | e # es \<Rightarrow> if e = CHR ''u'' then (case es of
              h1 # h2 # h3 # h4 # rest \<Rightarrow> push_char (Option.bind (read_hex4 h1 h2 h3 h4) char_at) (scan_str rest)
            | _ \<Rightarrow> None)
          else push_char (map_of unescapes e) (scan_str es))
      else if code c < 32 then None else push_char (Some c) (scan_str cs))"

definition is_num_char :: "char \<Rightarrow> bool" where
  "is_num_char c = (is_digit c \<or> c \<in> {CHR ''-'', CHR ''+'', CHR ''.'', CHR ''e'', CHR ''E''})"

definition plain_digits :: "string \<Rightarrow> bool" where
  "plain_digits s = (s \<noteq> [] \<and> list_all is_digit s)"

definition whole_part :: "string \<Rightarrow> bool" where
  "whole_part s = (plain_digits s \<and> (hd s = CHR ''0'' \<longrightarrow> tl s = []))"

text \<open>A number token: \<open>-?(0|[1-9][0-9]*)(.[0-9]+)?([eE][-+]?[0-9]+)?\<close>.\<close>

definition strip_minus :: "string \<Rightarrow> string" where
  "strip_minus s = (if s \<noteq> [] \<and> hd s = CHR ''-'' then tl s else s)"

definition exp_ok :: "string \<Rightarrow> bool" where
  "exp_ok x = plain_digits (if x \<noteq> [] \<and> (hd x = CHR ''-'' \<or> hd x = CHR ''+'') then tl x else x)"

definition read_number :: "string \<Rightarrow> json option" where
  "read_number s = (let u = strip_minus s in
     if whole_part u then Some (JInt (if u = s then int_of_digits u else - int_of_digits u))
     else (case partition_str ''e'' (lower u) of (mant, has_e, x) \<Rightarrow>
       (case partition_str ''.'' mant of (w, dot, fpart) \<Rightarrow>
         if whole_part w \<and> (dot \<longrightarrow> plain_digits fpart) \<and> (has_e \<longrightarrow> exp_ok x)
         then map_option JFloat (parse_float s) else None)))"

definition skip_ws :: "string \<Rightarrow> string" where
  "skip_ws = dropWhile (\<lambda>c. c \<in> {CHR '' '', CHR 0x09, CHR 0x0A, CHR 0x0D})"

text \<open>The last of equal keys wins and keeps the place of the first.\<close>

fun put_key :: "string \<Rightarrow> json \<Rightarrow> (string \<times> json) list \<Rightarrow> (string \<times> json) list" where
  "put_key k v [] = [(k, v)]"
| "put_key k v ((k', v') # kvs) = (if k' = k then (k, v) # kvs else (k', v') # put_key k v kvs)"

definition literals :: "(string \<times> json) list" where
  "literals = [(''null'', JNull), (''true'', JBool True), (''false'', JBool False), (''NaN'', JFloat NaN),
     (''Infinity'', JFloat (Infinite False)), (''-Infinity'', JFloat (Infinite True))]"

definition read_atom :: "string \<Rightarrow> (json \<times> string) option" where
  "read_atom s = (case List.find (\<lambda>(t, _). starts_with t s) literals of
       Some (t, j) \<Rightarrow> Some (j, drop (length t) s)
     | None \<Rightarrow> (case read_number (takeWhile is_num_char s) of
         Some j \<Rightarrow> Some (j, dropWhile is_num_char s) | None \<Rightarrow> None))"

text \<open>The fuel bounds the number of values, elements and members; the length of the text is enough.\<close>

fun read_value :: "nat \<Rightarrow> string \<Rightarrow> (json \<times> string) option"
  and read_elems :: "nat \<Rightarrow> json list \<Rightarrow> string \<Rightarrow> (json \<times> string) option"
  and read_members :: "nat \<Rightarrow> (string \<times> json) list \<Rightarrow> string \<Rightarrow> (json \<times> string) option" where
  "read_value 0 s = None"
| "read_value (Suc n) s = (case s of [] \<Rightarrow> None | c # cs \<Rightarrow>
     if c = CHR 0x22 then map_option (\<lambda>(t, rest). (JStr t, rest)) (scan_str cs)
     else if c = CHR ''['' then (case skip_ws cs of
         [] \<Rightarrow> None | d # ds \<Rightarrow> if d = CHR '']'' then Some (JArr [], ds) else read_elems n [] (d # ds))
     else if c = CHR ''{'' then (case skip_ws cs of
         [] \<Rightarrow> None | d # ds \<Rightarrow> if d = CHR ''}'' then Some (JObj [], ds) else read_members n [] (d # ds))
     else read_atom s)"
| "read_elems 0 acc s = None"
| "read_elems (Suc n) acc s = (case read_value n s of None \<Rightarrow> None | Some (j, r) \<Rightarrow>
     (case skip_ws r of [] \<Rightarrow> None | d # ds \<Rightarrow>
        if d = CHR '']'' then Some (JArr (acc @ [j]), ds)
        else if d = CHR '','' then read_elems n (acc @ [j]) (skip_ws ds) else None))"
| "read_members 0 acc s = None"
| "read_members (Suc n) acc s = (case s of [] \<Rightarrow> None | q # qs \<Rightarrow> if q \<noteq> CHR 0x22 then None else
     (case scan_str qs of None \<Rightarrow> None | Some (k, r) \<Rightarrow> (case skip_ws r of [] \<Rightarrow> None | c # cs \<Rightarrow>
        if c \<noteq> CHR '':'' then None
        else (case read_value n (skip_ws cs) of None \<Rightarrow> None | Some (j, r') \<Rightarrow>
          (case skip_ws r' of [] \<Rightarrow> None | d # ds \<Rightarrow>
             if d = CHR ''}'' then Some (JObj (put_key k j acc), ds)
             else if d = CHR '','' then read_members n (put_key k j acc) (skip_ws ds) else None)))))"

definition loads :: "string \<Rightarrow> json option" where
  "loads s = (case read_value (Suc (length s)) (skip_ws s) of
       Some (j, rest) \<Rightarrow> if skip_ws rest = [] then Some j else None
     | None \<Rightarrow> None)"

section \<open>Strings read back\<close>

lemma code_bound: "code c < 256"
  using of_char_mod_256 [of c, where 'a = nat] unfolding code_def by (metis mod_less_divisor zero_less_numeral)

lemma char_of_code [simp]: "char_of (code c) = c"
  by (simp add: code_def)

lemma hex_value_digit: "k < 16 \<Longrightarrow> hex_value (hex_digit k) = Some k"
  by (auto simp: hex_value_def hex_digit_def code_def Let_def)

lemma read_hex4_hex4:
  assumes "n < 65536"
  shows "read_hex4 (hex_digit (n div 4096 mod 16)) (hex_digit (n div 256 mod 16)) (hex_digit (n div 16 mod 16)) (hex_digit (n mod 16)) = Some n"
proof -
  have d: "n div 256 = n div 16 div 16" "n div 4096 = n div 16 div 16 div 16"
    by (simp_all add: div_mult2_eq [symmetric])
  have "n div 4096 mod 16 = n div 4096" using assms by simp
  moreover have "4096 * (n div 4096) + 256 * (n div 256 mod 16) + 16 * (n div 16 mod 16) + n mod 16 = n"
    unfolding d using mult_div_mod_eq [of 16 n] mult_div_mod_eq [of 16 "n div 16"] mult_div_mod_eq [of 16 "n div 16 div 16"]
    by linarith
  moreover have "n div 4096 < 16" using assms by simp
  ultimately show ?thesis by (simp add: read_hex4_def hex_value_digit)
qed

lemma char_at_point: "char_at (point_of c) = Some c"
proof (cases "code c = 151")
  case True
  moreover have "char_of (151::nat) = CHR 0x97" by code_simp
  ultimately have "c = CHR 0x97" by (metis char_of_code)
  then show ?thesis by (simp add: char_at_def point_of_def)
next
  case False
  then have "c \<noteq> CHR 0x97" by (auto simp: code_def)
  then show ?thesis using False code_bound [of c] by (simp add: char_at_def point_of_def)
qed

lemma point_of_bound: "point_of c < 65536"
  using code_bound [of c] by (auto simp: point_of_def)

lemma unescape_escape:
  assumes "map_of short_escapes c = Some e"
  shows "map_of unescapes e = Some c \<and> e \<noteq> CHR ''u''"
  using assms by (auto simp: short_escapes_def unescapes_def split: if_splits)

lemma scan_escape: "scan_str (json_escape c @ s) = push_char (Some c) (scan_str s)"
proof (cases "map_of short_escapes c")
  case (Some e)
  then show ?thesis using unescape_escape [OF Some] by (simp add: json_escape_def)
next
  case None
  then have ne: "c \<noteq> CHR 0x22" "c \<noteq> CHR 0x5C" by (auto simp: short_escapes_def split: if_splits)
  show ?thesis
  proof (cases "32 \<le> code c \<and> code c \<le> 126")
    case True
    then show ?thesis using None ne by (auto simp: json_escape_def)
  next
    case False
    then show ?thesis
      using None ne by (simp add: json_escape_def hex4_def read_hex4_hex4 [OF point_of_bound] char_at_point)
  qed
qed

lemma scan_body: "scan_str (str_body s @ rest) = Some (s, rest)"
proof (induction s)
  case (Cons c s)
  then show ?case using scan_escape [of c "str_body s @ rest"] by (simp add: str_body_def push_char_def)
qed (simp add: str_body_def)

section \<open>Numbers read back\<close>

lemma whole_nat_str: "0 \<le> n \<Longrightarrow> whole_part (nat_str n)"
proof (cases "n = 0")
  case False
  moreover assume "0 \<le> n"
  ultimately show ?thesis using nat_str_digits nat_str_ne nat_str_lead [of n] by (simp add: whole_part_def plain_digits_def)
qed (use nat_str_digits [of 0] in \<open>simp add: nat_str.simps [of 0] whole_part_def plain_digits_def\<close>)

lemma read_int: "read_number (int_str i) = Some (JInt i)"
proof (cases "i < 0")
  case True
  then show ?thesis using whole_nat_str [of "- i"] nat_str_ne
    by (simp add: read_number_def int_str_def strip_minus_def int_of_digits_nat_str Let_def)
next
  case False
  then have "strip_minus (nat_str i) = nat_str i"
    using digits_head [of i] nat_str_ne [of i] by (cases "nat_str i") (auto simp: strip_minus_def)
  then show ?thesis using False whole_nat_str [of i] by (simp add: read_number_def int_str_def int_of_digits_nat_str)
qed

lemma int_str_nums: "list_all is_num_char (int_str i)"
proof -
  have "list_all is_num_char (nat_str n)" if "0 \<le> n" for n
    using nat_str_digits [OF that] by (auto simp: list_all_iff is_num_char_def)
  from this [of i] this [of "- i"] show ?thesis by (simp add: int_str_def) (simp add: is_num_char_def)
qed

section \<open>Values read back\<close>

text \<open>What the round trip asks of a value: keys are distinct, and floats read back, which \<open>float_ok\<close> computes.\<close>

definition float_ok :: "pyfloat \<Rightarrow> bool" where
  "float_ok f = (case f of Fin _ \<Rightarrow> list_all is_num_char (dump_float f) \<and> read_number (dump_float f) = Some (JFloat f) | _ \<Rightarrow> True)"

fun json_ok :: "json \<Rightarrow> bool" where
  "json_ok (JFloat f) = float_ok f"
| "json_ok (JArr xs) = list_all json_ok xs"
| "json_ok (JObj kvs) = (distinct (List.map fst kvs) \<and> list_all (\<lambda>(_, v). json_ok v) kvs)"
| "json_ok _ = True"

fun need :: "json \<Rightarrow> nat" where
  "need (JArr xs) = Suc (sum_list (List.map (\<lambda>x. Suc (need x)) xs))"
| "need (JObj kvs) = Suc (sum_list (List.map (\<lambda>(_, v). Suc (need v)) kvs))"
| "need _ = 1"

definition stops :: "string \<Rightarrow> bool" where
  "stops s = (s = [] \<or> \<not> is_num_char (hd s))"

lemma take_token: "list_all P t \<Longrightarrow> s = [] \<or> \<not> P (hd s) \<Longrightarrow> takeWhile P (t @ s) = t \<and> dropWhile P (t @ s) = s"
  by (induction t) (cases s, auto)+

lemma read_number_ne: "read_number t = Some j \<Longrightarrow> t \<noteq> [] \<and> t \<noteq> ''-''"
  by (auto simp: read_number_def strip_minus_def whole_part_def plain_digits_def lower_def Let_def)

lemma starts_with_Cons: "starts_with (x # xs) (c # s) \<longleftrightarrow> c = x \<and> starts_with xs s"
  by (auto simp: starts_with_def)

lemma read_atom_token:
  assumes "list_all is_num_char t" "read_number t = Some j" "stops rest"
  shows "read_atom (t @ rest) = Some (j, rest)"
proof -
  obtain c cs where t: "t = c # cs" "cs \<noteq> [] \<or> c \<noteq> CHR ''-''"
    using read_number_ne [OF assms(2)] by (cases t) auto
  have c: "is_num_char c" and cs: "cs \<noteq> [] \<Longrightarrow> is_num_char (hd cs)"
    using assms(1) t by (auto simp: list_all_iff)
  have no: "\<not> is_num_char x" if "x \<in> set ''ntfNI''" for x
    using that by (auto simp: is_num_char_def is_digit_def code_def)
  have "c \<notin> set ''ntfNI''" using c no by blast
  moreover have "c = CHR ''-'' \<Longrightarrow> \<not> starts_with ''Infinity'' (cs @ rest)"
    using t(2) cs no [of "CHR ''I''"] by (cases cs) (auto simp: starts_with_Cons)
  ultimately have "List.find (\<lambda>(x, _). starts_with x (t @ rest)) literals = None"
    using t(1) by (simp add: literals_def starts_with_Cons)
  then show ?thesis
    using take_token [OF assms(1), of rest] assms(2,3) by (auto simp: read_atom_def stops_def)
qed

lemma read_atom_literal:
  "(t, j) \<in> set literals \<Longrightarrow> read_atom (t @ rest) = Some (j, rest)"
  by (auto simp: literals_def read_atom_def starts_with_def)

text \<open>The first character of a written value.\<close>

definition opens :: "char \<Rightarrow> bool" where
  "opens c = (c \<notin> {CHR '' '', CHR 0x09, CHR 0x0A, CHR 0x0D, CHR '']'', CHR ''}'', CHR '','', CHR '':''})"

lemma num_char_opens: "is_num_char c \<Longrightarrow> opens c \<and> c \<notin> {CHR 0x22, CHR ''['', CHR ''{''}"
  by (auto simp: is_num_char_def opens_def is_digit_def code_def)

definition value_text :: "string \<Rightarrow> json \<Rightarrow> bool" where
  "value_text t j = (t \<noteq> [] \<and> opens (hd t) \<and> need j \<le> length t \<and>
     (\<forall>n rest. need j \<le> n \<longrightarrow> stops rest \<longrightarrow> read_value n (t @ rest) = Some (j, rest)))"

lemma skip_opens: "t \<noteq> [] \<Longrightarrow> opens (hd t) \<Longrightarrow> skip_ws (t @ s) = t @ s"
  by (cases t) (auto simp: skip_ws_def opens_def)

lemma value_text_number:
  assumes "list_all is_num_char t" "read_number t = Some j" "need j = 1"
  shows "value_text t j"
proof -
  obtain c cs where t: "t = c # cs" using read_number_ne [OF assms(2)] by (cases t) auto
  then have c: "opens c" "c \<notin> {CHR 0x22, CHR ''['', CHR ''{''}" using assms(1) num_char_opens [of c] by auto
  have "read_value n (t @ rest) = Some (j, rest)" if "1 \<le> n" "stops rest" for n rest
    using that c read_atom_token [OF assms(1,2) that(2)] t by (cases n) auto
  then show ?thesis using t c(1) assms(3) by (simp add: value_text_def)
qed

lemma value_text_literal:
  assumes "(t, j) \<in> set literals"
  shows "value_text t j"
proof -
  have "t \<noteq> [] \<and> opens (hd t) \<and> hd t \<notin> {CHR 0x22, CHR ''['', CHR ''{''} \<and> need j = 1"
    using assms by (auto simp: literals_def opens_def)
  moreover from this have "read_value n (t @ rest) = Some (j, rest)" if "1 \<le> n" for n rest
    using that read_atom_literal [OF assms, of rest] by (cases n; cases t) auto
  ultimately show ?thesis by (cases t) (auto simp: value_text_def)
qed

lemma value_text_str: "value_text (dump_str s) (JStr s)"
proof -
  have "read_value n (dump_str s @ rest) = Some (JStr s, rest)" if "1 \<le> n" for n rest
    using that scan_body [of s rest] by (cases n) (simp_all add: dump_str_def)
  then show ?thesis by (auto simp: value_text_def dump_str_def opens_def)
qed

lemma stops_delims [simp]: "stops (CHR '']'' # s)" "stops (CHR ''}'' # s)" "stops (CHR '','' # s)" "stops (CHR '':'' # s)" "stops []"
  by (simp_all add: stops_def is_num_char_def is_digit_def code_def)

lemma skip_delims [simp]:
  "skip_ws (CHR '']'' # s) = CHR '']'' # s" "skip_ws (CHR ''}'' # s) = CHR ''}'' # s"
  "skip_ws (CHR '','' # s) = CHR '','' # s" "skip_ws (CHR '':'' # s) = CHR '':'' # s"
  "skip_ws (CHR 0x22 # s) = CHR 0x22 # s" "skip_ws (CHR '' '' # s) = skip_ws s"
  by (simp_all add: skip_ws_def)

lemma value_textD:
  assumes "value_text t j"
  shows "need j \<le> n \<Longrightarrow> stops rest \<Longrightarrow> read_value n (t @ rest) = Some (j, rest)" "skip_ws (t @ s) = t @ s"
    "need j \<le> length t"
  using assms skip_opens by (auto simp: value_text_def)

lemma read_elems_dumps:
  assumes "\<forall>x \<in> set xs. value_text (dumps x) x" "xs \<noteq> []" "sum_list (List.map (\<lambda>x. Suc (need x)) xs) \<le> n"
  shows "read_elems n acc (comma_sep (List.map dumps xs) @ CHR '']'' # rest) = Some (JArr (acc @ xs), rest)"
  using assms
proof (induction xs arbitrary: n acc)
  case (Cons x xs)
  then obtain m where n: "n = Suc m" "need x \<le> m" "sum_list (List.map (\<lambda>x. Suc (need x)) xs) \<le> m"
    by (cases n) auto
  have v: "value_text (dumps x) x" using Cons.prems by simp
  show ?case
  proof (cases xs)
    case Nil
    then show ?thesis using value_textD(1) [OF v n(2)] n(1) by simp
  next
    case (Cons y ys)
    have "value_text (dumps y) y" using Cons.prems Cons by simp
    then have skip: "skip_ws (comma_sep (List.map dumps (y # ys)) @ s) = comma_sep (List.map dumps (y # ys)) @ s" for s
      using value_textD(2) by (cases ys) simp_all
    have "read_elems m (acc @ [x]) (comma_sep (List.map dumps xs) @ CHR '']'' # rest) = Some (JArr ((acc @ [x]) @ xs), rest)"
      using Cons.IH [of m] Cons.prems n(3) Cons by simp
    then show ?thesis using value_textD(1) [OF v n(2)] n(1) Cons skip by simp
  qed
qed simp

definition member_text :: "string \<times> json \<Rightarrow> string" where
  "member_text kv = dump_str (fst kv) @ '': '' @ dumps (snd kv)"

lemma put_key_fresh: "k \<notin> fst ` set acc \<Longrightarrow> put_key k v acc = acc @ [(k, v)]"
  by (induction acc) auto

lemma read_members_dumps:
  assumes "\<forall>kv \<in> set kvs. value_text (dumps (snd kv)) (snd kv)" "kvs \<noteq> []" "distinct (List.map fst (acc @ kvs))"
    "sum_list (List.map (\<lambda>(_, v). Suc (need v)) kvs) \<le> n"
  shows "read_members n acc (comma_sep (List.map member_text kvs) @ CHR ''}'' # rest) = Some (JObj (acc @ kvs), rest)"
  using assms
proof (induction kvs arbitrary: n acc)
  case (Cons kv kvs)
  obtain k v where kv: "kv = (k, v)" by fastforce
  obtain m where n: "n = Suc m" "need v \<le> m" "sum_list (List.map (\<lambda>(_, v). Suc (need v)) kvs) \<le> m"
    using Cons.prems kv by (cases n) auto
  have v: "value_text (dumps v) v" using Cons.prems kv by simp
  have put: "put_key k v acc = acc @ [(k, v)]" using Cons.prems(3) kv by (intro put_key_fresh) auto
  note step = scan_body value_textD(2) [OF v] value_textD(1) [OF v n(2)] put
  show ?case
  proof (cases kvs)
    case Nil
    then show ?thesis using n(1) kv by (simp add: member_text_def dump_str_def step)
  next
    case (Cons y ys)
    have skip: "skip_ws (comma_sep (List.map member_text (y # ys)) @ s) = comma_sep (List.map member_text (y # ys)) @ s" for s
      by (cases ys) (simp_all add: member_text_def dump_str_def)
    have "read_members m (acc @ [(k, v)]) (comma_sep (List.map member_text kvs) @ CHR ''}'' # rest) =
        Some (JObj ((acc @ [(k, v)]) @ kvs), rest)"
      using Cons.prems n(3) Cons kv by (intro Cons.IH) auto
    moreover have "comma_sep (List.map member_text (kv # kvs)) = dump_str k @ '': '' @ dumps v @ '', '' @ comma_sep (List.map member_text kvs)"
      using Cons kv by (simp add: member_text_def)
    ultimately show ?thesis using n(1) kv skip Cons by (simp add: dump_str_def step)
  qed
qed simp

lemma comma_sep_length: "xs \<noteq> [] \<Longrightarrow> length (comma_sep xs) + 2 = sum_list (List.map (\<lambda>s. length s + 2) xs)"
  by (induction xs rule: comma_sep.induct) simp_all

lemma value_text_arr:
  assumes "\<forall>x \<in> set xs. value_text (dumps x) x"
  shows "value_text (dumps (JArr xs)) (JArr xs)"
proof (cases "xs = []")
  case True
  have "read_value n (''[]'' @ rest) = Some (JArr [], rest)" if "1 \<le> n" for n rest
    using that by (cases n) simp_all
  then show ?thesis using True by (simp add: value_text_def opens_def)
next
  case False
  let ?t = "comma_sep (List.map dumps xs)"
  have "sum_list (List.map (\<lambda>x. Suc (need x)) l) + length l \<le> sum_list (List.map (\<lambda>x. length (dumps x) + 2) l)"
    if "\<forall>x \<in> set l. value_text (dumps x) x" for l
    using that by (induction l) (auto dest!: value_textD(3))
  then have "sum_list (List.map (\<lambda>x. Suc (need x)) xs) + length xs \<le> length ?t + 2"
    using assms False comma_sep_length [of "List.map dumps xs"] by (simp add: comp_def)
  then have len: "sum_list (List.map (\<lambda>x. Suc (need x)) xs) \<le> Suc (length ?t)" using False by (cases xs) simp_all
  obtain y ys where xs: "xs = y # ys" using False by (cases xs) auto
  have y: "dumps y \<noteq> []" "opens (hd (dumps y))" using assms xs by (auto simp: value_text_def)
  have "read_value n (dumps (JArr xs) @ rest) = Some (JArr xs, rest)" if n: "need (JArr xs) \<le> n" for n rest
  proof -
    obtain m where m: "n = Suc m" "sum_list (List.map (\<lambda>x. Suc (need x)) xs) \<le> m" using n by (cases n) auto
    have "?t \<noteq> [] \<and> hd ?t = hd (dumps y)" using y(1) xs by (cases ys) simp_all
    then obtain c cs where t: "?t = c # cs" "opens c" using y(2) by (cases ?t) auto
    have "skip_ws (?t @ CHR '']'' # rest) = ?t @ CHR '']'' # rest" using t by (intro skip_opens) simp_all
    moreover have "c \<noteq> CHR '']''" using t(2) by (simp add: opens_def)
    ultimately show ?thesis using read_elems_dumps [OF assms False m(2), of "[]" rest] m(1) t(1) by simp
  qed
  then show ?thesis using len by (auto simp: value_text_def opens_def)
qed

lemma dumps_obj: "dumps (JObj kvs) = ''{'' @ comma_sep (List.map member_text kvs) @ ''}''"
proof -
  have "(\<lambda>(k, v). dump_str k @ '': '' @ dumps v) = member_text" by (auto simp: fun_eq_iff member_text_def)
  then show ?thesis by (simp only: dumps.simps)
qed

lemma value_text_obj:
  assumes "\<forall>kv \<in> set kvs. value_text (dumps (snd kv)) (snd kv)" "distinct (List.map fst kvs)"
  shows "value_text (dumps (JObj kvs)) (JObj kvs)"
proof (cases "kvs = []")
  case True
  have "read_value n (''{}'' @ rest) = Some (JObj [], rest)" if "1 \<le> n" for n rest
    using that by (cases n) simp_all
  then show ?thesis using True by (simp add: value_text_def opens_def)
next
  case False
  let ?t = "comma_sep (List.map member_text kvs)"
  have "sum_list (List.map (\<lambda>(_, v). Suc (need v)) l) + length l \<le> sum_list (List.map (\<lambda>kv. length (member_text kv) + 2) l)"
    if "\<forall>kv \<in> set l. value_text (dumps (snd kv)) (snd kv)" for l
    using that by (induction l) (auto simp: member_text_def dest!: value_textD(3))
  then have "sum_list (List.map (\<lambda>(_, v). Suc (need v)) kvs) + length kvs \<le> length ?t + 2"
    using assms(1) False comma_sep_length [of "List.map member_text kvs"] by (simp add: comp_def)
  then have len: "sum_list (List.map (\<lambda>(_, v). Suc (need v)) kvs) \<le> Suc (length ?t)" using False by (cases kvs) simp_all
  have t: "?t = CHR 0x22 # tl ?t" using False by (cases kvs rule: remdups_adj.cases) (simp_all add: member_text_def dump_str_def)
  have "read_value n (dumps (JObj kvs) @ rest) = Some (JObj kvs, rest)" if n: "need (JObj kvs) \<le> n" for n rest
  proof -
    obtain m where m: "n = Suc m" "sum_list (List.map (\<lambda>(_, v). Suc (need v)) kvs) \<le> m" using n by (cases n) auto
    have "read_members m [] (?t @ CHR ''}'' # rest) = Some (JObj kvs, rest)"
      using read_members_dumps [OF assms(1) False _ m(2), of "[]" rest] assms(2) by simp
    then have "read_members m [] (CHR 0x22 # tl ?t @ CHR ''}'' # rest) = Some (JObj kvs, rest)" by (subst (asm) t) simp
    then show ?thesis unfolding dumps_obj m(1) by (subst t) simp
  qed
  then show ?thesis unfolding value_text_def dumps_obj using len by (auto simp: opens_def)
qed

lemma value_text_dumps: "json_ok j \<Longrightarrow> value_text (dumps j) j"
proof (induction j)
  case (JFloat f)
  then show ?case
    by (cases f) (auto simp: float_ok_def dump_float_def literals_def intro: value_text_number value_text_literal)
next
  case (JArr xs)
  then show ?case by (intro value_text_arr) (auto simp: list_all_iff)
next
  case (JObj kvs)
  then show ?case by (intro value_text_obj) (fastforce simp: list_all_iff)+
next
  case (JInt i)
  then show ?case using value_text_number [OF int_str_nums read_int] by simp
next
  case (JBool b)
  then show ?case using value_text_literal [of "dumps (JBool b)" "JBool b"] by (simp add: literals_def)
next
  case JNull
  then show ?case using value_text_literal [of "''null''" JNull] by (simp add: literals_def)
qed (simp add: value_text_str)

lemma loads_dumps: "json_ok j \<Longrightarrow> loads (dumps j) = Some j"
proof -
  assume "json_ok j"
  then have v: "value_text (dumps j) j" by (rule value_text_dumps)
  then have "read_value (Suc (length (dumps j))) (dumps j @ []) = Some (j, [])"
    by (intro value_textD(1)) (auto simp: value_text_def)
  moreover have "skip_ws (dumps j) = dumps j" using value_textD(2) [OF v, of "[]"] by simp
  ultimately show ?thesis by (simp add: loads_def skip_ws_def)
qed

section \<open>Properties\<close>



end
