(* ===== verification/Provisioning.thy ===== *)
theory Provisioning
  imports Update_Orchestrator Disk_Resolver Autoinstall Json_Text File_Server
begin

text \<open>
  \<open>core/services/provisioning_orchestrator.py\<close>: the in-memory autoinstall configs, the preview of
  the disk each host would lose, starting a job, one installation from its checks to the ejected
  medium, and the sweep at startup. Callbacks are left out, the pool of a job is in \<open>Job_Pool\<close>.
  Clock arithmetic is exact. A stored drive whose fields have other types than \<open>Drive\<close> declares
  makes its row unreadable in the model; the code stores only \<open>Drive.to_dict\<close>.
\<close>

section \<open>The autoinstall configs in memory\<close>

type_synonym configs = "(string \<times> (string \<times> rat)) list"

definition configs_ttl :: rat where
  "configs_ttl = 30 * 60"

definition purge_expired_configs :: "rat \<Rightarrow> configs \<Rightarrow> configs" where
  "purge_expired_configs now c = filter (\<lambda>(_, (_, expiry)). \<not> expiry \<le> now) c"

definition autoinstall_provider :: "rat \<Rightarrow> string \<Rightarrow> configs \<Rightarrow> string option \<times> configs" where
  "autoinstall_provider now token c = (let c' = purge_expired_configs now c in (map_option fst (map_of c' token), c'))"

definition put_config :: "string \<Rightarrow> string \<Rightarrow> rat \<Rightarrow> configs \<Rightarrow> configs" where
  "put_config token body expiry c = (token, (body, expiry)) # filter (\<lambda>(k, _). k \<noteq> token) c"

definition pop_config :: "string \<Rightarrow> configs \<Rightarrow> configs" where
  "pop_config token c = filter (\<lambda>(k, _). k \<noteq> token) c"

section \<open>Preview\<close>

definition read_drive :: "json \<Rightarrow> drive option" where
  "read_drive j = (case drive_from_dict j of Drive_Ok d \<Rightarrow> Some d | _ \<Rightarrow> None)"

fun all_some :: "'a option list \<Rightarrow> 'a list option" where
  "all_some [] = Some []"
| "all_some (x # xs) = (case (x, all_some xs) of (Some a, Some as) \<Rightarrow> Some (a # as) | _ \<Rightarrow> None)"

definition drives_from_row :: "server_row \<Rightarrow> drive list" where
  "drives_from_row r = (case nonempty (sr_disks_json r) of
       None \<Rightarrow> []
     | Some raw \<Rightarrow> (case loads raw of
         None \<Rightarrow> []
       | Some j \<Rightarrow> (case jiter j of Inl _ \<Rightarrow> [] | Inr js \<Rightarrow> the_default [] (all_some (List.map read_drive js)))))"

definition provision_info :: "server_row \<Rightarrow> server_info" where
  "provision_info r = (info_from_row (effective_oem r) r)\<lparr>si_drives := drives_from_row r\<rparr>"

record resolved_disk =
  rv_name :: "string option"
  rv_model :: "string option"
  rv_capacity :: "pyfloat option"
  rv_serial :: "string option"
  rv_reason :: string
  rv_status :: string

text \<open>The operator's picks: \<open>{server_id: drive_name}\<close>, whose keys may also be the decimal text of the id.\<close>

type_synonym overrides = "(json \<times> string) list"

definition override_for :: "overrides \<Rightarrow> int \<Rightarrow> string option" where
  "override_for ov sid = (case nonempty (map_of ov (JInt sid)) of
       Some n \<Rightarrow> Some n | None \<Rightarrow> nonempty (map_of ov (JStr (int_str sid))))"

definition of_drive :: "drive \<Rightarrow> string \<Rightarrow> string \<Rightarrow> resolved_disk py" where
  "of_drive d reason status = bind_py (capacity_gb d) (\<lambda>g. Inr \<lparr>rv_name = Some (d_name d), rv_model = Some (d_model d),
     rv_capacity = Some g, rv_serial = Some (d_serial d), rv_reason = reason, rv_status = status\<rparr>)"

definition no_disk :: "string option \<Rightarrow> string \<Rightarrow> string \<Rightarrow> resolved_disk" where
  "no_disk name reason status = \<lparr>rv_name = name, rv_model = None, rv_capacity = None, rv_serial = None,
     rv_reason = reason, rv_status = status\<rparr>"

definition resolve_for :: "int \<Rightarrow> drive list \<Rightarrow> string \<Rightarrow> overrides \<Rightarrow> resolved_disk py" where
  "resolve_for sid drives strategy ov = (case override_for ov sid of
       Some name \<Rightarrow> (case List.find (\<lambda>d. d_name d = name) drives of
           Some d \<Rightarrow> of_drive d ''operator override'' ''override''
         | None \<Rightarrow> Inr (no_disk (Some name) (''override '' @ quoted name @ '' not in inventory'') ''unmatched''))
     | None \<Rightarrow> if strategy = [] then Inr (no_disk None ''no strategy or override selected'' ''unmatched'')
         else bind_py (resolve strategy drives) (\<lambda>res. case res_drive res of
             Some d \<Rightarrow> of_drive d (res_reason res) (res_status_value (res_status res))
           | None \<Rightarrow> Inr (no_disk None (res_reason res) (res_status_value (res_status res)))))"

definition resolved_json :: "resolved_disk \<Rightarrow> json" where
  "resolved_json r = JObj [(''name'', jopt (rv_name r)), (''model'', jopt (rv_model r)),
     (''capacity_gb'', case rv_capacity r of None \<Rightarrow> JNull | Some g \<Rightarrow> JFloat g), (''serial'', jopt (rv_serial r)),
     (''reason'', JStr (rv_reason r)), (''status'', JStr (rv_status r))]"

record preview_row =
  pv_server_id :: int
  pv_hostname :: string
  pv_ip :: string
  pv_oem :: string
  pv_power_state :: string
  pv_disk_count :: nat
  pv_resolution :: resolved_disk

definition preview_one :: "server_row \<Rightarrow> int \<Rightarrow> string \<Rightarrow> overrides \<Rightarrow> preview_row py" where
  "preview_one r sid strategy ov = (let f = sr_fields r; drives = drives_from_row r in
     bind_py (resolve_for sid drives strategy ov) (\<lambda>res. Inr \<lparr>pv_server_id = sid,
       pv_hostname = the_default (sr_ip r) (nonempty (sf_hostname f)), pv_ip = sr_ip r, pv_oem = the_default [] (sf_oem f),
       pv_power_state = the_default ''Unknown'' (nonempty (sf_power_state f)), pv_disk_count = length drives,
       pv_resolution = res\<rparr>))"

fun preview_all :: "db \<Rightarrow> int list \<Rightarrow> string \<Rightarrow> overrides \<Rightarrow> preview_row list py" where
  "preview_all d [] strategy ov = Inr []"
| "preview_all d (sid # sids) strategy ov = (case server_get d sid of
       None \<Rightarrow> preview_all d sids strategy ov
     | Some r \<Rightarrow> bind_py (preview_one r sid strategy ov) (\<lambda>p. bind_py (preview_all d sids strategy ov) (\<lambda>ps. Inr (p # ps))))"

definition job_strategy :: "db \<Rightarrow> int option \<Rightarrow> string option \<Rightarrow> string" where
  "job_strategy d profile strategy_override = (case nonempty strategy_override of
       Some s \<Rightarrow> s
     | None \<Rightarrow> (case profile of None \<Rightarrow> [] | Some pid \<Rightarrow>
         (case profile_get d pid of None \<Rightarrow> [] | Some p \<Rightarrow> dp_strategy p)))"

definition preview :: "db \<Rightarrow> int list \<Rightarrow> int option \<Rightarrow> string option \<Rightarrow> overrides \<Rightarrow> preview_row list py" where
  "preview d sids profile strategy_override ov = preview_all d sids (job_strategy d profile strategy_override) ov"

section \<open>Starting a job\<close>

record prov_start =
  po_id :: int
  po_tasks :: "int list"
  po_iso :: iso_row
  po_concurrency :: int

fun prov_create_tasks :: "string \<Rightarrow> int \<Rightarrow> preview_row list \<Rightarrow> db \<Rightarrow> (int list \<times> db) py" where
  "prov_create_tasks now jid [] d = Inr ([], d)"
| "prov_create_tasks now jid (p # ps) d =
     bind_py (prov_create_task now jid (pv_server_id p) (Some (dumps (resolved_json (pv_resolution p)))) d) (\<lambda>(tid, d1).
     bind_py (prov_create_tasks now jid ps d1) (\<lambda>(tids, d2). Inr (tid # tids, d2)))"

definition prov_started_msg :: "int \<Rightarrow> iso_row \<Rightarrow> nat \<Rightarrow> string \<Rightarrow> string" where
  "prov_started_msg jid img n confirm = ''Provisioning job #'' @ int_str jid @ '' started '' @ em_dash @ '' '' @ ir_name img
     @ '' on '' @ int_str (int n) @ '' server(s); confirm='' @ quoted (take 40 confirm)"

text \<open>An exception after the job row was created leaves that row behind.\<close>

definition prov_start_job :: "string \<Rightarrow> int list \<Rightarrow> int \<Rightarrow> int option \<Rightarrow> int option \<Rightarrow> string \<Rightarrow> int \<Rightarrow> string option \<Rightarrow>
    overrides \<Rightarrow> (db, string + prov_start) io" where
  "prov_start_job now sids iid os_profile disk_profile confirm concurrency strategy_override ov d =
     (if sids = [] then (Inr (Inl ''No servers selected''), d)
      else case iso_get d iid of
        None \<Rightarrow> (Inr (Inl ''ISO not found''), d)
      | Some img \<Rightarrow> (let conc = limit_to 1 32 concurrency in
          case prov_create_job now iid os_profile disk_profile conc confirm ''user'' d of
            Inl e \<Rightarrow> (Inl e, d)
          | Inr (jid, d1) \<Rightarrow>
              (case bind_py (preview d1 sids disk_profile strategy_override ov) (\<lambda>ps. prov_create_tasks now jid ps d1) of
                 Inl e \<Rightarrow> (Inl e, d1)
               | Inr (tids, d2) \<Rightarrow>
                   (case prov_update_job_state jid ''running'' (Some (int (length tids))) None None d2 of
                      Inl e \<Rightarrow> (Inl e, d2)
                    | Inr d3 \<Rightarrow> (Inr (Inr \<lparr>po_id = jid, po_tasks = tids, po_iso = img, po_concurrency = conc\<rparr>),
                        snd (activity_log now (log_row ''warning'' ''provisioning''
                          (prov_started_msg jid img (length tids) confirm) (Some jid)) d3))))))"

section \<open>One installation\<close>

text \<open>Beside the site: the file server, the templates, the MAC, fresh tokens, both clocks, \<open>asyncio.sleep\<close>,
  a TCP connect (\<open>_tcp_ready\<close>), the orchestrator's cancel event as the waiting task sees it, and the
  text of a \<open>JSONDecodeError\<close>.\<close>

record 'w prov_site =
  pr_site :: "'w site"
  pr_file_server :: "file_server option"
  pr_template_dir :: string
  pr_template :: "string \<Rightarrow> string option"
  pr_mac :: "string \<Rightarrow> string \<Rightarrow> string"
  pr_token :: "'w \<Rightarrow> string"
  pr_wall :: "'w \<Rightarrow> rat"
  pr_time :: "'w \<Rightarrow> rat"
  pr_sleep :: "rat \<Rightarrow> ('w, unit) io"
  pr_tcp :: "string \<Rightarrow> int \<Rightarrow> rat \<Rightarrow> ('w, bool) io"
  pr_cancelled :: "'w \<Rightarrow> bool"
  pr_json_error :: "string \<Rightarrow> string"

definition prov_report :: "'w prov_site \<Rightarrow> int \<Rightarrow> string \<Rightarrow> int \<Rightarrow> string \<Rightarrow> ('w \<times> db, unit) io" where
  "prov_report ps tid state pct msg =
     store (pr_site ps) (\<lambda>now. prov_update_task now tid (Some state) (Some pct) (Some msg) None)"

text \<open>The task row, the row of its server and the plugin pinned for it.\<close>

definition prov_server :: "db \<Rightarrow> int \<Rightarrow> (prov_task_row \<times> server_row) py" where
  "prov_server d tid = (case prov_get_task d tid of
       None \<Rightarrow> Inl (runtime ''Task vanished from DB'')
     | Some t \<Rightarrow> (case (case pt_server_id t of Some sid \<Rightarrow> server_get d sid | None \<Rightarrow> None) of
         None \<Rightarrow> Inl (runtime ''Server not found'')
       | Some r \<Rightarrow> if nonempty (sf_redfish_root (sr_fields r)) = None
                   then Inl (runtime ''Server has no Redfish endpoint (re-run discovery)'') else Inr (t, r)))"

definition prov_plugin :: "'w site \<Rightarrow> server_row \<Rightarrow> oem_plugin py" where
  "prov_plugin st r = (case pinned_oem r of
       None \<Rightarrow> Inl (runtime (''No OEM selected for this server '' @ em_dash @ '' open the server panel and ''
                 @ ''choose the vendor before provisioning''))
     | Some key \<Rightarrow> (case pinned_plugin st r of None \<Rightarrow> Inl (runtime (no_plugin_msg key)) | Some p \<Rightarrow> Inr p))"

definition runnable_statuses :: "string list" where
  "runnable_statuses = [''matched'', ''override'', ''ambiguous'']"

definition check_status :: "json \<Rightarrow> unit py" where
  "check_status resolved = bind_py (jget resolved ''status'') (\<lambda>s.
     if \<not> hashable s then Inl (Exn Exn_Type (''unhashable type: '' @ quoted (py_type s)))
     else if s \<in> set (List.map JStr runnable_statuses) then Inr ()
     else bind_py (jget_or resolved ''reason'' (JStr ''unknown'')) (\<lambda>why.
       Inl (runtime (''Disk not resolved at preview (status='' @ json_repr s @ ''): '' @ json_str why))))"

definition load_resolved :: "'w prov_site \<Rightarrow> prov_task_row \<Rightarrow> json py" where
  "load_resolved ps t = (let text = the_default ''{}'' (nonempty (pt_resolved_disk t)) in
     case loads text of Some j \<Rightarrow> Inr j | None \<Rightarrow> Inl (Exn Exn_Value (pr_json_error ps text)))"

definition resolved_text :: "json \<Rightarrow> string \<Rightarrow> string py" where
  "resolved_text resolved k = bind_py (jget resolved k) (\<lambda>v. as_str ''strip'' (or_else v (JStr [])))"

definition host_of :: "server_info \<Rightarrow> string \<Rightarrow> string \<Rightarrow> host_context" where
  "host_of info disk serial = \<lparr>hc_hostname = the_default (si_ip info) (nonempty (si_hostname info)), hc_ip = si_ip info,
     hc_disk = disk, hc_root_password = [], hc_serial = serial, hc_ssh_authorized_keys = [], hc_gateway = [],
     hc_nameserver = []\<rparr>"

definition render_for :: "'w prov_site \<Rightarrow> iso_row \<Rightarrow> server_info \<Rightarrow> json \<Rightarrow> string py" where
  "render_for ps img info resolved =
     bind_py (resolved_text resolved ''name'') (\<lambda>disk. bind_py (resolved_text resolved ''serial'') (\<lambda>serial.
     render (pr_template_dir ps) (pr_template ps) None (ir_os_family img) (host_of info disk serial)))"

text \<open>\<open>r = await step; if not r.ok: raise\<close>.\<close>

definition must :: "string \<Rightarrow> ('u, plugin_result) io \<Rightarrow> ('u, unit) io" where
  "must what m = bind m (\<lambda>r. require (res_okay r) (what @ '' failed: '' @ res_message r))"

definition install_ceiling :: rat where
  "install_ceiling = 30 * 60"

definition install_pct :: "rat \<Rightarrow> rat \<Rightarrow> int" where
  "install_pct deadline now = 50 + trunc_rat (35 * (1 - max 0 (deadline - now) / install_ceiling))"

text \<open>The wait for the host's SSH port, a round every 15 s; 121 rounds of fuel cover the 30 minutes.\<close>

fun install_loop :: "'w prov_site \<Rightarrow> int \<Rightarrow> string \<Rightarrow> rat \<Rightarrow> nat \<Rightarrow> ('w \<times> db, unit) io" where
  "install_loop ps tid ip deadline 0 = throw (Exn Exn_Fuel [])"
| "install_loop ps tid ip deadline (Suc fuel) = bind get_state (\<lambda>(w, _).
     if deadline \<le> pr_time ps w then throw (runtime ''Installer never came back (30-min ceiling exceeded)'')
     else if pr_cancelled ps w then throw (Exn Exn_Cancelled [])
     else bind (on_fst (pr_tcp ps ip 22 2)) (\<lambda>ready. if ready then ret () else
       bind get_state (\<lambda>(w', _).
       seq (prov_report ps tid ''installing'' (install_pct deadline (pr_time ps w')) [])
       (seq (on_fst (pr_sleep ps 15)) (install_loop ps tid ip deadline fuel)))))"

definition wait_installed :: "'w prov_site \<Rightarrow> int \<Rightarrow> string \<Rightarrow> ('w \<times> db, unit) io" where
  "wait_installed ps tid ip = bind get_state (\<lambda>(w, _). install_loop ps tid ip (pr_time ps w + install_ceiling) 121)"

definition publish_iso :: "'w prov_site \<Rightarrow> iso_row \<Rightarrow> string \<Rightarrow> 'w \<Rightarrow> string py" where
  "publish_iso ps img token w = (case pr_file_server ps of
       None \<Rightarrow> Inl (runtime (''File server not started '' @ em_dash @ '' cannot publish ISO''))
     | Some fs \<Rightarrow> bind_py (signed_iso_url (pr_mac ps) fs (pr_wall ps w) (ir_sha256 img)) (\<lambda>url.
         bind_py (signed_autoinstall_url (pr_mac ps) fs (pr_wall ps w) token) (\<lambda>_. Inr url)))"

text \<open>From the published image to the ejected medium.\<close>

definition install_host :: "'w prov_site \<Rightarrow> int \<Rightarrow> iso_row \<Rightarrow> server_info \<Rightarrow> 'w driver \<Rightarrow> credentials \<Rightarrow> string \<Rightarrow>
    ('w \<times> db, unit) io" where
  "install_host ps tid img info dr creds token =
     seq (prov_report ps tid ''publishing'' 15 [])
     (bind (bind get_state (\<lambda>(w, _). lift_py (publish_iso ps img token w))) (\<lambda>url.
     seq (prov_report ps tid ''mounting_iso'' 25 [])
     (seq (must ''Mount'' (on_fst (dr_mount_iso dr info url creds)))
     (seq (prov_report ps tid ''setting_boot'' 30 [])
     (seq (must ''Set-boot'' (on_fst (dr_set_boot_once dr info ''Cd'' creds)))
     (seq (prov_report ps tid ''power_cycling'' 40 [])
     (seq (must ''Power cycle'' (on_fst (dr_power_cycle dr info creds)))
     (seq (prov_report ps tid ''installing'' 50 [])
     (seq (wait_installed ps tid (si_ip info))
     (seq (prov_report ps tid ''verifying'' 95 [])
     (bind (on_fst (pr_tcp ps (si_ip info) 22 5)) (\<lambda>up.
     seq (require up ''Host not SSH-reachable after install'')
     (bind (on_fst (dr_eject_iso dr info creds)) (\<lambda>_. ret ()))))))))))))))"

definition prov_prepare :: "'w prov_site \<Rightarrow> int \<Rightarrow> iso_row \<Rightarrow> ('w \<times> db, server_info \<times> oem_plugin \<times> credentials \<times> string) io" where
  "prov_prepare ps tid img = (let st = pr_site ps in
     bind (bind (read_db (\<lambda>d. prov_server d tid)) lift_py) (\<lambda>(t, r). let info = provision_info r in
     bind (lift_py (prov_plugin st r)) (\<lambda>p.
     bind (read_db (\<lambda>d. vault_credentials st d info)) (\<lambda>creds.
     seq (prov_report ps tid ''resolving_disk'' 5 [])
     (bind (lift_py (load_resolved ps t)) (\<lambda>resolved.
     seq (lift_py (check_status resolved))
     (seq (prov_report ps tid ''rendering_config'' 10 [])
     (bind (lift_py (render_for ps img info resolved)) (\<lambda>cfg. ret (info, p, creds, cfg))))))))))"

definition prov_real_task :: "'w prov_site \<Rightarrow> int \<Rightarrow> iso_row \<Rightarrow> (('w \<times> db) \<times> configs, unit) io" where
  "prov_real_task ps tid img = bind (on_fst (prov_prepare ps tid img)) (\<lambda>(info, p, creds, cfg).
     bind get_state (\<lambda>((w, _), _). let token = pr_token ps w in
     seq (on_snd (put_config token cfg (pr_wall ps w + configs_ttl)))
     (finally_do (on_fst (install_host ps tid img info (st_driver (pr_site ps) p) creds token))
        (on_snd (pop_config token)))))"

definition prov_run_task :: "'w prov_site \<Rightarrow> int \<Rightarrow> iso_row \<Rightarrow> (('w \<times> db) \<times> configs, bool) io" where
  "prov_run_task ps tid img =
     bind (attempt (\<lambda>_. True) (seq (prov_real_task ps tid img) (on_fst (prov_report ps tid ''completed'' 100 [])))) (\<lambda>r.
     case r of
       Inr _ \<Rightarrow> ret True
     | Inl e \<Rightarrow> seq (on_fst (if is_exception e then prov_report ps tid ''failed'' 0 (exn_str e)
                           else prov_report ps tid ''cancelled'' 0 ''Cancelled'')) (ret False))"

definition prov_run_one :: "'w prov_site \<Rightarrow> int \<Rightarrow> iso_row \<Rightarrow> (('w \<times> db) \<times> configs, bool) io" where
  "prov_run_one ps tid img = catch_if is_exception (prov_run_task ps tid img) (\<lambda>e.
     seq (on_fst (prov_report ps tid ''failed'' 0
            (take 300 (''Internal error: '' @ exn_name (exn_class e) @ '': '' @ exn_str e)))) (ret False))"

definition prov_mark_cancelled :: "string \<Rightarrow> int \<Rightarrow> db \<Rightarrow> db py" where
  "prov_mark_cancelled now tid = prov_update_task now tid (Some ''cancelled'') None (Some ''Cancelled'') None"

section \<open>The end of a job, and restart\<close>

definition prov_finish_job :: "string \<Rightarrow> int \<Rightarrow> bool \<Rightarrow> nat \<Rightarrow> nat \<Rightarrow> db \<Rightarrow> db py" where
  "prov_finish_job now jid cancelled n_ok n_bad d =
     bind_py (prov_update_job_state jid (compute_final_state cancelled n_ok n_bad) None (Some (int n_ok))
                (Some (int n_bad)) d) (\<lambda>d1.
     Inr (snd (activity_log now (log_row (job_level n_ok n_bad) ''provisioning''
       (''Provisioning job #'' @ int_str jid @ '' finished '' @ em_dash @ '' '' @ int_str (int n_ok) @ '' ok, ''
        @ int_str (int n_bad) @ '' failed'') (Some jid)) d1)))"

definition restart_msg :: string where
  "restart_msg = ''App was restarted mid-install '' @ em_dash @ '' ClusterOne cannot resume an OS ''
     @ ''install. Verify the host and re-run if needed.''"

definition prov_resume_interrupted :: "string \<Rightarrow> db \<Rightarrow> nat \<times> db" where
  "prov_resume_interrupted now d = (if prov_non_terminal_tasks d = [] then (0, snd (prov_fail_jobs d))
     else case prov_fail_tasks now restart_msg d of (n, d1) \<Rightarrow>
       (n, snd (prov_fail_jobs (snd (activity_log now (log_row ''warning'' ''provisioning''
          (int_str (int n) @ '' provisioning task(s) marked failed on startup ''
           @ ''(an OS install can't be resumed across a restart)'') None) d1)))))"

end
