(* ===== verification/Provisioning_Safety.thy ===== *)
theory Provisioning_Safety
  imports Provisioning Update_Jobs
begin

text \<open>
  What an installation may do to a host and what it leaves behind: the checks before a machine is
  touched, the order of the destructive steps, the configs in memory, and the bounded wait.
\<close>

section \<open>Configs\<close>

lemma on_fst_snd: "snd (snd (on_fst m (x, c))) = c"
  by (simp add: on_fst_def split: prod.split)

lemma on_fst_run: "on_fst m (x, c) = (fst (m x), (snd (m x), c))"
  by (simp add: on_fst_def split: prod.split)

lemma real_task_configs: "set (snd (snd (prov_real_task ps tid img (x, c)))) \<subseteq> set c"
proof -
  obtain r x' where p: "prov_prepare ps tid img x = (r, x')" by (metis prod.exhaust)
  show ?thesis
  proof (cases r)
    case (Inl e)
    then show ?thesis using p by (simp add: prov_real_task_def bind_run on_fst_run)
  next
    case (Inr y)
    obtain info pl creds cfg where y: "y = (info, pl, creds, cfg)" by (cases y)
    obtain w d where x': "x' = (w, d)" by fastforce
    let ?t = "pr_token ps w"
    obtain r2 x2 where i: "install_host ps tid img info (st_driver (pr_site ps) pl) creds ?t (w, d) = (r2, x2)" by (metis prod.exhaust)
    have "snd (snd (prov_real_task ps tid img (x, c))) = pop_config ?t (put_config ?t cfg (pr_wall ps w + configs_ttl) c)"
      using p Inr y x' i by (cases r2) (simp_all add: prov_real_task_def bind_run seq_run on_fst_run get_state_def
          Let_def on_snd_def finally_run)
    then show ?thesis by (auto simp: pop_config_def put_config_def)
  qed
qed

lemma run_task_split:
  assumes "prov_real_task ps tid img (x, c) = (r, (x', c'))"
  shows "prov_run_task ps tid img (x, c) = (case r of
      Inr _ \<Rightarrow> (case prov_report ps tid ''completed'' 100 [] x' of (_, x'') \<Rightarrow> (Inr True, (x'', c')))
    | Inl e \<Rightarrow> (case (if is_exception e then prov_report ps tid ''failed'' 0 (exn_str e)
                      else prov_report ps tid ''cancelled'' 0 ''Cancelled'') x' of (_, x'') \<Rightarrow> (Inr False, (x'', c'))))"
proof -
  obtain w d where x': "x' = (w, d)" by fastforce
  show ?thesis
    using assms unfolding x' by (cases r) (auto simp: prov_run_task_def attempt_def bind_run seq_run on_fst_run
        prov_report_def store_run prov_update_task_put ret_run)
qed

lemma prov_report_run: "prov_report ps t s n m (w, d) =
    (Inr (), (w, put_prov_task (st_now (pr_site ps) w) t (Some s) (Some n) (Some m) None d))"
  by (simp add: prov_report_def store_run prov_update_task_put)

lemma run_one_world:
  "fst (fst (snd (prov_run_one ps tid img (x, c)))) = fst (fst (snd (prov_real_task ps tid img (x, c))))"
  "snd (snd (prov_run_one ps tid img (x, c))) = snd (snd (prov_real_task ps tid img (x, c)))"
proof -
  obtain r w d c' where run: "prov_real_task ps tid img (x, c) = (r, ((w, d), c'))" by (metis prod.exhaust)
  show "fst (fst (snd (prov_run_one ps tid img (x, c)))) = fst (fst (snd (prov_real_task ps tid img (x, c))))"
    "snd (snd (prov_run_one ps tid img (x, c))) = snd (snd (prov_real_task ps tid img (x, c)))"
    using run_task_split [OF run] run by (auto simp: prov_run_one_def catch_run prov_report_run split: sum.splits)
qed

section \<open>The checks before a host is touched\<close>

lemma bind_get_state: "bind get_state f x = f x x"
  by (simp add: bind_def get_state_def)

lemma bind_lift: "bind (lift_py r) f x = (case r of Inl e \<Rightarrow> (Inl e, x) | Inr y \<Rightarrow> f y x)"
  by (simp add: bind_def lift_py_def split: sum.split)

lemma seq_lift: "seq (lift_py r) f x = (case r of Inl e \<Rightarrow> (Inl e, x) | Inr y \<Rightarrow> f x)"
  by (simp add: seq_run lift_run split: sum.split)

lemma seq_report: "seq (prov_report ps t s n m) f (w, d) =
    f (w, put_prov_task (st_now (pr_site ps) w) t (Some s) (Some n) (Some m) None d)"
  by (simp add: seq_run prov_report_run)

lemmas prov_run = bind_get_state bind_lift seq_lift seq_report bind_read_db bind_on_fst prov_report_run

lemma check_status_ok: "check_status j = Inr () \<Longrightarrow> \<exists>s \<in> set runnable_statuses. jget j ''status'' = Inr (JStr s)"
  by (auto simp: check_status_def bind_py_Inr split: if_splits)

lemma prov_plugin_ok: "prov_plugin st r = Inr p \<Longrightarrow> \<exists>key. pinned_oem r = Some key \<and> p \<in> set (st_plugins st) \<and> op_key p = key"
  by (auto simp: prov_plugin_def split: option.splits dest: pinned_plugin_Some)

lemma prepare_cases:
  obtains (failed) e d' where "prov_prepare ps tid img (w, d) = (Inl e, (w, d'))"
  | (ready) t r p resolved cfg d' where "prov_server d tid = Inr (t, r)" "prov_plugin (pr_site ps) r = Inr p"
      "load_resolved ps t = Inr resolved" "check_status resolved = Inr ()" "render_for ps img (provision_info r) resolved = Inr cfg"
      "prov_prepare ps tid img (w, d) =
        (Inr (provision_info r, p, vault_credentials (pr_site ps) d (provision_info r), cfg), (w, d'))"
proof (cases "prov_server d tid")
  case (Inl e)
  then show thesis by (intro failed [of e d]) (simp add: prov_prepare_def Let_def bind_assoc prov_run)
next
  case (Inr tr)
  obtain t r where tr: "tr = (t, r)" by fastforce
  show thesis
  proof (cases "prov_plugin (pr_site ps) r")
    case (Inl e)
    then show thesis using Inr tr by (intro failed [of e d]) (simp add: prov_prepare_def Let_def bind_assoc prov_run)
  next
    fix p assume p: "prov_plugin (pr_site ps) r = Inr p"
    note start = prov_prepare_def Let_def bind_assoc prov_run \<open>prov_server d tid = Inr tr\<close> tr p
    let ?d1 = "put_prov_task (st_now (pr_site ps) w) tid (Some ''resolving_disk'') (Some 5) (Some []) None d"
    let ?d2 = "put_prov_task (st_now (pr_site ps) w) tid (Some ''rendering_config'') (Some 10) (Some []) None ?d1"
    show thesis
    proof (cases "load_resolved ps t")
      case (Inl e)
      then show thesis by (intro failed [of e ?d1]) (simp add: start)
    next
      fix j assume j: "load_resolved ps t = Inr j"
      show thesis
      proof (cases "check_status j")
        case (Inl e)
        then show thesis using j by (intro failed [of e ?d1]) (simp add: start)
      next
        fix u assume u: "check_status j = Inr u"
        show thesis
        proof (cases "render_for ps img (provision_info r) j")
          case (Inl e)
          then show thesis using j u by (intro failed [of e ?d2]) (simp add: start)
        next
          fix cfg assume "render_for ps img (provision_info r) j = Inr cfg"
          then show thesis using j u Inr tr p by (intro ready [of t r p j cfg ?d2]) (simp_all add: start ret_run)
        qed
      qed
    qed
  qed
qed

lemma seq_must: "seq (must what (on_fst m)) f (w, d) = (case m w of (r, w') \<Rightarrow>
    if step_ok r then f (w', d)
    else (Inl (case r of Inl e \<Rightarrow> e | Inr x \<Rightarrow> runtime (what @ '' failed: '' @ res_message x)), (w', d)))"
  by (auto simp: must_def seq_run bind_on_fst require_run step_ok_def split: prod.splits sum.splits)

text \<open>What the steps before the power cycle leave of the world, whatever happens after it.\<close>

lemma install_host_world:
  fixes info :: server_info and dr :: "'w driver"
  defines "go \<equiv> \<lambda>ps tid img creds token w d. fst (snd (install_host ps tid img info dr creds token (w, d)))"
  shows "publish_iso ps img token w = Inl e \<Longrightarrow> go ps tid img creds token w d = w"
    and "publish_iso ps img token w = Inr url \<Longrightarrow> dr_mount_iso dr info url creds w = (m, w1) \<Longrightarrow> \<not> step_ok m \<Longrightarrow>
      go ps tid img creds token w d = w1"
    and "publish_iso ps img token w = Inr url \<Longrightarrow> dr_mount_iso dr info url creds w = (m, w1) \<Longrightarrow> step_ok m \<Longrightarrow>
      dr_set_boot_once dr info ''Cd'' creds w1 = (b, w2) \<Longrightarrow> \<not> step_ok b \<Longrightarrow> go ps tid img creds token w d = w2"
    and "publish_iso ps img token w = Inr url \<Longrightarrow> dr_mount_iso dr info url creds w = (m, w1) \<Longrightarrow> step_ok m \<Longrightarrow>
      dr_set_boot_once dr info ''Cd'' creds w1 = (b, w2) \<Longrightarrow> step_ok b \<Longrightarrow> dr_power_cycle dr info creds w2 = (p, w3) \<Longrightarrow>
      \<not> step_ok p \<Longrightarrow> go ps tid img creds token w d = w3"
  by (simp_all add: go_def install_host_def prov_run bind_assoc seq_must)

text \<open>A disk the installer can name: by its serial, or by a Linux device handle.\<close>

definition names_disk :: "string \<Rightarrow> string \<Rightarrow> bool" where
  "names_disk disk serial = (strip serial \<noteq> [] \<or> starts_with ''/dev/'' (strip disk) \<or> is_device_handle (strip disk))"

lemma render_for_disk:
  assumes "render_for ps img info resolved = Inr cfg"
  shows "\<exists>disk serial. resolved_text resolved ''name'' = Inr disk \<and> resolved_text resolved ''serial'' = Inr serial \<and>
    names_disk disk serial"
proof -
  obtain disk serial where r: "resolved_text resolved ''name'' = Inr disk" "resolved_text resolved ''serial'' = Inr serial"
      "render (pr_template_dir ps) (pr_template ps) None (ir_os_family img) (host_of info disk serial) = Inr cfg"
    using assms by (auto simp: render_for_def bind_py_Inr)
  then obtain sn where "disk_snippets_of (ir_os_family img) disk serial = Inr sn"
    by (auto simp: render_def bind_py_Inr host_of_def)
  then show ?thesis using r(1,2) disk_snippets_of_Inr unfolding names_disk_def by blast
qed

lemma prov_task_world:
  obtains (failed) "fst (fst (snd (prov_real_task ps tid img ((w, d), c)))) = w"
  | (ready) t r p resolved cfg d' where "prov_server d tid = Inr (t, r)" "prov_plugin (pr_site ps) r = Inr p"
      "load_resolved ps t = Inr resolved" "check_status resolved = Inr ()" "render_for ps img (provision_info r) resolved = Inr cfg"
      "fst (fst (snd (prov_real_task ps tid img ((w, d), c)))) =
        fst (snd (install_host ps tid img (provision_info r) (st_driver (pr_site ps) p)
          (vault_credentials (pr_site ps) d (provision_info r)) (pr_token ps w) (w, d')))"
proof (cases rule: prepare_cases [of ps tid img w d])
  case (failed e d')
  then show thesis by (intro that(1)) (simp add: prov_real_task_def bind_run on_fst_run)
next
  case (ready t r p resolved cfg d')
  let ?i = "install_host ps tid img (provision_info r) (st_driver (pr_site ps) p)
          (vault_credentials (pr_site ps) d (provision_info r)) (pr_token ps w) (w, d')"
  obtain r2 x2 where i: "?i = (r2, x2)" by (metis prod.exhaust)
  then have "fst (fst (snd (prov_real_task ps tid img ((w, d), c)))) = fst (snd ?i)"
    using ready(6) by (cases r2) (simp_all add: prov_real_task_def bind_run seq_run on_fst_run get_state_def Let_def
        on_snd_def finally_run)
  then show thesis by (rule that(2) [OF ready(1-5)])
qed

section \<open>The wait for the installer\<close>

text \<open>What the wait asks of the clock: it does not go back during a probe, a sleep of 15 s takes at
  least 15 s, and neither raises the model's own out-of-fuel exception.\<close>

definition wait_clock_ok :: "'w prov_site \<Rightarrow> string \<Rightarrow> bool" where
  "wait_clock_ok ps ip \<longleftrightarrow> (\<forall>w. pr_time ps w \<le> pr_time ps (snd (pr_tcp ps ip 22 2 w)) \<and>
     pr_time ps w + 15 \<le> pr_time ps (snd (pr_sleep ps 15 w)) \<and>
     (\<forall>m. fst (pr_tcp ps ip 22 2 w) \<noteq> Inl (Exn Exn_Fuel m) \<and> fst (pr_sleep ps 15 w) \<noteq> Inl (Exn Exn_Fuel m)))"

text \<open>How a wait may end: a probe before the deadline was answered, or an exception that is not the model's own.\<close>

definition wait_end :: "'w prov_site \<Rightarrow> string \<Rightarrow> rat \<Rightarrow> unit py \<Rightarrow> bool" where
  "wait_end ps ip deadline r = (case r of
       Inr _ \<Rightarrow> \<exists>w w'. pr_time ps w < deadline \<and> pr_tcp ps ip 22 2 w = (Inr True, w')
     | Inl e \<Rightarrow> exn_class e \<noteq> Exn_Fuel)"

lemma wait_end_Inl: "(\<And>m. e \<noteq> Exn Exn_Fuel m) \<Longrightarrow> wait_end ps ip deadline (Inl e)"
  by (cases e) (auto simp: wait_end_def)

declare install_loop.simps [simp del]

lemma install_loop_ends:
  assumes "wait_clock_ok ps ip"
  shows "deadline \<le> pr_time ps w + 15 * of_nat n \<Longrightarrow> wait_end ps ip deadline (fst (install_loop ps tid ip deadline (Suc n) (w, d)))"
proof (induction n arbitrary: w d)
  case 0
  then show ?case by (simp add: install_loop.simps prov_run throw_run wait_end_def runtime_def)
next
  case (Suc n)
  obtain a w1 where tcp: "pr_tcp ps ip 22 2 w = (a, w1)" by fastforce
  obtain s w2 where sleep: "pr_sleep ps 15 w1 = (s, w2)" by fastforce
  have clock: "pr_time ps w \<le> pr_time ps w1" "pr_time ps w1 + 15 \<le> pr_time ps w2" "a \<noteq> Inl (Exn Exn_Fuel m)" "s \<noteq> Inl (Exn Exn_Fuel m)" for m
    using assms tcp sleep unfolding wait_clock_ok_def by (metis fst_conv snd_conv)+
  then have rest: "wait_end ps ip deadline (fst (install_loop ps tid ip deadline (Suc n) (w2, d')))" for d'
    using Suc.prems by (intro Suc.IH) (simp add: algebra_simps)
  have answered: "wait_end ps ip deadline (Inr ())" if "a = Inr True" "\<not> deadline \<le> pr_time ps w"
    using tcp that by (auto simp: wait_end_def not_le)
  let ?d = "put_prov_task (st_now (pr_site ps) w1) tid (Some ''installing'')
    (Some (install_pct deadline (pr_time ps w1))) (Some []) None d"
  have unfold: "install_loop ps tid ip deadline (Suc (Suc n)) (w, d) =
     (if deadline \<le> pr_time ps w then (Inl (runtime ''Installer never came back (30-min ceiling exceeded)''), (w, d))
      else if pr_cancelled ps w then (Inl (Exn Exn_Cancelled []), (w, d))
      else case a of Inl e \<Rightarrow> (Inl e, (w1, d)) | Inr True \<Rightarrow> (Inr (), (w1, d)) | Inr False \<Rightarrow>
        (case s of Inl e \<Rightarrow> (Inl e, (w2, ?d)) | Inr _ \<Rightarrow> install_loop ps tid ip deadline (Suc n) (w2, ?d)))"
    using tcp sleep
    by (subst install_loop.simps(2)) (simp add: prov_run throw_run ret_run seq_run [of "on_fst _"] on_fst_run split: sum.split bool.split)
  show ?case
  proof (cases "deadline \<le> pr_time ps w \<or> pr_cancelled ps w")
    case True
    then show ?thesis unfolding unfold by (auto simp: wait_end_def runtime_def)
  next
    case False
    then show ?thesis
      unfolding unfold using clock(3,4) rest answered
      by (auto simp: wait_end_Inl split: sum.split bool.split)
  qed
qed

section \<open>Properties\<close>

text \<open>Property C2. What an installation may do to the outside world. Either nothing, or: the task and its
  server exist and the server has a Redfish root, the operator pinned an OEM with an installed
  plugin, the disk recorded at preview has a status that may run and a serial or a Linux device
  handle that names it, the configuration rendered, and the signed link was made; then the image
  is mounted first, and unless the mount and the one-time boot both succeeded the run stops there,
  without a power cycle.\<close>

theorem wipe_only_after_checks:
  "fst (fst (snd (prov_run_one ps tid img ((w, d), c)))) = w \<or>
   (\<exists>t r p resolved disk serial cfg url m w1 b w2.
      prov_server d tid = Inr (t, r) \<and> nonempty (sf_redfish_root (sr_fields r)) \<noteq> None \<and>
      pinned_oem r = Some (op_key p) \<and> p \<in> set (st_plugins (pr_site ps)) \<and>
      load_resolved ps t = Inr resolved \<and> (\<exists>s \<in> set runnable_statuses. jget resolved ''status'' = Inr (JStr s)) \<and>
      resolved_text resolved ''name'' = Inr disk \<and> resolved_text resolved ''serial'' = Inr serial \<and>
      names_disk disk serial \<and>
      render_for ps img (provision_info r) resolved = Inr cfg \<and> publish_iso ps img (pr_token ps w) w = Inr url \<and>
      dr_mount_iso (st_driver (pr_site ps) p) (provision_info r) url
        (vault_credentials (pr_site ps) d (provision_info r)) w = (m, w1) \<and>
      (fst (fst (snd (prov_run_one ps tid img ((w, d), c)))) = w1 \<or>
       step_ok m \<and> dr_set_boot_once (st_driver (pr_site ps) p) (provision_info r) ''Cd''
          (vault_credentials (pr_site ps) d (provision_info r)) w1 = (b, w2) \<and>
       (fst (fst (snd (prov_run_one ps tid img ((w, d), c)))) = w2 \<or> step_ok b)))"
proof (cases rule: prov_task_world [of ps tid img w d c])
  case failed
  then show ?thesis by (simp add: run_one_world)
next
  case (ready t r p resolved cfg d')
  let ?dr = "st_driver (pr_site ps) p" and ?info = "provision_info r"
  let ?creds = "vault_credentials (pr_site ps) d ?info" and ?tok = "pr_token ps w"
  let ?fin = "fst (fst (snd (prov_run_one ps tid img ((w, d), c))))"
  have last: "?fin = fst (snd (install_host ps tid img ?info ?dr ?creds ?tok (w, d')))" using ready(6) by (simp add: run_one_world)
  have root: "nonempty (sf_redfish_root (sr_fields r)) \<noteq> None"
    using ready(1) by (auto simp: prov_server_def split: option.splits if_splits)
  have plugin: "pinned_oem r = Some (op_key p)" "p \<in> set (st_plugins (pr_site ps))"
    using prov_plugin_ok [OF ready(2)] by auto
  show ?thesis
  proof (cases "publish_iso ps img ?tok w")
    case (Inl e)
    then show ?thesis using last install_host_world(1) by metis
  next
    case (Inr url)
    obtain m w1 where m: "dr_mount_iso ?dr ?info url ?creds w = (m, w1)" by fastforce
    obtain b w2 where b: "dr_set_boot_once ?dr ?info ''Cd'' ?creds w1 = (b, w2)" by fastforce
    have "?fin = w1 \<or> step_ok m \<and> (?fin = w2 \<or> step_ok b)"
      using last install_host_world(2) [OF Inr m] install_host_world(3) [OF Inr m _ b] by metis
    then show ?thesis
      using ready(1,3,5) root plugin check_status_ok [OF ready(4)] render_for_disk [OF ready(5)] Inr m b by blast
  qed
qed

text \<open>Property C34. No rendered configuration (it holds the host's root password) outlives its task: whatever
  happens during an installation, every config in memory afterwards was there before.\<close>

theorem task_leaves_no_config:
  "set (snd (snd (prov_run_one ps tid img (x, c)))) \<subseteq> set c"
  using real_task_configs [of ps tid img x c] by (simp add: run_one_world)

text \<open>Property C35. The wait for the installer always ends: 121 rounds cover the thirty minutes whatever the
  host, the clock and the network do, the wait is over with success only if the host answered a
  probe before the deadline, and otherwise it ends with an exception of the code.\<close>

theorem install_wait_terminates:
  assumes "wait_clock_ok ps ip"
  shows "wait_end ps ip (pr_time ps w + install_ceiling) (fst (wait_installed ps tid ip (w, d)))"
proof -
  have "wait_end ps ip (pr_time ps w + 1800) (fst (install_loop ps tid ip (pr_time ps w + 1800) (Suc 120) (w, d)))"
    by (rule install_loop_ends [OF assms]) simp
  then show ?thesis by (simp add: wait_installed_def prov_run install_ceiling_def)
qed

text \<open>A site whose world is its clock, a BMC that does what it is told, and a host that never comes back.\<close>

definition dead_site :: "rat prov_site" where
  "dead_site = \<lparr>pr_site = \<lparr>st_plugins = [], st_driver = undefined, st_client = undefined, st_file_sha = (\<lambda>_ _. Inr None),
       st_vault = None, st_now = (\<lambda>_. ''now'')\<rparr>,
     pr_file_server = None, pr_template_dir = ''/t'', pr_template = (\<lambda>_. None), pr_mac = (\<lambda>_ _. []), pr_token = (\<lambda>_. ''tok''),
     pr_wall = id, pr_time = id, pr_sleep = (\<lambda>n w. (Inr (), w + n)), pr_tcp = (\<lambda>_ _ n w. (Inr False, w + n)),
     pr_cancelled = (\<lambda>_. False), pr_json_error = (\<lambda>_. [])\<rparr>"

theorem install_wait_terminates_witness:
  "wait_end dead_site ''10.0.0.5'' 1800 (fst (wait_installed dead_site 1 ''10.0.0.5'' (0, empty_db)))"
  using install_wait_terminates [of dead_site "''10.0.0.5''" 0 1 empty_db]
  by (simp add: wait_clock_ok_def dead_site_def install_ceiling_def)

end
