(* ===== verification/Provisioning_Jobs.thy ===== *)
theory Provisioning_Jobs
  imports Provisioning_Safety
begin

text \<open>
  A provisioning job as a whole: the effects of a task on the database, the pool over them, what
  starting a job records, its end, and the sweep at startup.
\<close>

section \<open>The effects of a task\<close>

definition prov_state_of :: "int \<Rightarrow> db \<Rightarrow> int \<Rightarrow> string option" where
  "prov_state_of jid d t = (case prov_get_task d t of None \<Rightarrow> None
     | Some r \<Rightarrow> if pt_job_id r = jid then Some (pt_state r) else None)"

definition prov_work :: "int \<Rightarrow> db \<Rightarrow> db \<Rightarrow> bool" where
  "prov_work t d d' = (\<exists>now s n m. prov_update_task now t (Some s) (Some n) (Some m) None d = Inr d')"

definition prov_outcomes :: "bool \<Rightarrow> string list" where
  "prov_outcomes good = (if good then [''completed''] else [''failed'', ''cancelled''])"

definition prov_end :: "int \<Rightarrow> bool \<Rightarrow> db \<Rightarrow> db \<Rightarrow> bool" where
  "prov_end t good d d' = (\<exists>s \<in> set (prov_outcomes good). \<exists>now n m. prov_update_task now t (Some s) (Some n) (Some m) None d = Inr d')"

definition prov_env :: "int \<Rightarrow> db \<Rightarrow> db \<Rightarrow> bool" where
  "prov_env jid d d' = (\<forall>u. prov_state_of jid d u \<noteq> None \<longrightarrow> prov_state_of jid d' u = prov_state_of jid d u)"

definition prov_effects :: "int \<Rightarrow> db effects" where
  "prov_effects jid = \<lparr>ef_mark = (\<lambda>t d d'. \<exists>now. prov_mark_cancelled now t d = Inr d'), ef_work = prov_work,
     ef_end = prov_end, ef_env = prov_env jid\<rparr>"

definition prov_pool :: "prov_start \<Rightarrow> db \<Rightarrow> db pool" where
  "prov_pool js d = new_pool (nat (max 1 (po_concurrency js))) (po_tasks js) d"

lemma put_prov_state: "pt_state (fold set_prov_task_col (prov_task_pairs now (Some s) n m c) r) = s"
  by (cases n; cases m; cases c) (simp_all add: prov_task_pairs_def state_pairs_def opt_pair_def set_prov_task_col_def)

lemma prov_state_put: "prov_state_of jid (put_prov_task now t (Some s) n m c d) u =
    (if u = t \<and> prov_state_of jid d t \<noteq> None then Some s else prov_state_of jid d u)"
  by (auto simp: prov_state_of_def prov_get_task_def put_prov_task_def row_update_row put_prov_state set_prov_task_col_refs
      split: option.splits)

lemmas prov_writes = prov_effects_def prov_mark_cancelled_def prov_work_def prov_end_def prov_env_def prov_outcomes_def
  prov_update_task_put prov_state_put

interpretation prov_ledger: job_ledger "prov_effects jid" "prov_state_of jid" "{''failed'', ''cancelled''}" for jid
proof unfold_locales
  show "ef_mark (prov_effects jid) t d d' \<Longrightarrow> prov_state_of jid d t \<noteq> None \<Longrightarrow>
      \<exists>b\<in>{''failed'', ''cancelled''}. prov_state_of jid d' t = Some b" for t d d'
    by (auto simp: prov_writes)
  show "ef_end (prov_effects jid) t True d d' \<Longrightarrow> prov_state_of jid d t \<noteq> None \<Longrightarrow> prov_state_of jid d' t = Some ''completed''"
    for t d d' by (auto simp: prov_writes)
  show "ef_end (prov_effects jid) t False d d' \<Longrightarrow> prov_state_of jid d t \<noteq> None \<Longrightarrow>
      \<exists>b\<in>{''failed'', ''cancelled''}. prov_state_of jid d' t = Some b" for t d d'
    by (auto simp: prov_writes)
  show "ef_end (prov_effects jid) t g d d' \<Longrightarrow> u \<noteq> t \<Longrightarrow> prov_state_of jid d' u = prov_state_of jid d u" for t g d d' and u :: int
    by (auto simp: prov_writes)
qed (auto simp: prov_writes)

lemma prov_effects_total:
  "\<exists>d'. ef_mark (prov_effects jid) t d d'" "\<exists>g d'. ef_end (prov_effects jid) t g d d'"
proof -
  have "prov_end t True d (put_prov_task now t (Some ''completed'') (Some 100) (Some m) None d)" for now m
    by (auto simp: prov_writes)
  then show "\<exists>g d'. ef_end (prov_effects jid) t g d d'" by (auto simp: prov_effects_def)
qed (auto simp: prov_effects_def prov_mark_cancelled_def prov_update_task_put)

section \<open>One run of the task code is a sequence of effects\<close>

definition prov_worked :: "int \<Rightarrow> db \<Rightarrow> 'w \<times> db \<Rightarrow> bool" where
  "prov_worked t d0 = (\<lambda>(w, d). (prov_work t)\<^sup>*\<^sup>* d0 d)"

lemma prov_worked_on_fst [io_inv]: "keeps (prov_worked t d0) (on_fst m)"
  by (rule keepsI) (auto simp: prov_worked_def on_fst_def split: prod.splits)

lemma prov_worked_read [io_inv]: "keeps (prov_worked t d0) (read_db f)"
  by (rule keepsI) (auto simp: prov_worked_def read_db_def)

lemma prov_worked_require [io_inv]: "keeps (prov_worked t d0) (require b why)"
  by (auto simp: require_def)

lemma prov_work_put: "prov_work t d (put_prov_task now t (Some s) (Some n) (Some m) None d)"
  by (auto simp: prov_work_def prov_update_task_put)

lemma prov_worked_report [io_inv]: "keeps (prov_worked t d0) (prov_report ps t s n m)"
proof (rule keepsI)
  fix x :: "'a \<times> db" assume "prov_worked t d0 x"
  then show "prov_worked t d0 (snd (prov_report ps t s n m x))"
    by (cases x) (auto simp: prov_worked_def prov_report_run intro: rtranclp.rtrancl_into_rtrancl prov_work_put)
qed

lemma prov_worked_loop [io_inv]: "keeps (prov_worked t d0) (install_loop ps t ip deadline n)"
  by (induction n) (auto simp: install_loop.simps intro!: io_inv)

lemma prov_worked_prepare [io_inv]: "keeps (prov_worked t d0) (prov_prepare ps t img)"
  unfolding prov_prepare_def Let_def by (intro io_inv)

lemma prov_worked_install [io_inv]: "keeps (prov_worked t d0) (install_host ps t img info dr creds token)"
  unfolding install_host_def must_def wait_installed_def by (intro io_inv)

lemma keeps_fst_part [io_inv]: "keeps P m \<Longrightarrow> keeps (\<lambda>x. P (fst x)) (on_fst m)"
  by (auto simp: keeps_def on_fst_def split: prod.splits)

lemma keeps_snd_part [io_inv]: "keeps (\<lambda>x. P (fst x)) (on_snd f)"
  by (auto simp: keeps_def on_snd_def split: prod.splits)

lemma prov_worked_real: "keeps (\<lambda>x. prov_worked t d0 (fst x)) (prov_real_task ps t img)"
  unfolding prov_real_task_def Let_def case_prod_beta by (intro io_inv)

lemma prov_run_one_effects:
  obtains good w' d1 d' c' where "prov_run_one ps t img ((w, d), c) = (Inr good, ((w', d'), c'))"
    "(prov_work t)\<^sup>*\<^sup>* d d1" "prov_end t good d1 d'"
proof -
  obtain r w1 d1 c1 where run: "prov_real_task ps t img ((w, d), c) = (r, ((w1, d1), c1))" by (metis prod.exhaust)
  have w1: "(prov_work t)\<^sup>*\<^sup>* d d1"
    using keeps_snd [OF prov_worked_real [of t d ps img], of "((w, d), c)"] run by (simp add: prov_worked_def)
  have fin: "prov_end t good x (put_prov_task now t (Some s) (Some n) (Some m) None x)"
    if "s \<in> set (prov_outcomes good)" for good x now s n m
    using that by (auto simp: prov_end_def prov_update_task_put)
  note split = run_task_split [OF run]
  show thesis
  proof (cases r)
    case (Inl e)
    let ?s = "if is_exception e then ''failed'' else ''cancelled''" and ?m = "if is_exception e then exn_str e else ''Cancelled''"
    have "prov_run_one ps t img ((w, d), c) =
        (Inr False, ((w1, put_prov_task (st_now (pr_site ps) w1) t (Some ?s) (Some 0) (Some ?m) None d1), c1))"
      using split Inl by (simp add: prov_run_one_def catch_run prov_report_run)
    then show thesis by (rule that [OF _ w1 fin]) (simp add: prov_outcomes_def)
  next
    case (Inr u)
    then show thesis
      using split by (intro that [OF _ w1, of True])
        (auto simp: prov_run_one_def catch_run prov_report_run prov_outcomes_def intro!: fin)
  qed
qed

section \<open>What starting a job records\<close>

definition prov_queued_row :: "string \<Rightarrow> int \<Rightarrow> preview_row \<Rightarrow> prov_task_row" where
  "prov_queued_row now jid p = \<lparr>pt_job_id = jid, pt_server_id = Some (pv_server_id p),
     pt_resolved_disk = Some (dumps (resolved_json (pv_resolution p))), pt_cfg_sha = None,
     pt_state = ''queued'', pt_progress = 0, pt_message = None, pt_started_at = Some now, pt_finished_at = None\<rparr>"

lemma prov_create_tasks_rows:
  assumes "prov_create_tasks now jid ps d = Inr (tids, d')" "table_ok (db_prov_tasks d)"
  shows "db_prov_tasks d' = db_prov_tasks d @ zip tids (List.map (prov_queued_row now jid) ps) \<and> length tids = length ps \<and>
    table_ok (db_prov_tasks d')"
  using assms
proof (induction ps arbitrary: tids d)
  case (Cons p ps)
  then obtain tid d1 ts where c: "prov_create_task now jid (pv_server_id p) (Some (dumps (resolved_json (pv_resolution p)))) d = Inr (tid, d1)"
    "prov_create_tasks now jid ps d1 = Inr (ts, d')" "tids = tid # ts"
    by (auto simp: bind_py_Inr)
  have d1: "db_prov_tasks d1 = db_prov_tasks d @ [(tid, prov_queued_row now jid p)]" "table_ok (db_prov_tasks d1)"
    using c(1) Cons.prems(2) table_ok_insert [of "db_prov_tasks d" "prov_queued_row now jid p" tid "db_prov_tasks d1"]
    by (auto simp: prov_create_task_def Let_def insert_row_def prov_queued_row_def split: if_splits)
  have "db_prov_tasks d' = db_prov_tasks d1 @ zip ts (List.map (prov_queued_row now jid) ps)" "length ts = length ps"
    "table_ok (db_prov_tasks d')" using Cons.IH [OF c(2) d1(2)] by auto
  then show ?case using d1(1) c(3) by simp
qed simp

lemma preview_tables:
  "db_servers d' = db_servers d \<Longrightarrow> db_disk_profiles d' = db_disk_profiles d \<Longrightarrow> preview d' sids prof strat ov = preview d sids prof strat ov"
proof -
  assume t: "db_servers d' = db_servers d" "db_disk_profiles d' = db_disk_profiles d"
  have "preview_all d' ids s ov = preview_all d ids s ov" for ids s
    by (induction ids) (simp_all add: server_get_def t split: option.split)
  then show ?thesis by (simp add: preview_def job_strategy_def profile_get_def t cong: option.case_cong)
qed

lemma prov_start_cases:
  assumes "prov_start_job now sids iid osp prof confirm conc strat ov d = (Inr (Inr js), d')" "db_ok d"
  obtains ps rows where "preview d sids prof strat ov = Inr ps"
    "db_prov_tasks d' = db_prov_tasks d @ rows" "rows = zip (po_tasks js) (List.map (prov_queued_row now (po_id js)) ps)"
    "length (po_tasks js) = length ps" "table_ok (db_prov_tasks d')" "po_concurrency js = limit_to 1 32 conc"
    "row (db_prov_jobs d) (po_id js) = None"
proof -
  obtain img jid d1 ps tids d2 where s: "prov_create_job now iid osp prof (limit_to 1 32 conc) confirm ''user'' d = Inr (jid, d1)"
    "preview d1 sids prof strat ov = Inr ps" "prov_create_tasks now jid ps d1 = Inr (tids, d2)"
    "js = \<lparr>po_id = jid, po_tasks = tids, po_iso = img, po_concurrency = limit_to 1 32 conc\<rparr>"
    "db_prov_tasks d' = db_prov_tasks d2"
    using assms(1) by (auto simp: prov_start_job_def Let_def bind_py_Inr prov_update_job_state_put put_prov_job_def
        split: if_splits option.splits sum.splits prod.splits)
  have d1: "db_prov_tasks d1 = db_prov_tasks d" "db_servers d1 = db_servers d" "db_disk_profiles d1 = db_disk_profiles d"
      "row (db_prov_jobs d) jid = None"
    using s(1) row_next [of "db_prov_jobs d"] by (auto simp: prov_create_job_def insert_row_def Let_def split: if_splits)
  have "table_ok (db_prov_tasks d)" using assms(2) by (simp add: db_ok_def tables_ok_def)
  then have "db_prov_tasks d2 = db_prov_tasks d @ zip tids (List.map (prov_queued_row now jid) ps)" "length tids = length ps"
      "table_ok (db_prov_tasks d2)"
    using prov_create_tasks_rows [OF s(3)] d1(1) by auto
  then show thesis using s(2,4,5) preview_tables [OF d1(2,3), of sids prof strat ov] d1(4)
    by (intro that [of ps "zip tids (List.map (prov_queued_row now jid) ps)"]) auto
qed

lemma prov_start_task:
  assumes "prov_start_job now sids iid osp prof confirm conc strat ov d = (Inr (Inr js), d')" "db_ok d"
    and "preview d sids prof strat ov = Inr ps" "i < length ps"
  shows "i < length (po_tasks js) \<and> prov_get_task d' (po_tasks js ! i) = Some (prov_queued_row now (po_id js) (ps ! i))"
proof (rule prov_start_cases [OF assms(1,2)])
  fix ps' rows assume r: "preview d sids prof strat ov = Inr ps'" "db_prov_tasks d' = db_prov_tasks d @ rows"
    "rows = zip (po_tasks js) (List.map (prov_queued_row now (po_id js)) ps')" "length (po_tasks js) = length ps'"
    "table_ok (db_prov_tasks d')"
  then have i: "i < length rows" "rows ! i = (po_tasks js ! i, prov_queued_row now (po_id js) (ps ! i))" using assms(3,4) by auto
  have "(po_tasks js ! i, prov_queued_row now (po_id js) (ps ! i)) \<in> set (db_prov_tasks d')"
    using nth_mem [OF i(1)] i(2) r(2) by simp
  then have "prov_get_task d' (po_tasks js ! i) = Some (prov_queued_row now (po_id js) (ps ! i))"
    using row_mem [OF r(5)] by (simp add: prov_get_task_def)
  moreover have "i < length (po_tasks js)" using r(1,4) assms(3,4) by simp
  ultimately show ?thesis by simp
qed

lemma resolved_json_ok: "json_ok (resolved_json r) \<longleftrightarrow> (case rv_capacity r of None \<Rightarrow> True | Some g \<Rightarrow> float_ok g)"
  by (cases "rv_name r"; cases "rv_model r"; cases "rv_serial r") (auto simp: resolved_json_def jopt_def split: option.split)

lemma load_queued:
  assumes "json_ok (resolved_json (pv_resolution p))"
  shows "load_resolved site (prov_queued_row now jid p) = Inr (resolved_json (pv_resolution p))"
proof -
  have "dumps (resolved_json (pv_resolution p)) \<noteq> []" by (simp add: resolved_json_def)
  then show ?thesis using assms by (simp add: load_resolved_def prov_queued_row_def nonempty_def loads_dumps Let_def)
qed

lemma prov_pool_inv:
  assumes "prov_start_job now sids iid osp prof confirm conc strat ov d = (Inr (Inr js), d')" "db_ok d"
    and "pool_reach (prov_effects jid) (prov_pool js d') s"
  shows "pool_inv (nat (limit_to 1 32 conc)) (po_tasks js) s"
proof (rule prov_start_cases [OF assms(1,2)])
  fix ps rows assume r: "db_prov_tasks d' = db_prov_tasks d @ rows" "rows = zip (po_tasks js) (List.map (prov_queued_row now (po_id js)) ps)"
    "length (po_tasks js) = length ps" "table_ok (db_prov_tasks d')" "po_concurrency js = limit_to 1 32 conc"
  then have "distinct (po_tasks js)" using table_ok_distinct [OF r(4)] by simp
  moreover have "max 1 (limit_to 1 32 conc) = limit_to 1 32 conc" using limit_to_bounds [of 1 32 conc] by simp
  ultimately show ?thesis using r(5) by (intro pool_inv_reach [OF assms(3)]) (auto simp: prov_pool_def pool_inv_new)
qed

lemma prov_start_states:
  assumes "prov_start_job now sids iid osp prof confirm conc strat ov d = (Inr (Inr js), d')" "db_ok d" "t \<in> set (po_tasks js)"
  shows "prov_state_of (po_id js) d' t = Some ''queued''"
proof (rule prov_start_cases [OF assms(1,2)])
  fix ps rows assume r: "preview d sids prof strat ov = Inr ps" "length (po_tasks js) = length ps"
  obtain i where "i < length (po_tasks js)" "t = po_tasks js ! i" using assms(3) by (auto simp: in_set_conv_nth)
  then show ?thesis using prov_start_task [OF assms(1,2) r(1), of i] r(2) by (simp add: prov_state_of_def prov_queued_row_def)
qed

lemma prov_ledger_run:
  assumes "prov_start_job now sids iid osp prof confirm conc strat ov d = (Inr (Inr js), d')" "db_ok d"
    and "pool_reach (prov_effects (po_id js)) (prov_pool js d') s"
  shows "prov_ledger.ledger_ok (po_id js) s"
proof (rule prov_ledger.ledger_reach [OF assms(3)])
  show "prov_ledger.ledger_ok (po_id js) (prov_pool js d')"
    unfolding prov_pool_def by (rule prov_ledger.ledger_new) (use prov_start_states [OF assms(1,2)] in auto)
qed

section \<open>Properties\<close>

text \<open>A database with one server and one image, and a job started on them.\<close>

definition lab_image :: iso_row where
  "lab_image = \<lparr>ir_name = ''rocky'', ir_os_family = ''rocky'', ir_os_version = ''9'', ir_arch = Some ''x86_64'', ir_file_path = ''/i'',
     ir_sha256 = ''ab'', ir_size_bytes = None, ir_source_url = None, ir_uploaded_at = None, ir_uploaded_by = None, ir_notes = None\<rparr>"

definition lab_db :: db where
  "lab_db = snd (iso_add ''t0'' lab_image one_server)"

definition lab_start :: "(string + prov_start) py \<times> db" where
  "lab_start = prov_start_job ''t1'' [1] 1 None None ''WIPE'' 100 None [] lab_db"

definition lab_job :: prov_start where
  "lab_job = \<lparr>po_id = 1, po_tasks = [1], po_iso = lab_image\<lparr>ir_uploaded_at := Some ''t0''\<rparr>, po_concurrency = 32\<rparr>"

definition lab_preview :: preview_row where
  "lab_preview = \<lparr>pv_server_id = 1, pv_hostname = ''10.0.0.5'', pv_ip = ''10.0.0.5'', pv_oem = [], pv_power_state = ''Unknown'',
     pv_disk_count = 0, pv_resolution = no_disk None ''no strategy or override selected'' ''unmatched''\<rparr>"

lemma lab_ok: "db_ok lab_db"
  unfolding lab_db_def one_server_def
  by (rule reach_db_ok [OF db_reach.step [OF db_reach.step [OF db_reach.start db_step.upsert] db_step.add_iso]])

lemma lab_started: "prov_start_job ''t1'' [1] 1 None None ''WIPE'' 100 None [] lab_db = (Inr (Inr lab_job), snd lab_start)"
proof -
  have "fst lab_start = Inr (Inr lab_job)" by code_simp
  then show ?thesis by (metis lab_start_def prod.collapse)
qed

lemma lab_previewed: "preview lab_db [1] None None [] = Inr [lab_preview]"
  by code_simp



text \<open>Property C10. At most 32 installations of a job run at once, under any schedule, and the job can
  always be brought to its end: from every state its workers can reach, a state in which all of
  them are finished is reachable.\<close>

theorem install_job_can_finish:
  assumes "prov_start_job now sids iid osp prof confirm conc strat ov d = (Inr (Inr js), d')" "db_ok d"
    and "pool_reach (prov_effects (po_id js)) (prov_pool js d') s"
  shows "running s \<le> 32 \<and> (\<exists>s'. pool_reach (prov_effects (po_id js)) s s' \<and> finished s')"
proof -
  have inv: "pool_inv (nat (limit_to 1 32 conc)) (po_tasks js) s" by (rule prov_pool_inv [OF assms])
  have "\<exists>s'. pool_reach (prov_effects (po_id js)) s s' \<and> finished s'"
    using limit_to_bounds [of 1 32 conc] by (intro can_finish [OF inv] prov_effects_total) auto
  then show ?thesis using pool_running_le [OF inv] limit_to_bounds [of 1 32 conc] by auto
qed

theorem install_job_can_finish_witness:
  "running (prov_pool lab_job (snd lab_start)) \<le> 32 \<and>
    (\<exists>s'. pool_reach (prov_effects 1) (prov_pool lab_job (snd lab_start)) s' \<and> finished s')"
  using install_job_can_finish [OF lab_started lab_ok pool_reach.refl] by (simp add: lab_job_def)

text \<open>Further property. The verdict of a provisioning job is true of its rows: when all its workers are finished, the
  successes counted are the tasks whose row says \<open>completed\<close>, the failures those that say
  \<open>failed\<close> or \<open>cancelled\<close>, and together they are all the tasks of the job.\<close>

theorem install_counts_match_rows:
  assumes "prov_start_job now sids iid osp prof confirm conc strat ov d = (Inr (Inr js), d')" "db_ok d"
    and "pool_reach (prov_effects (po_id js)) (prov_pool js d') s" "finished s"
  shows "pl_ok s = length (filter (\<lambda>t. prov_state_of (po_id js) (pl_data s) t = Some ''completed'') (po_tasks js)) \<and>
    pl_bad s = length (filter (\<lambda>t. prov_state_of (po_id js) (pl_data s) t \<in> {Some ''failed'', Some ''cancelled''}) (po_tasks js)) \<and>
    pl_ok s + pl_bad s = length (po_tasks js)"
  using prov_ledger.ledger_counts [OF prov_ledger_run [OF assms(1-3)] prov_pool_inv [OF assms(1-3)] assms(4)]
    finished_counts [OF prov_pool_inv [OF assms(1-3)] assms(4)] by simp

definition lab_cancelled :: "db pool" where
  "lab_cancelled = (prov_pool lab_job (snd lab_start))\<lparr>pl_cancel := True\<rparr>"

definition lab_settled :: "db pool" where
  "lab_settled = settle 1 False (put_prov_task ''t2'' 1 (Some ''cancelled'') None (Some ''Cancelled'') None (snd lab_start)) lab_cancelled"

lemma lab_reach: "pool_reach (prov_effects 1) (prov_pool lab_job (snd lab_start)) lab_settled"
  unfolding lab_settled_def
proof (rule pool_reach.step [OF pool_reach.step [OF pool_reach.refl pool_step.cancel]], fold lab_cancelled_def, rule pool_step.skip)
  show "phase_of lab_cancelled 1 = Some Spawned" "pl_cancel lab_cancelled"
    by (simp_all add: lab_cancelled_def prov_pool_def lab_job_def new_pool_def phase_of_def)
  show "ef_mark (prov_effects 1) 1 (pl_data lab_cancelled)
      (put_prov_task ''t2'' 1 (Some ''cancelled'') None (Some ''Cancelled'') None (snd lab_start))"
    by (auto simp: prov_effects_def prov_mark_cancelled_def prov_update_task_put lab_cancelled_def prov_pool_def new_pool_def)
qed

theorem install_counts_match_rows_witness:
  "pl_bad lab_settled = length (filter (\<lambda>t. prov_state_of 1 (pl_data lab_settled) t \<in> {Some ''failed'', Some ''cancelled''}) [1])"
proof -
  have "finished lab_settled"
    by (simp add: lab_settled_def lab_cancelled_def prov_pool_def lab_job_def new_pool_def settle_def set_phase_def finished_def)
  then show ?thesis using install_counts_match_rows [OF lab_started lab_ok] lab_reach by (simp add: lab_job_def)
qed

text \<open>Property C7. An installation always settles: whatever the BMC, the network, the file server or the
  templates do, the task code returns a verdict and raises nothing; its own row ends
  \<open>completed\<close> on success and \<open>failed\<close> or \<open>cancelled\<close> otherwise, no other
  row changes its state, and all its writes are effects of the pool for that task.\<close>

theorem prov_run_one_settles:
  "\<exists>good x' d1 d' c'. prov_run_one ps t img ((w, d), c) = (Inr good, ((x', d'), c')) \<and>
     (prov_work t)\<^sup>*\<^sup>* d d1 \<and> prov_end t good d1 d' \<and>
     prov_state_of jid d' t \<in> (if prov_state_of jid d t = None then {None} else Some ` set (prov_outcomes good)) \<and>
     (\<forall>u. u = t \<or> prov_state_of jid d' u = prov_state_of jid d u)"
proof -
  obtain good w' d1 d' c' where run: "prov_run_one ps t img ((w, d), c) = (Inr good, ((w', d'), c'))"
    and steps: "(prov_work t)\<^sup>*\<^sup>* d d1" and e: "prov_end t good d1 d'"
    by (rule prov_run_one_effects)
  have "\<forall>u. (prov_state_of jid d1 u = None \<longleftrightarrow> prov_state_of jid d u = None) \<and>
      (u \<noteq> t \<longrightarrow> prov_state_of jid d1 u = prov_state_of jid d u)"
    using steps by induction (auto simp: prov_work_def prov_update_task_put prov_state_put split: if_splits)
  then have "prov_state_of jid d' t \<in> (if prov_state_of jid d t = None then {None} else Some ` set (prov_outcomes good)) \<and>
     (\<forall>u. u = t \<or> prov_state_of jid d' u = prov_state_of jid d u)"
    using e by (auto simp: prov_end_def prov_update_task_put prov_state_put split: if_splits)
  then show ?thesis using run steps e by blast
qed

text \<open>Further property. After a restart no installation is left hanging: the sweep fails exactly the tasks that were
  not settled, says how many, leaves the settled ones as they were, and no job stays pending or
  running.\<close>

theorem prov_startup_sweep:
  "\<exists>d'. prov_resume_interrupted now d = (length (prov_non_terminal_tasks d), d') \<and>
     prov_non_terminal_tasks d' = [] \<and> filter (\<lambda>(_, r). prov_live_job r) (db_prov_jobs d') = [] \<and>
     (\<forall>i. row (db_prov_tasks d') i = map_option (\<lambda>r. if prov_live r
        then r\<lparr>pt_state := ''failed'', pt_finished_at := Some now, pt_message := Some restart_msg\<rparr> else r) (row (db_prov_tasks d) i))"
proof -
  have none: "filter (\<lambda>(_, r). live r) (update_where (\<lambda>_. live) f l) = []" if "\<And>r. \<not> live (f r)"
    for live and f :: "'a \<Rightarrow> 'a" and l :: "'a table"
    using that by (auto simp: update_where_def filter_empty_conv split: if_splits)
  have dead: "\<not> prov_live_job (pj_state_update (\<lambda>_. ''failed'') r)"
    "\<not> prov_live (t\<lparr>pt_state := ''failed'', pt_finished_at := f, pt_message := m\<rparr>)" for r t f m
    by (simp_all add: prov_live_job_def prov_live_def prov_terminal_def)
  show ?thesis
  proof (cases "prov_non_terminal_tasks d = []")
    case True
    then have "map_option (\<lambda>r. if prov_live r then f r else r) (row (db_prov_tasks d) i) = row (db_prov_tasks d) i" for f i
      by (cases "row (db_prov_tasks d) i") (auto simp: prov_non_terminal_tasks_def filter_empty_conv row_def dest: map_of_SomeD)
    then show ?thesis using True
      by (auto simp: prov_resume_interrupted_def prov_fail_jobs_def prov_non_terminal_tasks_def none dead)
  next
    case False
    have "count_where (\<lambda>_. prov_live) l = length (filter (\<lambda>(_, r). prov_live r) l)" for l
      by (simp add: count_where_def)
    then show ?thesis using False
      by (auto simp: prov_resume_interrupted_def prov_fail_jobs_def prov_fail_tasks_def prov_non_terminal_tasks_def
          none dead row_update)
  qed
qed

end
