(* ===== verification/App_Start.thy ===== *)
theory App_Start
  imports File_Server Library_Service Provisioning_Jobs
begin

text \<open>
  The composition root \<open>app/container.py\<close> as far as it acts: the recovery of interrupted work at
  startup and the start of the embedded file server with its fallback ports; the paths of
  \<open>app/config.py\<close>; the demo data of \<open>data/seed.py\<close>.
\<close>

section \<open>Recovery at startup\<close>

text \<open>First the updates, then the installations; an exception of the first aborts the start.\<close>

definition boot_recover :: "string \<Rightarrow> db \<Rightarrow> ((int \<times> task_row) list \<times> db) py" where
  "boot_recover now d = bind_py (resume_interrupted now d) (\<lambda>((_, resumed), d1).
     Inr (resumed, snd (prov_resume_interrupted now d1)))"

section \<open>The file server\<close>

definition attempted_ports :: "int \<Rightarrow> int list" where
  "attempted_ports bind_port = bind_port # (if 0 < bind_port then List.map (\<lambda>i. bind_port + i) [1..5] else [])"

definition advertise_url :: "string \<Rightarrow> int \<Rightarrow> string option" where
  "advertise_url host port = (if host = [] then None else Some (http_url host port))"

text \<open>\<open>TimeoutError\<close>, which \<open>fut.result(timeout=5)\<close> may raise, is an \<open>OSError\<close>. \<open>bound\<close> is the outcome of binding a port; the result is the port that serves.\<close>

fun try_ports :: "net_view \<Rightarrow> string \<Rightarrow> string \<Rightarrow> (int \<Rightarrow> unit py) \<Rightarrow> int list \<Rightarrow> file_server \<Rightarrow> int option \<times> file_server" where
  "try_ports nv host advertise bound [] fs = (None, fs)"
| "try_ports nv host advertise bound (p # ps) fs =
     (case start_server nv host p (advertise_url advertise p) (bound p) fs of
        (Inr _, fs') \<Rightarrow> (Some p, fs')
      | (Inl e, fs') \<Rightarrow> if os_error e then try_ports nv host advertise bound ps fs' else (None, fs'))"

text \<open>The file server that the orchestrator is given: none when no port could be bound.\<close>

definition boot_file_server :: "net_view \<Rightarrow> (int \<Rightarrow> unit py) \<Rightarrow> string \<Rightarrow> db \<Rightarrow> int option \<times> file_server option" where
  "boot_file_server nv bound secret d =
     (let host = the_default ''0.0.0.0'' (nonempty (setting_get d ''bmc_http_bind'' (Some ''0.0.0.0'')));
          port = get_int d ''bmc_http_port'' 8443;
          advertise = the_default [] (setting_get d ''bmc_http_advertise_host'' None) in
      case try_ports nv host advertise bound (attempted_ports port) \<lparr>fs_secret = secret, fs_public_base = None\<rparr> of
        (Some p, fs) \<Rightarrow> (Some p, Some fs) | (None, _) \<Rightarrow> (None, None))"

section \<open>Paths\<close>

record os_env =
  ov_platform :: string
  ov_home :: string
  ov_data_dir :: "string option"
  ov_localappdata :: "string option"
  ov_xdg :: "string option"

text \<open>\<open>Path / part\<close> for a path without a trailing slash, written with \<open>/\<close> on every platform.\<close>

definition path_join :: "string \<Rightarrow> string list \<Rightarrow> string" where
  "path_join base parts = foldl (\<lambda>p part. p @ ''/'' @ part) base parts"

definition data_dir :: "os_env \<Rightarrow> string" where
  "data_dir e = (case nonempty (ov_data_dir e) of Some p \<Rightarrow> p
     | None \<Rightarrow> path_join
         (if ov_platform e = ''win32'' then the_default (path_join (ov_home e) [''AppData'', ''Local'']) (ov_localappdata e)
          else if ov_platform e = ''darwin'' then path_join (ov_home e) [''Library'', ''Application Support'']
          else the_default (path_join (ov_home e) [''.local'', ''share'']) (ov_xdg e))
         [''ClusterOne''])"

definition db_path :: "os_env \<Rightarrow> string" where
  "db_path e = path_join (data_dir e) [''db'', ''clusterone.db'']"

definition firmware_dir :: "os_env \<Rightarrow> string" where
  "firmware_dir e = path_join (data_dir e) [''firmware'']"

definition iso_dir :: "os_env \<Rightarrow> string" where
  "iso_dir e = path_join (data_dir e) [''iso'']"

definition logs_dir :: "os_env \<Rightarrow> string" where
  "logs_dir e = path_join (data_dir e) [''logs'']"

section \<open>Demo data\<close>

definition seed_server :: "string \<Rightarrow> string \<Rightarrow> oem_key \<Rightarrow> string \<Rightarrow> string \<Rightarrow> string \<Rightarrow> version \<Rightarrow> version \<Rightarrow> string \<Rightarrow> string \<Rightarrow> string \<Rightarrow>
    string \<times> server_fields" where
  "seed_server ip hostname oem manufacturer model serial bmc bios pwr st protocol = (ip, \<lparr>sf_hostname = Some hostname,
     sf_manufacturer = Some manufacturer, sf_oem = Some oem, sf_model = Some model, sf_serial = Some serial,
     sf_bmc_version = Some bmc, sf_bios_version = Some bios, sf_power_state = Some pwr, sf_status = st,
     sf_protocol = Some protocol, sf_redfish_root = None, sf_tls_fpr = None\<rparr>)"

definition seed_servers :: "(string \<times> server_fields) list" where
  "seed_servers = [
     seed_server ''10.10.10.11'' ''node-a01'' ''supermicro'' ''Supermicro'' ''H13DSG-O'' ''S1A0011'' ''1.04.06'' ''2.1'' ''On'' ''online'' ''redfish'',
     seed_server ''10.10.10.12'' ''node-a02'' ''dell'' ''Dell'' ''R760'' ''DLR7602'' ''7.10.30'' ''1.4'' ''On'' ''needs_update'' ''redfish'',
     seed_server ''10.10.10.13'' ''node-a03'' ''hpe'' ''HPE'' ''DL380 G11'' ''HPL3803'' ''2.44'' ''1.6'' ''On'' ''failed'' ''redfish'',
     seed_server ''10.10.10.14'' ''node-a04'' ''lenovo'' ''Lenovo'' ''SR650 V3'' ''LNV6504'' ''3.10'' ''2.0'' ''On'' ''online'' ''redfish'',
     seed_server ''10.10.10.15'' ''node-a05'' ''gigabyte'' ''Gigabyte'' ''R283-Z90'' ''GBZ9005'' ''12.05'' ''C20'' ''On'' ''online'' ''redfish'',
     seed_server ''10.10.10.16'' ''node-a06'' ''asrock'' ''ASRock Rack'' ''GENOA-D8'' ''ASR8006'' ''1.18'' ''3.2'' ''Off'' ''offline'' ''ipmi'',
     seed_server ''10.10.10.17'' ''node-a07'' ''asus'' ''ASUS'' ''RS720A'' ''ASU7207'' ''1.34'' ''0805'' ''On'' ''needs_update'' ''redfish'',
     seed_server ''10.10.10.18'' ''node-a08'' ''msi'' ''MSI'' ''S2206'' ''MSI2208'' ''1.02'' ''1.1'' ''On'' ''online'' ''redfish'']"

definition seed_image :: "stamp \<Rightarrow> path \<Rightarrow> string \<Rightarrow> oem_key \<Rightarrow> string \<Rightarrow> version \<Rightarrow> string \<Rightarrow> int \<Rightarrow> firmware_row" where
  "seed_image today name kind oem model version sha size_b = \<lparr>fr_name = name, fr_type = kind, fr_oem = oem, fr_model = Some model,
     fr_version = version, fr_file_path = ''seed://'' @ name, fr_sha256 = sha, fr_size_bytes = Some size_b, fr_signature = None,
     fr_uploaded_at = Some today, fr_uploaded_by = Some ''demo'', fr_notes = None\<rparr>"

definition seed_firmware :: "string \<Rightarrow> firmware_row list" where
  "seed_firmware today = [
     seed_image today ''SMC_H13_BIOS_1.6.bin'' ''BIOS'' ''supermicro'' ''H13DSG-O'' ''1.6'' ''seed-smc-bios-16'' 33554432,
     seed_image today ''SMC_BMC_1.04.06.bin'' ''BMC'' ''supermicro'' ''H13DSG-O'' ''1.04.06'' ''seed-smc-bmc-10406'' 33554432,
     seed_image today ''iDRAC_7.10.30.exe'' ''BMC'' ''dell'' ''R760'' ''7.10.30'' ''seed-dell-idrac-71030'' 167772160,
     seed_image today ''HGX_H100_1.3.fwpkg'' ''HGX'' ''nvidia'' ''HGX-H100'' ''1.3'' ''seed-hgx-h100-13'' 268435456,
     seed_image today ''iLO6_2.44.bin'' ''BMC'' ''hpe'' ''DL380 G11'' ''2.44'' ''seed-hpe-ilo6-244'' 67108864]"

definition seed_events :: "(string \<times> string \<times> string) list" where
  "seed_events = [
     (''success'', ''update'', ''BIOS update completed '' @ em_dash @ '' 7/8 succeeded''),
     (''error'', ''update'', ''node-a03 failed verification (version mismatch)''),
     (''info'', ''update'', ''BIOS update started on 8 servers''),
     (''success'', ''discovery'', ''8 servers found''),
     (''info'', ''discovery'', ''Discovery started (10.10.10.1-254)''),
     (''info'', ''firmware'', ''Firmware SMC_H13_BIOS_1.6.bin uploaded'')]"

definition seed_event :: "string \<Rightarrow> string \<times> string \<times> string \<Rightarrow> db \<Rightarrow> db" where
  "seed_event now = (\<lambda>(level, category, msg) d. snd (activity_log now \<lparr>ac_ts = now, ac_level = level, ac_category = category,
     ac_actor = None, ac_server_id = None, ac_job_id = None, ac_message = msg, ac_detail = None\<rparr> d))"

definition seed_if_empty :: "string \<Rightarrow> db \<Rightarrow> db" where
  "seed_if_empty now d =
     (let d1 = (if server_count d = 0 then fold (\<lambda>(ip, cols) d. snd (server_upsert now ip cols d)) seed_servers d else d);
          d2 = (if firmware_count d1 = 0 then fold (\<lambda>fw d. snd (firmware_add now fw d)) (seed_firmware now) d1 else d1) in
      if activity_count d2 = 0 then fold (seed_event now) (rev seed_events) d2 else d2)"

section \<open>Facts\<close>

lemma prov_resume_tables: "db_tasks (snd (prov_resume_interrupted now d)) = db_tasks d"
  "db_jobs (snd (prov_resume_interrupted now d)) = db_jobs d"
  by (auto simp: prov_resume_interrupted_def prov_fail_tasks_def prov_fail_jobs_def activity_log_def insert_row_def
      split: prod.split)

lemma try_ports_result:
  "try_ports nv host advertise bound ps fs = (r, fs') \<Longrightarrow> fs_public_base fs = None \<Longrightarrow> (case r of
     Some p \<Rightarrow> bound p = Inr () \<and> (\<exists>h. fs' = fs\<lparr>fs_public_base := Some (http_url h p)\<rparr>) \<and>
       (\<exists>as bs. ps = as @ p # bs \<and> list_all (\<lambda>q. \<exists>e. bound q = Inl e \<and> os_error e) as)
   | None \<Rightarrow> list_all (\<lambda>q. \<exists>e. bound q = Inl e \<and> os_error e) ps \<or>
       (\<exists>as q bs e. ps = as @ q # bs \<and> list_all (\<lambda>q. \<exists>e. bound q = Inl e \<and> os_error e) as \<and> bound q = Inl e \<and> \<not> os_error e))"
proof (induction ps arbitrary: fs)
  case (Cons p ps)
  have url: "\<exists>h. (case nonempty (advertise_url advertise p) of Some u \<Rightarrow> u | None \<Rightarrow> resolve_advertise_url nv host p) = http_url h p"
    by (auto simp: advertise_url_def nonempty_def resolve_advertise_url_def split: option.splits if_splits)
  show ?case
  proof (cases "bound p")
    case (Inl e)
    show ?thesis
    proof (cases "os_error e")
      case True
      have "try_ports nv host advertise bound ps fs = (r, fs')" using Cons.prems(1) Inl True by (simp add: start_server_def)
      from Cons.IH [OF this Cons.prems(2)] show ?thesis using Inl True
        by (auto split: option.splits; metis (mono_tags, lifting) append_Cons list.pred_inject(2))
    next
      case False
      then have "r = None" using Cons.prems Inl by (simp add: start_server_def)
      then show ?thesis using Inl False by (auto intro!: exI [of _ "[]"])
    qed
  next
    case (Inr u)
    obtain h where h: "(case nonempty (advertise_url advertise p) of Some u \<Rightarrow> u | None \<Rightarrow> resolve_advertise_url nv host p) = http_url h p"
      using url by blast
    have none: "nonempty None = None" by (simp add: nonempty_def)
    have "r = Some p" "fs' = fs\<lparr>fs_public_base := Some (http_url h p)\<rparr>"
      using Cons.prems Inr h none by (auto simp: start_server_def split: option.splits)
    moreover have "\<exists>as bs. p # ps = as @ p # bs \<and> list_all (\<lambda>q. \<exists>e. bound q = Inl e \<and> os_error e) as"
      by (rule exI [of _ "[]"]) simp
    ultimately show ?thesis using Inr by auto
  qed
qed simp

section \<open>Properties\<close>

text \<open>Property C13. After a start nothing looks as if it were still running that is not: the recovery succeeds, every
  installation is settled and no provisioning job is pending or running, the live update tasks are
  exactly those that can be polled on, and every update job still shown as live owns one of them.\<close>

theorem boot_settles:
  assumes "table_ok (db_tasks d)"
  shows "\<exists>rs d'. boot_recover now d = Inr (rs, d') \<and> rs = filter (\<lambda>(_, t). has_task_uri t) (list_non_terminal_tasks d) \<and>
    list_non_terminal_tasks d' = rs \<and> prov_non_terminal_tasks d' = [] \<and> filter (\<lambda>(_, r). prov_live_job r) (db_prov_jobs d') = [] \<and>
    set (List.map fst (filter (\<lambda>(_, r). live_job r) (db_jobs d'))) \<subseteq> set (List.map (\<lambda>(_, t). tk_job_id t) rs)"
proof -
  obtain rs d1 where u: "resume_interrupted now d = Inr ((length (list_non_terminal_tasks d), rs), d1)"
    "rs = filter (\<lambda>(_, t). has_task_uri t) (list_non_terminal_tasks d)" "list_non_terminal_tasks d1 = rs"
    "set (List.map fst (filter (\<lambda>(_, r). live_job r) (db_jobs d1))) \<subseteq> set (List.map (\<lambda>(_, t). tk_job_id t) rs)"
    using startup_sweep [OF assms] by blast
  obtain d2 where p: "prov_resume_interrupted now d1 = (length (prov_non_terminal_tasks d1), d2)" "prov_non_terminal_tasks d2 = []"
    "filter (\<lambda>(_, r). prov_live_job r) (db_prov_jobs d2) = []"
    using prov_startup_sweep by blast
  have "db_tasks d2 = db_tasks d1" "db_jobs d2 = db_jobs d1" using prov_resume_tables [of now d1] p(1) by simp_all
  then show ?thesis using u p by (simp add: boot_recover_def list_non_terminal_tasks_def)
qed

theorem boot_settles_witness:
  "\<exists>d'. boot_recover ''t9'' started_db = Inr ([], d') \<and> list_non_terminal_tasks d' = []"
proof -
  have "list_non_terminal_tasks started_db = [(1, shop_task)]" by code_simp
  moreover have "table_ok (db_tasks started_db)" using start_job_table [OF shop_started shop_ok] .
  ultimately show ?thesis
    using boot_settles [of started_db "''t9''"] by (auto simp: shop_task_def has_task_uri_def nonempty_def)
qed

text \<open>Further property. The links handed to the BMCs name the port that is really served: when a port could be bound, it is the
  first candidate that did not fail with an \<open>OSError\<close>, and the public address ends in exactly that
  port; when none could be bound, or binding failed in another way, the orchestrator has no file
  server at all.\<close>

theorem links_name_bound_port:
  "case boot_file_server nv bound secret d of
     (Some p, srv) \<Rightarrow> bound p = Inr () \<and> (\<exists>h. srv = Some \<lparr>fs_secret = secret, fs_public_base = Some (http_url h p)\<rparr>) \<and>
       (\<exists>as bs. attempted_ports (get_int d ''bmc_http_port'' 8443) = as @ p # bs \<and> list_all (\<lambda>q. \<exists>e. bound q = Inl e \<and> os_error e) as)
   | (None, srv) \<Rightarrow> srv = None"
proof -
  let ?host = "the_default ''0.0.0.0'' (nonempty (setting_get d ''bmc_http_bind'' (Some ''0.0.0.0'')))"
  let ?adv = "the_default [] (setting_get d ''bmc_http_advertise_host'' None)"
  obtain r fs where r: "try_ports nv ?host ?adv bound (attempted_ports (get_int d ''bmc_http_port'' 8443))
      \<lparr>fs_secret = secret, fs_public_base = None\<rparr> = (r, fs)" by fastforce
  show ?thesis using try_ports_result [OF r] r by (cases r) (auto simp: boot_file_server_def Let_def)
qed

text \<open>Further property. The demo data is added once: seeding again, at whatever time, changes nothing, and no table ends up empty.\<close>

theorem seed_idempotent:
  "seed_if_empty now' (seed_if_empty now d) = seed_if_empty now d \<and>
   server_count (seed_if_empty now d) \<noteq> 0 \<and> firmware_count (seed_if_empty now d) \<noteq> 0 \<and> activity_count (seed_if_empty now d) \<noteq> 0"
proof -
  have up: "db_servers (snd (server_upsert n ip cols x)) \<noteq> []" for n ip cols x
    by (auto simp: server_upsert_def server_by_ip_def find_row_def insert_row_def update_where_def split: option.split)
  have seeded: "db_servers (fold (\<lambda>(ip, cols) d. snd (server_upsert now ip cols d)) seed_servers x) \<noteq> []" for x
    using up by (simp add: seed_servers_def case_prod_beta)
  have fw: "db_firmware (snd (firmware_add n f x)) \<noteq> []" "db_servers (snd (firmware_add n f x)) = db_servers x" for n f x
    by (auto simp: firmware_add_def find_row_def insert_row_def Let_def split: option.split)
  have fws: "db_servers (fold (\<lambda>f d. snd (firmware_add now f d)) l x) = db_servers x" for l x
    by (induction l arbitrary: x) (simp_all add: fw)
  have fwn: "db_firmware (fold (\<lambda>f d. snd (firmware_add now f d)) (seed_firmware now) x) \<noteq> []" for x
    using fw(1) by (simp add: seed_firmware_def)
  have ev: "db_servers (seed_event now e x) = db_servers x" "db_firmware (seed_event now e x) = db_firmware x"
      "db_activity (seed_event now e x) \<noteq> []" for e x
    by (auto simp: seed_event_def activity_log_def insert_row_def split: prod.split)
  have evs: "db_servers (fold (seed_event now) l x) = db_servers x" "db_firmware (fold (seed_event now) l x) = db_firmware x" for l x
    by (induction l arbitrary: x) (simp_all add: ev)
  have evn: "db_activity (fold (seed_event now) (rev seed_events) x) \<noteq> []" for x
    using ev(3) by (simp add: seed_events_def)
  have "db_servers (seed_if_empty now d) \<noteq> []" "db_firmware (seed_if_empty now d) \<noteq> []" "db_activity (seed_if_empty now d) \<noteq> []"
    by (auto simp: seed_if_empty_def Let_def server_count_def firmware_count_def activity_count_def evs evn fws fwn seeded)
  then show ?thesis by (simp add: seed_if_empty_def server_count_def firmware_count_def activity_count_def)
qed

end
