(* ===== verification/Engine_Life.thy ===== *)
theory Engine_Life
  imports Prelude
begin

text \<open>
  The life of the asynchronous engine (\<open>core/engine/async_engine.py\<close>) as a step relation: the thread
  that makes, runs and closes an event loop, and the calls \<open>start\<close>, \<open>submit\<close> and \<open>stop\<close> with their
  timeouts, between which the thread may move at any point. And the order of \<open>Container.shutdown\<close>
  (\<open>app/container.py\<close>) with what it calls: \<open>FileServer.stop\<close> and \<open>Database.close\<close>.
\<close>

section \<open>State\<close>

text \<open>An event loop is created, runs, and is closed; a thread has begun, owns the loop it made, or has ended. Loops and
  threads are numbered in the order in which they come. \<open>en_call\<close> is the call the owner of the engine is in.\<close>

datatype loop_phase = Created | Looping | Shut

record event_loop =
  lp_phase :: loop_phase
  lp_tasks :: "nat list"
  lp_stop :: bool

datatype thread_state = Begun | Owns nat | Ended

datatype engine_call = No_Call | In_Start | In_Drain | In_Join

record engine =
  en_loop :: "nat option"
  en_thread :: "nat option"
  en_ready :: bool
  en_loops :: "event_loop list"
  en_threads :: "thread_state list"
  en_call :: engine_call

definition new_engine :: engine where
  "new_engine = \<lparr>en_loop = None, en_thread = None, en_ready = False, en_loops = [], en_threads = [], en_call = No_Call\<rparr>"

section \<open>Operations\<close>

definition change_loop :: "nat \<Rightarrow> (event_loop \<Rightarrow> event_loop) \<Rightarrow> engine \<Rightarrow> engine" where
  "change_loop n f e = e\<lparr>en_loops := (en_loops e)[n := f (en_loops e ! n)]\<rparr>"

definition is_running :: "engine \<Rightarrow> nat \<Rightarrow> bool" where
  "is_running e n \<longleftrightarrow> n < length (en_loops e) \<and> lp_phase (en_loops e ! n) = Looping"

definition not_running_exn :: exn where
  "not_running_exn = Exn Exn_Runtime ''AsyncEngine not running''"

definition engine_submit :: "nat \<Rightarrow> engine \<Rightarrow> engine py" where
  "engine_submit c e = (case en_loop e of
       None \<Rightarrow> Inl not_running_exn
     | Some n \<Rightarrow> if is_running e n then Inr (change_loop n (\<lambda>l. l\<lparr>lp_tasks := lp_tasks l @ [c]\<rparr>) e) else Inl not_running_exn)"

text \<open>\<open>call_soon\<close> drops the call where \<open>submit\<close> raises.\<close>

definition engine_call_soon :: "nat \<Rightarrow> engine \<Rightarrow> engine" where
  "engine_call_soon c e = (case engine_submit c e of Inr e' \<Rightarrow> e' | Inl _ \<Rightarrow> e)"

definition start_thread :: "engine \<Rightarrow> engine" where
  "start_thread e = e\<lparr>en_thread := Some (length (en_threads e)), en_threads := en_threads e @ [Begun], en_call := In_Start\<rparr>"

text \<open>\<open>_run\<close>: the loop is made and published, then \<open>_ready\<close> is set, then it runs until it is told to stop.\<close>

definition make_loop :: "nat \<Rightarrow> engine \<Rightarrow> engine" where
  "make_loop t e = (let n = length (en_loops e) in
     e\<lparr>en_loops := en_loops e @ [\<lparr>lp_phase = Created, lp_tasks = [], lp_stop = False\<rparr>], en_loop := Some n,
       en_ready := True, en_threads := (en_threads e)[t := Owns n]\<rparr>)"

definition close_loop :: "nat \<Rightarrow> nat \<Rightarrow> engine \<Rightarrow> engine" where
  "close_loop t n e = (change_loop n (\<lambda>l. l\<lparr>lp_phase := Shut\<rparr>) e)\<lparr>en_threads := (en_threads e)[t := Ended]\<rparr>"

definition request_stop :: "nat \<Rightarrow> engine \<Rightarrow> engine" where
  "request_stop n e = (change_loop n (\<lambda>l. l\<lparr>lp_stop := True\<rparr>) e)\<lparr>en_call := In_Join\<rparr>"

text \<open>After the drain \<open>stop\<close> reads \<open>_loop\<close> again; \<open>call_soon_threadsafe\<close> raises on a loop that is closed by then.\<close>

definition after_drain :: "engine \<Rightarrow> engine" where
  "after_drain e = (case en_loop e of
       None \<Rightarrow> e\<lparr>en_call := No_Call\<rparr>
     | Some n \<Rightarrow> if lp_phase (en_loops e ! n) = Shut then e\<lparr>en_call := No_Call\<rparr> else request_stop n e)"

definition thread_at :: "engine \<Rightarrow> nat \<Rightarrow> thread_state \<Rightarrow> bool" where
  "thread_at e t s \<longleftrightarrow> t < length (en_threads e) \<and> en_threads e ! t = s"

section \<open>Steps\<close>

text \<open>The flag says that a \<open>join\<close> ran into its timeout of three seconds. The drain of \<open>stop\<close> ends at any point, by its
  result or by its timeout of two seconds; the tasks it cancels end by the step \<open>finish\<close>, as those do that are done.
  \<open>is_running\<close> and the hand-over that follows it are one step here.\<close>

inductive engine_step :: "bool \<Rightarrow> engine \<Rightarrow> engine \<Rightarrow> bool" where
  start_again: "en_call e = No_Call \<Longrightarrow> en_thread e \<noteq> None \<Longrightarrow> engine_step False e e"
| start: "en_call e = No_Call \<Longrightarrow> en_thread e = None \<Longrightarrow> engine_step False e (start_thread e)"
| started: "en_call e = In_Start \<Longrightarrow> en_ready e \<Longrightarrow> engine_step False e (e\<lparr>en_call := No_Call\<rparr>)"
| start_failed: "en_call e = In_Start \<Longrightarrow> \<not> en_ready e \<Longrightarrow> engine_step False e (e\<lparr>en_call := No_Call\<rparr>)"
| make: "thread_at e t Begun \<Longrightarrow> engine_step False e (make_loop t e)"
| run: "thread_at e t (Owns n) \<Longrightarrow> lp_phase (en_loops e ! n) = Created \<Longrightarrow>
    engine_step False e (change_loop n (\<lambda>l. l\<lparr>lp_phase := Looping\<rparr>) e)"
| finish: "is_running e n \<Longrightarrow> engine_step False e (change_loop n (\<lambda>l. l\<lparr>lp_tasks := remove1 c (lp_tasks l)\<rparr>) e)"
| close: "thread_at e t (Owns n) \<Longrightarrow> is_running e n \<Longrightarrow> lp_stop (en_loops e ! n) \<Longrightarrow> engine_step False e (close_loop t n e)"
| submit: "engine_submit c e = Inr e' \<Longrightarrow> engine_step False e e'"
| stop_unmade: "en_call e = No_Call \<Longrightarrow> en_loop e = None \<Longrightarrow> engine_step False e e"
| stop: "en_call e = No_Call \<Longrightarrow> en_loop e = Some n \<Longrightarrow> is_running e n \<Longrightarrow> engine_step False e (e\<lparr>en_call := In_Drain\<rparr>)"
| stop_quiet: "en_call e = No_Call \<Longrightarrow> en_loop e = Some n \<Longrightarrow> \<not> is_running e n \<Longrightarrow> engine_step False e (e\<lparr>en_call := In_Join\<rparr>)"
| drained: "en_call e = In_Drain \<Longrightarrow> engine_step False e (after_drain e)"
| joined: "en_call e = In_Join \<Longrightarrow> (\<forall>t. en_thread e = Some t \<longrightarrow> thread_at e t Ended) \<Longrightarrow>
    engine_step False e (e\<lparr>en_thread := None, en_call := No_Call\<rparr>)"
| join_late: "en_call e = In_Join \<Longrightarrow> en_thread e = Some t \<Longrightarrow> \<not> thread_at e t Ended \<Longrightarrow>
    engine_step True e (e\<lparr>en_thread := None, en_call := No_Call\<rparr>)"

text \<open>\<open>engine_reach b\<close>: with late joins allowed (\<open>b\<close>) or not.\<close>

inductive engine_reach :: "bool \<Rightarrow> engine \<Rightarrow> bool" for b where
  init: "engine_reach b new_engine"
| move: "engine_reach b e \<Longrightarrow> engine_step late e e' \<Longrightarrow> late \<longrightarrow> b \<Longrightarrow> engine_reach b e'"

section \<open>Invariants\<close>

text \<open>A loop that is made and not closed belongs to a thread that has not ended, and no two threads own one loop.\<close>

definition owners_ok :: "engine \<Rightarrow> bool" where
  "owners_ok e \<longleftrightarrow>
     (\<forall>t n. thread_at e t (Owns n) \<longrightarrow> n < length (en_loops e)) \<and>
     (\<forall>t u n. thread_at e t (Owns n) \<longrightarrow> thread_at e u (Owns n) \<longrightarrow> t = u) \<and>
     (\<forall>n < length (en_loops e). lp_phase (en_loops e ! n) \<noteq> Shut \<longrightarrow> (\<exists>t. thread_at e t (Owns n)))"

lemma thread_at_simps [simp]:
  "thread_at (change_loop n f e) t s = thread_at e t s"
  "thread_at (e\<lparr>en_call := c\<rparr>) t s = thread_at e t s"
  "thread_at (e\<lparr>en_thread := th\<rparr>) t s = thread_at e t s"
  by (simp_all add: thread_at_def change_loop_def)

lemma loops_simps [simp]:
  "length (en_loops (change_loop n f e)) = length (en_loops e)"
  "en_call (change_loop n f e) = en_call e" "en_thread (change_loop n f e) = en_thread e"
  "en_threads (change_loop n f e) = en_threads e" "en_loop (change_loop n f e) = en_loop e"
  by (simp_all add: change_loop_def)

lemma change_loop_nth [simp]:
  "m < length (en_loops e) \<Longrightarrow> en_loops (change_loop n f e) ! m = (if m = n then f (en_loops e ! n) else en_loops e ! m)"
  by (auto simp: change_loop_def nth_list_update)

lemma owners_call [simp]: "owners_ok (e\<lparr>en_call := c\<rparr>) = owners_ok e" "owners_ok (e\<lparr>en_thread := th\<rparr>) = owners_ok e"
  by (simp_all add: owners_ok_def)

lemma owners_change:
  assumes "owners_ok e" "lp_phase (f (en_loops e ! n)) \<noteq> Shut \<Longrightarrow> lp_phase (en_loops e ! n) \<noteq> Shut"
  shows "owners_ok (change_loop n f e)"
  using assms unfolding owners_ok_def by simp

lemma owners_make:
  assumes ok: "owners_ok e" and t: "thread_at e t Begun"
  shows "owners_ok (make_loop t e)"
proof -
  have at: "thread_at (make_loop t e) u s \<longleftrightarrow>
      (if u = t then s = Owns (length (en_loops e)) else thread_at e u s)" for u s
    using t by (auto simp: make_loop_def thread_at_def Let_def)
  have len: "length (en_loops (make_loop t e)) = Suc (length (en_loops e))"
    by (simp add: make_loop_def Let_def)
  have old: "n < length (en_loops e) \<Longrightarrow> en_loops (make_loop t e) ! n = en_loops e ! n" for n
    by (simp add: make_loop_def Let_def nth_append)
  have no: "\<not> thread_at e t (Owns n)" for n
    using t by (simp add: thread_at_def)
  show ?thesis
    using ok no unfolding owners_ok_def at len by (auto simp: less_Suc_eq old) (metis nat_neq_iff)+
qed

lemma owners_close:
  assumes ok: "owners_ok e" and t: "thread_at e t (Owns n)"
  shows "owners_ok (close_loop t n e)"
proof -
  have at: "thread_at (close_loop t n e) u s \<longleftrightarrow> (if u = t then s = Ended else thread_at e u s)" for u s
    using t by (auto simp: close_loop_def thread_at_def)
  have loops: "en_loops (close_loop t n e) = en_loops (change_loop n (\<lambda>l. l\<lparr>lp_phase := Shut\<rparr>) e)"
    by (simp add: close_loop_def)
  have one: "thread_at e t (Owns m) \<Longrightarrow> m = n" for m
    using t by (simp add: thread_at_def)
  show ?thesis
    using ok t unfolding owners_ok_def at loops by (auto split: if_splits) (metis one)
qed

lemma owners_submit:
  assumes "owners_ok e" "engine_submit c e = Inr e'"
  shows "owners_ok e'"
  using assms by (auto simp: engine_submit_def intro!: owners_change split: option.splits if_splits)

lemma owners_start: "owners_ok e \<Longrightarrow> owners_ok (start_thread e)"
  by (auto simp: owners_ok_def start_thread_def thread_at_def nth_append split: if_splits)

lemma owners_drained: "owners_ok e \<Longrightarrow> owners_ok (after_drain e)"
  by (auto simp: after_drain_def request_stop_def intro!: owners_change split: option.split)

lemma owners_step:
  assumes "engine_step late e e'" "owners_ok e"
  shows "owners_ok e'"
  using assms
  by (induction rule: engine_step.induct)
    (auto intro: owners_change owners_make owners_close owners_submit owners_start owners_drained)

lemma owners_new: "owners_ok new_engine"
  by (simp add: owners_ok_def new_engine_def thread_at_def)

lemma owners_reach: "engine_reach b e \<Longrightarrow> owners_ok e"
  by (induction rule: engine_reach.induct) (auto intro: owners_step owners_new)

text \<open>While every \<open>join\<close> is in time, the thread the engine holds is the only one that has not ended.\<close>

definition one_thread :: "engine \<Rightarrow> bool" where
  "one_thread e \<longleftrightarrow> (\<forall>t s. thread_at e t s \<longrightarrow> s \<noteq> Ended \<longrightarrow> en_thread e = Some t)"

lemma one_make: "one_thread e \<Longrightarrow> thread_at e t Begun \<Longrightarrow> one_thread (make_loop t e)"
  by (auto simp: one_thread_def make_loop_def thread_at_def Let_def nth_list_update split: if_splits)

lemma one_close: "one_thread e \<Longrightarrow> one_thread (close_loop t n e)"
  by (auto simp: one_thread_def close_loop_def thread_at_def) (metis nth_list_update_eq nth_list_update_neq)

lemma one_change [simp]: "one_thread (change_loop n f e) = one_thread e"
  by (simp add: one_thread_def)

lemma one_call [simp]: "one_thread (e\<lparr>en_call := c\<rparr>) = one_thread e"
  by (simp add: one_thread_def)

lemma one_submit: "one_thread e \<Longrightarrow> engine_submit c e = Inr e' \<Longrightarrow> one_thread e'"
  by (auto simp: engine_submit_def split: option.splits if_splits)

lemma one_start: "one_thread e \<Longrightarrow> en_thread e = None \<Longrightarrow> one_thread (start_thread e)"
  by (auto simp: one_thread_def start_thread_def thread_at_def nth_append less_Suc_eq split: if_splits)

lemma one_drained: "one_thread e \<Longrightarrow> one_thread (after_drain e)"
  by (simp add: after_drain_def request_stop_def split: option.split)

lemma one_joined:
  assumes "one_thread e" "\<forall>t. en_thread e = Some t \<longrightarrow> thread_at e t Ended"
  shows "one_thread (e\<lparr>en_thread := None\<rparr>)"
  using assms by (auto simp: one_thread_def) (metis thread_at_def)

lemma one_step:
  assumes "engine_step late e e'" "one_thread e" "\<not> late"
  shows "one_thread e'"
  using assms
  by (induction rule: engine_step.induct) (auto intro: one_make one_close one_submit one_start one_drained one_joined)

lemma one_reach:
  assumes "engine_reach b e" "\<not> b"
  shows "one_thread e"
  using assms
proof (induction rule: engine_reach.induct)
  case init
  then show ?case by (simp add: one_thread_def new_engine_def thread_at_def)
next
  case (move e late e')
  then show ?case by (metis one_step)
qed

section \<open>What the calls give\<close>

text \<open>Further property. A coroutine that \<open>submit\<close> accepts, at whatever point of the life of the engine, is queued on a loop
  that runs in a thread of its own, and no other thread owns that loop.\<close>

theorem accepted_task_has_a_thread:
  assumes "engine_reach b e" "engine_submit c e = Inr e'"
  shows "\<exists>n t. en_loop e = Some n \<and> c \<in> set (lp_tasks (en_loops e' ! n)) \<and> is_running e' n
    \<and> thread_at e' t (Owns n) \<and> (\<forall>u. thread_at e' u (Owns n) \<longrightarrow> u = t)"
proof -
  obtain n where n: "en_loop e = Some n" "is_running e n" "e' = change_loop n (\<lambda>l. l\<lparr>lp_tasks := lp_tasks l @ [c]\<rparr>) e"
    using assms(2) by (auto simp: engine_submit_def split: option.splits if_splits)
  have ok: "owners_ok e" by (rule owners_reach [OF assms(1)])
  obtain t where t: "thread_at e t (Owns n)"
    using ok n(2) by (auto simp: owners_ok_def is_running_def)
  have "\<forall>u. thread_at e u (Owns n) \<longrightarrow> u = t"
    using ok t by (auto simp: owners_ok_def)
  then show ?thesis
    using n t by (auto simp: is_running_def)
qed



text \<open>A concrete life: the engine is started (its thread begins, makes its loop, the event releases \<open>start\<close>, the loop
  runs), stopped, and its thread ends.\<close>

definition loop_of :: "loop_phase \<Rightarrow> bool \<Rightarrow> event_loop" where
  "loop_of p st = \<lparr>lp_phase = p, lp_tasks = [], lp_stop = st\<rparr>"

definition engine_with :: "nat option \<Rightarrow> event_loop \<Rightarrow> thread_state \<Rightarrow> engine_call \<Rightarrow> engine" where
  "engine_with th l s c =
     \<lparr>en_loop = Some 0, en_thread = th, en_ready = True, en_loops = [l], en_threads = [s], en_call = c\<rparr>"

lemma life_made: "engine_reach b (engine_with (Some 0) (loop_of Created False) (Owns 0) No_Call)"
proof -
  have 1: "engine_reach b (start_thread new_engine)"
    by (rule move [OF init start]) (simp_all add: new_engine_def)
  have 2: "engine_reach b (make_loop 0 (start_thread new_engine))"
    by (rule move [OF 1 make]) (simp_all add: thread_at_def start_thread_def new_engine_def)
  have 3: "engine_reach b ((make_loop 0 (start_thread new_engine))\<lparr>en_call := No_Call\<rparr>)"
    by (rule move [OF 2 started]) (simp_all add: make_loop_def start_thread_def new_engine_def Let_def)
  then show ?thesis
    by (simp add: make_loop_def start_thread_def new_engine_def Let_def engine_with_def loop_of_def)
qed

lemma life_running: "engine_reach b (engine_with (Some 0) (loop_of Looping False) (Owns 0) No_Call)"
proof -
  have "engine_reach b (change_loop 0 (\<lambda>l. l\<lparr>lp_phase := Looping\<rparr>)
      (engine_with (Some 0) (loop_of Created False) (Owns 0) No_Call))"
    by (rule move [OF life_made run [where t = 0]]) (simp_all add: thread_at_def engine_with_def loop_of_def)
  then show ?thesis by (simp add: change_loop_def engine_with_def loop_of_def)
qed

lemma life_joining: "engine_reach b (engine_with (Some 0) (loop_of Looping True) (Owns 0) In_Join)"
proof -
  let ?e = "engine_with (Some 0) (loop_of Looping False) (Owns 0) No_Call"
  have 1: "engine_reach b (?e\<lparr>en_call := In_Drain\<rparr>)"
    by (rule move [OF life_running stop [where n = 0]]) (simp_all add: is_running_def engine_with_def loop_of_def)
  have 2: "engine_reach b (after_drain (?e\<lparr>en_call := In_Drain\<rparr>))"
    by (rule move [OF 1 drained]) simp_all
  then show ?thesis
    by (simp add: after_drain_def request_stop_def change_loop_def engine_with_def loop_of_def)
qed

lemma life_stopped: "engine_reach b (engine_with None (loop_of Shut True) Ended No_Call)"
proof -
  let ?e = "engine_with (Some 0) (loop_of Looping True) (Owns 0) In_Join"
  have 1: "engine_reach b (close_loop 0 0 ?e)"
    by (rule move [OF life_joining close [where t = 0]])
      (simp_all add: thread_at_def is_running_def engine_with_def loop_of_def)
  have 2: "engine_reach b ((close_loop 0 0 ?e)\<lparr>en_thread := None, en_call := No_Call\<rparr>)"
    by (rule move [OF 1 joined])
      (simp_all add: close_loop_def change_loop_def thread_at_def engine_with_def loop_of_def)
  then show ?thesis by (simp add: close_loop_def change_loop_def engine_with_def loop_of_def)
qed

theorem accepted_task_has_a_thread_witness:
  "\<exists>e e'. engine_reach True e \<and> engine_submit 7 e = Inr e' \<and> (\<exists>n t. 7 \<in> set (lp_tasks (en_loops e' ! n)) \<and> thread_at e' t (Owns n))"
proof -
  let ?e = "engine_with (Some 0) (loop_of Looping False) (Owns 0) No_Call"
  have ok: "engine_submit 7 ?e = Inr (change_loop 0 (\<lambda>l. l\<lparr>lp_tasks := lp_tasks l @ [7]\<rparr>) ?e)"
    by (simp add: engine_submit_def is_running_def engine_with_def loop_of_def)
  show ?thesis
    using accepted_task_has_a_thread [OF life_running ok] life_running ok by blast
qed


text \<open>Further property. \<open>start\<close> returns as soon as the loop is made, not when it runs: a \<open>submit\<close> that comes at once can be
  refused, also when \<open>start\<close> follows \<open>stop\<close> (the event stays set, and the loop it finds is the closed one).\<close>

theorem start_returns_early:
  "\<exists>e. engine_reach False e \<and> en_call e = No_Call \<and> en_thread e \<noteq> None \<and> en_ready e
     \<and> engine_submit c e = Inl not_running_exn"
  "\<exists>e. engine_reach False e \<and> en_call e = No_Call \<and> en_thread e \<noteq> None \<and> en_ready e
     \<and> (\<forall>l \<in> set (en_loops e). lp_phase l = Shut) \<and> engine_submit c e = Inl not_running_exn"
proof -
  let ?e = "engine_with (Some 0) (loop_of Created False) (Owns 0) No_Call"
  show "\<exists>e. engine_reach False e \<and> en_call e = No_Call \<and> en_thread e \<noteq> None \<and> en_ready e
     \<and> engine_submit c e = Inl not_running_exn"
    by (rule exI [of _ ?e])
      (simp add: life_made, simp add: engine_submit_def is_running_def engine_with_def loop_of_def)
  let ?s = "engine_with None (loop_of Shut True) Ended No_Call"
  have 1: "engine_reach False (start_thread ?s)"
    by (rule move [OF life_stopped start]) (simp_all add: engine_with_def)
  have 2: "engine_reach False ((start_thread ?s)\<lparr>en_call := No_Call\<rparr>)"
    by (rule move [OF 1 started]) (simp_all add: start_thread_def engine_with_def)
  show "\<exists>e. engine_reach False e \<and> en_call e = No_Call \<and> en_thread e \<noteq> None \<and> en_ready e
     \<and> (\<forall>l \<in> set (en_loops e). lp_phase l = Shut) \<and> engine_submit c e = Inl not_running_exn"
    by (rule exI [of _ "(start_thread ?s)\<lparr>en_call := No_Call\<rparr>"])
      (simp add: 2, simp add: engine_submit_def is_running_def start_thread_def engine_with_def loop_of_def)
qed

text \<open>Further property. When a \<open>join\<close> does run into its timeout, the engine drops a thread that still runs its loop, and
  goes on taking coroutines for a loop that is about to close.\<close>

theorem late_join_leaves_a_loop:
  "\<exists>e e'. engine_reach True e \<and> en_call e = No_Call \<and> en_thread e = None \<and> engine_submit c e = Inr e'"
proof -
  let ?e = "(engine_with (Some 0) (loop_of Looping True) (Owns 0) In_Join)\<lparr>en_thread := None, en_call := No_Call\<rparr>"
  have 1: "engine_reach True ?e"
    by (rule move [OF life_joining join_late [where t = 0]]) (simp_all add: thread_at_def engine_with_def)
  show ?thesis
    by (rule exI [of _ ?e])
      (simp add: 1, simp add: engine_submit_def is_running_def engine_with_def loop_of_def)
qed

end
