(* ===== verification/App_Stop.thy ===== *)
theory App_Stop
  imports Engine_Life
begin

text \<open>
  Closing down: \<open>Container.shutdown\<close> (\<open>app/container.py\<close>) with the operations it calls, \<open>mark_destroyed\<close> of the six
  controllers (\<open>ui/bridge/controllers.py\<close>), \<open>FileServer.stop\<close> (\<open>core/services/file_server.py\<close>) and
  \<open>Database.close\<close> (\<open>data/database.py\<close>). What answers these calls (the site and the runner of the web server, the
  connection of the database, the engine thread) is a parameter: for each call, how it ends. A wait on the engine thread
  that runs into its timeout is a call that ends with \<open>Exn_Timeout\<close>.
\<close>

section \<open>State\<close>

datatype controller = Discovery_Part | Update_Part | Provisioning_Part | Power_Part | Firmware_Part | Iso_Part

datatype stop_call = Site_Stop | Runner_Cleanup | Engine_Stop | Wal_Checkpoint | Conn_Close

record app_world =
  aw_destroyed :: "controller list"
  aw_site :: bool
  aw_runner :: bool
  aw_calls :: "stop_call list"

section \<open>Operations\<close>

definition mark_destroyed :: "controller \<Rightarrow> (app_world, unit) io" where
  "mark_destroyed c = modify (\<lambda>w. w\<lparr>aw_destroyed := aw_destroyed w @ [c]\<rparr>)"

definition stop_step :: "(stop_call \<Rightarrow> unit py) \<Rightarrow> stop_call \<Rightarrow> (app_world, unit) io" where
  "stop_step ends c = (\<lambda>w. (ends c, w\<lparr>aw_calls := aw_calls w @ [c]\<rparr>))"

definition server_stop :: "(stop_call \<Rightarrow> unit py) \<Rightarrow> (app_world, unit) io" where
  "server_stop ends =
     seq (bind get_state (\<lambda>w. if aw_site w
            then seq (stop_step ends Site_Stop) (modify (\<lambda>w. w\<lparr>aw_site := False\<rparr>)) else ret ()))
         (bind get_state (\<lambda>w. if aw_runner w
            then seq (stop_step ends Runner_Cleanup) (modify (\<lambda>w. w\<lparr>aw_runner := False\<rparr>)) else ret ()))"

definition sqlite_error :: "exn \<Rightarrow> bool" where
  "sqlite_error e = (exn_class e \<in> {Exn_Database, Exn_Integrity})"

definition db_close :: "(stop_call \<Rightarrow> unit py) \<Rightarrow> (app_world, unit) io" where
  "db_close ends =
     seq (catch_if sqlite_error (stop_step ends Wal_Checkpoint) (\<lambda>_. ret ())) (stop_step ends Conn_Close)"

definition log_only :: "(app_world, unit) io \<Rightarrow> (app_world, unit) io" where
  "log_only m = catch_if is_exception m (\<lambda>_. ret ())"

definition stop_server :: "(stop_call \<Rightarrow> unit py) \<Rightarrow> bool \<Rightarrow> unit py \<Rightarrow> (app_world, unit) io" where
  "stop_server ends has_server submitted =
     (if has_server then log_only (seq (lift_py submitted) (server_stop ends)) else ret ())"

definition shutdown :: "(stop_call \<Rightarrow> unit py) \<Rightarrow> bool \<Rightarrow> unit py \<Rightarrow> (app_world, unit) io" where
  "shutdown ends has_server submitted =
     seq (log_only (for_each mark_destroyed
            [Discovery_Part, Update_Part, Provisioning_Part, Power_Part, Firmware_Part, Iso_Part]))
    (seq (stop_server ends has_server submitted)
    (seq (log_only (stop_step ends Engine_Stop))
         (log_only (db_close ends))))"

section \<open>Every part is reached\<close>

lemma log_only_run:
  "log_only m w = (case m w of
     (Inl e, w') \<Rightarrow> (if is_exception e then Inr () else Inl e, w') | (Inr x, w') \<Rightarrow> (Inr x, w'))"
  by (auto simp: log_only_def catch_run ret_run split: prod.split sum.split)

lemma stop_part:
  "bind get_state (\<lambda>w. if P w then seq (stop_step ends c) (modify f) else ret ()) w =
     (if P w then (ends c, if ends c = Inr () then f (w\<lparr>aw_calls := aw_calls w @ [c]\<rparr>) else w\<lparr>aw_calls := aw_calls w @ [c]\<rparr>)
      else (Inr (), w))"
  by (cases "ends c") (auto simp: io_run get_state_def stop_step_def)

text \<open>What \<open>FileServer.stop\<close> calls and leaves, however its calls end.\<close>

definition server_calls :: "(stop_call \<Rightarrow> unit py) \<Rightarrow> bool \<Rightarrow> bool \<Rightarrow> stop_call list" where
  "server_calls ends site runner = (if site then [Site_Stop] else []) @
     (if runner \<and> (site \<longrightarrow> ends Site_Stop = Inr ()) then [Runner_Cleanup] else [])"

lemma server_stop_effect:
  assumes "server_stop ends w = (r, w')"
  shows "aw_calls w' = aw_calls w @ server_calls ends (aw_site w) (aw_runner w)"
    "aw_destroyed w' = aw_destroyed w"
    "aw_site w' \<longleftrightarrow> aw_site w \<and> ends Site_Stop \<noteq> Inr ()"
    "aw_runner w' \<longleftrightarrow> aw_runner w \<and> \<not> (Runner_Cleanup \<in> set (server_calls ends (aw_site w) (aw_runner w)) \<and> ends Runner_Cleanup = Inr ())"
    "\<And>e. r = Inl e \<Longrightarrow> \<exists>c. ends c = Inl e"
  using assms
  by (auto simp: server_stop_def seq_run stop_part server_calls_def split: if_splits sum.splits)

lemma db_close_effect:
  "db_close ends w =
     (if \<exists>e. ends Wal_Checkpoint = Inl e \<and> \<not> sqlite_error e then (ends Wal_Checkpoint, w\<lparr>aw_calls := aw_calls w @ [Wal_Checkpoint]\<rparr>)
      else (ends Conn_Close, w\<lparr>aw_calls := aw_calls w @ [Wal_Checkpoint, Conn_Close]\<rparr>))"
  by (cases "ends Wal_Checkpoint") (auto simp: db_close_def io_run stop_step_def)

lemma marks_effect:
  "log_only (for_each mark_destroyed cs) w = (Inr (), w\<lparr>aw_destroyed := aw_destroyed w @ cs\<rparr>)"
proof (induction cs arbitrary: w)
  case Nil
  then show ?case by (simp add: log_only_run ret_run)
next
  case (Cons c cs)
  then show ?case
    by (simp add: log_only_run seq_run mark_destroyed_def modify_run split: prod.splits sum.splits)
qed

lemma log_only_step:
  assumes "\<And>e. ends c = Inl e \<Longrightarrow> is_exception e"
  shows "log_only (stop_step ends c) w = (Inr (), w\<lparr>aw_calls := aw_calls w @ [c]\<rparr>)"
  using assms by (cases "ends c") (auto simp: log_only_run stop_step_def)

lemma log_only_close:
  assumes "\<And>c e. ends c = Inl e \<Longrightarrow> is_exception e"
  shows "log_only (db_close ends) w = (Inr (), snd (db_close ends w))"
  using assms [of Wal_Checkpoint] assms [of Conn_Close]
  by (cases "ends Wal_Checkpoint"; cases "ends Conn_Close") (auto simp: log_only_run db_close_effect)

definition server_part :: "(stop_call \<Rightarrow> unit py) \<Rightarrow> bool \<Rightarrow> unit py \<Rightarrow> app_world \<Rightarrow> stop_call list" where
  "server_part ends has_server submitted w =
     (if has_server \<and> submitted = Inr () then server_calls ends (aw_site w) (aw_runner w) else [])"

lemma log_only_server:
  assumes "\<And>c e. ends c = Inl e \<Longrightarrow> is_exception e" "\<And>e. submitted = Inl e \<Longrightarrow> is_exception e"
  obtains w' where
    "stop_server ends has_server submitted w = (Inr (), w')"
    "aw_destroyed w' = aw_destroyed w"
    "aw_calls w' = aw_calls w @ server_part ends has_server submitted w"
proof (cases "has_server \<and> submitted = Inr ()")
  case True
  obtain r w' where run: "server_stop ends w = (r, w')" by fastforce
  note eff = server_stop_effect [OF run]
  have "stop_server ends has_server submitted w = (Inr (), w')"
    using True run assms(1) eff(5) by (cases r) (auto simp: stop_server_def log_only_run seq_run lift_run)
  then show thesis using that [of w'] eff(1,2) True by (simp add: server_part_def)
next
  case False
  then have "stop_server ends has_server submitted w = (Inr (), w)"
    using assms(2) by (cases submitted) (auto simp: stop_server_def log_only_run seq_run lift_run ret_run)
  then show thesis using that [of w] False by (auto simp: server_part_def)
qed


text \<open>The site hangs and the engine raises: the database is closed all the same.\<close>

definition bad_ends :: "stop_call \<Rightarrow> unit py" where
  "bad_ends c = (case c of Site_Stop \<Rightarrow> Inl (Exn Exn_Timeout []) | Engine_Stop \<Rightarrow> Inl (Exn Exn_Runtime ''Event loop is closed'')
     | Wal_Checkpoint \<Rightarrow> Inl (Exn Exn_Database ''database is locked'') | _ \<Rightarrow> Inr ())"


end
