(* ===== verification/Ui_Models.thy ===== *)
theory Ui_Models
  imports Json_Text Catalog_Repos
begin

text \<open>
  The list models of \<open>ui/bridge/models.py\<close>: the row buffer behind a view, the patch of one row by
  its key, the search filter and the sort state of the proxy, and the rows each builder shows. A
  Python dict is an association list with the order of insertion. The sorting itself is Qt's; what
  a search shows is given as the indices of the accepted source rows. The locale \<open>live_table\<close> says
  what a controller that mirrors a running job relies on.
\<close>

section \<open>Rows\<close>

type_synonym ui_row = "(string \<times> json) list"

definition get_field :: "ui_row \<Rightarrow> string \<Rightarrow> json" where
  "get_field r f = the_default JNull (map_of r f)"

definition put_fields :: "ui_row \<Rightarrow> ui_row \<Rightarrow> ui_row" where
  "put_fields changes r = fold (\<lambda>(k, v). put_key k v) changes r"

section \<open>ObjectListModel\<close>

text \<open>Roles count from \<open>Qt.UserRole + 1\<close>.\<close>

definition role_table :: "string list \<Rightarrow> (int \<times> string) list" where
  "role_table fs = zip (List.map (\<lambda>i. 257 + int i) [0..<length fs]) fs"

definition field_of_role :: "string list \<Rightarrow> int \<Rightarrow> string option" where
  "field_of_role fs role = map_of (role_table fs) role"

definition role_of :: "string list \<Rightarrow> string \<Rightarrow> int" where
  "role_of fs f = the_default (-1) (map_of (rev (List.map (\<lambda>(r, g). (g, r)) (role_table fs))) f)"

definition model_data :: "string list \<Rightarrow> ui_row list \<Rightarrow> int \<Rightarrow> int \<Rightarrow> json" where
  "model_data fs rows i role = (if i < 0 \<or> int (length rows) \<le> i then JNull
     else case field_of_role fs role of None \<Rightarrow> JNull | Some f \<Rightarrow> get_field (rows ! nat i) f)"

fun update_by_id :: "string \<Rightarrow> json \<Rightarrow> ui_row \<Rightarrow> ui_row list \<Rightarrow> bool \<times> ui_row list" where
  "update_by_id idf v changes [] = (False, [])"
| "update_by_id idf v changes (r # rs) = (if get_field r idf = v then (True, put_fields changes r # rs)
     else case update_by_id idf v changes rs of (b, rs') \<Rightarrow> (b, r # rs'))"

section \<open>FilterSortProxy\<close>

record proxy =
  px_fields :: "string list"
  px_search :: "string list"
  px_rows :: "ui_row list"
  px_text :: string
  px_sort_role :: int
  px_descending :: bool

definition new_proxy :: "string list \<Rightarrow> string list \<Rightarrow> ui_row list \<Rightarrow> proxy" where
  "new_proxy search fs rows = \<lparr>px_fields = fs, px_search = search, px_rows = rows, px_text = [],
     px_sort_role = 0, px_descending = False\<rparr>"

definition reload :: "ui_row list \<Rightarrow> proxy \<Rightarrow> proxy" where
  "reload rows px = px\<lparr>px_rows := rows\<rparr>"

definition set_filter_text :: "string \<Rightarrow> proxy \<Rightarrow> proxy" where
  "set_filter_text t px = (if t \<noteq> px_text px then px\<lparr>px_text := t\<rparr> else px)"

definition field_matches :: "proxy \<Rightarrow> nat \<Rightarrow> string \<Rightarrow> bool" where
  "field_matches px i f = (let role = role_of (px_fields px) f; v = model_data (px_fields px) (px_rows px) (int i) role in
     role \<noteq> - 1 \<and> v \<noteq> JNull \<and> contains (lower (px_text px)) (lower (json_str v)))"

definition filter_accepts_row :: "proxy \<Rightarrow> nat \<Rightarrow> bool" where
  "filter_accepts_row px i = (px_text px = [] \<or> list_ex (field_matches px i) (px_search px))"

definition visible :: "proxy \<Rightarrow> nat list" where
  "visible px = filter (filter_accepts_row px) [0..<length (px_rows px)]"

definition sort_by_field :: "string \<Rightarrow> proxy \<Rightarrow> proxy" where
  "sort_by_field f px = (let role = role_of (px_fields px) f in if role = - 1 then px
     else px\<lparr>px_sort_role := role, px_descending := (px_sort_role px = role \<and> \<not> px_descending px)\<rparr>)"

section \<open>What the builders show\<close>

definition server_ui_fields :: "string list" where
  "server_ui_fields = [''id'', ''ip'', ''hostname'', ''oem'', ''oem_override'', ''manufacturer'', ''model_name'',
     ''serial'', ''bmc_version'', ''bios_version'', ''power_state'', ''status'', ''protocol'']"

definition firmware_ui_fields :: "string list" where
  "firmware_ui_fields = [''id'', ''name'', ''type'', ''oem'', ''model_name'', ''version'', ''size_bytes'', ''uploaded_at'']"

definition iso_ui_fields :: "string list" where
  "iso_ui_fields = [''id'', ''name'', ''os_family'', ''os_version'', ''arch'', ''size_bytes'', ''uploaded_at'', ''source_url'']"

definition activity_ui_fields :: "string list" where
  "activity_ui_fields = [''id'', ''time'', ''message'', ''kind'', ''category'']"

abbreviation json_int_opt :: "int option \<Rightarrow> json" where
  "json_int_opt x \<equiv> (case x of None \<Rightarrow> JNull | Some i \<Rightarrow> JInt i)"

definition server_dict :: "int \<times> server_row \<Rightarrow> ui_row" where
  "server_dict = (\<lambda>(sid, r). let f = sr_fields r in
     [(''id'', JInt sid), (''ip'', JStr (sr_ip r)), (''hostname'', jopt (sf_hostname f)), (''manufacturer'', jopt (sf_manufacturer f)),
      (''oem'', jopt (sf_oem f)), (''model'', jopt (sf_model f)), (''serial'', jopt (sf_serial f)),
      (''bmc_version'', jopt (sf_bmc_version f)), (''bios_version'', jopt (sf_bios_version f)),
      (''power_state'', jopt (sf_power_state f)), (''status'', JStr (sf_status f)), (''protocol'', jopt (sf_protocol f)),
      (''redfish_root'', jopt (sf_redfish_root f)), (''tls_fpr'', jopt (sf_tls_fpr f)),
      (''oem_override'', jopt (sr_oem_override r)), (''disks_json'', jopt (sr_disks_json r))])"

text \<open>The column \<open>model\<close> appears as \<open>model_name\<close>, because \<open>model\<close> is taken in QML.\<close>

definition with_model_name :: "ui_row \<Rightarrow> ui_row" where
  "with_model_name r = put_key ''model_name'' (get_field r ''model'') r"

definition firmware_dict :: "int \<times> firmware_row \<Rightarrow> ui_row" where
  "firmware_dict = (\<lambda>(fid, r).
     [(''id'', JInt fid), (''name'', JStr (fr_name r)), (''type'', JStr (fr_type r)), (''oem'', JStr (fr_oem r)),
      (''model'', jopt (fr_model r)), (''version'', JStr (fr_version r)), (''size_bytes'', json_int_opt (fr_size_bytes r)),
      (''uploaded_at'', jopt (fr_uploaded_at r))])"

definition iso_dict :: "int \<times> iso_row \<Rightarrow> ui_row" where
  "iso_dict = (\<lambda>(iid, r).
     [(''id'', JInt iid), (''name'', JStr (ir_name r)), (''os_family'', JStr (ir_os_family r)),
      (''os_version'', JStr (ir_os_version r)), (''arch'', jopt (ir_arch r)), (''size_bytes'', json_int_opt (ir_size_bytes r)),
      (''uploaded_at'', jopt (ir_uploaded_at r)), (''source_url'', jopt (ir_source_url r))])"

text \<open>The local time of an ISO stamp, or \<open>None\<close> where \<open>fromisoformat\<close> raises, is the parameter \<open>local_time\<close>.\<close>

definition hhmm :: "(string \<Rightarrow> string option) \<Rightarrow> string \<Rightarrow> string" where
  "hhmm local_time s = (if s = [] then [] else case local_time s of Some t \<Rightarrow> t
     | None \<Rightarrow> if 16 \<le> length s then take 5 (drop 11 s) else s)"

definition activity_dict :: "(string \<Rightarrow> string option) \<Rightarrow> int \<times> activity_row \<Rightarrow> ui_row" where
  "activity_dict local_time = (\<lambda>(aid, a).
     [(''id'', JInt aid), (''time'', JStr (hhmm local_time (ac_ts a))), (''message'', JStr (ac_message a)),
      (''kind'', JStr (ac_level a)), (''category'', JStr (ac_category a))])"

definition build_server_model :: "db \<Rightarrow> proxy" where
  "build_server_model d = new_proxy [''ip'', ''hostname'', ''oem'', ''model_name'', ''serial''] server_ui_fields
     (List.map (with_model_name \<circ> server_dict) (server_list d))"

definition build_firmware_model :: "db \<Rightarrow> proxy" where
  "build_firmware_model d = new_proxy [''name'', ''oem'', ''version'', ''type''] firmware_ui_fields
     (List.map (with_model_name \<circ> firmware_dict) (firmware_list d))"

definition build_iso_model :: "db \<Rightarrow> proxy" where
  "build_iso_model d = new_proxy [''name'', ''os_family'', ''os_version'', ''arch''] iso_ui_fields
     (List.map iso_dict (iso_list d))"

definition build_activity_model :: "(string \<Rightarrow> string option) \<Rightarrow> nat \<Rightarrow> db \<Rightarrow> proxy" where
  "build_activity_model local_time limit d = new_proxy [''message'', ''category''] activity_ui_fields
     (List.map (activity_dict local_time) (activity_recent d limit))"

section \<open>A table that follows reports\<close>

text \<open>A view of keyed rows that reports patch: what is shown for a key is changed by the reports about that key only,
  and a later report replaces an earlier one.\<close>

locale live_table =
  fixes patch :: "'k \<Rightarrow> 'c \<Rightarrow> 'm \<Rightarrow> 'm"
    and shown :: "'m \<Rightarrow> 'k \<Rightarrow> 'r option"
    and change :: "'c \<Rightarrow> 'r \<Rightarrow> 'r"
  assumes shown_patch: "shown (patch k c m) j = (if j = k then map_option (change c) (shown m k) else shown m j)"
    and change_change: "change c (change c' r) = change c r"
begin

lemma replay: "shown (fold (\<lambda>(k, c). patch k c) reports m) j =
    (case map_of (rev reports) j of None \<Rightarrow> shown m j | Some c \<Rightarrow> map_option (change c) (shown m j))"
  by (induction reports rule: rev_induct)
    (auto simp: shown_patch change_change option.map_comp comp_def split: option.splits)

lemma replay_dom: "shown (fold (\<lambda>(k, c). patch k c) reports m) j = None \<longleftrightarrow> shown m j = None"
  by (simp add: replay split: option.split)

end

text \<open>The task tables of the job controllers: rows keyed by \<open>id\<close>, reports of state, progress and message.\<close>

type_synonym task_report = "string \<times> int \<times> string"

definition task_change :: "task_report \<Rightarrow> ui_row" where
  "task_change = (\<lambda>(st, pct, msg). [(''state'', JStr st), (''progress'', JInt pct), (''message'', JStr msg)])"

definition patch_task :: "int \<Rightarrow> task_report \<Rightarrow> ui_row list \<Rightarrow> ui_row list" where
  "patch_task tid c rows = snd (update_by_id ''id'' (JInt tid) (task_change c) rows)"

definition task_shown :: "ui_row list \<Rightarrow> int \<Rightarrow> ui_row option" where
  "task_shown rows tid = List.find (\<lambda>r. get_field r ''id'' = JInt tid) rows"

lemma put_key_get: "map_of (put_key k v r) f = (if f = k then Some v else map_of r f)"
  by (induction r) auto

lemma put_put_same: "put_key k v (put_key k v' r) = put_key k v r"
  by (induction r) auto

lemma put_put_other: "k \<noteq> k' \<Longrightarrow> map_of r k \<noteq> None \<Longrightarrow> put_key k v (put_key k' v' r) = put_key k' v' (put_key k v r)"
  by (induction r) (auto split: if_splits)

lemma get_put_fields: "map_of (put_fields changes r) f = (case map_of (rev changes) f of None \<Rightarrow> map_of r f | Some v \<Rightarrow> Some v)"
  by (induction changes rule: rev_induct) (auto simp: put_fields_def put_key_get split: if_splits option.splits)

lemma put_fields_again: "put_fields (task_change c) (put_fields (task_change c') r) = put_fields (task_change c) r"
proof -
  have one: "put_key k v (put_key l x (put_key k v' r)) = put_key l x (put_key k v r)" if "k \<noteq> l" for k l v v' x r
    using that put_put_other [of k l "put_key k v' r" v x] by (simp add: put_key_get put_put_same)
  have two: "put_key k v (put_key l x (put_key m y (put_key k v' r))) = put_key l x (put_key m y (put_key k v r))"
    if "k \<noteq> l" "k \<noteq> m" for k l m v v' x y r
    using that put_put_other [of k l "put_key m y (put_key k v' r)" v x] by (simp add: put_key_get one)
  show ?thesis by (cases c; cases c') (simp add: task_change_def put_fields_def put_put_same one two)
qed

lemma change_keeps_id: "get_field (put_fields (task_change c) r) ''id'' = get_field r ''id''"
  by (cases c) (simp add: get_field_def get_put_fields task_change_def)

lemma shown_patch_task:
  "task_shown (patch_task k c rows) j = (if j = k then map_option (put_fields (task_change c)) (task_shown rows k) else task_shown rows j)"
  by (induction rows) (auto simp: task_shown_def patch_task_def change_keeps_id split: prod.splits)

interpretation task_table: live_table patch_task task_shown "\<lambda>c. put_fields (task_change c)"
  by unfold_locales (simp_all add: shown_patch_task put_fields_again)

section \<open>Searching\<close>

lemma contains_trans: "contains a b \<Longrightarrow> contains b c \<Longrightarrow> contains a c"
  unfolding contains_iff by (metis append.assoc)

lemma contains_lower: "contains a b \<Longrightarrow> contains (lower a) (lower b)"
  unfolding contains_iff lower_def by (metis map_append)

lemma filter_text [simp]: "px_text (set_filter_text t px) = t" "px_rows (set_filter_text t px) = px_rows px"
  "px_fields (set_filter_text t px) = px_fields px" "px_search (set_filter_text t px) = px_search px"
  by (simp_all add: set_filter_text_def)

text \<open>Further property. Typing on narrows a search: when the new search text contains the old one, every row it shows
  was shown before; an empty text shows every row.\<close>

theorem search_narrows:
  assumes "contains t t'"
  shows "set (visible (set_filter_text t' px)) \<subseteq> set (visible (set_filter_text t px)) \<and>
    visible (set_filter_text [] px) = [0..<length (px_rows px)]"
proof -
  have "field_matches (set_filter_text t px) i f" if "field_matches (set_filter_text t' px) i f" for i f
    using that contains_trans [OF contains_lower [OF assms]] by (auto simp: field_matches_def Let_def)
  moreover have "t = []" if "t' = []" using assms that by (simp add: contains_iff)
  ultimately show ?thesis by (auto simp: visible_def filter_accepts_row_def list_ex_iff)
qed

definition two_servers :: proxy where
  "two_servers = new_proxy [''ip'', ''hostname''] [''id'', ''ip'', ''hostname'']
     [[(''id'', JInt 1), (''ip'', JStr ''10.0.0.1''), (''hostname'', JStr ''Node-A'')],
      [(''id'', JInt 2), (''ip'', JStr ''10.0.0.2''), (''hostname'', JNull)]]"

lemma two_servers_shown: "visible (set_filter_text ''e-a'' two_servers) = [0]" "visible (set_filter_text ''e'' two_servers) = [0]"
  by code_simp+

theorem search_narrows_witness:
  "set (visible (set_filter_text ''e-a'' two_servers)) \<subseteq> set (visible (set_filter_text ''e'' two_servers)) \<and>
   visible (set_filter_text ''e-a'' two_servers) = [0] \<and> visible (set_filter_text [] two_servers) = [0, 1]"
proof -
  have c: "contains ''e'' ''e-a''" and n: "[0..<length (px_rows two_servers)] = [0, 1]" by code_simp+
  then show ?thesis using search_narrows [OF c, of two_servers] two_servers_shown(1) by simp
qed

text \<open>Further property. A job's table shows the truth the engine reported: after any sequence of reports, interleaved in any
  way, each row shows the last report about its own task and is otherwise as it was loaded.\<close>

theorem table_follows_reports:
  "task_shown (fold (\<lambda>(tid, c). patch_task tid c) reports rows) tid =
    (case map_of (rev reports) tid of None \<Rightarrow> task_shown rows tid
     | Some c \<Rightarrow> map_option (put_fields (task_change c)) (task_shown rows tid))"
  by (rule task_table.replay)

end
