(* ===== verification/Ui_Fleet.thy ===== *)
theory Ui_Fleet
  imports Ui_Models Service_Env
begin

text \<open>
  \<open>InventoryController\<close> of \<open>ui/bridge/controllers.py\<close>: the server table with its counters, the
  selection that drives the update and provisioning pages, and the vendor picker. The locale
  \<open>keyed_source\<close> is the interface to the repository that a selection of keys relies on.
\<close>

section \<open>State and operations\<close>

record fleet =
  fl_model :: proxy
  fl_counts :: "(string \<times> nat) list"
  fl_selected :: "int list"

definition fleet_rows :: "db \<Rightarrow> ui_row list" where
  "fleet_rows d = List.map (with_model_name \<circ> server_dict) (server_list d)"

definition new_fleet :: "db \<Rightarrow> fleet" where
  "new_fleet d = \<lparr>fl_model = build_server_model d, fl_counts = status_counts d, fl_selected = []\<rparr>"

definition fleet_refresh :: "db \<Rightarrow> fleet \<Rightarrow> fleet" where
  "fleet_refresh d f = f\<lparr>fl_model := reload (fleet_rows d) (fl_model f), fl_counts := status_counts d\<rparr>"

definition fleet_remove :: "int \<Rightarrow> db \<times> fleet \<Rightarrow> db \<times> fleet" where
  "fleet_remove sid = (\<lambda>(d, f). let d' = server_delete sid d in
     (d', fleet_refresh d' (f\<lparr>fl_selected := remove1 sid (fl_selected f)\<rparr>)))"

text \<open>The picker: vendors by name, the generic plugin last. \<open>shown\<close> is a plugin's \<open>display_name\<close>.\<close>

definition vendor_options :: "(oem_plugin \<Rightarrow> string) \<Rightarrow> oem_plugin list \<Rightarrow> (string \<times> string) list" where
  "vendor_options shown plugins = sort_key (\<lambda>(_, name). lower name)
     (List.map (\<lambda>p. (op_key p, the_default (op_key p) (nonempty (Some (shown p)))))
       (filter (\<lambda>p. op_key p \<noteq> [] \<and> op_key p \<noteq> ''generic_redfish'') plugins))"

definition oem_options :: "(oem_plugin \<Rightarrow> string) \<Rightarrow> oem_plugin list \<Rightarrow> (string \<times> string) list" where
  "oem_options shown plugins = vendor_options shown plugins @
     (if \<exists>p \<in> set plugins. op_key p = ''generic_redfish'' then [(''generic_redfish'', ''Generic (DMTF Redfish)'')] else [])"

definition bundled_names :: "oem_plugin \<Rightarrow> string" where
  "bundled_names p = the_default [] (map_of [(''generic_redfish'', ''Generic Redfish (DMTF)''), (''supermicro'', ''Supermicro''),
     (''asrock'', ''ASRock Rack''), (''asus'', ''ASUS''), (''dell'', ''Dell (iDRAC)''), (''lenovo'', ''Lenovo (XCC)''),
     (''gigabyte'', ''Gigabyte (MegaRAC)''), (''msi'', ''MSI''), (''hpe'', ''HPE (iLO)'')] (op_key p))"

definition pin_oem :: "string \<Rightarrow> int \<Rightarrow> string \<Rightarrow> db \<times> fleet \<Rightarrow> db \<times> fleet" where
  "pin_oem now sid key = (\<lambda>(d, f). let d' = snd (set_oem_override now sid (nonempty (Some (strip key))) d) in
     (d', fleet_refresh d' f))"

definition fleet_count :: "string \<Rightarrow> fleet \<Rightarrow> nat" where
  "fleet_count key f = the_default 0 (map_of (fl_counts f) key)"

definition toggle_selection :: "int \<Rightarrow> fleet \<Rightarrow> fleet" where
  "toggle_selection sid f = f\<lparr>fl_selected := (if sid \<in> set (fl_selected f) then filter (\<lambda>i. i \<noteq> sid) (fl_selected f)
     else fl_selected f @ [sid])\<rparr>"

definition clear_selection :: "fleet \<Rightarrow> fleet" where
  "clear_selection f = f\<lparr>fl_selected := []\<rparr>"

definition all_server_ids :: "db \<Rightarrow> int list" where
  "all_server_ids d = List.map fst (server_list d)"

definition select_all :: "db \<Rightarrow> fleet \<Rightarrow> fleet" where
  "select_all d f = f\<lparr>fl_selected := all_server_ids d\<rparr>"

definition is_selected :: "fleet \<Rightarrow> int \<Rightarrow> bool" where
  "is_selected f sid = (sid \<in> set (fl_selected f))"

definition selected_count :: "fleet \<Rightarrow> nat" where
  "selected_count f = length (fl_selected f)"

definition list_drives :: "db \<Rightarrow> int \<Rightarrow> string" where
  "list_drives d sid = (case server_get d sid of None \<Rightarrow> ''[]''
     | Some r \<Rightarrow> the_default ''[]'' (nonempty (sr_disks_json r)))"

section \<open>Steps\<close>

text \<open>What the operator and the engine can do, in any order; a click on a row needs the row, and the engine only adds servers
  or changes their columns.\<close>

inductive fleet_step :: "db \<times> fleet \<Rightarrow> db \<times> fleet \<Rightarrow> bool" where
  Toggle: "row (db_servers d) sid \<noteq> None \<Longrightarrow> fleet_step (d, f) (d, toggle_selection sid f)"
| Select_All: "fleet_step (d, f) (d, select_all d f)"
| Clear: "fleet_step (d, f) (d, clear_selection f)"
| Remove: "fleet_step (d, f) (fleet_remove sid (d, f))"
| Pin: "fleet_step (d, f) (pin_oem now sid key (d, f))"
| Refresh: "fleet_step (d, f) (d, fleet_refresh d f)"
| Found: "fleet_step (d, f) (snd (server_upsert now ip cols d), f)"

inductive fleet_reach :: "db \<times> fleet \<Rightarrow> db \<times> fleet \<Rightarrow> bool" for s0 where
  start: "fleet_reach s0 s0"
| step: "fleet_reach s0 s \<Longrightarrow> fleet_step s s' \<Longrightarrow> fleet_reach s0 s'"

section \<open>A selection of keys\<close>

text \<open>The source of the rows: its keys, distinct, and how the calls of the controller change them.\<close>

locale keyed_source =
  fixes keys :: "'s \<Rightarrow> int list" and ok :: "'s \<Rightarrow> bool"
    and remove :: "int \<Rightarrow> 's \<Rightarrow> 's"
  assumes keys_distinct: "ok s \<Longrightarrow> distinct (keys s)"
    and remove_ok: "ok s \<Longrightarrow> ok (remove k s)"
    and keys_remove: "ok s \<Longrightarrow> set (keys (remove k s)) = set (keys s) - {k}"
begin

definition selection_ok :: "'s \<Rightarrow> int list \<Rightarrow> bool" where
  "selection_ok s sel \<longleftrightarrow> ok s \<and> distinct sel \<and> set sel \<subseteq> set (keys s)"

lemma selection_all: "ok s \<Longrightarrow> selection_ok s (keys s)"
  by (simp add: selection_ok_def keys_distinct)

lemma selection_source: "selection_ok s sel \<Longrightarrow> ok s"
  by (simp add: selection_ok_def)

lemma selection_none: "selection_ok s sel \<Longrightarrow> selection_ok s []"
  by (simp add: selection_ok_def)

lemma selection_filter: "selection_ok s sel \<Longrightarrow> selection_ok s (filter P sel)"
  by (auto simp: selection_ok_def)

lemma selection_add: "selection_ok s sel \<Longrightarrow> k \<in> set (keys s) \<Longrightarrow> k \<notin> set sel \<Longrightarrow> selection_ok s (sel @ [k])"
  by (auto simp: selection_ok_def)

lemma selection_remove: "selection_ok s sel \<Longrightarrow> selection_ok (remove k s) (remove1 k sel)"
  by (auto simp: selection_ok_def remove_ok keys_remove)

lemma selection_grows: "selection_ok s sel \<Longrightarrow> ok s' \<Longrightarrow> set (keys s) \<subseteq> set (keys s') \<Longrightarrow> selection_ok s' sel"
  by (auto simp: selection_ok_def)

lemma selection_bound: "selection_ok s sel \<Longrightarrow> length sel \<le> length (keys s)"
  unfolding selection_ok_def by (metis card_mono distinct_card finite_set keys_distinct)

end

lemma server_delete_rows: "db_servers (server_delete sid d) = delete_where (\<lambda>i _. i = sid) (db_servers d)"
  by (simp add: server_delete_def)

interpretation fleet_source: keyed_source all_server_ids "\<lambda>d. table_ok (db_servers d)" server_delete
proof unfold_locales
  fix d :: db and k :: int
  assume ok: "table_ok (db_servers d)"
  then show "distinct (all_server_ids d)" by (simp add: all_server_ids_def server_list_def table_ok_distinct)
  show "table_ok (db_servers (server_delete k d))" using ok by (simp add: server_delete_rows table_ok_delete)
  show "set (all_server_ids (server_delete k d)) = set (all_server_ids d) - {k}"
    by (force simp: all_server_ids_def server_list_def server_delete_rows delete_where_def)
qed

lemma upsert_keys: "set (all_server_ids d) \<subseteq> set (all_server_ids (snd (server_upsert now ip cols d)))"
  by (cases "server_by_ip d ip") (auto simp: server_upsert_def all_server_ids_def server_list_def insert_row_def simp del: set_map)

lemma upsert_table_ok: "table_ok (db_servers d) \<Longrightarrow> table_ok (db_servers (snd (server_upsert now ip cols d)))"
  by (auto simp: server_upsert_def table_ok_update intro: table_ok_insert split: option.split prod.split)

lemma pin_keys: "all_server_ids (snd (set_oem_override now sid oem d)) = all_server_ids d"
  "table_ok (db_servers d) \<Longrightarrow> table_ok (db_servers (snd (set_oem_override now sid oem d)))"
  by (simp_all add: all_server_ids_def server_list_def set_oem_override_def update_row_def table_ok_update)

lemma row_key: "row (db_servers d) sid \<noteq> None \<longleftrightarrow> sid \<in> set (all_server_ids d)"
  by (simp add: row_def all_server_ids_def server_list_def map_of_eq_None_iff)

lemma fleet_step_selection:
  assumes "fleet_step s s'" "fleet_source.selection_ok (fst s) (fl_selected (snd s))"
  shows "fleet_source.selection_ok (fst s') (fl_selected (snd s'))"
  using assms
proof cases
  case (Toggle d sid f)
  then have "sid \<in> set (all_server_ids d)" using row_key by blast
  then show ?thesis using assms(2) Toggle fleet_source.selection_add [of d "fl_selected f" sid]
    by (simp add: toggle_selection_def fleet_source.selection_filter)
next
  case (Found d f now ip cols)
  then show ?thesis using assms(2) fleet_source.selection_grows [OF _ upsert_table_ok upsert_keys]
    by (auto simp: fleet_source.selection_ok_def)
next
  case (Pin d f now sid key)
  then show ?thesis using assms(2) fleet_source.selection_grows [of d "fl_selected f" "fst s'"]
    by (auto simp: pin_oem_def fleet_refresh_def Let_def pin_keys fleet_source.selection_ok_def)
qed (use assms(2) in \<open>auto simp: select_all_def clear_selection_def fleet_remove_def fleet_refresh_def Let_def
      intro: fleet_source.selection_remove fleet_source.selection_all fleet_source.selection_none fleet_source.selection_source\<close>)

section \<open>Properties\<close>

text \<open>Further property. The selection that an update or an installation starts with never names a server that is gone and
  never names one twice, whatever was clicked, removed and discovered before; a key that SQLite
  hands out again after a removal is therefore not selected by accident.\<close>

theorem selection_names_servers:
  assumes "fleet_reach (d0, new_fleet d0) (d, f)" "table_ok (db_servers d0)"
  shows "distinct (fl_selected f) \<and> set (fl_selected f) \<subseteq> set (all_server_ids d) \<and> selected_count f \<le> server_count d \<and>
    \<not> is_selected (snd (fleet_remove sid (d, f))) sid"
proof -
  have "fleet_source.selection_ok (fst s) (fl_selected (snd s))" if "fleet_reach (d0, new_fleet d0) s" for s
    using that
  proof induction
    case start
    then show ?case by (simp add: new_fleet_def fleet_source.selection_ok_def assms(2))
  qed (rule fleet_step_selection)
  then have ok: "fleet_source.selection_ok d (fl_selected f)" using assms(1) by fastforce
  then show ?thesis using fleet_source.selection_bound [OF ok]
    by (simp add: fleet_source.selection_ok_def selected_count_def server_count_def all_server_ids_def server_list_def
        is_selected_def fleet_remove_def fleet_refresh_def Let_def)
qed

definition fleet_db :: db where
  "fleet_db = snd (server_upsert ''t0'' ''10.0.0.1'' \<lparr>sf_hostname = None, sf_manufacturer = None, sf_oem = None, sf_model = None,
     sf_serial = Some ''S1'', sf_bmc_version = None, sf_bios_version = None, sf_power_state = None, sf_status = ''online'',
     sf_protocol = None, sf_redfish_root = None, sf_tls_fpr = None\<rparr> empty_db)"

lemma fleet_db_key: "all_server_ids fleet_db = [1]" "table_ok (db_servers fleet_db)"
  by code_simp (simp add: fleet_db_def upsert_table_ok empty_db_def)

theorem selection_names_servers_witness:
  "fleet_reach (fleet_db, new_fleet fleet_db) (fleet_db, toggle_selection 1 (new_fleet fleet_db)) \<and>
   is_selected (toggle_selection 1 (new_fleet fleet_db)) 1 \<and>
   \<not> is_selected (snd (fleet_remove 1 (fleet_db, toggle_selection 1 (new_fleet fleet_db)))) 1"
proof -
  have "row (db_servers fleet_db) 1 \<noteq> None" using row_key [of fleet_db 1] by (simp add: fleet_db_key)
  then have "fleet_reach (fleet_db, new_fleet fleet_db) (fleet_db, toggle_selection 1 (new_fleet fleet_db))"
    using fleet_reach.start fleet_reach.step fleet_step.Toggle by blast
  then show ?thesis using selection_names_servers [OF _ fleet_db_key(2)]
    by (simp add: is_selected_def toggle_selection_def new_fleet_def)
qed

lemma by_key_mem: "p \<in> set plugins \<Longrightarrow> \<exists>q. by_key plugins (op_key p) = Some q \<and> op_key q = op_key p"
  by (cases "by_key plugins (op_key p)") (auto simp: by_key_def find_None_iff find_Some_iff)

lemma option_key: "(key, name) \<in> set (oem_options shown plugins) \<Longrightarrow> key \<noteq> [] \<and> (\<exists>p \<in> set plugins. op_key p = key)"
  by (auto simp: oem_options_def vendor_options_def split: if_splits)

lemma vendor_offered:
  "p \<in> set plugins \<Longrightarrow> op_key p \<noteq> [] \<Longrightarrow> op_key p \<noteq> ''generic_redfish'' \<Longrightarrow>
    (op_key p, the_default (op_key p) (nonempty (Some (shown p)))) \<in> set (oem_options shown plugins)"
  by (simp add: oem_options_def vendor_options_def)

text \<open>Further property. Whatever the vendor picker offers works: after the operator picks it, the server resolves to an installed
  plugin of that vendor, the controls it refused until then are open, and nothing else of the server
  and no other server changes; the names are offered in order, the generic plugin last.\<close>

theorem offered_oem_resolves:
  assumes "(key, name) \<in> set (oem_options shown (st_plugins st))" "row (db_servers d) sid = Some r"
    and "\<And>p. p \<in> set (st_plugins st) \<Longrightarrow> strip (op_key p) = op_key p"
  shows "\<exists>p r'. row (db_servers (fst (pin_oem now sid key (d, f)))) sid = Some r' \<and> pinned_plugin st r' = Some p \<and> op_key p = key \<and>
    r' = r\<lparr>sr_oem_override := Some key, sr_updated_at := Some now\<rparr> \<and>
    (\<forall>i. i = sid \<or> row (db_servers (fst (pin_oem now sid key (d, f)))) i = row (db_servers d) i) \<and>
    sorted (List.map (lower \<circ> snd) (vendor_options shown (st_plugins st)))"
proof -
  obtain p where p: "p \<in> set (st_plugins st)" "op_key p = key" and ne: "key \<noteq> []" using option_key [OF assms(1)] by blast
  then have strip: "strip key = key" using assms(3) by blast
  obtain q where q: "by_key (st_plugins st) key = Some q" "op_key q = key" using by_key_mem [OF p(1)] p(2) by auto
  have db: "db_servers (fst (pin_oem now sid key (d, f))) = update_row sid (\<lambda>r. r\<lparr>sr_oem_override := Some key, sr_updated_at := Some now\<rparr>) (db_servers d)"
    using ne by (simp add: pin_oem_def set_oem_override_def strip nonempty_def Let_def)
  have pin: "pinned_plugin st (r\<lparr>sr_oem_override := Some key, sr_updated_at := Some now\<rparr>) = Some q"
    using q ne by (simp add: pinned_plugin_def pinned_oem_def strip nonempty_def resolve_plugin_def)
  have "sorted (List.map (lower \<circ> snd) (vendor_options shown (st_plugins st)))"
    by (simp add: vendor_options_def case_prod_beta' comp_def del: map_map)
  then show ?thesis using pin q(2) assms(2) unfolding db by (simp add: row_update_row)
qed

definition bundled_site :: "unit site" where
  "bundled_site = \<lparr>st_plugins = List.map snd bundled_packages, st_driver = undefined, st_client = undefined,
     st_file_sha = (\<lambda>_ _. Inr None), st_vault = None, st_now = (\<lambda>_. ''t1'')\<rparr>"

lemma bundled_plain: "p \<in> set (List.map snd bundled_packages) \<Longrightarrow> strip (op_key p) = op_key p"
proof -
  have "list_all (\<lambda>k. strip k = k) (List.map (op_key \<circ> snd) bundled_packages)"
    unfolding bundled_packages_def bundled_def by code_simp
  then show "p \<in> set (List.map snd bundled_packages) \<Longrightarrow> strip (op_key p) = op_key p" by (auto simp: list_all_iff)
qed

theorem offered_oem_resolves_witness:
  "\<exists>p r. row (db_servers (fst (pin_oem ''t1'' 1 ''hpe'' (fleet_db, new_fleet fleet_db)))) 1 = Some r \<and>
     pinned_plugin bundled_site r = Some p \<and> op_key p = ''hpe''"
proof -
  have opt: "(''hpe'', ''HPE (iLO)'') \<in> set (oem_options bundled_names (st_plugins bundled_site))"
    using vendor_offered [of "bundled 6 ''hpe'' hpe_match" "st_plugins bundled_site" bundled_names]
    by (simp add: bundled_site_def bundled_packages_def bundled_def bundled_names_def nonempty_def)
  obtain r where r: "row (db_servers fleet_db) 1 = Some r" using row_key [of fleet_db 1] by (auto simp: fleet_db_key)
  show ?thesis
    using offered_oem_resolves [OF opt r, of "''t1''" "new_fleet fleet_db"] bundled_plain by (fastforce simp: bundled_site_def)
qed

end
