(* ===== verification/Ui_Jobs.thy ===== *)
theory Ui_Jobs
  imports Ui_Fleet Provisioning_Jobs
begin

text \<open>
  \<open>UpdateController\<close> and \<open>ProvisioningController\<close> of \<open>ui/bridge/controllers.py\<close>: starting a job from
  the page, the task table that follows the engine's reports, the counters, and the end of a job.
  A slot is a computation over the database and the controller; an exception that leaves a slot is
  an error value. \<open>title\<close> is exact for ASCII text.
\<close>

section \<open>State of a job controller\<close>

record job_ui =
  ju_running :: bool
  ju_succeeded :: int
  ju_failed :: int
  ju_total :: nat
  ju_job :: int
  ju_error :: string
  ju_tasks :: "ui_row list"
  ju_jobs :: "(int \<times> job_row) list"
  ju_jobs_loaded :: bool

definition new_job_ui :: job_ui where
  "new_job_ui = \<lparr>ju_running = False, ju_succeeded = 0, ju_failed = 0, ju_total = 0, ju_job = 0, ju_error = [],
     ju_tasks = [], ju_jobs = [], ju_jobs_loaded = False\<rparr>"

text \<open>\<open>[int(x) for x in server_ids if x is not None]\<close>.\<close>

definition given_ids :: "int option list \<Rightarrow> int list" where
  "given_ids ids = List.map_filter (\<lambda>x. x) ids"

definition no_servers_msg :: string where
  "no_servers_msg = ''No servers selected''"

definition ui_refuse :: "string \<Rightarrow> job_ui \<Rightarrow> job_ui" where
  "ui_refuse msg ju = ju\<lparr>ju_error := msg\<rparr>"

definition ui_error :: "string \<Rightarrow> job_ui \<Rightarrow> job_ui" where
  "ui_error msg ju = ju\<lparr>ju_error := msg, ju_running := False\<rparr>"

definition ui_started :: "int \<Rightarrow> ui_row list \<Rightarrow> job_ui \<Rightarrow> job_ui" where
  "ui_started jid rows ju = ju\<lparr>ju_job := jid, ju_running := True, ju_succeeded := 0, ju_failed := 0,
     ju_tasks := rows, ju_total := length rows\<rparr>"

section \<open>Updates\<close>

definition cased :: "char \<Rightarrow> bool" where
  "cased c = (lower_char c \<noteq> c \<or> upper_char c \<noteq> [c])"

fun title_from :: "bool \<Rightarrow> string \<Rightarrow> string" where
  "title_from inside [] = []"
| "title_from inside (c # cs) = (if inside then [lower_char c] else upper_char c) @ title_from (cased c) cs"

definition title :: "string \<Rightarrow> string" where
  "title s = title_from False s"

definition server_ip_of :: "server_row option \<Rightarrow> string option" where
  "server_ip_of s = map_option sr_ip s"

definition server_text :: "(server_fields \<Rightarrow> string option) \<Rightarrow> server_row option \<Rightarrow> string option" where
  "server_text get s = (case s of None \<Rightarrow> None | Some r \<Rightarrow> get (sr_fields r))"

definition first_text :: "string option list \<Rightarrow> string \<Rightarrow> string" where
  "first_text xs dflt = the_default dflt (case List.map_filter nonempty xs of [] \<Rightarrow> None | x # _ \<Rightarrow> Some x)"

definition update_line :: "int \<times> task_row \<times> server_row option \<times> firmware_row option \<Rightarrow> ui_row" where
  "update_line = (\<lambda>(tid, t, s, fw).
     [(''id'', JInt tid), (''host'', JStr (first_text [server_text sf_hostname s, server_ip_of s] ''?'')),
      (''oem'', JStr (title (first_text [server_text sf_oem s] []))),
      (''change'', JStr (the_default ''None'' (map_option fr_type fw) @ '' '' @ the_default ''None'' (map_option fr_version fw))),
      (''state'', JStr (tk_state t)), (''progress'', JInt (tk_progress t)), (''message'', JStr (the_default [] (tk_message t)))])"

definition update_ui_start :: "string \<Rightarrow> int option list \<Rightarrow> int \<Rightarrow> int \<Rightarrow> (db \<times> job_ui, unit) io" where
  "update_ui_start now ids fid concurrency = (\<lambda>(d, ju).
     if ju_running ju then (Inr (), (d, ju))
     else if given_ids ids = [] then (Inr (), (d, ui_refuse no_servers_msg ju))
     else let ju = ju\<lparr>ju_error := []\<rparr> in
     (case start_job now (given_ids ids) fid (max 1 concurrency) d of
        Inl e \<Rightarrow> (Inl e, (d, ju))
      | Inr (Inl msg, d') \<Rightarrow> (Inr (), (d', ui_error msg ju))
      | Inr (Inr js, d') \<Rightarrow> (Inr (), (d', ui_started (jo_id js) (List.map update_line (list_tasks_with_server d' (jo_id js))) ju))))"

definition update_ui_task :: "int \<Rightarrow> task_report \<Rightarrow> job_ui \<Rightarrow> job_ui" where
  "update_ui_task tid c ju = ju\<lparr>ju_tasks := patch_task tid c (ju_tasks ju)\<rparr>"

definition refresh_jobs :: "db \<Rightarrow> job_ui \<Rightarrow> job_ui" where
  "refresh_jobs d ju = ju\<lparr>ju_jobs := list_jobs d 20\<rparr>"

definition ensure_jobs_loaded :: "db \<Rightarrow> job_ui \<Rightarrow> job_ui" where
  "ensure_jobs_loaded d ju = (if ju_jobs_loaded ju then ju else (refresh_jobs d ju)\<lparr>ju_jobs_loaded := True\<rparr>)"

definition update_ui_done :: "int \<Rightarrow> int \<Rightarrow> db \<Rightarrow> job_ui \<Rightarrow> job_ui" where
  "update_ui_done good bad d ju = refresh_jobs d (ju\<lparr>ju_running := False, ju_succeeded := good, ju_failed := bad\<rparr>)"

section \<open>Provisioning\<close>

text \<open>The picks of the operator: a JSON object from the text of a server's key to a drive's name. Text that is no JSON
  counts as none; JSON that is no object, or a key that is no number, raises.\<close>

fun overrides_of :: "(string \<times> json) list \<Rightarrow> overrides \<Rightarrow> overrides py" where
  "overrides_of [] acc = Inr acc"
| "overrides_of ((k, v) # kvs) acc = (if \<not> truthy v then overrides_of kvs acc
     else bind_py (jint (JStr k)) (\<lambda>i. overrides_of kvs (AList.update (JInt i) (json_str v) acc)))"

definition parse_overrides :: "string \<Rightarrow> overrides py" where
  "parse_overrides s = bind_py (jitems (case loads (if s = [] then ''{}'' else s) of None \<Rightarrow> JObj []
       | Some j \<Rightarrow> or_else j (JObj []))) (\<lambda>kvs. overrides_of kvs [])"

definition positive :: "int \<Rightarrow> int option" where
  "positive i = (if 0 < i then Some i else None)"

definition preview_json :: "preview_row \<Rightarrow> json" where
  "preview_json p = JObj [(''server_id'', JInt (pv_server_id p)), (''hostname'', JStr (pv_hostname p)), (''ip'', JStr (pv_ip p)),
     (''oem'', JStr (pv_oem p)), (''power_state'', JStr (pv_power_state p)), (''disk_count'', JInt (int (pv_disk_count p))),
     (''resolution'', resolved_json (pv_resolution p))]"

definition preview_text :: "preview_row list \<Rightarrow> string" where
  "preview_text ps = dumps (JArr (List.map preview_json ps))"

definition preview_selection :: "db \<Rightarrow> int option list \<Rightarrow> int \<Rightarrow> string py" where
  "preview_selection d ids profile = bind_py (preview d (given_ids ids) (positive profile) None []) (\<lambda>ps. Inr (preview_text ps))"

definition preview_with_strategy :: "db \<Rightarrow> int option list \<Rightarrow> string \<Rightarrow> string py" where
  "preview_with_strategy d ids strategy =
     bind_py (preview d (given_ids ids) None (nonempty (Some strategy)) []) (\<lambda>ps. Inr (preview_text ps))"

definition preview_with_overrides :: "db \<Rightarrow> int option list \<Rightarrow> string \<Rightarrow> string \<Rightarrow> string py" where
  "preview_with_overrides d ids strategy picks = bind_py (parse_overrides picks) (\<lambda>ov.
     bind_py (preview d (given_ids ids) None (nonempty (Some strategy)) ov) (\<lambda>ps. Inr (preview_text ps)))"

definition prov_line :: "int \<times> prov_task_row \<times> server_row option \<Rightarrow> ui_row" where
  "prov_line = (\<lambda>(tid, t, s).
     [(''id'', JInt tid), (''server_ip'', JStr (first_text [server_ip_of s] [])),
      (''server_hostname'', JStr (first_text [server_text sf_hostname s, server_ip_of s] [])),
      (''state'', JStr (pt_state t)), (''progress'', JInt (pt_progress t)),
      (''message'', JStr (the_default [] (pt_message t))), (''resolved_disk'', JStr (the_default [] (pt_resolved_disk t)))])"

definition prov_ui_start :: "string \<Rightarrow> int option list \<Rightarrow> int \<Rightarrow> int \<Rightarrow> int \<Rightarrow> string \<Rightarrow> int \<Rightarrow> string \<Rightarrow> string \<Rightarrow>
    (db \<times> job_ui, unit) io" where
  "prov_ui_start now ids iid os_profile disk_profile confirm concurrency strategy picks = (\<lambda>(d, ju).
     if ju_running ju then (Inr (), (d, ju))
     else if given_ids ids = [] then (Inr (), (d, ui_refuse no_servers_msg ju))
     else (case parse_overrides picks of Inl e \<Rightarrow> (Inl e, (d, ju)) | Inr ov \<Rightarrow> let ju = ju\<lparr>ju_error := []\<rparr> in
       (case prov_start_job now (given_ids ids) iid (positive os_profile) (positive disk_profile) confirm concurrency
            (nonempty (Some strategy)) ov d of
          (Inl e, d') \<Rightarrow> (Inl e, (d', ju))
        | (Inr (Inl msg), d') \<Rightarrow> (Inr (), (d', ui_error msg ju))
        | (Inr (Inr js), d') \<Rightarrow> (Inr (), (d', ui_started (po_id js) (List.map prov_line (prov_list_tasks d' (po_id js))) ju)))))"

definition ends_task :: "string \<Rightarrow> bool" where
  "ends_task s = (s \<in> {''completed'', ''failed'', ''cancelled''})"

definition prov_ui_task :: "int \<Rightarrow> task_report \<Rightarrow> job_ui \<Rightarrow> job_ui" where
  "prov_ui_task tid c ju = (let ju = ju\<lparr>ju_tasks := patch_task tid c (ju_tasks ju)\<rparr> in
     if \<not> ends_task (fst c) then ju
     else if fst c = ''completed'' then ju\<lparr>ju_succeeded := ju_succeeded ju + 1\<rparr>
     else ju\<lparr>ju_failed := ju_failed ju + 1\<rparr>)"

definition prov_ui_done :: "int \<Rightarrow> int \<Rightarrow> job_ui \<Rightarrow> job_ui" where
  "prov_ui_done good bad ju = ju\<lparr>ju_succeeded := good, ju_failed := bad, ju_running := False\<rparr>"

section \<open>The table a started installation shows\<close>

lemma prov_rows_started:
  assumes "prov_start_job now sids iid osp prof confirm conc strat ov d = (Inr (Inr js), d')" "db_ok d"
  shows "\<exists>ps. length (po_tasks js) = length ps \<and>
    filter (\<lambda>(_, r). pt_job_id r = po_id js) (db_prov_tasks d') = zip (po_tasks js) (List.map (prov_queued_row now (po_id js)) ps)"
proof (rule prov_start_cases [OF assms])
  fix ps rows assume r: "db_prov_tasks d' = db_prov_tasks d @ rows" "rows = zip (po_tasks js) (List.map (prov_queued_row now (po_id js)) ps)"
    "length (po_tasks js) = length ps" "row (db_prov_jobs d) (po_id js) = None"
  have "pt_job_id t \<noteq> po_id js" if "(i, t) \<in> set (db_prov_tasks d)" for i t
  proof -
    have "prov_task_refs_ok d t" using assms(2) that by (auto simp: db_ok_def refs_ok_def)
    then show ?thesis using r(4) by (auto simp: prov_task_refs_ok_def)
  qed
  then have old: "filter (\<lambda>(_, r). pt_job_id r = po_id js) (db_prov_tasks d) = []" by (auto simp: filter_empty_conv)
  have "filter (\<lambda>(_, r). pt_job_id r = po_id js) rows = rows"
    unfolding r(2) by (rule filter_True) (auto simp: set_zip prov_queued_row_def)
  then show ?thesis using r(1,2,3) old by auto
qed

lemma prov_lines_queued:
  assumes "prov_start_job now sids iid osp prof confirm conc strat ov d = (Inr (Inr js), d')" "db_ok d"
  shows "list_all (\<lambda>r. get_field r ''state'' = JStr ''queued'') (List.map prov_line (prov_list_tasks d' (po_id js))) \<and>
    List.map (\<lambda>r. get_field r ''id'') (List.map prov_line (prov_list_tasks d' (po_id js))) = List.map JInt (po_tasks js)"
proof -
  obtain ps where ps: "length (po_tasks js) = length ps"
    "filter (\<lambda>(_, r). pt_job_id r = po_id js) (db_prov_tasks d') = zip (po_tasks js) (List.map (prov_queued_row now (po_id js)) ps)"
    using prov_rows_started [OF assms] by blast
  have ids: "List.map (\<lambda>r. get_field r ''id'') (List.map prov_line (prov_list_tasks d' (po_id js)))
      = List.map JInt (List.map fst (filter (\<lambda>(_, r). pt_job_id r = po_id js) (db_prov_tasks d')))"
    by (simp add: prov_list_tasks_def comp_def case_prod_beta' prov_line_def get_field_def)
  have "list_all (\<lambda>r. get_field r ''state'' = JStr ''queued'') (List.map prov_line (prov_list_tasks d' (po_id js)))"
    unfolding prov_list_tasks_def ps(2)
    by (auto simp: list_all_iff set_zip prov_line_def get_field_def prov_queued_row_def)
  then show ?thesis using ids unfolding ps(2) using ps(1) by simp
qed

section \<open>Counting what the table shows\<close>

definition shows_state :: "string set \<Rightarrow> ui_row \<Rightarrow> bool" where
  "shows_state S r = (\<exists>s \<in> S. get_field r ''state'' = JStr s)"

definition shown_count :: "string set \<Rightarrow> ui_row list \<Rightarrow> nat" where
  "shown_count S rows = length (filter (shows_state S) rows)"

lemma patched_state: "shows_state S (put_fields (task_change c) r) \<longleftrightarrow> fst c \<in> S"
  by (cases c) (auto simp: shows_state_def get_field_def get_put_fields task_change_def)

lemma shown_count_patch:
  "task_shown rows t = Some r \<Longrightarrow>
    shown_count S (patch_task t c rows) + (if shows_state S r then 1 else 0) = shown_count S rows + (if fst c \<in> S then 1 else 0)"
  by (induction rows) (auto simp: task_shown_def patch_task_def shown_count_def patched_state split: prod.splits if_splits)

text \<open>No report about a task follows one that ends it.\<close>

fun settled_once :: "(int \<times> task_report) list \<Rightarrow> bool" where
  "settled_once [] = True"
| "settled_once ((t, c) # rs) = ((ends_task (fst c) \<longrightarrow> t \<notin> fst ` set rs) \<and> settled_once rs)"

lemma settled_once_snoc: "settled_once (rs @ [(t, c)]) \<longleftrightarrow> settled_once rs \<and> (\<forall>(u, c') \<in> set rs. u = t \<longrightarrow> \<not> ends_task (fst c'))"
  by (induction rs) (auto split: prod.splits)

abbreviation prov_ui_reports :: "(int \<times> task_report) list \<Rightarrow> job_ui \<Rightarrow> job_ui" where
  "prov_ui_reports rs ju \<equiv> fold (\<lambda>(tid, c). prov_ui_task tid c) rs ju"

lemma prov_ui_task_fields: "ju_tasks (prov_ui_task t c ju) = patch_task t c (ju_tasks ju)"
  "ju_succeeded (prov_ui_task t c ju) = ju_succeeded ju + (if fst c = ''completed'' then 1 else 0)"
  "ju_failed (prov_ui_task t c ju) = ju_failed ju + (if fst c \<in> {''failed'', ''cancelled''} then 1 else 0)"
  by (auto simp: prov_ui_task_def Let_def ends_task_def)

lemma prov_ui_tasks: "ju_tasks (prov_ui_reports rs ju) = fold (\<lambda>(tid, c). patch_task tid c) rs (ju_tasks ju)"
  by (induction rs arbitrary: ju) (auto simp: prov_ui_task_def Let_def)

lemma unsettled_before:
  assumes "settled_once (rs @ [(t, c)])" "task_shown (ju_tasks (prov_ui_reports rs ju)) t = Some r"
    and "\<forall>r \<in> set (ju_tasks ju). \<not> shows_state {''completed'', ''failed'', ''cancelled''} r"
  shows "\<not> shows_state {''completed'', ''failed'', ''cancelled''} r"
proof -
  have "task_shown rows t = Some x \<Longrightarrow> x \<in> set rows" for rows x by (auto simp: task_shown_def find_Some_iff)
  then have start: "task_shown (ju_tasks ju) t = Some x \<Longrightarrow> \<not> shows_state {''completed'', ''failed'', ''cancelled''} x" for x
    using assms(3) by blast
  have last: "\<not> ends_task (fst c')" if "map_of (rev rs) t = Some c'" for c'
    using assms(1) map_of_SomeD [OF that] by (auto simp: settled_once_snoc)
  show ?thesis using assms(2) start last unfolding prov_ui_tasks task_table.replay
    by (auto simp: patched_state ends_task_def split: option.splits)
qed

lemma live_counts:
  assumes "settled_once rs" "\<forall>r \<in> set (ju_tasks ju). \<not> shows_state {''completed'', ''failed'', ''cancelled''} r"
    and "ju_succeeded ju = 0" "ju_failed ju = 0" "\<forall>(t, _) \<in> set rs. task_shown (ju_tasks ju) t \<noteq> None"
  shows "ju_succeeded (prov_ui_reports rs ju) = int (shown_count {''completed''} (ju_tasks (prov_ui_reports rs ju))) \<and>
    ju_failed (prov_ui_reports rs ju) = int (shown_count {''failed'', ''cancelled''} (ju_tasks (prov_ui_reports rs ju)))"
  using assms
proof (induction rs rule: rev_induct)
  case Nil
  then show ?case by (auto simp: shown_count_def filter_empty_conv shows_state_def)
next
  case (snoc x rs)
  obtain t c where x: "x = (t, c)" by (cases x)
  let ?ju = "prov_ui_reports rs ju"
  obtain r where r: "task_shown (ju_tasks ?ju) t = Some r"
    using snoc.prems(5) x task_table.replay_dom [of rs "ju_tasks ju" t] unfolding prov_ui_tasks by fastforce
  have un: "\<not> shows_state {''completed'', ''failed'', ''cancelled''} r"
    using unsettled_before [OF _ r snoc.prems(2)] snoc.prems(1) x by blast
  then have "\<not> shows_state {''completed''} r" "\<not> shows_state {''failed'', ''cancelled''} r" by (auto simp: shows_state_def)
  then have "shown_count {''completed''} (patch_task t c (ju_tasks ?ju)) = shown_count {''completed''} (ju_tasks ?ju) + (if fst c = ''completed'' then 1 else 0)"
    "shown_count {''failed'', ''cancelled''} (patch_task t c (ju_tasks ?ju)) = shown_count {''failed'', ''cancelled''} (ju_tasks ?ju)
       + (if fst c \<in> {''failed'', ''cancelled''} then 1 else 0)"
    using shown_count_patch [OF r, of "{''completed''}" c] shown_count_patch [OF r, of "{''failed'', ''cancelled''}" c] by simp_all
  moreover have "ju_succeeded ?ju = int (shown_count {''completed''} (ju_tasks ?ju)) \<and>
      ju_failed ?ju = int (shown_count {''failed'', ''cancelled''} (ju_tasks ?ju))"
    using snoc.IH snoc.prems x by (simp add: settled_once_snoc)
  ultimately show ?case by (simp add: x prov_ui_task_fields)
qed

lemma prov_ui_started:
  assumes "prov_ui_start now ids iid osp dp confirm conc strategy picks (d, ju0) = (Inr (), (d', ju))"
    and "\<not> ju_running ju0" "ju_running ju"
  obtains js ov where "prov_start_job now (given_ids ids) iid (positive osp) (positive dp) confirm conc (nonempty (Some strategy)) ov d
      = (Inr (Inr js), d')" "ju = ui_started (po_id js) (List.map prov_line (prov_list_tasks d' (po_id js))) (ju0\<lparr>ju_error := []\<rparr>)"
    "parse_overrides picks = Inr ov" "given_ids ids \<noteq> []"
  using assms by (auto simp: prov_ui_start_def Let_def ui_refuse_def ui_error_def split: if_splits sum.splits prod.splits)

section \<open>Properties\<close>

text \<open>Further property. What the page shows right after the start is the job: one row per task, in the order of the tasks, all
  queued, the counters at zero and no error; and while a job runs, another start does nothing.\<close>

theorem started_install_on_screen:
  assumes "prov_ui_start now ids iid osp dp confirm conc strategy picks (d, ju0) = (Inr (), (d', ju))" "db_ok d"
  shows "if ju_running ju0 then d' = d \<and> ju = ju0
    else if ju_running ju then (\<exists>js ov. parse_overrides picks = Inr ov \<and>
        prov_start_job now (given_ids ids) iid (positive osp) (positive dp) confirm conc (nonempty (Some strategy)) ov d = (Inr (Inr js), d') \<and>
        ju_job ju = po_id js \<and> ju_total ju = length (po_tasks js) \<and> ju_succeeded ju = 0 \<and> ju_failed ju = 0 \<and> ju_error ju = [] \<and>
        List.map (\<lambda>r. get_field r ''id'') (ju_tasks ju) = List.map JInt (po_tasks js) \<and>
        list_all (\<lambda>r. get_field r ''state'' = JStr ''queued'') (ju_tasks ju))
    else ju_error ju \<noteq> [] \<and> d' = d"
proof (cases "ju_running ju0")
  case True
  then show ?thesis using assms(1) by (simp add: prov_ui_start_def)
next
  case False
  show ?thesis
  proof (cases "ju_running ju")
    case True
    obtain js ov where s: "prov_start_job now (given_ids ids) iid (positive osp) (positive dp) confirm conc (nonempty (Some strategy)) ov d
        = (Inr (Inr js), d')" "ju = ui_started (po_id js) (List.map prov_line (prov_list_tasks d' (po_id js))) (ju0\<lparr>ju_error := []\<rparr>)"
      "parse_overrides picks = Inr ov" using prov_ui_started [OF assms(1) False True] .
    note lines = prov_lines_queued [OF s(1) assms(2)]
    then have "length (prov_list_tasks d' (po_id js)) = length (po_tasks js)" by (metis length_map)
    then show ?thesis using False True s lines by (auto simp: ui_started_def)
  next
    case off: False
    have no_job: "msg \<noteq> [] \<and> d1 = d" if "prov_start_job n sids i osp p cf cc st ov d = (Inr (Inl msg), d1)" for n sids i osp p cf cc st ov msg d1
      using that by (auto simp: prov_start_job_def Let_def split: if_splits option.splits sum.splits prod.splits)
    then show ?thesis using assms(1) False off
      by (auto simp: prov_ui_start_def Let_def ui_refuse_def no_servers_msg_def ui_error_def ui_started_def
          split: if_splits sum.splits prod.splits dest: no_job)
  qed
qed


text \<open>The installation of \<open>lab_db\<close>, started from the page and reported on.\<close>

definition lab_screen :: job_ui where
  "lab_screen = ui_started 1 (List.map prov_line (prov_list_tasks (snd lab_start) 1)) new_job_ui"

lemma no_picks: "parse_overrides [] = Inr []"
  by code_simp

lemma lab_on_screen: "prov_ui_start ''t1'' [Some 1, None] 1 0 0 ''WIPE'' 100 [] [] (lab_db, new_job_ui) = (Inr (), (snd lab_start, lab_screen))"
proof -
  have ids: "given_ids [Some 1, None] = [1]" by (simp add: given_ids_def map_filter_simps)
  have "prov_start_job ''t1'' [1] 1 None None ''WIPE'' 100 None [] lab_db = (Inr (Inr lab_job), snd lab_start)" by (rule lab_started)
  then show ?thesis
    by (simp add: prov_ui_start_def ids no_picks positive_def nonempty_def lab_screen_def lab_job_def new_job_ui_def Let_def ui_started_def)
qed

theorem started_install_on_screen_witness:
  "ju_total lab_screen = 1 \<and> List.map (\<lambda>r. get_field r ''id'') (ju_tasks lab_screen) = [JInt 1]"
  using started_install_on_screen [OF lab_on_screen lab_ok] lab_started
  by (auto simp: new_job_ui_def lab_screen_def ui_started_def given_ids_def map_filter_simps positive_def nonempty_def lab_job_def no_picks)


end
