(* ===== verification/Scan_Ranges.thy ===== *)
theory Scan_Ranges
  imports Decimal_Text Json
begin

text \<open>
  The range syntaxes of \<open>core/engine/scanner.py\<close>, with what they use of Python's \<open>ipaddress\<close>:
  \<open>IPv4Address\<close> and \<open>ip_network(..., strict=False).hosts()\<close>. The hosts of a text that is an IPv6
  network are a parameter.
\<close>

section \<open>IPv4 addresses\<close>

definition value_error :: "string \<Rightarrow> 'a py" where
  "value_error msg = Inl (Exn Exn_Value msg)"

definition octet_value :: "string \<Rightarrow> int py" where
  "octet_value s = (if s = [] then value_error ''Empty octet not permitted''
     else if \<not> list_all is_digit s then value_error (''Only decimal digits permitted in '' @ py_repr s)
     else if 3 < length s then value_error (''At most 3 characters permitted in '' @ py_repr s)
     else if s \<noteq> ''0'' \<and> hd s = CHR ''0'' then value_error (''Leading zeros are not permitted in '' @ py_repr s)
     else if 255 < int_of_digits s then value_error (''Octet '' @ int_str (int_of_digits s) @ '' (> 255) not permitted'')
     else Inr (int_of_digits s))"

definition octets_value :: "int list \<Rightarrow> int" where
  "octets_value os = foldl (\<lambda>n b. 256 * n + b) 0 os"

definition in_address :: "string \<Rightarrow> 'a py \<Rightarrow> 'a py" where
  "in_address s r = (case r of Inl e \<Rightarrow> value_error (exn_str e @ '' in '' @ py_repr s) | Inr x \<Rightarrow> Inr x)"

definition ip_int :: "string \<Rightarrow> int py" where
  "ip_int s = (if s = [] then value_error ''Address cannot be empty''
     else if length (split_char (CHR ''.'') s) \<noteq> 4 then value_error (''Expected 4 octets in '' @ py_repr s)
     else bind_py (in_address s (map_py octet_value (split_char (CHR ''.'') s))) (\<lambda>os. Inr (octets_value os)))"

definition parse_ipv4 :: "string \<Rightarrow> int py" where
  "parse_ipv4 s = (if CHR ''/'' \<in> set s then value_error (''Unexpected '' @ quoted ''/'' @ '' in '' @ py_repr s) else ip_int s)"

definition show_ipv4 :: "int \<Rightarrow> string" where
  "show_ipv4 i = int_str (i div 2 ^ 24) @ ''.'' @ int_str (i div 2 ^ 16 mod 256) @ ''.'' @ int_str (i div 2 ^ 8 mod 256)
     @ ''.'' @ int_str (i mod 256)"

section \<open>IPv4 networks\<close>

definition netmask :: "nat \<Rightarrow> int" where
  "netmask p = 2 ^ 32 - 2 ^ (32 - p)"

definition prefix_of_mask :: "int \<Rightarrow> nat option" where
  "prefix_of_mask m = List.find (\<lambda>p. netmask p = m) [0..<33]"

text \<open>A prefix length in decimal, a netmask, or a host mask.\<close>

definition prefix_of_text :: "string \<Rightarrow> nat option" where
  "prefix_of_text s = (if s \<noteq> [] \<and> list_all is_digit s \<and> int_of_digits s \<le> 32 then Some (nat (int_of_digits s))
     else case ip_int s of Inl _ \<Rightarrow> None
       | Inr m \<Rightarrow> (case prefix_of_mask m of Some p \<Rightarrow> Some p | None \<Rightarrow> prefix_of_mask (2 ^ 32 - 1 - m)))"

definition network_base :: "int \<Rightarrow> nat \<Rightarrow> int" where
  "network_base a p = a - a mod 2 ^ (32 - p)"

definition ipv4_network :: "string \<Rightarrow> (int \<times> nat) option" where
  "ipv4_network s = (case split_char (CHR ''/'') s of
       [a, m] \<Rightarrow> (case (ip_int a, prefix_of_text m) of (Inr i, Some p) \<Rightarrow> Some (network_base i p, p) | _ \<Rightarrow> None)
     | _ \<Rightarrow> None)"

definition network_hosts :: "int \<Rightarrow> nat \<Rightarrow> int list" where
  "network_hosts base p = (if p = 32 then [base] else if p = 31 then [base, base + 1]
     else [base + 1 .. base + 2 ^ (32 - p) - 2])"

definition hosts_of_network :: "(string \<Rightarrow> string list option) \<Rightarrow> string \<Rightarrow> string list py" where
  "hosts_of_network v6 s = (case ipv4_network s of
       Some (base, p) \<Rightarrow> Inr (List.map show_ipv4 (network_hosts base p))
     | None \<Rightarrow> (case v6 s of Some hs \<Rightarrow> Inr hs
         | None \<Rightarrow> value_error (py_repr s @ '' does not appear to be an IPv4 or IPv6 network'')))"

section \<open>Targets\<close>

record target =
  tg_ip :: string
  tg_port :: int
  tg_scheme :: string

definition base_url :: "target \<Rightarrow> string" where
  "base_url t = tg_scheme t @ ''://'' @ tg_ip t @ '':'' @ int_str (tg_port t)"

definition to_int :: "string \<Rightarrow> int py" where
  "to_int s = jint (JStr s)"

definition ports_of :: "string \<Rightarrow> string \<Rightarrow> string \<Rightarrow> target list py" where
  "ports_of host ports scheme = (case partition_str ''-'' ports of
       (lo_s, True, hi_s) \<Rightarrow> bind_py (to_int lo_s) (\<lambda>lo. bind_py (to_int hi_s) (\<lambda>hi.
         if hi < lo then value_error (''Port range '' @ quoted ports @ '' has end before start'')
         else Inr (List.map (\<lambda>p. \<lparr>tg_ip = host, tg_port = p, tg_scheme = scheme\<rparr>) [lo..hi])))
     | _ \<Rightarrow> bind_py (to_int ports) (\<lambda>p. Inr [\<lparr>tg_ip = host, tg_port = p, tg_scheme = scheme\<rparr>]))"

text \<open>The ends of \<open>lo-hi\<close>; a \<open>hi\<close> without a dot is the last octet of \<open>lo\<close>'s network.\<close>

definition range_ends :: "string \<Rightarrow> (int \<times> int) py" where
  "range_ends spec = (case partition_str ''-'' spec of (lo, _, hi) \<Rightarrow>
     let lo = strip lo; hi = strip hi in
     bind_py (parse_ipv4 lo) (\<lambda>l.
     bind_py (if contains ''.'' hi then parse_ipv4 hi
       else bind_py (to_int hi) (\<lambda>n. parse_ipv4 (before_last (CHR ''.'') lo @ ''.'' @ int_str n))) (\<lambda>h. Inr (l, h))))"

definition parse_one :: "(string \<Rightarrow> string list option) \<Rightarrow> string \<Rightarrow> int \<Rightarrow> string \<Rightarrow> target list py" where
  "parse_one v6 spec port scheme = (let tg = (\<lambda>ip. \<lparr>tg_ip = ip, tg_port = port, tg_scheme = scheme\<rparr>) in
     if contains '':'' spec \<and> \<not> contains ''/'' spec then
       ports_of (before_last (CHR '':'') spec) (after_last (CHR '':'') spec) scheme
     else if contains ''/'' spec then bind_py (hosts_of_network v6 spec) (\<lambda>hs. Inr (List.map tg hs))
     else if contains ''-'' spec then bind_py (range_ends spec) (\<lambda>(lo, hi).
       if hi < lo then value_error (''IP range '' @ quoted spec @ '' has end before start'')
       else Inr (List.map (\<lambda>i. tg (show_ipv4 i)) [lo..hi]))
     else Inr [tg spec])"

definition split_scheme :: "string \<Rightarrow> string \<Rightarrow> string \<times> string" where
  "split_scheme default_scheme raw = (if starts_with ''http://'' raw then (''http'', drop 7 raw)
     else if starts_with ''https://'' raw then (''https'', drop 8 raw) else (default_scheme, raw))"

fun parse_tokens :: "(string \<Rightarrow> string list option) \<Rightarrow> int \<Rightarrow> string \<Rightarrow> string list \<Rightarrow> target list py" where
  "parse_tokens v6 port scheme [] = Inr []"
| "parse_tokens v6 port scheme (t # ts) = (let raw = strip t in
     if raw = [] then parse_tokens v6 port scheme ts
     else case split_scheme scheme raw of (sc, spec) \<Rightarrow>
       bind_py (parse_one v6 spec port sc) (\<lambda>xs. bind_py (parse_tokens v6 port scheme ts) (\<lambda>ys. Inr (xs @ ys))))"

definition parse_range :: "(string \<Rightarrow> string list option) \<Rightarrow> string \<Rightarrow> target list py" where
  "parse_range v6 spec = parse_tokens v6 443 ''https'' (split_char (CHR '','') spec)"

section \<open>Facts on texts\<close>

lemma split_char_none: "c \<notin> set a \<Longrightarrow> split_char c a = [a]"
  by (induction a) auto

lemma split_char_sep: "c \<notin> set a \<Longrightarrow> split_char c (a @ c # b) = a # split_char c b"
  by (induction a) auto

lemma partition_char: "c \<notin> set a \<Longrightarrow> partition_str [c] (a @ c # b) = (a, True, b)"
  by (induction a) (auto simp: starts_with_def)

lemma contains_char: "contains [c] s \<longleftrightarrow> c \<in> set s"
  by (induction s) (auto simp: starts_with_def)

lemma before_last_char: "c \<notin> set b \<Longrightarrow> before_last c (a @ c # b) = a"
proof -
  assume "c \<notin> set b"
  then have "dropWhile (\<lambda>x. x \<noteq> c) (rev b @ c # rev a) = c # rev a" by (subst dropWhile_append2) auto
  then show ?thesis by (simp add: before_last_def)
qed

lemma int_str_no: "c \<in> {CHR ''.'', CHR ''/'', CHR '':'', CHR '',''} \<Longrightarrow> c \<notin> set (int_str i)"
  using int_str_chars [of i] by (auto simp: list_all_iff is_digit_def code_def)

lemma nat_text_no: "0 \<le> i \<Longrightarrow> \<not> is_digit c \<Longrightarrow> c \<notin> set (int_str i)"
  using nat_str_digits [of i] by (auto simp: list_all_iff int_str_def)

section \<open>Addresses read back\<close>

lemma nat_str_short: "0 \<le> i \<Longrightarrow> i < 1000 \<Longrightarrow> length (nat_str i) \<le> 3"
  by (subst nat_str.simps, subst nat_str.simps, subst nat_str.simps) simp

lemma octet_value_str:
  assumes "0 \<le> i" "i < 256"
  shows "octet_value (int_str i) = Inr i"
proof -
  have s: "int_str i = nat_str i" using assms by (simp add: int_str_def)
  have "nat_str i = ''0'' \<or> hd (nat_str i) \<noteq> CHR ''0''"
  proof (cases "i = 0")
    case True
    then show ?thesis by (simp add: nat_str.simps [of 0])
  qed (use nat_str_lead [of i] assms in simp)
  then show ?thesis
    using assms nat_str_ne [of i] nat_str_digits [of i] nat_str_short [of i] int_of_digits_nat_str [of i]
    by (auto simp: octet_value_def s)
qed

definition octets_of :: "int \<Rightarrow> int list" where
  "octets_of i = [i div 2 ^ 24, i div 2 ^ 16 mod 256, i div 2 ^ 8 mod 256, i mod 256]"

lemma octets_value_of: "octets_value (octets_of i) = i"
proof -
  have "i div 2 ^ 24 = i div 256 div 256 div 256" "i div 2 ^ 16 = i div 256 div 256"
    by (simp_all add: zdiv_zmult2_eq [symmetric])
  then have "octets_value (octets_of i) = 256 * (256 * (256 * (i div 256 div 256 div 256) + i div 256 div 256 mod 256)
      + i div 256 mod 256) + i mod 256"
    by (simp add: octets_value_def octets_of_def)
  also have "\<dots> = i" by (simp only: mult_div_mod_eq)
  finally show ?thesis .
qed

lemma octets_range: "0 \<le> i \<Longrightarrow> i < 2 ^ 32 \<Longrightarrow> x \<in> set (octets_of i) \<Longrightarrow> 0 \<le> x \<and> x < 256"
  by (auto simp: octets_of_def)

lemma show_ipv4_split: "0 \<le> i \<Longrightarrow> i < 2 ^ 32 \<Longrightarrow> split_char (CHR ''.'') (show_ipv4 i) = List.map int_str (octets_of i)"
  using int_str_no [of "CHR ''.''"] by (simp add: show_ipv4_def octets_of_def split_char_sep split_char_none)

lemma show_ipv4_chars: "0 \<le> i \<Longrightarrow> c \<in> set (show_ipv4 i) \<Longrightarrow> is_digit c \<or> c = CHR ''.''"
  using nat_text_no [of "i div 2 ^ 24" c] nat_text_no [of "i div 2 ^ 16 mod 256" c] nat_text_no [of "i div 2 ^ 8 mod 256" c]
    nat_text_no [of "i mod 256" c] pos_imp_zdiv_nonneg_iff [of "2 ^ 24" i] by (auto simp: show_ipv4_def)

lemma map_py_octets: "\<forall>x \<in> set os. 0 \<le> x \<and> x < 256 \<Longrightarrow> map_py octet_value (List.map int_str os) = Inr os"
  by (induction os) (simp_all add: octet_value_str)

lemma ip_int_show:
  assumes "0 \<le> i" "i < 2 ^ 32"
  shows "ip_int (show_ipv4 i) = Inr i"
proof -
  have "map_py octet_value (List.map int_str (octets_of i)) = Inr (octets_of i)"
    using octets_range [OF assms] by (intro map_py_octets) blast
  moreover have "show_ipv4 i \<noteq> []" by (simp add: show_ipv4_def)
  ultimately show ?thesis
    by (simp add: ip_int_def show_ipv4_split [OF assms] in_address_def octets_value_of) (simp add: octets_of_def)
qed

lemma parse_ipv4_show: "0 \<le> i \<Longrightarrow> i < 2 ^ 32 \<Longrightarrow> parse_ipv4 (show_ipv4 i) = Inr i"
  using show_ipv4_chars [of i "CHR ''/''"] ip_int_show [of i] by (auto simp: parse_ipv4_def is_digit_def code_def)

section \<open>Specifications of plain addresses\<close>

definition plain_spec :: "string \<Rightarrow> bool" where
  "plain_spec s = (s \<noteq> [] \<and> list_all (\<lambda>c. is_digit c \<or> c \<in> {CHR ''.'', CHR ''-'', CHR ''/''}) s)"

definition https_target :: "int \<Rightarrow> target" where
  "https_target i = \<lparr>tg_ip = show_ipv4 i, tg_port = 443, tg_scheme = ''https''\<rparr>"

lemma strip_plain: "\<forall>c \<in> set s. \<not> is_space c \<Longrightarrow> strip s = s"
proof -
  assume no: "\<forall>c \<in> set s. \<not> is_space c"
  have "dropWhile is_space t = t" if "\<forall>c \<in> set t. \<not> is_space c" for t using that by (cases t) auto
  from this [of s] this [of "rev s"] show ?thesis using no by (simp add: strip_def lstrip_def rstrip_def)
qed

lemma plain_no: "plain_spec s \<Longrightarrow> \<not> is_digit c \<Longrightarrow> c \<notin> {CHR ''.'', CHR ''-'', CHR ''/''} \<Longrightarrow> c \<notin> set s"
  by (auto simp: plain_spec_def list_all_iff)

lemma not_starts: "c \<notin> set s \<Longrightarrow> \<not> starts_with (c # p) s"
  by (auto simp: starts_with_def) (metis in_set_takeD list.set_intros(1))

lemma not_space: "is_digit c \<or> c \<in> {CHR ''.'', CHR ''-'', CHR ''/''} \<Longrightarrow> \<not> is_space c"
  by (auto simp: is_digit_def is_space_def code_def Let_def)

lemma parse_range_plain:
  assumes "plain_spec s"
  shows "parse_range v6 s = parse_one v6 s 443 ''https''"
proof -
  have no: "CHR ''h'' \<notin> set s" "CHR '','' \<notin> set s"
    by (rule plain_no [OF assms]; simp add: is_digit_def code_def)+
  have "strip s = s" using assms not_space by (intro strip_plain) (auto simp: plain_spec_def list_all_iff)
  moreover have "split_scheme ''https'' s = (''https'', s)" using not_starts [OF no(1)] by (simp add: split_scheme_def)
  moreover have "s \<noteq> []" using assms by (simp add: plain_spec_def)
  ultimately show ?thesis
    using split_char_none [OF no(2)] by (cases "parse_one v6 s 443 ''https''") (simp_all add: parse_range_def Let_def)
qed

lemma show_plain: "0 \<le> i \<Longrightarrow> list_all (\<lambda>c. is_digit c \<or> c \<in> {CHR ''.'', CHR ''-'', CHR ''/''}) (show_ipv4 i)"
  using show_ipv4_chars [of i] by (auto simp: list_all_iff)

lemma nat_plain: "0 \<le> i \<Longrightarrow> list_all (\<lambda>c. is_digit c \<or> c \<in> {CHR ''.'', CHR ''-'', CHR ''/''}) (int_str i)"
  using nat_str_digits [of i] by (auto simp: list_all_iff int_str_def)

lemma show_strip: "0 \<le> i \<Longrightarrow> strip (show_ipv4 i) = show_ipv4 i"
  using show_ipv4_chars [of i] not_space by (intro strip_plain) blast

lemma show_no: "0 \<le> i \<Longrightarrow> \<not> is_digit c \<Longrightarrow> c \<noteq> CHR ''.'' \<Longrightarrow> c \<notin> set (show_ipv4 i)"
  using show_ipv4_chars by blast

lemma show_dot: "CHR ''.'' \<in> set (show_ipv4 i)"
  by (simp add: show_ipv4_def)

lemma range_ends_full:
  assumes "0 \<le> a" "a < 2 ^ 32" "0 \<le> b" "b < 2 ^ 32"
  shows "range_ends (show_ipv4 a @ ''-'' @ show_ipv4 b) = Inr (a, b)"
proof -
  have "CHR ''-'' \<notin> set (show_ipv4 a)" using assms by (intro show_no) (auto simp: is_digit_def code_def)
  then show ?thesis using assms show_dot [of b]
    by (simp add: range_ends_def partition_char show_strip parse_ipv4_show contains_char Let_def)
qed

text \<open>The text of an address is the text of its first three octets, and the last.\<close>

definition show_net24 :: "int \<Rightarrow> string" where
  "show_net24 x = int_str (x div 2 ^ 16) @ ''.'' @ int_str (x div 2 ^ 8 mod 256) @ ''.'' @ int_str (x mod 256)"

lemma show_ipv4_net24: "show_ipv4 i = show_net24 (i div 256) @ ''.'' @ int_str (i mod 256)"
proof -
  have "i div 2 ^ 24 = i div 256 div 2 ^ 16" "i div 2 ^ 16 = i div 256 div 2 ^ 8"
    by (simp_all add: zdiv_zmult2_eq [symmetric])
  then show ?thesis by (simp add: show_ipv4_def show_net24_def)
qed

definition with_last_octet :: "int \<Rightarrow> int \<Rightarrow> int" where
  "with_last_octet a y = a - a mod 256 + y"

lemma with_last_octet:
  assumes "0 \<le> a" "a < 2 ^ 32" "0 \<le> y" "y < 256"
  shows "with_last_octet a y div 256 = a div 256" "with_last_octet a y mod 256 = y"
    "0 \<le> with_last_octet a y" "with_last_octet a y < 2 ^ 32" "with_last_octet a y < a \<longleftrightarrow> y < a mod 256"
proof -
  have eq: "with_last_octet a y = y + 256 * (a div 256)" by (simp add: with_last_octet_def minus_mod_eq_mult_div)
  show d: "with_last_octet a y div 256 = a div 256" and m: "with_last_octet a y mod 256 = y" unfolding eq using assms by simp_all
  show "0 \<le> with_last_octet a y" unfolding eq using assms by simp
  have "a div 256 < 2 ^ 24" using assms by simp
  then show "with_last_octet a y < 2 ^ 32" unfolding eq using assms by simp
  show "with_last_octet a y < a \<longleftrightarrow> y < a mod 256" by (simp add: with_last_octet_def)
qed

lemma range_ends_short:
  assumes "0 \<le> a" "a < 2 ^ 32" "0 \<le> y" "y < 256"
  shows "range_ends (show_ipv4 a @ ''-'' @ int_str y) = Inr (a, with_last_octet a y)"
proof -
  have no: "CHR ''-'' \<notin> set (show_ipv4 a)" using assms by (intro show_no) (auto simp: is_digit_def code_def)
  have y: "strip (int_str y) = int_str y" "CHR ''.'' \<notin> set (int_str y)"
    using strip_digits [OF int_str_chars] int_str_no [of "CHR ''.''"] by auto
  have "before_last (CHR ''.'') (show_ipv4 a) @ ''.'' @ int_str y = show_ipv4 (with_last_octet a y)"
    unfolding show_ipv4_net24 with_last_octet [OF assms]
    using before_last_char [of "CHR ''.''" "int_str (a mod 256)" "show_net24 (a div 256)"] int_str_no [of "CHR ''.''" "a mod 256"] by simp
  then have "parse_ipv4 (before_last (CHR ''.'') (show_ipv4 a) @ ''.'' @ int_str y) = Inr (with_last_octet a y)"
    using parse_ipv4_show with_last_octet(3,4) [OF assms] by simp
  then show ?thesis using no y assms
    by (simp add: range_ends_def partition_char show_strip parse_ipv4_show contains_char to_int_def parse_int_str Let_def)
qed

lemma parse_dash:
  assumes "plain_spec s" "CHR ''/'' \<notin> set s" "CHR ''-'' \<in> set s" "range_ends s = Inr (a, b)"
  shows "parse_range v6 s = (if b < a then value_error (''IP range '' @ quoted s @ '' has end before start'')
    else Inr (List.map https_target [a..b]))"
proof -
  have "CHR '':'' \<notin> set s" by (rule plain_no [OF assms(1)]; simp add: is_digit_def code_def)
  then show ?thesis using assms(2-4)
    by (simp add: parse_range_plain [OF assms(1)] parse_one_def contains_char https_target_def Let_def)
qed

lemma div_block: "0 < (k::int) \<Longrightarrow> h div k = q \<longleftrightarrow> k * q \<le> h \<and> h < k * q + k"
proof -
  assume k: "0 < k"
  have h: "h = k * (h div k) + h mod k" by simp
  have "0 \<le> h mod k" "h mod k < k" using k by simp_all
  then show ?thesis
    using h int_div_pos_eq [of h k q "h - k * q"] by (metis add.commute add_le_cancel_left add_less_cancel_left add_diff_cancel_left'
        le_add_same_cancel1 le_add_diff_inverse diff_ge_0_iff_ge)
qed

lemma prefix_text: "p \<le> 32 \<Longrightarrow> prefix_of_text (int_str (int p)) = Some p"
  using nat_str_ne [of "int p"] nat_str_digits [of "int p"] int_of_digits_nat_str [of "int p"]
  by (simp add: prefix_of_text_def int_str_def)

lemma network_text:
  assumes "0 \<le> a" "a < 2 ^ 32" "p \<le> 32"
  shows "ipv4_network (show_ipv4 a @ ''/'' @ int_str (int p)) = Some (network_base a p, p)"
proof -
  have "CHR ''/'' \<notin> set (show_ipv4 a)" "CHR ''/'' \<notin> set (int_str (int p))"
    using show_no [OF assms(1), of "CHR ''/''"] nat_text_no [of "int p" "CHR ''/''"] by (auto simp: is_digit_def code_def)
  then show ?thesis using assms
    by (simp add: ipv4_network_def split_char_sep split_char_none ip_int_show prefix_text)
qed

text \<open>The hosts of a network: the addresses with its prefix, without the first and the last for prefixes
  shorter than 31 bits.\<close>

lemma network_hosts_block:
  fixes a :: int
  assumes "p \<le> 32"
  defines "k \<equiv> 2 ^ (32 - p) :: int"
  shows "set (network_hosts (network_base a p) p) =
    {h. h div k = a div k} - (if p < 31 then {network_base a p, network_base a p + k - 1} else {})"
proof -
  have k: "0 < k" and base: "network_base a p = k * (a div k)" by (simp_all add: k_def network_base_def minus_mod_eq_mult_div)
  have block: "{h. h div k = a div k} = {network_base a p .. network_base a p + k - 1}"
    unfolding base div_block [OF k] by auto
  have "4 \<le> k" if "p < 31" using that power_increasing [of 2 "32 - p" "2::int"] by (simp add: k_def)
  moreover have "p = 32 \<Longrightarrow> k = 1" "p = 31 \<Longrightarrow> k = 2" by (simp_all add: k_def)
  ultimately have "p = 32 \<and> k = 1 \<or> p = 31 \<and> k = 2 \<or> p < 31 \<and> 4 \<le> k" using assms(1) by (cases "p < 31"; cases "p = 31") auto
  then consider "p = 32" "k = 1" | "p = 31" "k = 2" | "p < 31" "4 \<le> k" by blast
  then show ?thesis unfolding block by cases (auto simp: network_hosts_def k_def [symmetric])
qed

section \<open>Properties\<close>

text \<open>Property C36. Range syntaxes: for any two IPv4 addresses the text \<open>lo-hi\<close> stands for exactly the
  addresses from the first to the second, in order, on port 443 over https, and is refused when
  the end comes first; the shorthand \<open>lo-n\<close> stands for the range up to the address of \<open>lo\<close>'s
  network with last octet \<open>n\<close>.\<close>

theorem ranges_enumerate:
  assumes "0 \<le> a" "a < 2 ^ 32" "0 \<le> b" "b < 2 ^ 32" "0 \<le> n" "n < 256"
  shows "parse_range v6 (show_ipv4 a @ ''-'' @ show_ipv4 b) =
      (if b < a then value_error (''IP range '' @ quoted (show_ipv4 a @ ''-'' @ show_ipv4 b) @ '' has end before start'')
       else Inr (List.map https_target [a..b])) \<and>
    parse_range v6 (show_ipv4 a @ ''-'' @ int_str n) =
      (if n < a mod 256 then value_error (''IP range '' @ quoted (show_ipv4 a @ ''-'' @ int_str n) @ '' has end before start'')
       else Inr (List.map https_target [a..a - a mod 256 + n]))"
proof -
  have no: "CHR ''/'' \<notin> set (show_ipv4 a)" "CHR ''/'' \<notin> set (show_ipv4 b)" "CHR ''/'' \<notin> set (int_str n)"
    using assms show_no [of a "CHR ''/''"] show_no [of b "CHR ''/''"] nat_text_no [of n "CHR ''/''"]
    by (auto simp: is_digit_def code_def)
  have "plain_spec (show_ipv4 a @ ''-'' @ show_ipv4 b)" "plain_spec (show_ipv4 a @ ''-'' @ int_str n)"
    using show_plain nat_plain assms by (auto simp: plain_spec_def)
  from this [THEN parse_dash] show ?thesis
    using no range_ends_full [OF assms(1-4)] range_ends_short [OF assms(1,2,5,6)] with_last_octet(5) [OF assms(1,2,5,6)]
    by (simp add: with_last_octet_def)
qed

theorem ranges_enumerate_witness:
  "parse_range (\<lambda>_. None) ''10.0.0.254-10.0.1.1'' =
     Inr [https_target 167772414, https_target 167772415, https_target 167772416, https_target 167772417]"
proof -
  have "show_ipv4 167772414 = ''10.0.0.254''" "show_ipv4 167772417 = ''10.0.1.1''" by code_simp+
  moreover have "[167772414..167772417] = [167772414, 167772415, 167772416, 167772417 :: int]" by code_simp
  ultimately show ?thesis using ranges_enumerate [of 167772414 167772417 0 "\<lambda>_. None"] by simp
qed

text \<open>Further property. CIDR: an IPv4 address with a prefix length stands for exactly the hosts of its network, each
  once and in order: all addresses with the same prefix except the network and the broadcast
  address, which only /31 and /32 keep.\<close>

theorem cidr_hosts:
  assumes "0 \<le> a" "a < 2 ^ 32" "p \<le> 32"
  shows "\<exists>hs. parse_range v6 (show_ipv4 a @ ''/'' @ int_str (int p)) = Inr (List.map https_target hs) \<and> sorted hs \<and> distinct hs \<and>
    set hs = {h. h div 2 ^ (32 - p) = a div 2 ^ (32 - p)} -
      (if p < 31 then {network_base a p, network_base a p + 2 ^ (32 - p) - 1} else {})"
proof -
  let ?s = "show_ipv4 a @ ''/'' @ int_str (int p)" and ?hs = "network_hosts (network_base a p) p"
  have plain: "plain_spec ?s" using show_plain [OF assms(1)] nat_plain [of "int p"] by (simp add: plain_spec_def)
  then have "parse_range v6 ?s = Inr (List.map https_target ?hs)"
    using network_text [OF assms] by (simp add: parse_range_plain parse_one_def contains_char hosts_of_network_def https_target_def Let_def)
  moreover have "sorted ?hs" "distinct ?hs" by (auto simp: network_hosts_def)
  ultimately show ?thesis using network_hosts_block [OF assms(3), of a] by blast
qed

theorem cidr_hosts_witness:
  "\<exists>hs. parse_range (\<lambda>_. None) ''10.0.0.5/30'' = Inr (List.map https_target hs) \<and> set hs = {167772165, 167772166}"
proof -
  have "show_ipv4 167772165 @ ''/'' @ int_str (int 30) = ''10.0.0.5/30''" by code_simp
  moreover have "{h. h div 2 ^ (32 - 30) = (167772165::int) div 2 ^ (32 - 30)} - {network_base 167772165 30, network_base 167772165 30 + 2 ^ (32 - 30) - 1}
      = {167772165, 167772166}"
    using div_block [of 4] by (auto simp: network_base_def)
  ultimately show ?thesis using cidr_hosts [of 167772165 30 "\<lambda>_. None"] by auto
qed

end
