(* ===== verification/Discovery.thy ===== *)
theory Discovery
  imports Provisioning_Jobs Scan_Ranges
begin

text \<open>
  The subnet scan of \<open>core/engine/scanner.py\<close> and \<open>core/services/discovery_service.py\<close>: one probe
  with the client's life around it, what a found host leaves in the database, the capture of its
  TLS fingerprint, and the refresh of one server's disks. The probes of a scan run in the pool of
  \<open>Job_Pool\<close>. A serial that the BMC reports as the number zero or as \<open>False\<close> is read as text
  here; the arrow U+2192 of a log line is written \<open>arrow\<close>.
\<close>

abbreviation arrow :: string where
  "arrow \<equiv> [CHR 0x92]"

section \<open>One probe\<close>

record 'w scan_site =
  sn_site :: "'w site"
  sn_alive :: "client_conf \<Rightarrow> ('w, bool) io"
  sn_discover :: "oem_plugin \<Rightarrow> string \<Rightarrow> credentials \<Rightarrow> ('w, rf_server) io"
  sn_storage :: "oem_plugin \<Rightarrow> string \<Rightarrow> credentials \<Rightarrow> ('w, rf_drive list) io"
  sn_fingerprint :: "string \<Rightarrow> int \<Rightarrow> ('w, string option) io"

text \<open>The counters \<open>scanned\<close> and \<open>found\<close>; \<open>tick\<close> counts one target.\<close>

type_synonym scan_counts = "nat \<times> nat"

definition count_tick :: "bool \<Rightarrow> scan_counts \<Rightarrow> scan_counts" where
  "count_tick found c = (Suc (fst c), if found then Suc (snd c) else snd c)"

definition tick :: "bool \<Rightarrow> (('w \<times> db) \<times> scan_counts, unit) io" where
  "tick found = on_snd (count_tick found)"

definition target_conf :: "credentials \<Rightarrow> target \<Rightarrow> client_conf" where
  "target_conf creds t = \<lparr>cc_host = tg_ip t, cc_port = tg_port t, cc_scheme = tg_scheme t, cc_username = username creds,
     cc_password = password creds, cc_tls = None\<rparr>"

text \<open>\<open>except (RedfishError, OSError, asyncio.TimeoutError)\<close>.\<close>

definition no_service :: "exn \<Rightarrow> bool" where
  "no_service e = (is_redfish e \<or> exn_class e \<in> {Exn_OS, Exn_FileNotFound, Exn_Timeout})"

definition vendor_hint :: "json \<Rightarrow> json py" where
  "vendor_hint svc = bind_py (jget svc ''Vendor'') (\<lambda>v. if truthy v then Inr v
     else bind_py (first_oem_key svc) (\<lambda>k. Inr (jopt k)))"

definition oem_blocks :: "json \<Rightarrow> string list py" where
  "oem_blocks svc = bind_py (sub_obj svc ''Oem'') jkeys"

definition scan_plugin :: "oem_plugin list \<Rightarrow> target \<Rightarrow> json \<Rightarrow> oem_plugin option py" where
  "scan_plugin plugins t svc = bind_py (vendor_hint svc) (\<lambda>m. bind_py (oem_blocks svc) (\<lambda>blocks.
     case by_key plugins ''generic_redfish'' of Some p \<Rightarrow> Inr (Some p)
     | None \<Rightarrow> match_plugin plugins \<lparr>pb_ip = tg_ip t, pb_manufacturer = m, pb_model = JNull,
         pb_redfish_root = Some (base_url t @ ''/redfish/v1/''), pb_oem_blocks = blocks\<rparr>))"

section \<open>What a found host leaves\<close>

definition found_columns :: "rf_server \<Rightarrow> server_fields py" where
  "found_columns info =
     bind_py (bind_text (rs_hostname info)) (\<lambda>hostname. bind_py (bind_text (rs_manufacturer info)) (\<lambda>manufacturer.
     bind_py (bind_text (rs_model info)) (\<lambda>model. bind_py (bind_text (rs_serial info)) (\<lambda>serial.
     bind_py (bind_text (rs_bmc_version info)) (\<lambda>bmc. bind_py (bind_text (rs_bios_version info)) (\<lambda>bios.
     bind_py (bind_text (rs_power_state info)) (\<lambda>power.
     Inr \<lparr>sf_hostname = hostname, sf_manufacturer = manufacturer, sf_oem = rs_oem info, sf_model = model,
       sf_serial = serial, sf_bmc_version = bmc, sf_bios_version = bios, sf_power_state = power,
       sf_status = ''online'', sf_protocol = Some ''redfish'', sf_redfish_root = Some (rs_redfish_root info),
       sf_tls_fpr = None\<rparr>)))))))"

definition swap_msg :: "string \<Rightarrow> string option \<Rightarrow> string option \<Rightarrow> string" where
  "swap_msg ip old new = ip @ '': different hardware detected (serial '' @ strip (the_default [] old) @ '' '' @ arrow @ '' ''
     @ strip (the_default [] new) @ '') '' @ em_dash @ '' OEM selection and cached disks cleared; re-select the OEM in the ''
     @ ''server panel''"

definition discovery_row :: "string \<Rightarrow> string \<Rightarrow> string \<Rightarrow> int option \<Rightarrow> activity_row" where
  "discovery_row level category msg sid = \<lparr>ac_ts = [], ac_level = level, ac_category = category, ac_actor = None,
     ac_server_id = sid, ac_job_id = None, ac_message = msg, ac_detail = None\<rparr>"

definition persist_info :: "string \<Rightarrow> rf_server \<Rightarrow> db \<Rightarrow> db py" where
  "persist_info now info d =
     bind_py (as_str ''strip'' (or_else (rs_serial info) (JStr []))) (\<lambda>_.
     bind_py (found_columns info) (\<lambda>cols. let d1 = snd (server_upsert now (rs_ip info) cols d) in
     Inr (case server_by_ip d (rs_ip info) of
         Some (sid, r) \<Rightarrow> if hw_changed (sf_serial (sr_fields r)) (sf_serial cols)
           then snd (activity_log now (discovery_row ''warning'' ''discovery''
             (swap_msg (rs_ip info) (sf_serial (sr_fields r)) (sf_serial cols)) (Some sid)) d1) else d1
       | None \<Rightarrow> d1)))"

definition rf_drive_json :: "rf_drive \<Rightarrow> json" where
  "rf_drive_json r = JObj
     [(''name'', JStr (rd_name r)), (''protocol'', JStr (rd_protocol r)), (''media_type'', rd_media_type r),
      (''capacity_bytes'', JInt (rd_capacity r)), (''model'', JStr (rd_model r)), (''serial'', JStr (rd_serial r)),
      (''slot'', jopt (rd_slot r)), (''redfish_uri'', rd_uri r)]"

definition drives_text :: "rf_drive list \<Rightarrow> string" where
  "drives_text drives = dumps (JArr (List.map rf_drive_json drives))"

definition persist_found :: "'w site \<Rightarrow> rf_server \<Rightarrow> rf_drive list \<Rightarrow> ('w \<times> db, unit) io" where
  "persist_found st info drives =
     seq (catch_if is_exception (store st (\<lambda>now. persist_info now info)) (\<lambda>_. ret ()))
     (if drives = [] then ret ()
      else store st (\<lambda>now d. Inr (snd (set_disks_by_ip now (rs_ip info) (drives_text drives) d))))"

definition probe_target :: "'w scan_site \<Rightarrow> credentials \<Rightarrow> target \<Rightarrow> (('w \<times> db) \<times> scan_counts, unit) io" where
  "probe_target sn creds t = (let st = sn_site sn; rf = st_client st (target_conf creds t); base = base_url t in
     finally_do
       (bind (on_fst (on_fst (sn_alive sn (target_conf creds t)))) (\<lambda>alive. if \<not> alive then tick False else
        bind (attempt no_service (on_fst (on_fst (get_json rf ''/redfish/v1/'')))) (\<lambda>r. case r of Inl _ \<Rightarrow> tick False
        | Inr svc \<Rightarrow> bind (lift_py (scan_plugin (st_plugins st) t svc)) (\<lambda>p. case p of None \<Rightarrow> tick False
          | Some p \<Rightarrow> bind (attempt is_exception (on_fst (on_fst (sn_discover sn p base creds)))) (\<lambda>r. case r of Inl _ \<Rightarrow> tick False
            | Inr info \<Rightarrow> bind (attempt is_exception (on_fst (on_fst (sn_storage sn p base creds)))) (\<lambda>ds.
                seq (on_fst (persist_found st info (case ds of Inl _ \<Rightarrow> [] | Inr l \<Rightarrow> l))) (tick True)))))))
       (on_fst (on_fst (rf_close rf))))"

section \<open>A scan\<close>

text \<open>What a worker of the scan does to the counters; a probe that raises may end without a tick.\<close>

definition scan_effects :: "scan_counts effects" where
  "scan_effects = \<lparr>ef_mark = (\<lambda>_ c c'. c' = count_tick False c), ef_work = (\<lambda>_ c c'. False),
     ef_end = (\<lambda>_ good c c'. c' = count_tick good c \<or> \<not> good \<and> c' = c), ef_env = (\<lambda>c c'. False)\<rparr>"

definition scan_pool :: "target list \<Rightarrow> scan_counts pool" where
  "scan_pool targets = new_pool 64 (List.map int [0..<length targets]) (0, 0)"

definition scan_start :: "(string \<Rightarrow> string list option) \<Rightarrow> string \<Rightarrow> string \<Rightarrow> db \<Rightarrow> (string + target list) \<times> db" where
  "scan_start v6 now spec d = (case parse_range v6 spec of
       Inl e \<Rightarrow> (Inl (''Invalid range: '' @ exn_str e), d)
     | Inr [] \<Rightarrow> (Inl ''Empty range'', d)
     | Inr ts \<Rightarrow> (Inr ts, snd (activity_log now (discovery_row ''info'' ''discovery''
         (''Discovery started ('' @ spec @ '') '' @ em_dash @ '' '' @ int_str (int (length ts)) @ '' targets'') None) d)))"

definition scan_done :: "string \<Rightarrow> scan_counts \<Rightarrow> db \<Rightarrow> db" where
  "scan_done now c d = snd (activity_log now (discovery_row ''success'' ''discovery''
     (''Discovery finished '' @ em_dash @ '' '' @ int_str (int (snd c)) @ ''/'' @ int_str (int (fst c)) @ '' found'') None) d)"

section \<open>TLS fingerprint\<close>

text \<open>\<open>urlparse\<close> of a service root: the host in lower case and the port; a bracketed IPv6 host is not modelled.\<close>

definition url_host_port :: "string \<Rightarrow> (string \<times> int) py" where
  "url_host_port u = (case partition_str ''://'' u of (_, _, rest) \<Rightarrow>
     case partition_str '':'' (after_last (CHR ''@'') (takeWhile (\<lambda>c. c \<notin> set ''/?#'') rest)) of (host, _, port) \<Rightarrow>
       if port = [] then Inr (lower host, 443)
       else if list_all is_digit port \<and> int_of_digits port \<le> 65535
       then Inr (lower host, if int_of_digits port = 0 then 443 else int_of_digits port)
       else value_error (''Port could not be cast to integer value as '' @ py_repr port))"

definition changed_msg :: "string \<Rightarrow> string" where
  "changed_msg ip = ip @ '' TLS fingerprint CHANGED '' @ em_dash @ '' investigate''"

definition pin_fingerprint :: "string \<Rightarrow> string \<Rightarrow> string \<Rightarrow> db \<Rightarrow> fpr_change option \<times> db" where
  "pin_fingerprint now ip fpr d = (case set_tls_fpr_by_ip now ip fpr d of
       (Some ch, d1) \<Rightarrow> (Some ch, if fc_changed ch
          then snd (activity_log now (discovery_row ''warning'' ''auth'' (changed_msg ip) (Some (fc_id ch))) d1) else d1)
     | (None, d1) \<Rightarrow> (None, d1))"

definition capture_tls :: "'w scan_site \<Rightarrow> rf_server \<Rightarrow> ('w \<times> db, unit) io" where
  "capture_tls sn info = catch_if is_exception
     (bind (lift_py (url_host_port (rs_redfish_root info))) (\<lambda>(host, port).
      bind (on_fst (sn_fingerprint sn host port)) (\<lambda>fpr. case nonempty fpr of None \<Rightarrow> ret ()
      | Some f \<Rightarrow> store (sn_site sn) (\<lambda>now d. Inr (snd (pin_fingerprint now (rs_ip info) f d))))))
     (\<lambda>_. ret ())"

text \<open>\<open>verify_pin\<close> of \<open>core/security/tls.py\<close>; the message of a mismatch ends its halves with an ellipsis.\<close>

definition verify_pin :: "string option \<Rightarrow> string option \<Rightarrow> bool \<times> string" where
  "verify_pin expected actual = (case nonempty expected of
       None \<Rightarrow> (True, ''first-use; capturing fingerprint'')
     | Some e \<Rightarrow> (case nonempty actual of
         None \<Rightarrow> (False, ''could not retrieve peer fingerprint'')
       | Some a \<Rightarrow> if lower e = lower a then (True, ''fingerprint matches'')
           else (False, ''FINGERPRINT MISMATCH '' @ em_dash @ '' expected '' @ take 16 e @ [CHR 0x85] @ '', got '' @ take 16 a @ [CHR 0x85])))"

section \<open>Refreshing the disks of one server\<close>

definition disks_base :: "server_row \<Rightarrow> string" where
  "disks_base r = rstrip_char (CHR ''/'') (replace_str ''/redfish/v1/'' [] (the_default [] (sf_redfish_root (sr_fields r))))"

text \<open>The two answers that need no engine, or the row to work on.\<close>

definition refresh_start :: "db \<Rightarrow> int \<Rightarrow> string + server_row" where
  "refresh_start d sid = (case server_get d sid of
       None \<Rightarrow> Inl ''Server not found''
     | Some r \<Rightarrow> if nonempty (sf_redfish_root (sr_fields r)) = None
         then Inl (''Server has no Redfish endpoint '' @ em_dash @ '' run discovery first'') else Inr r)"

definition refresh_disks :: "'w scan_site \<Rightarrow> int \<Rightarrow> server_row \<Rightarrow> credentials \<Rightarrow> ('w \<times> db, bool \<times> string) io" where
  "refresh_disks sn sid r ui = (let st = sn_site sn in
     catch_if is_exception
       (case pinned_oem r of
          None \<Rightarrow> ret (False, ''No OEM selected '' @ em_dash @ '' pick the vendor in the server panel'')
        | Some key \<Rightarrow> (case pinned_plugin st r of
            None \<Rightarrow> ret (False, ''Selected OEM '' @ quoted key @ '' has no installed plugin'')
          | Some p \<Rightarrow> bind (read_db (\<lambda>d. resolve_creds st d ui (info_from_row (effective_oem r) r))) (\<lambda>creds.
              bind (on_fst (sn_storage sn p (disks_base r) creds)) (\<lambda>drives.
              seq (store st (\<lambda>now d. Inr (snd (set_disks_by_ip now (sr_ip r) (drives_text drives) d))))
              (seq (log_event st ''info'' ''discovery'' (sr_ip r @ '' disk inventory refreshed '' @ em_dash @ '' ''
                     @ int_str (int (length drives)) @ '' drives'') (Some sid) None)
              (ret (True, int_str (int (length drives)) @ '' drives'')))))))
       (\<lambda>e. ret (False, exn_str e)))"

section \<open>Every probe counts its target once\<close>

definition ticks :: "(('w \<times> db) \<times> scan_counts, 'a) io \<Rightarrow> bool" where
  "ticks m = (\<forall>x c. (\<exists>b. snd (snd (m (x, c))) = count_tick b c) \<or> (\<exists>e. fst (m (x, c)) = Inl e \<and> snd (snd (m (x, c))) = c))"

named_theorems ticking \<open>rules that a computation ticks once or raises\<close>

lemma ticks_tick [ticking]: "ticks (tick b)"
  by (auto simp: ticks_def tick_def on_snd_def)

lemma ticks_bind_fst [ticking]: "(\<And>y. ticks (f y)) \<Longrightarrow> ticks (bind (on_fst m) f)"
  by (simp add: ticks_def bind_on_fst split: prod.split sum.split)

lemma ticks_bind_attempt [ticking]: "(\<And>y. ticks (f y)) \<Longrightarrow> ticks (bind (attempt p (on_fst m)) f)"
  by (simp add: ticks_def attempt_def bind_run on_fst_run split: prod.split sum.split)

lemma ticks_bind_lift [ticking]: "(\<And>y. ticks (f y)) \<Longrightarrow> ticks (bind (lift_py r) f)"
  by (simp add: ticks_def bind_lift split: sum.split)

lemma ticks_seq [ticking]: "ticks f \<Longrightarrow> ticks (seq (on_fst m) f)"
  by (simp add: seq_def ticks_bind_fst)

lemma ticks_finally [ticking]:
  assumes "ticks m"
  shows "ticks (finally_do m (on_fst f))"
  unfolding ticks_def
proof (intro allI)
  fix x :: "'a \<times> db" and c
  obtain r x' c' where m: "m (x, c) = (r, (x', c'))" by (metis prod.exhaust)
  obtain q x'' where f: "f x' = (q, x'')" by (metis prod.exhaust)
  have "(\<exists>b. c' = count_tick b c) \<or> (\<exists>e. r = Inl e \<and> c' = c)"
    using assms [unfolded ticks_def, rule_format, of x c] m by simp
  then show "(\<exists>b. snd (snd (finally_do m (on_fst f) (x, c))) = count_tick b c) \<or>
      (\<exists>e. fst (finally_do m (on_fst f) (x, c)) = Inl e \<and> snd (snd (finally_do m (on_fst f) (x, c))) = c)"
    using m f by (auto simp: finally_run on_fst_run split: sum.split)
qed

lemma ticks_if [ticking]: "ticks m \<Longrightarrow> ticks n \<Longrightarrow> ticks (if b then m else n)"
  by simp

lemma ticks_option [ticking]: "ticks m \<Longrightarrow> (\<And>y. ticks (f y)) \<Longrightarrow> ticks (case x of None \<Rightarrow> m | Some y \<Rightarrow> f y)"
  by (cases x) simp_all

lemma ticks_sum [ticking]: "(\<And>y. ticks (f y)) \<Longrightarrow> (\<And>y. ticks (g y)) \<Longrightarrow> ticks (case x of Inl y \<Rightarrow> f y | Inr y \<Rightarrow> g y)"
  by (cases x) simp_all

lemma probe_ticks: "ticks (probe_target sn creds t)"
  unfolding probe_target_def Let_def by (intro ticking)

lemma settled_le: "pool_inv conc ids s \<Longrightarrow> pl_ok s + pl_bad s \<le> length ids"
proof -
  have "length (filter (\<lambda>x. snd x = Finished True) l) + length (filter (\<lambda>x. snd x = Finished False) l) \<le> length l"
    for l :: "(int \<times> phase) list" by (induction l) auto
  then show "pl_ok s + pl_bad s \<le> length ids" if "pool_inv conc ids s"
    using that by (auto simp: pool_inv_def count_phase_def comp_def)
qed

section \<open>The row of a found host\<close>

text \<open>After an upsert the row of the address holds the new columns.\<close>

lemma upsert_then_find:
  "\<exists>sid r. server_by_ip (snd (server_upsert now ip cols d)) ip = Some (sid, r) \<and> sr_fields r = cols"
proof (cases "server_by_ip d ip")
  case None
  obtain sid t where i: "insert_row (new_server_row now ip cols) (db_servers d) = (sid, t)" by fastforce
  then have "t = db_servers d @ [(sid, new_server_row now ip cols)]" by (auto simp: insert_row_def)
  moreover have "List.find (\<lambda>(i, r). sr_ip r = ip) (l @ [(sid, new_server_row now ip cols)]) = Some (sid, new_server_row now ip cols)"
    if "List.find (\<lambda>(i, r). sr_ip r = ip) l = None" for l
    using that by (induction l) (auto simp: new_server_row_def split: if_splits)
  ultimately show ?thesis using None i
    by (auto simp: server_upsert_def server_by_ip_def find_row_def new_server_row_def)
next
  case (Some x)
  obtain k old where x: "x = (k, old)" by fastforce
  define f where "f = refresh_row now cols (hw_changed (sf_serial (sr_fields old)) (sf_serial cols))"
  have f: "sr_ip (f r) = sr_ip r" "sr_fields (f r) = cols" for r by (simp_all add: f_def refresh_row_def)
  have "\<exists>i r. List.find (\<lambda>(i, r). sr_ip r = ip) (update_where (\<lambda>_ r. sr_ip r = ip) f l) = Some (i, f r)"
    if "List.find (\<lambda>(i, r). sr_ip r = ip) l \<noteq> None" for l
    using that by (induction l) (auto simp: update_where_def f split: if_splits)
  from this [of "db_servers d"] obtain i r where
    "List.find (\<lambda>(i, r). sr_ip r = ip) (update_where (\<lambda>_ r. sr_ip r = ip) f (db_servers d)) = Some (i, f r)"
    using Some by (auto simp: server_by_ip_def find_row_def)
  moreover have "snd (server_upsert now ip cols d) = d\<lparr>db_servers := update_where (\<lambda>_ r. sr_ip r = ip) f (db_servers d)\<rparr>"
    using Some x by (simp add: server_upsert_def f_def)
  ultimately show ?thesis using f by (simp add: server_by_ip_def find_row_def)
qed

lemma activity_servers [simp]: "db_servers (snd (activity_log now a d)) = db_servers d"
  by (simp add: activity_log_def insert_row_def)

lemma persist_info_row:
  assumes "persist_info now info d = Inr d1"
  shows "\<exists>sid r cols. found_columns info = Inr cols \<and> server_by_ip d1 (rs_ip info) = Some (sid, r) \<and> sr_fields r = cols"
proof -
  obtain cols where c: "found_columns info = Inr cols"
    "d1 = (case server_by_ip d (rs_ip info) of
         Some (sid, r) \<Rightarrow> if hw_changed (sf_serial (sr_fields r)) (sf_serial cols)
           then snd (activity_log now (discovery_row ''warning'' ''discovery''
             (swap_msg (rs_ip info) (sf_serial (sr_fields r)) (sf_serial cols)) (Some sid)) (snd (server_upsert now (rs_ip info) cols d)))
           else snd (server_upsert now (rs_ip info) cols d)
       | None \<Rightarrow> snd (server_upsert now (rs_ip info) cols d))"
    using assms by (auto simp: persist_info_def bind_py_Inr Let_def)
  have "db_servers d1 = db_servers (snd (server_upsert now (rs_ip info) cols d))"
    unfolding c(2) by (simp split: option.split)
  then show ?thesis using c(1) upsert_then_find [of now "rs_ip info" cols d] by (simp add: server_by_ip_def)
qed

lemma found_columns_tls: "found_columns info = Inr cols \<Longrightarrow> sf_tls_fpr cols = None"
  by (auto simp: found_columns_def bind_py_Inr)

section \<open>Properties\<close>

text \<open>Further property. Every probe of a scan counts its target exactly once, as found or not, whatever the host
  answers; a probe that does not count ends with an exception (an answer that is no Redfish
  service root, or a cancellation).\<close>

theorem probe_counts_once:
  "(\<exists>b. snd (snd (probe_target sn creds t (x, c))) = count_tick b c) \<or>
   (\<exists>e. fst (probe_target sn creds t (x, c)) = Inl e \<and> snd (snd (probe_target sn creds t (x, c))) = c)"
  by (rule probe_ticks [unfolded ticks_def, rule_format])

text \<open>Further property. The numbers of a scan add up in every state any schedule can reach, cancelled or not: no
  more hosts are found than targets scanned, no more scanned than there are targets, at most 64
  probes are in flight, and the scan can be run to its end.\<close>

theorem scan_counts_add_up:
  assumes "pool_reach scan_effects (scan_pool targets) s"
  shows "snd (pl_data s) = pl_ok s \<and> snd (pl_data s) \<le> fst (pl_data s) \<and> fst (pl_data s) \<le> length targets \<and> running s \<le> 64 \<and>
    (\<exists>s'. pool_reach scan_effects s s' \<and> finished s')"
proof -
  have inv: "pool_inv 64 (List.map int [0..<length targets]) s"
    by (rule pool_inv_reach [OF assms]) (simp add: scan_pool_def pool_inv_new distinct_map inj_on_def)
  have counts: "snd (pl_data s) = pl_ok s \<and> pl_ok s \<le> fst (pl_data s) \<and> fst (pl_data s) \<le> pl_ok s + pl_bad s"
    using assms
  proof induction
    case (step s s')
    from step(2,3) show ?case by cases (auto simp: scan_effects_def count_tick_def)
  qed (simp add: scan_pool_def new_pool_def)
  have "pl_ok s + pl_bad s \<le> length targets" using settled_le [OF inv] by simp
  moreover have "\<exists>s'. pool_reach scan_effects s s' \<and> finished s'"
    by (rule can_finish [OF inv]) (auto simp: scan_effects_def)
  ultimately show ?thesis using counts pool_running_le [OF inv] by auto
qed

theorem scan_counts_add_up_witness:
  "pool_reach scan_effects (scan_pool [https_target 1, https_target 2]) (scan_pool [https_target 1, https_target 2]) \<and>
   (\<exists>s'. pool_reach scan_effects (scan_pool [https_target 1, https_target 2]) s' \<and> finished s')"
  using scan_counts_add_up [OF pool_reach.refl] pool_reach.refl by blast

text \<open>Further property. A rescan makes the fingerprint check blind: after the host found at an address was stored,
  the fingerprint captured next never counts as changed and nothing is logged, whatever was
  pinned for that address before; trust on first use starts again with every scan.\<close>

theorem rescan_forgets_fingerprint:
  assumes "persist_info now info d = Inr d1"
  shows "\<exists>ch d2. pin_fingerprint now' (rs_ip info) fpr d1 = (Some ch, d2) \<and> fc_old ch = None \<and> \<not> fc_changed ch \<and>
    db_activity d2 = db_activity d1"
proof -
  obtain sid r cols where r: "found_columns info = Inr cols" "server_by_ip d1 (rs_ip info) = Some (sid, r)" "sr_fields r = cols"
    using persist_info_row [OF assms] by blast
  then show ?thesis using found_columns_tls [OF r(1)]
    by (simp add: pin_fingerprint_def set_tls_fpr_by_ip_def nonempty_def Let_def)
qed

definition found_host :: rf_server where
  "found_host = \<lparr>rs_ip = ''10.0.0.5'', rs_hostname = JStr ''n1'', rs_manufacturer = JNull, rs_oem = None, rs_model = JNull,
     rs_serial = JStr ''S1'', rs_bmc_version = JNull, rs_bios_version = JNull, rs_power_state = JStr ''On'',
     rs_redfish_root = ''https://10.0.0.5:443/redfish/v1/''\<rparr>"

definition pinned_server :: db where
  "pinned_server = snd (server_upsert ''t0'' ''10.0.0.5'' (blank_fields\<lparr>sf_tls_fpr := Some ''aa''\<rparr>) empty_db)"

theorem rescan_forgets_fingerprint_witness:
  "\<exists>d1 ch. persist_info ''t1'' found_host pinned_server = Inr d1 \<and>
     fst (pin_fingerprint ''t2'' ''10.0.0.5'' ''bb'' d1) = Some ch \<and> \<not> fc_changed ch"
proof -
  obtain d1 where d1: "persist_info ''t1'' found_host pinned_server = Inr d1"
    by (auto simp: persist_info_def found_columns_def found_host_def or_else_def Let_def)
  then show ?thesis using rescan_forgets_fingerprint [OF d1, of "''t2''" "''bb''"] by (auto simp: found_host_def)
qed

end
