(* ===== verification/App_Shell.thy ===== *)
theory App_Shell
  imports Ui_Jobs Library_Service Discovery
begin

text \<open>
  The shell around the services: the sanitising log filter of \<open>app/logging_setup.py\<close>, the theme
  (\<open>ui/bridge/theme_controller.py\<close>), the window geometry, fonts and Qt messages of
  \<open>app/application.py\<close>, the focus filter (\<open>app/focus_filter.py\<close>), the page requests of
  \<open>ui/bridge/app_controller.py\<close> and the tables of the reports
  (\<open>core/reports/report_generator.py\<close>). Qt and \<open>python-docx\<close> are not modelled: a report is the list
  of blocks handed to the document.
\<close>

section \<open>Log lines\<close>

abbreviation esc_char :: char where
  "esc_char \<equiv> CHR 0x1B"

definition log_escapes :: "(char \<times> string) list" where
  "log_escapes = [(CHR 0x0A, [CHR 0x5C, CHR ''n'']), (CHR 0x0D, [CHR 0x5C, CHR ''r'']),
     (CHR 0x00, [CHR 0x5C] @ ''x00''), (esc_char, [CHR 0x5C] @ ''x1b'')]"

definition sanitize :: "string \<Rightarrow> string" where
  "sanitize msg = (if list_ex (\<lambda>(c, _). c \<in> set msg) log_escapes
     then fold (\<lambda>(c, rep) m. replace_str [c] rep m) log_escapes msg else msg)"

text \<open>What a handler writes for a record: the formatted message and, when the record carries an exception, its
  traceback on new lines.\<close>

definition log_entry :: "string \<Rightarrow> string \<Rightarrow> string \<Rightarrow> string \<Rightarrow> string option \<Rightarrow> string" where
  "log_entry time level logger msg trace = time @ '' '' @ pad_right 7 level @ '' '' @ logger @ '' : '' @ sanitize msg
     @ (case trace of None \<Rightarrow> [] | Some t \<Rightarrow> if t = [] then [] else newline @ t) @ newline"

definition audit_entry :: "string \<Rightarrow> string \<Rightarrow> string" where
  "audit_entry time msg = time @ '' '' @ sanitize msg @ newline"

section \<open>Theme\<close>

definition theme_dark :: "(string \<times> string) list" where
  "theme_dark = [(''backgroundTop'', ''#0A0C10''), (''backgroundBottom'', ''#0E1117''), (''background'', ''#0C0F14''),
     (''sidebar'', ''#090C11''), (''card'', ''#14181F''), (''elevated'', ''#1B222C''), (''text'', ''#E7EAF0''),
     (''textMuted'', ''#7D8694''), (''accent'', ''#FFB020''), (''accentText'', ''#0A0C10''), (''border'', ''#222A34''),
     (''hover'', ''#1B222C''), (''selected'', ''#24FFB020''), (''success'', ''#3DDC97''), (''online'', ''#3DDC97''),
     (''warning'', ''#FFC34D''), (''error'', ''#FF6B6B''), (''info'', ''#5B8CFF''), (''topHighlight'', ''#16FFFFFF'')]"

definition theme_light :: "(string \<times> string) list" where
  "theme_light = [(''backgroundTop'', ''#F6F4EF''), (''backgroundBottom'', ''#EFEDE6''), (''background'', ''#F3F1EB''),
     (''sidebar'', ''#FBFAF6''), (''card'', ''#FFFFFF''), (''elevated'', ''#F1EEE7''), (''text'', ''#1A1D23''),
     (''textMuted'', ''#6A7280''), (''accent'', ''#B5730A''), (''accentText'', ''#FFFFFF''), (''border'', ''#E5E1D8''),
     (''hover'', ''#EFECE4''), (''selected'', ''#1FB5730A''), (''success'', ''#149E72''), (''online'', ''#149E72''),
     (''warning'', ''#B5730A''), (''error'', ''#CC4A40''), (''info'', ''#2452C2''), (''topHighlight'', ''#00FFFFFF'')]"

text \<open>The properties that QML binds to.\<close>

definition theme_tokens :: "string list" where
  "theme_tokens = [''backgroundTop'', ''backgroundBottom'', ''background'', ''sidebar'', ''card'', ''elevated'', ''text'',
     ''textMuted'', ''accent'', ''accentText'', ''border'', ''hover'', ''selected'', ''success'', ''online'', ''warning'',
     ''error'', ''info'', ''topHighlight'']"

definition theme_modes :: "string list" where
  "theme_modes = [''light'', ''dark'', ''system'']"

definition theme_saved :: "db \<Rightarrow> string" where
  "theme_saved d = (case setting_get d ''theme_mode'' None of
       Some m \<Rightarrow> if m \<in> set theme_modes then m else ''dark'' | None \<Rightarrow> ''dark'')"

text \<open>\<open>system_dark\<close> is the colour scheme of the desktop, \<open>None\<close> when asking for it raises.\<close>

definition resolve_dark :: "bool option \<Rightarrow> string \<Rightarrow> bool" where
  "resolve_dark system_dark mode = (if mode = ''dark'' then True else if mode = ''light'' then False else the_default True system_dark)"

definition theme_color :: "bool option \<Rightarrow> string \<Rightarrow> string \<Rightarrow> string option" where
  "theme_color system_dark mode key = map_of (if resolve_dark system_dark mode then theme_dark else theme_light) key"

definition set_theme_mode :: "string \<Rightarrow> db \<times> string \<Rightarrow> db \<times> string" where
  "set_theme_mode m = (\<lambda>(d, mode). let m = lower m in
     if m \<in> set theme_modes \<and> m \<noteq> mode then (setting_set ''theme_mode'' m d, m) else (d, mode))"

section \<open>Window geometry\<close>

definition restore_size :: "db \<Rightarrow> (int \<times> int) option" where
  "restore_size d = (let w = get_int d ''win_w'' 0; h = get_int d ''win_h'' 0 in if 200 < w \<and> 200 < h then Some (w, h) else None)"

definition restore_position :: "db \<Rightarrow> (int \<times> int) option" where
  "restore_position d = (case restore_size d of None \<Rightarrow> None
     | Some _ \<Rightarrow> (let x = get_int d ''win_x'' (-1); y = get_int d ''win_y'' (-1) in if 0 \<le> x \<and> 0 \<le> y then Some (x, y) else None))"

text \<open>Visibility 4 is a maximised window.\<close>

definition save_geometry :: "int \<Rightarrow> int \<times> int \<Rightarrow> int \<times> int \<Rightarrow> db \<Rightarrow> db" where
  "save_geometry visibility = (\<lambda>(w, h) (x, y) d. if visibility = 4 then d
     else setting_set ''win_y'' (int_str y) (setting_set ''win_x'' (int_str x)
       (setting_set ''win_h'' (int_str h) (setting_set ''win_w'' (int_str w) d))))"

section \<open>Fonts, Qt messages, focus, pages\<close>

definition load_fonts :: "bool \<Rightarrow> string list \<Rightarrow> string \<times> string" where
  "load_fonts windows loaded =
     ((if list_ex (contains ''Inter'') loaded then ''Inter'' else if windows then ''Segoe UI'' else ''sans-serif''),
      (case List.find (\<lambda>n. contains ''Plex Mono'' n \<or> contains ''JetBrains Mono'' n) loaded of
         Some n \<Rightarrow> n | None \<Rightarrow> if windows then ''Consolas'' else ''monospace''))"

datatype qt_msg = Qt_Debug | Qt_Info | Qt_Warning | Qt_Critical | Qt_Fatal | Qt_Other

fun qt_level :: "qt_msg \<Rightarrow> string" where
  "qt_level Qt_Debug = ''DEBUG''"
| "qt_level Qt_Warning = ''WARNING''"
| "qt_level Qt_Critical = ''ERROR''"
| "qt_level Qt_Fatal = ''ERROR''"
| "qt_level _ = ''INFO''"

definition qt_text :: "(string \<times> int) option \<Rightarrow> string \<Rightarrow> string" where
  "qt_text ctx msg = (case ctx of Some (file, line) \<Rightarrow> if file \<noteq> [] then file @ '':'' @ int_str line @ '': '' @ msg else msg | None \<Rightarrow> msg)"

definition is_text_input :: "string option \<Rightarrow> bool" where
  "is_text_input name = (case name of None \<Rightarrow> False
     | Some n \<Rightarrow> list_ex (\<lambda>hint. contains hint n) [''TextField'', ''TextInput'', ''TextEdit'', ''TextArea''])"

text \<open>Whether a press takes the focus away: the class of the focused item (\<open>None\<close> when there is none or asking raises) and
  whether the press is inside it (\<open>None\<close> when asking raises). The event is never consumed.\<close>

definition clears_focus :: "bool \<Rightarrow> string option \<Rightarrow> bool option \<Rightarrow> bool" where
  "clears_focus press focused inside = (press \<and> is_text_input focused \<and> inside = Some False)"

datatype app_request = Open_Discovery | Open_Add_Firmware | Open_Add_Iso | Open_Add_Credential

fun requested_page :: "app_request \<Rightarrow> nat" where
  "requested_page Open_Discovery = 1"
| "requested_page Open_Add_Firmware = 4"
| "requested_page Open_Add_Iso = 5"
| "requested_page Open_Add_Credential = 7"

section \<open>Reports\<close>

datatype block = Heading string | Runs "string list" | Table "string list list"

definition cell_text :: "string option \<Rightarrow> string" where
  "cell_text x = the_default [] x"

definition capitalize :: "string \<Rightarrow> string" where
  "capitalize s = (case s of [] \<Rightarrow> [] | c # cs \<Rightarrow> upper_char c @ lower cs)"

definition inventory_cells :: "server_row \<Rightarrow> string list" where
  "inventory_cells r = (let f = sr_fields r in [sr_ip r, cell_text (sf_hostname f), capitalize (cell_text (sf_oem f)),
     cell_text (sf_model f), cell_text (sf_bmc_version f), cell_text (sf_bios_version f), upper (sf_status f)])"

definition line_of :: "string list \<Rightarrow> string" where
  "line_of parts = concat parts @ newline"

definition signature_line :: "string list \<Rightarrow> string" where
  "signature_line roles = join_str ''      '' (List.map (\<lambda>r. r @ '': ____________________'') roles)"

definition inventory_snapshot :: "string \<Rightarrow> db \<Rightarrow> block list" where
  "inventory_snapshot now d = (let servers = List.map snd (server_list d) in
     [Heading (''ClusterOne '' @ em_dash @ '' Inventory Snapshot''),
      Runs [line_of [''Generated: '', now], ''Total servers: '' @ int_str (int (length servers))],
      Table ([''IP'', ''Hostname'', ''OEM'', ''Model'', ''BMC'', ''BIOS'', ''Status''] # List.map inventory_cells servers),
      Runs [], Runs [signature_line [''Validated by'', ''Date'']]])"

definition result_cell :: "string \<Rightarrow> string" where
  "result_cell st = (let s = lower st in if s = ''completed'' then ''PASS'' else if s = ''failed'' then ''FAIL'' else upper s)"

definition job_cells :: "int \<times> task_row \<times> server_row option \<times> firmware_row option \<Rightarrow> string list" where
  "job_cells = (\<lambda>(_, t, s, fw).
     [first_text [server_text sf_hostname s, server_ip_of s] ''?'',
      capitalize (first_text [server_text sf_oem s] []),
      strip (first_text [map_option fr_type fw] [] @ '' '' @ first_text [map_option fr_version fw] []),
      first_text [tk_version_before t] ''?'' @ '' '' @ arrow @ '' '' @ first_text [tk_version_after t] ''?'',
      result_cell (tk_state t), cell_text (tk_message t)])"

definition update_job_report :: "string \<Rightarrow> db \<Rightarrow> int \<Rightarrow> block list py" where
  "update_job_report now d jid = (case get_job d jid of
       None \<Rightarrow> value_error (''Job '' @ int_str jid @ '' not found'')
     | Some j \<Rightarrow> Inr
        [Heading (''ClusterOne '' @ em_dash @ '' Update Job #'' @ int_str jid),
         Runs [line_of [''Generated: '', now], line_of [''Firmware type: '', jb_fw_type j],
           line_of [''State: '', upper (if jb_state j = [] then [CHR 0x3F] else jb_state j)], line_of [''Created: '', jb_created_at j],
           line_of [''Total: '', int_str (jb_total j), ''    Succeeded: '', int_str (jb_succeeded j), ''    Failed: '', int_str (jb_failed j)]],
         Table ([''Server'', ''OEM'', ''Firmware'', ''Before '' @ arrow @ '' After'', ''Result'', ''Notes'']
           # List.map job_cells (list_tasks_with_server d jid)),
         Runs [], Runs [signature_line [''Engineer'', ''Reviewer'', ''Date'']]])"

section \<open>Facts\<close>

lemma replace_char: "replace_str [c] rep s = concat (List.map (\<lambda>x. if x = c then rep else [x]) s)"
  by (induction s) (simp_all add: replace_str.simps [of "[c]"] starts_with_def)

lemma set_replace_char: "set (replace_str [c] rep s) \<subseteq> (set s - {c}) \<union> set rep"
  by (auto simp: replace_char split: if_splits)

text \<open>Replacing one character after the other leaves none of them, when no replacement contains any.\<close>

lemma fold_replace_removes:
  assumes "\<And>c rep. (c, rep) \<in> set es \<Longrightarrow> set rep \<inter> fst ` set all = {}" "set es \<subseteq> set all"
  shows "set (fold (\<lambda>(c, rep) m. replace_str [c] rep m) es msg) \<inter> fst ` set all \<subseteq> (set msg \<inter> fst ` set all) - fst ` set es"
  using assms
proof (induction es arbitrary: msg)
  case (Cons e es)
  obtain c rep where e: "e = (c, rep)" by (cases e)
  have "set (fold (\<lambda>(c, rep) m. replace_str [c] rep m) es (replace_str [c] rep msg)) \<inter> fst ` set all
      \<subseteq> (set (replace_str [c] rep msg) \<inter> fst ` set all) - fst ` set es"
    by (rule Cons.IH) (use Cons.prems in auto)
  moreover have "set rep \<inter> fst ` set all = {}" using Cons.prems(1) e by auto
  ultimately show ?case using set_replace_char [of c rep msg] by (auto simp: e)
qed simp

lemma sanitize_removes: "set (sanitize msg) \<inter> fst ` set log_escapes = {}"
proof -
  have reps: "set rep \<inter> fst ` set log_escapes = {}" if "(c, rep) \<in> set log_escapes" for c rep
    using that by (auto simp: log_escapes_def)
  show ?thesis
  proof (cases "list_ex (\<lambda>(c, _). c \<in> set msg) log_escapes")
    case True
    then show ?thesis using fold_replace_removes [of log_escapes log_escapes msg] reps by (auto simp: sanitize_def)
  next
    case False
    then show ?thesis by (auto simp: sanitize_def list_ex_iff)
  qed
qed

lemma count_newline_none: "CHR 0x0A \<notin> set s \<Longrightarrow> filter (\<lambda>c. c = CHR 0x0A) s = []"
  by (induction s) auto

lemma in_set_tl: "x \<in> set (tl l) \<Longrightarrow> x \<in> set l"
  by (cases l) auto

lemma split_newline_last: "CHR 0x0A \<notin> set t \<Longrightarrow> t \<in> set (tl (split_char (CHR 0x0A) (s @ newline @ t @ newline)))"
proof (induction s)
  case Nil
  have "split_char (CHR 0x0A) (t @ newline) = [t, []]" if "CHR 0x0A \<notin> set t" for t using that by (induction t) auto
  then show ?case using Nil by simp
next
  case (Cons c s)
  obtain w ws where w: "split_char (CHR 0x0A) (s @ newline @ t @ newline) = w # ws"
    using Cons by (cases "split_char (CHR 0x0A) (s @ newline @ t @ newline)") auto
  then show ?case using Cons by (auto simp: w)
qed

section \<open>Properties\<close>



text \<open>Further property. The filter does not see tracebacks: when an entry is logged with an exception whose text holds a line feed,
  the last line of that text stands in the log as a line of its own, whatever it says, so a BMC
  whose error text reaches an exception can forge an entry after all.\<close>

theorem traceback_forges_line:
  assumes "CHR 0x0A \<notin> set forged"
  shows "forged \<in> set (split_char (CHR 0x0A) (log_entry time level logger msg (Some (trace @ newline @ forged))))"
proof -
  let ?head = "time @ '' '' @ pad_right 7 level @ '' '' @ logger @ '' : '' @ sanitize msg @ newline @ trace"
  have "log_entry time level logger msg (Some (trace @ newline @ forged)) = ?head @ newline @ forged @ newline"
    by (simp add: log_entry_def)
  then show ?thesis using in_set_tl [OF split_newline_last [OF assms]] by metis
qed

theorem traceback_forges_line_witness:
  "''12:00 INFO auth : root in'' \<in> set (split_char (CHR 0x0A) (log_entry ''12:00'' ''ERROR'' ''power'' ''crashed''
     (Some (''RuntimeError: HTTP 500'' @ newline @ ''12:00 INFO auth : root in''))))"
  by (rule traceback_forges_line) simp

text \<open>Further property. The choice of theme survives a restart: after any request to change it, a fresh start with the saved settings
  shows the mode that was shown, and in every mode, on every desktop, every colour has a value.\<close>

theorem theme_survives_restart:
  "theme_saved (fst (set_theme_mode m (d, theme_saved d))) = snd (set_theme_mode m (d, theme_saved d)) \<and>
   list_all (\<lambda>key. theme_color system_dark mode key \<noteq> None) theme_tokens"
proof -
  have "list_all (\<lambda>key. map_of theme_dark key \<noteq> None) theme_tokens" "list_all (\<lambda>key. map_of theme_light key \<noteq> None) theme_tokens"
    by code_simp+
  then have "list_all (\<lambda>key. theme_color system_dark mode key \<noteq> None) theme_tokens"
    by (cases "resolve_dark system_dark mode") (simp_all add: theme_color_def list_all_iff)
  then show ?thesis by (simp add: set_theme_mode_def theme_saved_def [of "setting_set _ _ _"] setting_get_set Let_def)
qed

text \<open>Further property. A window is restored where it was closed: for a window larger than 200 by 200 whose corner has no negative
  coordinate; a maximised one keeps the geometry saved before.\<close>

theorem geometry_restored:
  assumes "200 < w" "200 < h" "0 \<le> x" "0 \<le> y" "v \<noteq> 4"
  shows "restore_size (save_geometry v (w, h) (x, y) d) = Some (w, h) \<and>
    restore_position (save_geometry v (w, h) (x, y) d) = Some (x, y) \<and> save_geometry 4 (w, h) (x, y) d = d"
proof -
  have "restore_size (save_geometry v (w, h) (x, y) d) = Some (w, h)"
    using assms by (simp add: restore_size_def save_geometry_def get_int_def setting_get_set int_str_ne parse_int_str)
  then show ?thesis using assms
    by (simp add: restore_position_def save_geometry_def get_int_def setting_get_set int_str_ne parse_int_str)
qed

theorem geometry_restored_witness:
  "restore_size (save_geometry 2 (1280, 800) (0, 40) empty_db) = Some (1280, 800) \<and>
   restore_position (save_geometry 2 (1280, 800) (0, 40) empty_db) = Some (0, 40)"
  using geometry_restored [of 1280 800 0 40 2 empty_db] by simp

text \<open>Further property. The report of a finished job counts what the job counted: as many rows say PASS as tasks are completed, and
  as many say FAIL as failed.\<close>

theorem report_verdicts:
  assumes "list_all (\<lambda>(_, t, _). tk_state t \<in> set ([''completed'', ''failed'', ''cancelled''] @ live_task_states)) (list_tasks_with_server d jid)"
  shows "length (filter (\<lambda>cells. cells ! 4 = ''PASS'') (List.map job_cells (list_tasks_with_server d jid))) =
      count_state ''completed'' (List.map (tk_state \<circ> snd) (list_tasks d jid)) \<and>
    length (filter (\<lambda>cells. cells ! 4 = ''FAIL'') (List.map job_cells (list_tasks_with_server d jid))) =
      count_state ''failed'' (List.map (tk_state \<circ> snd) (list_tasks d jid))"
proof -
  have ok: "list_all (\<lambda>s. (result_cell s = ''PASS'') = (s = ''completed'') \<and> (result_cell s = ''FAIL'') = (s = ''failed''))
      ([''completed'', ''failed'', ''cancelled''] @ live_task_states)" by code_simp
  have cell: "(result_cell (tk_state t) = ''PASS'') = (tk_state t = ''completed'')" "(result_cell (tk_state t) = ''FAIL'') = (tk_state t = ''failed'')"
    if "(i, t, x) \<in> set (list_tasks_with_server d jid)" for i t x
  proof -
    have "tk_state t \<in> set ([''completed'', ''failed'', ''cancelled''] @ live_task_states)"
      using bspec [OF assms [unfolded list_all_iff] that] by (simp only: prod.case)
    from bspec [OF ok [unfolded list_all_iff] this] show "(result_cell (tk_state t) = ''PASS'') = (tk_state t = ''completed'')"
      "(result_cell (tk_state t) = ''FAIL'') = (tk_state t = ''failed'')" by blast+
  qed
  have cellz: "(result_cell (tk_state (fst (snd z))) = ''PASS'') = (tk_state (fst (snd z)) = ''completed'')"
    "(result_cell (tk_state (fst (snd z))) = ''FAIL'') = (tk_state (fst (snd z)) = ''failed'')" if "z \<in> set (list_tasks_with_server d jid)" for z
    using cell [of "fst z" "fst (snd z)" "snd (snd z)"] that by (metis prod.collapse)+
  have row: "job_cells z ! 4 = result_cell (tk_state (fst (snd z)))" for z by (cases z) (simp add: job_cells_def)
  have "filter (\<lambda>cells. cells ! 4 = v) (List.map job_cells l) = List.map job_cells (filter (\<lambda>z. result_cell (tk_state (fst (snd z))) = v) l)" for v l
    by (induction l) (auto simp: row)
  moreover have "length (filter (\<lambda>z. tk_state (fst (snd z)) = s) (list_tasks_with_server d jid)) = count_state s (List.map (tk_state \<circ> snd) (list_tasks d jid))" for s
    by (simp add: list_tasks_with_server_def count_state_def filter_map comp_def case_prod_beta')
  moreover have "filter (\<lambda>z. result_cell (tk_state (fst (snd z))) = ''PASS'') (list_tasks_with_server d jid) = filter (\<lambda>z. tk_state (fst (snd z)) = ''completed'') (list_tasks_with_server d jid)"
    "filter (\<lambda>z. result_cell (tk_state (fst (snd z))) = ''FAIL'') (list_tasks_with_server d jid) = filter (\<lambda>z. tk_state (fst (snd z)) = ''failed'') (list_tasks_with_server d jid)"
    by (rule filter_cong [OF HOL.refl], rule cellz, assumption)+
  ultimately show ?thesis by simp
qed

end
