(* ===== verification/Power_Service.thy ===== *)
theory Power_Service
  imports Update_Jobs
begin

text \<open>
  \<open>core/services/power_service.py\<close>: a power action on a set of servers, the short poll of the power
  state that follows it, and the row that is written back. The servers of a request run at most
  \<open>concurrency\<close> at a time; each is modelled on its own, and the summary over their replies.
\<close>

section \<open>Actions\<close>

definition action_labels :: "(string \<times> string) list" where
  "action_labels = [(''on'', ''Power On''), (''off'', ''Shut Down''), (''force_off'', ''Force Off''), (''restart'', ''Restart''),
     (''graceful_restart'', ''Graceful Restart''), (''cycle'', ''Power Cycle'')]"

definition off_actions :: "string list" where
  "off_actions = [''off'', ''force_off'']"

definition label_of :: "string \<Rightarrow> string" where
  "label_of action = the_default [] (map_of action_labels action)"

text \<open>\<open>apply\<close>: what is scheduled, if anything: the servers and the number of them in flight.\<close>

definition power_apply :: "int list \<Rightarrow> string \<Rightarrow> int \<Rightarrow> (int list \<times> int) option" where
  "power_apply ids action concurrency = (if ids = [] then None
     else if map_of action_labels action = None then None
     else Some (ids, limit_to 1 32 concurrency))"

section \<open>Reading the state back\<close>

definition wanted_state :: "string \<Rightarrow> string option" where
  "wanted_state action = (if action \<in> set off_actions then Some ''Off'' else if action = ''on'' then Some ''On'' else None)"

definition settled_state :: "string option \<Rightarrow> json \<Rightarrow> bool" where
  "settled_state want s = (truthy s \<and> (case want of None \<Rightarrow> True | Some x \<Rightarrow> s = JStr x))"

text \<open>At most \<open>n\<close> readings, two seconds apart.\<close>

fun poll_state :: "('w, json) io \<Rightarrow> ('w, unit) io \<Rightarrow> string option \<Rightarrow> nat \<Rightarrow> ('w, json) io" where
  "poll_state get pause want 0 = ret JNull"
| "poll_state get pause want (Suc n) = bind get (\<lambda>s. if settled_state want s \<or> n = 0 then ret s
     else seq pause (poll_state get pause want n))"

definition verify_state :: "'w driver \<Rightarrow> (rat \<Rightarrow> ('w, unit) io) \<Rightarrow> server_info \<Rightarrow> credentials \<Rightarrow> string \<Rightarrow> ('w, json) io" where
  "verify_state dr sleep info creds action = poll_state (dr_power_state dr info creds) (sleep 2) (wanted_state action) 4"

section \<open>One server\<close>

text \<open>A reply is the verdict, its message and the power state (\<open>JNull\<close> for \<open>None\<close>).\<close>

type_synonym power_reply = "bool \<times> string \<times> json"

definition power_info :: "server_row \<Rightarrow> server_info" where
  "power_info r = info_from_row (effective_oem r) r"

text \<open>\<open>upsert({**row, "power_state": state})\<close>: the row as it was read before the action.\<close>

definition persist_state :: "'w site \<Rightarrow> server_row \<Rightarrow> json \<Rightarrow> ('w \<times> db, unit) io" where
  "persist_state st r state = catch_if is_exception
     (store st (\<lambda>now d. bind_py (bind_text state) (\<lambda>s.
        Inr (snd (server_upsert now (sr_ip r) ((sr_fields r)\<lparr>sf_power_state := s\<rparr>) d)))))
     (\<lambda>_. ret ())"

definition power_log :: "'w site \<Rightarrow> string \<Rightarrow> string \<Rightarrow> int \<Rightarrow> ('w \<times> db, unit) io" where
  "power_log st level msg sid = log_event st level ''power'' msg (Some sid) None"

definition apply_plugin :: "'w site \<Rightarrow> (rat \<Rightarrow> ('w, unit) io) \<Rightarrow> int \<Rightarrow> string \<Rightarrow> credentials \<Rightarrow> server_row \<Rightarrow> oem_plugin \<Rightarrow>
    ('w \<times> db, power_reply) io" where
  "apply_plugin st sleep sid action ui r p = (let info = power_info r; dr = st_driver st p in
     bind (read_db (\<lambda>d. resolve_creds st d ui info)) (\<lambda>creds.
     bind (on_fst (dr_power_action dr info action creds)) (\<lambda>res.
     if \<not> res_okay res then
       seq (power_log st ''error'' (label_of action @ '' failed on '' @ si_ip info @ '': '' @ res_message res) sid)
           (ret (False, res_message res, JNull))
     else bind (on_fst (verify_state dr sleep info creds action)) (\<lambda>state.
       seq (if truthy state then persist_state st r state else ret ())
       (seq (power_log st ''info'' (label_of action @ '' on '' @ si_ip info @ '' '' @ em_dash @ '' '' @ res_message res
              @ (if truthy state then '' (PowerState='' @ json_str state @ '')'' else [])) sid)
       (ret (True, res_message res, state)))))))"

definition no_oem_selected :: string where
  "no_oem_selected = ''no OEM selected '' @ em_dash @ '' open the server panel and choose the vendor first''"

definition apply_one :: "'w site \<Rightarrow> (rat \<Rightarrow> ('w, unit) io) \<Rightarrow> int \<Rightarrow> string \<Rightarrow> credentials \<Rightarrow> ('w \<times> db, power_reply) io" where
  "apply_one st sleep sid action ui = bind (read_db (\<lambda>d. server_get d sid)) (\<lambda>row.
     case row of None \<Rightarrow> ret (False, ''server not found'', JNull)
     | Some r \<Rightarrow>
       if nonempty (sf_redfish_root (sr_fields r)) = None then ret (False, ''no Redfish endpoint (run discovery first)'', JNull)
       else (case pinned_oem r of None \<Rightarrow> ret (False, no_oem_selected, JNull)
       | Some key \<Rightarrow> (case pinned_plugin st r of
           None \<Rightarrow> ret (False, ''selected OEM '' @ quoted key @ '' has no installed plugin'', JNull)
         | Some p \<Rightarrow> apply_plugin st sleep sid action ui r p)))"

text \<open>\<open>one\<close>: an exception other than a cancellation becomes a reply.\<close>

definition power_one :: "'w site \<Rightarrow> (rat \<Rightarrow> ('w, unit) io) \<Rightarrow> int \<Rightarrow> string \<Rightarrow> credentials \<Rightarrow> ('w \<times> db, power_reply) io" where
  "power_one st sleep sid action ui = catch_if is_exception (apply_one st sleep sid action ui)
     (\<lambda>e. ret (False, exn_name (exn_class e) @ '': '' @ exn_str e, JNull))"

section \<open>The summary\<close>

record power_summary =
  pw_action :: string
  pw_ok :: nat
  pw_failed :: nat
  pw_total :: nat

text \<open>A cancelled server gives no reply and is in neither count.\<close>

definition summarize_power :: "string \<Rightarrow> power_reply py list \<Rightarrow> power_summary" where
  "summarize_power action replies = \<lparr>pw_action = action,
     pw_ok = length (filter (\<lambda>r. case r of Inr (ok, _) \<Rightarrow> ok | Inl _ \<Rightarrow> False) replies),
     pw_failed = length (filter (\<lambda>r. case r of Inr (ok, _) \<Rightarrow> \<not> ok | Inl _ \<Rightarrow> False) replies),
     pw_total = length replies\<rparr>"

section \<open>Facts\<close>

text \<open>The world after the poll, when no reading fails: at most \<open>n\<close> readings, and the answer is the first
  settled one or the last.\<close>

lemma poll_state_settles:
  "poll_state get pause want (Suc n) w = (Inr s, w') \<Longrightarrow> settled_state want s \<or>
     (\<exists>w1. get w1 = (Inr s, w'))"
proof (induction n arbitrary: w)
  case (Suc n)
  then show ?case by (auto simp: bind_run seq_run ret_run split: if_splits prod.splits sum.splits)
qed (auto simp: bind_run ret_run split: prod.splits sum.splits if_splits)

lemma bind_text_error: "bind_text j = Inl e \<Longrightarrow> is_exception e"
  by (cases j) (auto simp: is_exception_def split: if_splits)

lemma persist_run: "\<exists>d'. persist_state st r state (w, d) = (Inr (), (w, d'))"
  by (cases "bind_text state") (auto simp: persist_state_def catch_run store_run ret_run bind_text_error)

text \<open>A logged event changes the database only.\<close>

lemma log_run: "\<exists>d'. log_event st lv cat msg sid jid (w, d) = (Inr (), (w, d'))"
  by (simp add: log_event_def store_run)

text \<open>What a request for one server does to the world: the plugin's action, then, if it succeeded, the readings.\<close>

definition power_world :: "'w site \<Rightarrow> (rat \<Rightarrow> ('w, unit) io) \<Rightarrow> string \<Rightarrow> credentials \<Rightarrow> server_row \<Rightarrow> oem_plugin \<Rightarrow> db \<Rightarrow> 'w \<Rightarrow> 'w" where
  "power_world st sleep action ui r p d w = (let info = power_info r; dr = st_driver st p; creds = resolve_creds st d ui info in
     case dr_power_action dr info action creds w of (res, w1) \<Rightarrow>
       if step_ok res then snd (verify_state dr sleep info creds action w1) else w1)"

lemma apply_plugin_world: "fst (snd (apply_plugin st sleep sid action ui r p (w, d))) = power_world st sleep action ui r p d w"
proof -
  let ?info = "power_info r" and ?dr = "st_driver st p"
  let ?creds = "resolve_creds st d ui ?info"
  obtain res w1 where a: "dr_power_action ?dr ?info action ?creds w = (res, w1)" by fastforce
  obtain s w2 where v: "verify_state ?dr sleep ?info ?creds action w1 = (s, w2)" by fastforce
  have logged: "fst (snd (seq (power_log st lv m sid) (ret y) (w', d'))) = w'" for lv m y w' d'
    using log_run [of st lv "''power''" m "Some sid" None w' d'] by (auto simp: seq_run power_log_def ret_run)
  have rest: "fst (snd (seq (if truthy state then persist_state st r state else ret ()) (seq (power_log st lv m sid) (ret y)) (w', d'))) = w'"
    for lv m y w' d' state
    using persist_run [of st r state w' d'] logged by (auto simp: seq_run [of "persist_state _ _ _"] seq_run [of "ret ()"] ret_run)
  show ?thesis
    using a v by (cases res; cases s) (simp_all add: apply_plugin_def power_world_def Let_def bind_read_db bind_on_fst step_ok_def
        logged rest)
qed

lemma catch_ret_world: "fst (snd (catch_if q m (\<lambda>e. ret (f e)) x)) = fst (snd (m x))"
  by (auto simp: catch_run ret_run split: prod.split sum.split)

section \<open>Properties\<close>

text \<open>Property C30. A power action reaches only a machine the operator prepared: either the outside world is
  untouched, or the server exists and has a Redfish root, the operator pinned an OEM with an
  installed plugin, and then the world changes by exactly one power action of that plugin, the
  one that was asked for, followed, only if it succeeded, by the short poll of the power state.\<close>

theorem power_only_when_pinned:
  "fst (snd (power_one st sleep sid action ui (w, d))) = w \<or>
   (\<exists>r p. server_get d sid = Some r \<and> nonempty (sf_redfish_root (sr_fields r)) \<noteq> None \<and>
      pinned_oem r = Some (op_key p) \<and> p \<in> set (st_plugins st) \<and>
      fst (snd (power_one st sleep sid action ui (w, d))) = power_world st sleep action ui r p d w)"
proof (cases "\<exists>r p. server_get d sid = Some r \<and> nonempty (sf_redfish_root (sr_fields r)) \<noteq> None \<and> pinned_plugin st r = Some p")
  case True
  then obtain r p where rp: "server_get d sid = Some r" "nonempty (sf_redfish_root (sr_fields r)) \<noteq> None"
    "pinned_plugin st r = Some p" by blast
  then have "pinned_oem r = Some (op_key p)" "p \<in> set (st_plugins st)" using pinned_plugin_Some by blast+
  moreover have "fst (snd (power_one st sleep sid action ui (w, d))) = power_world st sleep action ui r p d w"
    using rp calculation by (auto simp: power_one_def catch_ret_world apply_one_def bind_read_db apply_plugin_world)
  ultimately show ?thesis using rp by blast
next
  case False
  then have "fst (snd (apply_one st sleep sid action ui (w, d))) = w"
    by (auto simp: apply_one_def bind_read_db ret_run split: option.splits)
  then show ?thesis by (simp add: power_one_def catch_ret_world)
qed

end
