(* ===== verification/Ui_Live.thy ===== *)
theory Ui_Live
  imports Ui_Models Power_Service Discovery
begin

text \<open>
  \<open>PowerController\<close> and \<open>DiscoveryController\<close> of \<open>ui/bridge/controllers.py\<close>: pages whose work runs on
  the engine and comes back as queued signals. Each is a record with its slots and, next to it,
  the requests the engine still has to answer; the step relations interleave clicks and answers.
  \<open>_safe_emit\<close> drops an answer once the controller is marked destroyed. A toast is a message with
  its kind.
\<close>

type_synonym toast = "string \<times> string"

definition safe_emit :: "bool \<Rightarrow> ('s \<Rightarrow> 's) \<Rightarrow> 's \<Rightarrow> 's" where
  "safe_emit destroyed slot s = (if destroyed then s else slot s)"

section \<open>Power\<close>

record power_ui =
  pu_inflight :: nat
  pu_destroyed :: bool

definition new_power_ui :: power_ui where
  "new_power_ui = \<lparr>pu_inflight = 0, pu_destroyed = False\<rparr>"

definition power_busy :: "power_ui \<Rightarrow> bool" where
  "power_busy pu = (0 < pu_inflight pu)"

text \<open>A click: the request for the engine, if it is accepted, and the toasts.\<close>

definition power_click :: "int option list \<Rightarrow> string \<Rightarrow> power_ui \<Rightarrow> (int list \<times> int) option \<times> toast list \<times> power_ui" where
  "power_click ids action pu = (let ids = List.map_filter (\<lambda>x. x) ids in
     if ids = [] then (None, [], pu)
     else case power_apply ids action 8 of
       None \<Rightarrow> (None, [(''Unknown power action'', ''error'')], pu)
     | Some req \<Rightarrow> (Some req, [], pu\<lparr>pu_inflight := pu_inflight pu + 1\<rparr>))"

definition power_ui_labels :: "(string \<times> string) list" where
  "power_ui_labels = [(''on'', ''Power On''), (''off'', ''Shut Down''), (''force_off'', ''Force Off''), (''restart'', ''Restart''),
     (''graceful_restart'', ''Graceful Restart''), (''cycle'', ''Power Cycle'')]"

definition power_toast :: "string \<Rightarrow> bool \<Rightarrow> string \<Rightarrow> toast" where
  "power_toast action ok message = (let label = the_default action (map_of power_ui_labels action) in
     if ok then (if message \<noteq> [] then label @ '': '' @ message else label @ '' issued'', ''success'')
     else (label @ '' failed: '' @ message, ''error''))"

definition power_ui_done :: "power_ui \<Rightarrow> power_ui" where
  "power_ui_done pu = (if 0 < pu_inflight pu then pu\<lparr>pu_inflight := pu_inflight pu - 1\<rparr> else pu)"

text \<open>The controller with the number of accepted requests that have not called \<open>on_done\<close>.\<close>

inductive power_ui_step :: "power_ui \<times> nat \<Rightarrow> power_ui \<times> nat \<Rightarrow> bool" where
  click: "power_click ids action pu = (req, ts, pu') \<Longrightarrow> power_ui_step (pu, n) (pu', if req = None then n else Suc n)"
| answer: "power_ui_step (pu, Suc n) (safe_emit (pu_destroyed pu) power_ui_done pu, n)"
| destroy: "power_ui_step (pu, n) (pu\<lparr>pu_destroyed := True\<rparr>, n)"

inductive power_ui_reach :: "power_ui \<times> nat \<Rightarrow> bool" where
  start: "power_ui_reach (new_power_ui, 0)"
| step: "power_ui_reach s \<Longrightarrow> power_ui_step s s' \<Longrightarrow> power_ui_reach s'"

section \<open>Discovery\<close>

record scan_ui =
  su_scanning :: bool
  su_scanned :: nat
  su_found :: nat
  su_total :: nat
  su_error :: string
  su_last_range :: string
  su_destroyed :: bool

definition range_setting :: string where
  "range_setting = ''last_discovery_range''"

definition new_scan_ui :: "db \<Rightarrow> scan_ui" where
  "new_scan_ui d = \<lparr>su_scanning = False, su_scanned = 0, su_found = 0, su_total = 0, su_error = [],
     su_last_range = the_default [] (setting_get d range_setting (Some [])), su_destroyed = False\<rparr>"

definition scan_ui_error :: "string \<Rightarrow> scan_ui \<Rightarrow> scan_ui" where
  "scan_ui_error msg su = su\<lparr>su_error := msg, su_scanning := False\<rparr>"

definition scan_ui_done :: "scan_ui \<Rightarrow> scan_ui" where
  "scan_ui_done su = su\<lparr>su_scanning := False\<rparr>"

definition scan_ui_progress :: "nat \<Rightarrow> nat \<Rightarrow> nat \<Rightarrow> scan_ui \<Rightarrow> scan_ui" where
  "scan_ui_progress scanned found all su = su\<lparr>su_scanned := scanned, su_found := found, su_total := all\<rparr>"

definition remember_range :: "string \<Rightarrow> db \<times> scan_ui \<Rightarrow> db \<times> scan_ui" where
  "remember_range spec = (\<lambda>(d, su). let clean = strip spec in
     if clean \<noteq> [] \<and> clean \<noteq> su_last_range su
     then (setting_set range_setting clean d, su\<lparr>su_last_range := clean\<rparr>) else (d, su))"

text \<open>A start: the targets handed to the engine, if any.\<close>

definition scan_ui_start :: "(string \<Rightarrow> string list option) \<Rightarrow> string \<Rightarrow> string \<Rightarrow> db \<times> scan_ui \<Rightarrow> target list option \<times> (db \<times> scan_ui)" where
  "scan_ui_start v6 now spec = (\<lambda>(d, su). if su_scanning su then (None, (d, su))
     else case remember_range spec (d, su\<lparr>su_scanning := True, su_scanned := 0, su_found := 0, su_total := 0, su_error := []\<rparr>) of
       (d1, su1) \<Rightarrow> (case scan_start v6 now spec d1 of
           (Inl msg, d2) \<Rightarrow> (None, (d2, safe_emit (su_destroyed su1) (scan_ui_error msg) su1))
         | (Inr ts, d2) \<Rightarrow> (Some ts, (d2, su1))))"

text \<open>The controller and the scans the engine has not ended.\<close>

inductive scan_ui_step :: "(db \<times> scan_ui) \<times> nat \<Rightarrow> (db \<times> scan_ui) \<times> nat \<Rightarrow> bool" where
  start: "scan_ui_start v6 now spec (d, su) = (ts, (d', su')) \<Longrightarrow>
    scan_ui_step ((d, su), n) ((d', su'), if ts = None then n else Suc n)"
| progress: "scan_ui_step ((d, su), Suc n) ((d', safe_emit (su_destroyed su) (scan_ui_progress a b c) su), Suc n)"
| ended: "scan_ui_step ((d, su), Suc n) ((d', safe_emit (su_destroyed su) scan_ui_done su), n)"
| failed: "scan_ui_step ((d, su), Suc n) ((d', safe_emit (su_destroyed su) (scan_ui_error msg) su), n)"
| destroy: "scan_ui_step ((d, su), n) ((d, su\<lparr>su_destroyed := True\<rparr>), n)"

inductive scan_ui_reach :: "db \<Rightarrow> (db \<times> scan_ui) \<times> nat \<Rightarrow> bool" for d0 where
  opened: "scan_ui_reach d0 ((d0, new_scan_ui d0), 0)"
| step: "scan_ui_reach d0 s \<Longrightarrow> scan_ui_step s s' \<Longrightarrow> scan_ui_reach d0 s'"

section \<open>Facts\<close>

inductive_cases power_ui_stepE: "power_ui_step (pu, n) s"
inductive_cases scan_ui_stepE: "scan_ui_step ((d, su), n) s"

lemma power_click_inflight:
  "power_click ids action pu = (req, ts, pu') \<Longrightarrow> pu_destroyed pu' = pu_destroyed pu \<and>
    pu_inflight pu' = pu_inflight pu + (if req = None then 0 else 1)"
  by (auto simp: power_click_def Let_def split: if_splits option.splits)

lemma power_ui_invariant:
  assumes "power_ui_reach s"
  shows "\<not> pu_destroyed (fst s) \<longrightarrow> pu_inflight (fst s) = snd s"
  using assms
proof induction
  case (step s s')
  obtain pu n where s: "s = (pu, n)" by (cases s)
  show ?case using step(2,3) unfolding s
    by (auto elim!: power_ui_stepE simp: safe_emit_def power_ui_done_def dest: power_click_inflight)
qed (simp add: new_power_ui_def)

lemma scan_start_run:
  assumes "scan_ui_start v6 now spec (d, su) = (ts, (d', su'))"
  shows "su_destroyed su' = su_destroyed su \<and> (if su_scanning su then ts = None \<and> su' = su
    else if ts = None then su_destroyed su \<or> \<not> su_scanning su' else su_scanning su')"
  using assms
  by (auto simp: scan_ui_start_def remember_range_def safe_emit_def scan_ui_error_def Let_def
      split: if_splits prod.splits sum.splits)

lemma scan_ui_invariant:
  assumes "scan_ui_reach d0 s"
  shows "\<not> su_destroyed (snd (fst s)) \<longrightarrow> snd s = (if su_scanning (snd (fst s)) then 1 else 0)"
  using assms
proof induction
  case (step s s')
  obtain d su n where s: "s = ((d, su), n)" by (metis surj_pair)
  from step(2) show ?case unfolding s
  proof (rule scan_ui_stepE)
    fix v6 now spec ts d' su' assume r: "scan_ui_start v6 now spec (d, su) = (ts, (d', su'))"
      "s' = ((d', su'), if ts = None then n else Suc n)"
    then show ?thesis using scan_start_run [OF r(1)] step(3) by (auto simp: s split: if_splits)
  qed (use step(3) in \<open>auto simp: s safe_emit_def scan_ui_progress_def scan_ui_done_def scan_ui_error_def split: if_splits\<close>)
qed (simp add: new_scan_ui_def)

section \<open>Properties\<close>

text \<open>Further property. The power page is busy exactly while the engine owes it an answer: as long as the window lives, in
  every interleaving of clicks and answers, the count of the page is the number of accepted requests
  that have not ended; a rejected click leaves no trace.\<close>

theorem busy_iff_unanswered:
  assumes "power_ui_reach (pu, n)" "\<not> pu_destroyed pu"
  shows "power_busy pu = (0 < n) \<and> pu_inflight pu = n"
  using power_ui_invariant [OF assms(1)] assms(2) by (simp add: power_busy_def)

theorem busy_iff_unanswered_witness:
  "power_ui_reach (\<lparr>pu_inflight = 1, pu_destroyed = False\<rparr>, 1) \<and> power_busy \<lparr>pu_inflight = 1, pu_destroyed = False\<rparr>"
proof -
  have "power_click [Some 3] ''off'' new_power_ui = (Some ([3], 8), [], \<lparr>pu_inflight = 1, pu_destroyed = False\<rparr>)" by code_simp
  then have "power_ui_step (new_power_ui, 0) (\<lparr>pu_inflight = 1, pu_destroyed = False\<rparr>, 1)"
    using power_ui_step.click [of "[Some 3]" "''off''" new_power_ui "Some ([3], 8)" "[]" _ 0] by simp
  then have reach: "power_ui_reach (\<lparr>pu_inflight = 1, pu_destroyed = False\<rparr>, 1)"
    using power_ui_reach.start power_ui_reach.step by blast
  then show ?thesis using busy_iff_unanswered [OF reach] by simp
qed

text \<open>Further property. The discovery page never starts a second scan: as long as the window lives, it shows a scan as running
  exactly while the engine runs one, in every interleaving of starts, valid or not, and answers.\<close>

theorem one_scan_at_a_time:
  assumes "scan_ui_reach d0 ((d, su), n)" "\<not> su_destroyed su"
  shows "n \<le> 1 \<and> su_scanning su = (n = 1)"
  using scan_ui_invariant [OF assms(1)] assms(2) by (auto split: if_splits)

theorem one_scan_at_a_time_witness:
  "\<exists>d su. scan_ui_reach empty_db ((d, su), 1) \<and> su_scanning su"
proof -
  obtain ts d su where s: "scan_ui_start (\<lambda>_. None) ''t0'' ''10.0.0.1'' (empty_db, new_scan_ui empty_db) = (ts, (d, su))"
    by (metis surj_pair)
  have "fst (scan_ui_start (\<lambda>_. None) ''t0'' ''10.0.0.1'' (empty_db, new_scan_ui empty_db)) \<noteq> None" by code_simp
  then have ts: "ts \<noteq> None" using s by simp
  have reach: "scan_ui_reach empty_db ((d, su), 1)"
    using scan_ui_reach.step [OF scan_ui_reach.opened scan_ui_step.start [OF s]] ts by simp
  have "\<not> su_destroyed su" using scan_start_run [OF s] by (simp add: new_scan_ui_def)
  then show ?thesis using one_scan_at_a_time [OF reach] reach by blast
qed

end
