(* ===== verification/Ui_Library.thy ===== *)
theory Ui_Library
  imports Ui_Live Library_Service Vault
begin

text \<open>
  \<open>FirmwareController\<close>, \<open>IsoController\<close>, \<open>CredentialsController\<close>, \<open>ReportsController\<close> and
  \<open>ActivityController\<close> of \<open>ui/bridge/controllers.py\<close>: what a slot leaves in the library, the
  activity log and the toasts it raises, with the engine present, as the container builds them.
  \<open>QUrl.toLocalFile\<close> is a parameter, and so is what writes a report.
\<close>

abbreviation ellipsis :: string where
  "ellipsis \<equiv> [CHR 0x85]"

definition or_text :: "string \<Rightarrow> string \<Rightarrow> string" where
  "or_text s dflt = (if s = [] then dflt else s)"

definition import_path :: "(string \<Rightarrow> string) \<Rightarrow> string \<Rightarrow> string" where
  "import_path to_local url = (if starts_with ''file:'' url then to_local url else url)"

definition ui_log :: "string \<Rightarrow> string \<Rightarrow> string \<Rightarrow> string \<Rightarrow> db \<Rightarrow> db" where
  "ui_log now level category msg d = snd (activity_log now (discovery_row level category msg None) d)"

section \<open>Importing into a library\<close>

text \<open>The toast of \<open>_on_import_done\<close>; \<open>kind\<close> is the library's name in its messages.\<close>

definition import_toast :: "string \<Rightarrow> string \<Rightarrow> int option py \<Rightarrow> toast" where
  "import_toast lib name r = (case r of
       Inr (Some _) \<Rightarrow> (''Added '' @ name, ''success'')
     | Inr None \<Rightarrow> (lib @ '' already in library (matching SHA)'', ''info'')
     | Inl e \<Rightarrow> (lib @ '' import failed: '' @ exn_str e, ''error''))"

text \<open>The import runs on a worker thread between the first and the second toast; a row that was added is logged.\<close>

definition run_import :: "stamp \<Rightarrow> string \<Rightarrow> string \<Rightarrow> string \<Rightarrow> path \<Rightarrow> (files \<times> db, int option) io \<Rightarrow>
    files \<times> db \<Rightarrow> toast list \<times> (files \<times> db)" where
  "run_import now lib category entry name work x = (case work x of
       (r, (fs, d)) \<Rightarrow> ([(''Importing '' @ name @ ellipsis, ''info''), import_toast lib name r],
         (fs, case r of Inr (Some _) \<Rightarrow> ui_log now ''info'' category entry d | _ \<Rightarrow> d)))"

definition firmware_ui_add :: "(string \<Rightarrow> path) \<Rightarrow> (path \<Rightarrow> string) \<Rightarrow> path \<Rightarrow> copy_outcome \<Rightarrow> stamp \<Rightarrow> string \<Rightarrow>
    string \<Rightarrow> oem_key \<Rightarrow> version \<Rightarrow> string \<Rightarrow> string \<Rightarrow> files \<times> db \<Rightarrow> toast list \<times> (files \<times> db)" where
  "firmware_ui_add to_local sha_of dir oc now url fw_kind oem version model notes =
     (let path = import_path to_local url; name = path_name path in
      run_import now ''Firmware'' ''firmware'' (''Firmware '' @ name @ '' uploaded'') name
        (firmware_import sha_of dir oc now \<lparr>fm_type = fw_kind, fm_oem = oem, fm_version = or_text version ''unknown'',
           fm_model = nonempty (Some model), fm_notes = nonempty (Some notes)\<rparr> path))"

definition firmware_ui_remove :: "string \<Rightarrow> string \<Rightarrow> int \<Rightarrow> files \<times> db \<Rightarrow> toast list \<times> (files \<times> db)" where
  "firmware_ui_remove dir now fid x = (case firmware_remove dir fid x of
       (None, x') \<Rightarrow> ([], x')
     | (Some r, (fs, d)) \<Rightarrow> ([(''Removed '' @ fr_name r, ''success'')],
         (fs, ui_log now ''info'' ''firmware'' (''Firmware '' @ fr_name r @ '' deleted'') d)))"

definition firmware_json :: "db \<Rightarrow> int \<Rightarrow> string" where
  "firmware_json d fid = (case firmware_get d fid of None \<Rightarrow> ''{}''
     | Some r \<Rightarrow> dumps (JObj [(''id'', JInt fid), (''name'', JStr (fr_name r)), (''type'', JStr (fr_type r)),
         (''oem'', JStr (fr_oem r)), (''version'', JStr (fr_version r))]))"

definition iso_ui_add :: "(string \<Rightarrow> path) \<Rightarrow> (path \<Rightarrow> string) \<Rightarrow> path \<Rightarrow> copy_outcome \<Rightarrow> stamp \<Rightarrow> string \<Rightarrow>
    string \<Rightarrow> version \<Rightarrow> string \<Rightarrow> string \<Rightarrow> string \<Rightarrow> files \<times> db \<Rightarrow> toast list \<times> (files \<times> db)" where
  "iso_ui_add to_local sha_of dir oc now url family version arch source_url notes =
     (let path = import_path to_local url; name = path_name path in
      run_import now ''ISO'' ''provisioning'' (''ISO '' @ name @ '' added to library'') name
        (iso_import sha_of dir oc now \<lparr>im_family = or_text family ''rhel'', im_version = or_text version ''unknown'',
           im_arch = or_text arch ''x86_64'', im_source_url = nonempty (Some source_url), im_notes = nonempty (Some notes)\<rparr> path))"

definition iso_ui_remove :: "string \<Rightarrow> string \<Rightarrow> int \<Rightarrow> files \<times> db \<Rightarrow> files \<times> db" where
  "iso_ui_remove dir now iid x = (case iso_remove dir iid x of
       (None, x') \<Rightarrow> x'
     | (Some r, (fs, d)) \<Rightarrow> (fs, ui_log now ''info'' ''provisioning'' (''ISO '' @ ir_name r @ '' removed from library'') d))"

section \<open>Credentials\<close>

definition cred_ui_rows :: "db \<Rightarrow> ui_row list" where
  "cred_ui_rows d = List.map (\<lambda>(cid, label, user, scope, created).
     [(''id'', JInt cid), (''label'', jopt label), (''username'', JStr user), (''scope'', jopt scope),
      (''created_at'', jopt created)]) (credential_list d)"

definition cred_ui_add :: "vault \<Rightarrow> stamp \<Rightarrow> string \<Rightarrow> string \<Rightarrow> string \<Rightarrow> string \<Rightarrow> db \<Rightarrow> toast list \<times> db" where
  "cred_ui_add v now label user pw scope d = (if user = [] then ([(''Username required'', ''warning'')], d)
     else case credentials_add v now (or_text label ''(unlabeled)'') user pw (or_text scope ''default'') d of
       Inl e \<Rightarrow> ([(''Failed: '' @ exn_str e, ''error'')], ui_log now ''error'' ''auth'' (''Credential add failed: '' @ exn_str e) d)
     | Inr (_, d') \<Rightarrow> ([(''Saved credential for '' @ user, ''success'')],
         ui_log now ''info'' ''auth'' (''Credential added (scope='' @ or_text scope ''default'' @ '', user='' @ user @ '')'') d'))"

definition cred_ui_remove :: "string \<Rightarrow> int \<Rightarrow> db \<Rightarrow> toast list \<times> db" where
  "cred_ui_remove now cid d = ([(''Credential removed'', ''info'')],
     ui_log now ''info'' ''auth'' (''Credential #'' @ int_str cid @ '' removed'') (credential_delete cid d))"

section \<open>Reports and the event log\<close>

record reports_ui =
  ru_status :: string

text \<open>The three exports differ in their messages; \<open>what\<close> names the report, \<open>verb\<close> says what happened to it. The path is empty
  after a failure.\<close>

definition report_saved :: "string \<Rightarrow> string \<Rightarrow> string \<Rightarrow> string \<Rightarrow> db \<times> reports_ui \<Rightarrow> string \<times> toast list \<times> (db \<times> reports_ui)" where
  "report_saved now what verb path = (\<lambda>(d, ru). (path, [(''Saved '' @ path_name path, ''success'')],
     (ui_log now ''info'' ''system'' (what @ '' '' @ verb @ '': '' @ path_name path) d, ru\<lparr>ru_status := ''Saved '' @ path_name path\<rparr>)))"

definition export_report :: "string \<Rightarrow> string \<Rightarrow> string py \<Rightarrow> db \<times> reports_ui \<Rightarrow> string \<times> toast list \<times> (db \<times> reports_ui)" where
  "export_report now what written = (\<lambda>(d, ru). case written of
       Inr path \<Rightarrow> report_saved now what ''saved'' path (d, ru)
     | Inl e \<Rightarrow> ([], [(''Export failed: '' @ exn_str e, ''error'')],
         (ui_log now ''error'' ''system'' (what @ '' failed: '' @ exn_str e) d, ru\<lparr>ru_status := ''Error: '' @ exn_str e\<rparr>)))"

definition export_inventory :: "string \<Rightarrow> string py \<Rightarrow> db \<times> reports_ui \<Rightarrow> string \<times> toast list \<times> (db \<times> reports_ui)" where
  "export_inventory now written = export_report now ''Inventory report'' written"

definition export_job :: "string \<Rightarrow> int \<Rightarrow> string py \<Rightarrow> db \<times> reports_ui \<Rightarrow> string \<times> toast list \<times> (db \<times> reports_ui)" where
  "export_job now jid written = export_report now (''Job #'' @ int_str jid @ '' report'') written"

definition export_audit :: "string \<Rightarrow> string option py \<Rightarrow> db \<times> reports_ui \<Rightarrow> string \<times> toast list \<times> (db \<times> reports_ui)" where
  "export_audit now written = (\<lambda>(d, ru). case written of
       Inr None \<Rightarrow> ([], [(''No audit log yet '' @ em_dash @ '' nothing to export'', ''warning'')], (d, ru))
     | Inr (Some path) \<Rightarrow> report_saved now ''Audit log'' ''exported'' path (d, ru)
     | Inl e \<Rightarrow> ([], [(''Audit export failed: '' @ exn_str e, ''error'')],
         (ui_log now ''error'' ''system'' (''Audit export failed: '' @ exn_str e) d, ru)))"

definition event_log_refresh :: "(string \<Rightarrow> string option) \<Rightarrow> nat \<Rightarrow> db \<Rightarrow> proxy \<Rightarrow> proxy" where
  "event_log_refresh local_time limit d px = reload (px_rows (build_activity_model local_time limit d)) px"

section \<open>Facts\<close>

lemma ui_log_tables: "db_firmware (ui_log now level category msg d) = db_firmware d"
  "db_credentials (ui_log now level category msg d) = db_credentials d"
  "length (db_activity (ui_log now level category msg d)) = Suc (length (db_activity d))"
  by (auto simp: ui_log_def activity_log_def insert_row_def split: prod.split)

lemma firmware_import_tables:
  "firmware_import sha_of dir oc now meta path (fs, d) = (r, (fs', d')) \<Longrightarrow> db_activity d' = db_activity d \<and>
    (case r of Inr (Some fid) \<Rightarrow> \<not> firmware_exists_sha d (sha_of (the (fs path))) \<and>
       length (db_firmware d') = Suc (length (db_firmware d)) | _ \<Rightarrow> d' = d)"
  by (auto simp: firmware_import_def Let_def firmware_add_def insert_row_def firmware_exists_sha_def firmware_entry_def
      split: option.splits if_splits prod.splits sum.splits)

section \<open>Properties\<close>

text \<open>Further property. The toast after a firmware import tells the truth: it says \<open>Added\<close> exactly when the library grew by one image, which
  is then logged, once; in every other case, duplicates and failures, the database is as it was.\<close>

theorem import_toast_truthful:
  "case firmware_ui_add to_local sha_of dir oc now url kind oem version model notes (fs, d) of (ts, (fs', d')) \<Rightarrow>
     (\<exists>name. snd (last ts) = ''success'' \<and> fst (last ts) = ''Added '' @ name \<and> length (db_firmware d') = Suc (length (db_firmware d)) \<and>
        length (db_activity d') = Suc (length (db_activity d))) \<or>
     (snd (last ts) \<noteq> ''success'' \<and> d' = d)"
proof -
  let ?path = "import_path to_local url"
  let ?meta = "\<lparr>fm_type = kind, fm_oem = oem, fm_version = or_text version ''unknown'', fm_model = nonempty (Some model),
    fm_notes = nonempty (Some notes)\<rparr>"
  obtain r fs' d' where r: "firmware_import sha_of dir oc now ?meta ?path (fs, d) = (r, (fs', d'))" by (metis surj_pair)
  show ?thesis using firmware_import_tables [OF r] r
    by (cases r) (auto simp: firmware_ui_add_def run_import_def Let_def import_toast_def ui_log_tables split: option.splits)
qed

end
