(* ===== verification/Tool_Verify.thy ===== *)
theory Tool_Verify
  imports Redfish_Client
begin

text \<open>
  The command-line check \<open>tools/redfish_verify.py\<close>: the questions it asks a BMC, the report it keeps
  and the verdict. A network \<open>lan\<close> answers a connection attempt and a GET made with or without Basic
  credentials; a GET is the only request it knows. The report rides next to the world. An exception that leaves \<open>verify\<close> ends
  the program with a traceback and no report.
\<close>

section \<open>The network\<close>

type_synonym basic = "(string \<times> string) option"

record 'w lan =
  lan_dial :: "string \<Rightarrow> int \<Rightarrow> ('w, unit) io"
  lan_get :: "basic \<Rightarrow> string \<Rightarrow> ('w, response) io"

definition port_open :: "'w lan \<Rightarrow> string \<Rightarrow> int \<Rightarrow> ('w, bool) io" where
  "port_open lan ip port = bind (attempt os_error (lan_dial lan ip port))
     (\<lambda>r. ret (case r of Inl _ \<Rightarrow> False | Inr _ \<Rightarrow> True))"

text \<open>The body as JSON, or as text when it does not decode.\<close>

definition body_of :: "response \<Rightarrow> json py" where
  "body_of resp = (case rp_json resp of
       Inl e \<Rightarrow> if is_exception e then bind_py (rp_text resp) (\<lambda>t. Inr (JStr t)) else Inl e
     | Inr j \<Rightarrow> Inr j)"

text \<open>The body as the other tools read it: \<open>None\<close> when it does not decode.\<close>

definition safe_json :: "response \<Rightarrow> json py" where
  "safe_json resp = (case rp_json resp of Inr j \<Rightarrow> Inr j | Inl e \<Rightarrow> if is_exception e then Inr JNull else Inl e)"

definition fetch :: "'w lan \<Rightarrow> basic \<Rightarrow> string \<Rightarrow> ('w, int \<times> json) io" where
  "fetch lan auth url = catch_if is_client_error
     (bind (lan_get lan auth url) (\<lambda>resp. bind (lift_py (body_of resp)) (\<lambda>body. ret (rp_status resp, body))))
     (\<lambda>e. ret (- 1, JStr (exn_str e)))"

definition session_auth :: "string \<Rightarrow> string \<Rightarrow> basic" where
  "session_auth user pw = (if user \<noteq> [] then Some (user, pw) else None)"

section \<open>The report\<close>

datatype mark = Pass | Fail | Warn | Info

primrec mark_text :: "mark \<Rightarrow> string" where
  "mark_text Pass = ''[PASS]''"
| "mark_text Fail = ''[FAIL]''"
| "mark_text Warn = ''[WARN]''"
| "mark_text Info = ''[INFO]''"

record vreport =
  vr_lines :: "string list"
  vr_passes :: nat
  vr_fails :: nat
  vr_warns :: nat

definition new_report :: vreport where
  "new_report = \<lparr>vr_lines = [], vr_passes = 0, vr_fails = 0, vr_warns = 0\<rparr>"

definition mark_line :: "mark \<Rightarrow> string \<Rightarrow> string" where
  "mark_line m msg = ''  '' @ mark_text m @ ''  '' @ msg"

definition report_add :: "mark \<Rightarrow> string \<Rightarrow> vreport \<Rightarrow> vreport" where
  "report_add m msg r = (let r1 = r\<lparr>vr_lines := vr_lines r @ [mark_line m msg]\<rparr> in
     case m of Pass \<Rightarrow> r1\<lparr>vr_passes := vr_passes r + 1\<rparr> | Fail \<Rightarrow> r1\<lparr>vr_fails := vr_fails r + 1\<rparr>
     | Warn \<Rightarrow> r1\<lparr>vr_warns := vr_warns r + 1\<rparr> | Info \<Rightarrow> r1)"

definition report_section :: "string \<Rightarrow> vreport \<Rightarrow> vreport" where
  "report_section title r = r\<lparr>vr_lines := vr_lines r @ [[], title, replicate (length title) CHR ''-'']\<rparr>"

type_synonym ('w, 'a) check = "('w \<times> vreport, 'a) io"

definition tell :: "mark \<Rightarrow> string \<Rightarrow> ('w, unit) check" where
  "tell m msg = on_snd (report_add m msg)"

definition heading :: "string \<Rightarrow> ('w, unit) check" where
  "heading title = on_snd (report_section title)"

section \<open>The checks\<close>

definition check_network :: "'w lan \<Rightarrow> string \<Rightarrow> ('w, bool) check" where
  "check_network lan ip = seq (heading ''1. Network reachability'')
     (bind (on_fst (port_open lan ip 443)) (\<lambda>alive.
      seq (tell (if alive then Pass else Fail) (''TCP 443 on '' @ ip @ '': '' @ (if alive then ''open'' else ''unreachable'')))
      (ret alive)))"

definition check_tls :: "'w lan \<Rightarrow> string \<Rightarrow> ('w, bool) check" where
  "check_tls lan base = seq (heading ''2. TLS'') (catch_if is_exception
     (bind (on_fst (fetch lan None (base @ ''/redfish/v1/''))) (\<lambda>(st, _).
        seq (tell (if 0 \<le> st then Pass else Fail) (''TLS handshake completed (HTTP '' @ int_str st @ '')'')) (ret True)))
     (\<lambda>e. seq (tell Fail (''TLS handshake failed: '' @ exn_str e)) (ret False)))"

definition check_auth :: "'w lan \<Rightarrow> string \<Rightarrow> string \<Rightarrow> string \<Rightarrow> ('w, bool) check" where
  "check_auth lan base user pw = seq (heading ''3. Authentication'')
     (bind (on_fst (fetch lan None (base @ ''/redfish/v1/UpdateService''))) (\<lambda>(st0, _).
      seq (tell (if st0 = 401 then Pass else Warn)
             (''Anonymous /UpdateService returned HTTP '' @ int_str st0 @ '' (expected 401)''))
     (bind (on_fst (fetch lan (session_auth user pw) (base @ ''/redfish/v1/UpdateService''))) (\<lambda>(st, _).
      seq (tell (if st = 200 then Pass else Fail)
             (''Authenticated /UpdateService returned HTTP '' @ int_str st @ '' as '' @ user @ ''/****''))
      (ret (st = 200))))))"

definition check_root :: "'w lan \<Rightarrow> basic \<Rightarrow> string \<Rightarrow> ('w, unit) check" where
  "check_root lan auth base = seq (heading ''4. Service Root'')
     (bind (on_fst (fetch lan auth (base @ ''/redfish/v1/''))) (\<lambda>(st, rt).
      seq (tell (if st = 200 then Pass else Fail) (''GET /redfish/v1/ HTTP '' @ int_str st))
      (if \<not> is_obj rt then ret () else
       bind (lift_py (jget_or rt ''Vendor'' (JStr ''?''))) (\<lambda>v.
       seq (tell Info (''Vendor: '' @ json_str v))
       (bind (lift_py (jget_or rt ''RedfishVersion'' (JStr ''?''))) (\<lambda>rv.
        tell Info (''RedfishVersion: '' @ json_str rv)))))))"

definition keys_of :: "json \<Rightarrow> string \<Rightarrow> string list py" where
  "keys_of j k = bind_py (sub_obj j k) jkeys"

definition names :: "string list \<Rightarrow> string" where
  "names ks = json_repr (JArr (List.map JStr ks))"

definition describe_update :: "json \<Rightarrow> ('w, unit) check" where
  "describe_update us = bind (lift_py (jget us ''ServiceEnabled'')) (\<lambda>enabled.
     seq (tell (if truthy enabled then Pass else Fail) (''ServiceEnabled = '' @ json_str enabled))
     (bind (lift_py (jget us ''MultipartHttpPushUri'')) (\<lambda>mp.
     seq (tell (if truthy mp then Pass else Warn)
            (''MultipartHttpPushUri = '' @ json_str (or_else mp (JStr ''(none)''))))
     (bind (lift_py (jget us ''HttpPushUri'')) (\<lambda>hp.
     seq (tell Info (''HttpPushUri = '' @ json_str (or_else hp (JStr ''(none)''))))
     (bind (lift_py (keys_of us ''Actions'')) (\<lambda>std.
      bind (lift_py (bind_py (sub_obj us ''Actions'') (\<lambda>a. keys_of a ''Oem''))) (\<lambda>oem.
     seq (tell Info (''Standard actions: '' @ names std))
         (tell Info (''OEM actions: '' @ names oem))))))))))"

definition check_update :: "'w lan \<Rightarrow> basic \<Rightarrow> string \<Rightarrow> ('w, unit) check" where
  "check_update lan auth base = seq (heading ''5. UpdateService'')
     (bind (on_fst (fetch lan auth (base @ ''/redfish/v1/UpdateService''))) (\<lambda>(st, us).
      seq (tell (if st = 200 then Pass else Fail) (''GET /redfish/v1/UpdateService HTTP '' @ int_str st))
      (if is_obj us then describe_update us else ret ())))"

definition collection :: "json \<Rightarrow> json py" where
  "collection j = (if is_obj j then bind_py (jget j ''Members'') (\<lambda>v. Inr (or_else v (JArr []))) else Inr (JArr []))"

definition uri_leaf :: "json \<Rightarrow> string py" where
  "uri_leaf m = bind_py (jget_or m ''@odata.id'' (JStr [])) (\<lambda>u. bind_py (as_str ''rsplit'' u) (\<lambda>s. Inr (leaf_of s)))"

text \<open>\<open>base + uri\<close> for a value out of a document.\<close>

definition url_part :: "json \<Rightarrow> string py" where
  "url_part u = (case u of JStr s \<Rightarrow> Inr s
     | _ \<Rightarrow> Inl (Exn Exn_Type (''can only concatenate str (not '' @ [CHR 34] @ py_type u @ [CHR 34] @ '') to str'')))"

definition inventory_path :: string where
  "inventory_path = ''/redfish/v1/UpdateService/FirmwareInventory''"

definition check_bank :: "'w lan \<Rightarrow> basic \<Rightarrow> string \<Rightarrow> string \<Rightarrow> ('w, unit) check" where
  "check_bank lan auth base bank = bind (on_fst (fetch lan auth (base @ inventory_path @ ''/'' @ bank))) (\<lambda>(st, item).
     if st \<noteq> 200 then tell Fail (bank @ '': GET HTTP '' @ int_str st)
     else bind (lift_py (if is_obj item then jget item ''Version'' else Inr (JStr []))) (\<lambda>ver.
          bind (lift_py (if is_obj item then jget item ''Updateable'' else Inr JNull)) (\<lambda>upd.
          tell (if upd = JBool True then Pass else Warn)
            (bank @ '': Version='' @ json_repr ver @ ''  Updateable='' @ json_str upd))))"

definition check_inventory :: "'w lan \<Rightarrow> basic \<Rightarrow> string \<Rightarrow> ('w, unit) check" where
  "check_inventory lan auth base = seq (heading ''6. FirmwareInventory'')
     (bind (on_fst (fetch lan auth (base @ inventory_path))) (\<lambda>(st, fi).
      seq (tell (if st = 200 then Pass else Fail) (''GET FirmwareInventory HTTP '' @ int_str st))
      (bind (lift_py (bind_py (collection fi) (\<lambda>ms. bind_py (jiter ms) (map_py uri_leaf)))) (\<lambda>leaves.
       seq (tell Info (int_str (int (length leaves)) @ '' member(s): '' @ names leaves))
       (seq (check_bank lan auth base ''BIOS'') (check_bank lan auth base ''BMC''))))))"

definition check_collection :: "'w lan \<Rightarrow> basic \<Rightarrow> string \<Rightarrow> string \<Rightarrow> ('w, unit) check" where
  "check_collection lan auth base p = bind (on_fst (fetch lan auth (base @ p))) (\<lambda>(st, coll).
     bind (lift_py (bind_py (collection coll) (\<lambda>ms. bind_py (jiter ms) (map_py (\<lambda>m. jget m ''@odata.id''))))) (\<lambda>ms.
     tell (if st = 200 \<and> ms \<noteq> [] then Pass else Fail)
       (''GET '' @ p @ '' HTTP '' @ int_str st @ '': '' @ json_repr (JArr ms))))"

definition check_reset :: "json \<Rightarrow> string \<Rightarrow> ('w, unit) check" where
  "check_reset allowed t = bind (lift_py (jcontains t allowed)) (\<lambda>yes.
     tell (if yes then Pass else Warn)
       (''ComputerSystem.Reset supports '' @ quoted t @ '': '' @ (if yes then ''yes'' else ''no'')))"

definition check_system :: "'w lan \<Rightarrow> basic \<Rightarrow> string \<Rightarrow> ('w, unit) check" where
  "check_system lan auth base = bind (on_fst (fetch lan auth (base @ ''/redfish/v1/Systems/1''))) (\<lambda>(_, sys1).
     if \<not> is_obj sys1 then ret () else
     bind (lift_py (jget sys1 ''PowerState'')) (\<lambda>pwr.
     seq (tell Info (''Systems/1.PowerState = '' @ json_str pwr))
     (bind (lift_py (bind_py (sub_obj sys1 ''Actions'') (\<lambda>a. bind_py (sub_obj a ''#ComputerSystem.Reset'')
             (\<lambda>r. bind_py (jget r ''ResetType@Redfish.AllowableValues'') (\<lambda>v. Inr (or_else v (JArr []))))))) (\<lambda>allowed.
      for_each (check_reset allowed) [''ForceOff'', ''On'', ''GracefulRestart'']))))"

definition check_tasks :: "'w lan \<Rightarrow> basic \<Rightarrow> string \<Rightarrow> ('w, unit) check" where
  "check_tasks lan auth base = seq (heading ''8. TaskService'')
     (bind (on_fst (fetch lan auth (base @ ''/redfish/v1/TaskService/Tasks''))) (\<lambda>(st, ts).
      bind (lift_py (bind_py (collection ts) jlen)) (\<lambda>n.
      tell (if st = 200 then Pass else Fail)
        (''GET /TaskService/Tasks HTTP '' @ int_str st @ ''  ('' @ int_str (int n) @ '' active)''))))"

definition check_rest :: "'w lan \<Rightarrow> basic \<Rightarrow> string \<Rightarrow> ('w, unit) check" where
  "check_rest lan auth base =
     seq (heading ''7. Systems / Managers'')
     (seq (check_collection lan auth base ''/redfish/v1/Systems'')
     (seq (check_collection lan auth base ''/redfish/v1/Managers'')
     (seq (check_system lan auth base)
          (check_tasks lan auth base))))"

definition check_surface :: "'w lan \<Rightarrow> basic \<Rightarrow> string \<Rightarrow> ('w, unit) check" where
  "check_surface lan auth base =
     seq (check_root lan auth base)
     (seq (check_update lan auth base)
     (seq (check_inventory lan auth base)
          (check_rest lan auth base)))"

text \<open>An early \<open>return r\<close> ends the checks and leaves the report as it is.\<close>

definition verify_host :: "'w lan \<Rightarrow> string \<Rightarrow> string \<Rightarrow> string \<Rightarrow> ('w, unit) check" where
  "verify_host lan ip user pw = (let base = ''https://'' @ ip in
     bind (check_network lan ip) (\<lambda>alive. if \<not> alive then ret () else
     bind (check_tls lan base) (\<lambda>tls. if \<not> tls then ret () else
     bind (check_auth lan base user pw) (\<lambda>authed. if \<not> authed then ret () else
     check_surface lan (session_auth user pw) base))))"

definition summary_line :: "vreport \<Rightarrow> string" where
  "summary_line r = ''  Summary: '' @ int_str (int (vr_passes r)) @ '' PASS / '' @ int_str (int (vr_warns r)) @ '' WARN / ''
     @ int_str (int (vr_fails r)) @ '' FAIL ('' @ int_str (int (vr_passes r + vr_fails r + vr_warns r)) @ '' checks)   Verdict: ''
     @ (if vr_fails r = 0 then ''READY'' else ''NOT READY'')"

text \<open>The printed lines and the exit status.\<close>

definition verify_main :: "'w lan \<Rightarrow> string \<Rightarrow> string \<Rightarrow> string \<Rightarrow> ('w, string list \<times> int) io" where
  "verify_main lan ip user pw = (\<lambda>w. case verify_host lan ip user pw (w, new_report) of
       (Inl e, (w', _)) \<Rightarrow> (Inl e, w')
     | (Inr _, (w', r)) \<Rightarrow> (Inr ([[], ''========== Redfish verification: '' @ ip @ '' ==========''] @ vr_lines r
         @ [[], summary_line r, ''================================================'', []],
         if vr_fails r = 0 then 0 else 1), w'))"

section \<open>What every run keeps of the report\<close>

lemma keeps_world: "keeps (\<lambda>ws. P (snd ws)) (on_fst m)"
  by (auto simp: keeps_def on_fst_def split: prod.splits)

lemma keeps_cases: "(\<And>a b. x = (a, b) \<Longrightarrow> keeps P (f a b)) \<Longrightarrow> keeps P (case x of (a, b) \<Rightarrow> f a b)"
  by (cases x) simp

text \<open>An invariant of the report that a marked line and a heading keep is kept by the whole check.\<close>

lemma verify_keeps:
  assumes line: "\<And>m msg r. P r \<Longrightarrow> P (report_add m msg r)"
    and title: "\<And>t r. \<not> starts_with ''  '' t \<Longrightarrow> P r \<Longrightarrow> P (report_section t r)"
  shows "keeps (\<lambda>ws. P (snd ws)) (check_network lan ip)" "keeps (\<lambda>ws. P (snd ws)) (check_tls lan base)"
    "keeps (\<lambda>ws. P (snd ws)) (check_auth lan base user pw)" "keeps (\<lambda>ws. P (snd ws)) (check_surface lan auth base)"
    "keeps (\<lambda>ws. P (snd ws)) (check_rest lan auth base)"
proof -
  have t [io_inv]: "keeps (\<lambda>ws. P (snd ws)) (tell m msg)" for m msg
    using line by (auto simp: tell_def keeps_def on_snd_def)
  have h: "\<not> starts_with ''  '' t \<Longrightarrow> keeps (\<lambda>ws. P (snd ws)) (heading t)" for t
    using title by (auto simp: heading_def keeps_def on_snd_def)
  note rules = io_inv keeps_world keeps_cases t
  show "keeps (\<lambda>ws. P (snd ws)) (check_network lan ip)" "keeps (\<lambda>ws. P (snd ws)) (check_tls lan base)"
    "keeps (\<lambda>ws. P (snd ws)) (check_auth lan base user pw)"
    unfolding check_network_def check_tls_def check_auth_def
    by (intro rules h; simp add: starts_with_def)+
  have "keeps (\<lambda>ws. P (snd ws)) (check_root lan auth base)" "keeps (\<lambda>ws. P (snd ws)) (check_update lan auth base)"
    unfolding check_root_def check_update_def describe_update_def by (intro rules h; simp add: starts_with_def)+
  moreover have "keeps (\<lambda>ws. P (snd ws)) (check_bank lan auth base bank)" for bank
    unfolding check_bank_def by (intro rules)
  then have "keeps (\<lambda>ws. P (snd ws)) (check_inventory lan auth base)"
    unfolding check_inventory_def by (intro rules h; simp add: starts_with_def)
  moreover have "keeps (\<lambda>ws. P (snd ws)) (check_collection lan auth base p)" for p
    unfolding check_collection_def by (intro rules)
  moreover have "keeps (\<lambda>ws. P (snd ws)) (check_reset allowed t)" for allowed t
    unfolding check_reset_def by (intro rules)
  then have "keeps (\<lambda>ws. P (snd ws)) (check_system lan auth base)"
    unfolding check_system_def by (intro rules)
  moreover have "keeps (\<lambda>ws. P (snd ws)) (check_tasks lan auth base)"
    unfolding check_tasks_def by (intro rules h; simp add: starts_with_def)
  ultimately show "keeps (\<lambda>ws. P (snd ws)) (check_surface lan auth base)" "keeps (\<lambda>ws. P (snd ws)) (check_rest lan auth base)"
    unfolding check_surface_def check_rest_def by (intro rules h; simp add: starts_with_def)+
qed

definition marked :: "mark \<Rightarrow> string list \<Rightarrow> nat" where
  "marked m ls = length (filter (starts_with (''  '' @ mark_text m @ ''  '')) ls)"

definition counts_ok :: "vreport \<Rightarrow> bool" where
  "counts_ok r \<longleftrightarrow> vr_passes r = marked Pass (vr_lines r) \<and> vr_fails r = marked Fail (vr_lines r) \<and>
     vr_warns r = marked Warn (vr_lines r)"

lemma marked_line: "marked k [mark_line m msg] = (if k = m then 1 else 0)"
  by (cases k; cases m) (simp_all add: marked_def mark_line_def starts_with_def)

lemma marked_append: "marked k (xs @ ys) = marked k xs + marked k ys"
  by (simp add: marked_def)

lemma counts_add: "counts_ok r \<Longrightarrow> counts_ok (report_add m msg r)"
  by (cases m) (simp_all add: counts_ok_def report_add_def Let_def marked_append marked_line)

lemma dashes_unmarked: "\<not> starts_with (''  '' @ s) (replicate n CHR ''-'')"
  by (cases n) (simp_all add: starts_with_def)

lemma counts_section: "\<not> starts_with ''  '' t \<Longrightarrow> counts_ok r \<Longrightarrow> counts_ok (report_section t r)"
proof -
  assume "\<not> starts_with ''  '' t"
  then have "\<not> starts_with (''  '' @ s) t" for s
    by (auto simp: starts_with_iff)
  then have "marked k [[], t, replicate n CHR ''-''] = 0" for k n
    using dashes_unmarked [of "mark_text k @ ''  ''" n] by (simp add: marked_def) (simp add: starts_with_def)
  then show "counts_ok r \<Longrightarrow> counts_ok (report_section t r)"
    by (simp add: counts_ok_def report_section_def marked_append)
qed

lemma fails_stay: "0 < vr_fails r \<Longrightarrow> 0 < vr_fails (report_add m msg r)" "0 < vr_fails r \<Longrightarrow> 0 < vr_fails (report_section t r)"
  by (cases m) (simp_all add: report_add_def report_section_def Let_def)

section \<open>What a stage means for the verdict\<close>

lemma fails_kept:
  "check_network lan ip (w, r) = (x, (w', r')) \<Longrightarrow> 0 < vr_fails r \<Longrightarrow> 0 < vr_fails r'"
  "check_rest lan auth base (w, r) = (y, (w', r')) \<Longrightarrow> 0 < vr_fails r \<Longrightarrow> 0 < vr_fails r'"
  "check_auth lan base user pw (w, r) = (x, (w', r')) \<Longrightarrow> 0 < vr_fails r \<Longrightarrow> 0 < vr_fails r'"
  using keepsD [OF verify_keeps(1) [where P = "\<lambda>r. 0 < vr_fails r", OF fails_stay], of "(w, r)" lan ip x "(w', r')"]
    keepsD [OF verify_keeps(5) [where P = "\<lambda>r. 0 < vr_fails r", OF fails_stay], of "(w, r)" lan auth base y "(w', r')"]
    keepsD [OF verify_keeps(3) [where P = "\<lambda>r. 0 < vr_fails r", OF fails_stay], of "(w, r)" lan base user pw x "(w', r')"]
  by simp_all

lemma tell_run: "tell m msg (w, r) = (Inr (), (w, report_add m msg r))"
  by (simp add: tell_def on_snd_def)

lemma heading_run: "heading t (w, r) = (Inr (), (w, report_section t r))"
  by (simp add: heading_def on_snd_def)

lemma fails_add [simp]: "vr_fails (report_add m msg r) = vr_fails r + (if m = Fail then 1 else 0)"
  by (cases m) (simp_all add: report_add_def)

lemma network_result:
  assumes "check_network lan ip (w, r) = (Inr b, (w', r'))"
  shows "port_open lan ip 443 w = (Inr b, w')" "\<not> b \<Longrightarrow> 0 < vr_fails r'"
  using assms by (auto simp: check_network_def io_run heading_run tell_run on_fst_def split: prod.splits sum.splits)

lemma tls_result:
  assumes "check_tls lan base (w, r) = (Inr False, (w', r'))"
  shows "0 < vr_fails r'"
  using assms by (auto simp: check_tls_def io_run heading_run tell_run on_fst_def split: prod.splits sum.splits if_splits)

lemma auth_result:
  assumes "check_auth lan base user pw (w, r) = (Inr b, (w', r'))"
  shows "b \<Longrightarrow> \<exists>u body v. fetch lan (session_auth user pw) (base @ ''/redfish/v1/UpdateService'') u = (Inr (200, body), v)"
    "\<not> b \<Longrightarrow> 0 < vr_fails r'"
  using assms by (auto simp: check_auth_def io_run heading_run tell_run on_fst_def split: prod.splits sum.splits)

lemma bank_result:
  assumes "check_bank lan auth base bank (w, r) = (Inr (), (w', r'))" "vr_fails r' = 0"
  shows "\<exists>u body v. fetch lan auth (base @ inventory_path @ ''/'' @ bank) u = (Inr (200, body), v)"
  using assms by (auto simp: check_bank_def io_run tell_run on_fst_def split: prod.splits sum.splits if_splits)

lemma bank_fails: "check_bank lan auth base bank (w, r) = (x, (w', r')) \<Longrightarrow> vr_fails r \<le> vr_fails r'"
  by (auto simp: check_bank_def io_run tell_run on_fst_def split: prod.splits sum.splits if_splits)

lemma inventory_result:
  assumes "check_inventory lan auth base (w, r) = (Inr (), (w', r'))" "vr_fails r' = 0" "bank \<in> {''BIOS'', ''BMC''}"
  shows "\<exists>u body v. fetch lan auth (base @ inventory_path @ ''/'' @ bank) u = (Inr (200, body), v)"
proof -
  obtain w1 r1 u w2 r2 where b: "check_bank lan auth base ''BIOS'' (w1, r1) = (Inr u, (w2, r2))"
    "check_bank lan auth base ''BMC'' (w2, r2) = (Inr (), (w', r'))"
    using assms(1) unfolding check_inventory_def
    by (elim seq_Inr_cases bind_Inr_cases) (auto elim!: seq_Inr_cases bind_Inr_cases split: prod.splits)
  have "vr_fails r2 = 0" using bank_fails [OF b(2)] assms(2) by simp
  then show ?thesis
    using assms(3) bank_result [OF b(1) [unfolded unit_eq [of u]]] bank_result [OF b(2) assms(2)] by auto
qed

lemma surface_result:
  assumes "check_surface lan auth base (w, r) = (Inr (), (w', r'))" "vr_fails r' = 0" "bank \<in> {''BIOS'', ''BMC''}"
  shows "\<exists>u body v. fetch lan auth (base @ inventory_path @ ''/'' @ bank) u = (Inr (200, body), v)"
proof -
  obtain w1 r1 u w2 r2 where i: "check_inventory lan auth base (w1, r1) = (Inr u, (w2, r2))"
    and rest: "check_rest lan auth base (w2, r2) = (Inr (), (w', r'))"
    using assms(1) unfolding check_surface_def by (elim seq_Inr_cases) auto
  have "vr_fails r2 = 0" using fails_kept(2) [OF rest] assms(2) by auto
  then show ?thesis using inventory_result [OF i [unfolded unit_eq [of u]] _ assms(3)] by blast
qed

section \<open>Properties\<close>

text \<open>Property C37. A verdict READY (exit status 0) rests on the BMC's own answers: port 443 took a
  connection, the credentials were accepted by the update service, and the primary BIOS and BMC
  entries of the firmware inventory were served with 200.\<close>

theorem verify_ready:
  assumes "verify_main lan ip user pw w = (Inr (out, 0), w')"
  shows "(\<exists>v. port_open lan ip 443 w = (Inr True, v)) \<and>
    (\<forall>p \<in> {''/redfish/v1/UpdateService'', ''/redfish/v1/UpdateService/FirmwareInventory/BIOS'',
            ''/redfish/v1/UpdateService/FirmwareInventory/BMC''}.
       \<exists>u body v. fetch lan (session_auth user pw) (''https://'' @ ip @ p) u = (Inr (200, body), v))"
proof -
  define base where "base = ''https://'' @ ip"
  obtain r where run: "verify_host lan ip user pw (w, new_report) = (Inr (), (w', r))" and ok: "vr_fails r = 0"
    using assms by (auto simp: verify_main_def split: prod.splits sum.splits if_splits)
  obtain b1 w1 r1 where n: "check_network lan ip (w, new_report) = (Inr b1, (w1, r1))"
    and run1: "(if \<not> b1 then ret () else
     bind (check_tls lan base) (\<lambda>tls. if \<not> tls then ret () else
     bind (check_auth lan base user pw) (\<lambda>authed. if \<not> authed then ret () else
     check_surface lan (session_auth user pw) base))) (w1, r1) = (Inr (), (w', r))"
    using run unfolding verify_host_def Let_def base_def [symmetric] by (elim bind_Inr_cases) auto
  have b1: b1 using run1 network_result(2) [OF n] ok by (cases b1) (auto simp: ret_run)
  obtain b2 w2 r2 where t: "check_tls lan base (w1, r1) = (Inr b2, (w2, r2))"
    and run2: "(if \<not> b2 then ret () else
     bind (check_auth lan base user pw) (\<lambda>authed. if \<not> authed then ret () else
     check_surface lan (session_auth user pw) base)) (w2, r2) = (Inr (), (w', r))"
    using run1 b1 by simp (elim bind_Inr_cases, auto)
  have b2: b2 using run2 tls_result [of lan base w1 r1 w2 r2] t ok by (cases b2) (auto simp: ret_run)
  obtain b3 w3 r3 where a: "check_auth lan base user pw (w2, r2) = (Inr b3, (w3, r3))"
    and run3: "(if \<not> b3 then ret () else check_surface lan (session_auth user pw) base) (w3, r3) = (Inr (), (w', r))"
    using run2 b2 by simp (elim bind_Inr_cases, auto)
  have b3: b3 using run3 auth_result(2) [OF a] ok by (cases b3) (auto simp: ret_run)
  then have s: "check_surface lan (session_auth user pw) base (w3, r3) = (Inr (), (w', r))" using run3 by simp
  have "port_open lan ip 443 w = (Inr True, w1)" using network_result(1) [OF n] b1 by simp
  moreover have "\<exists>u body v. fetch lan (session_auth user pw) (''https://'' @ ip @ p) u = (Inr (200, body), v)"
    if "p \<in> {''/redfish/v1/UpdateService'', ''/redfish/v1/UpdateService/FirmwareInventory/BIOS'',
            ''/redfish/v1/UpdateService/FirmwareInventory/BMC''}" for p
    using that auth_result(1) [OF a b3] surface_result [OF s ok, of "''BIOS''"] surface_result [OF s ok, of "''BMC''"]
    by (elim insertE emptyE) (simp_all add: base_def inventory_path_def)
  ultimately show ?thesis by blast
qed

text \<open>A BMC that asks for credentials and then answers everything with one object.\<close>

definition ready_lan :: "unit lan" where
  "ready_lan = \<lparr>lan_dial = (\<lambda>_ _. ret ()), lan_get = (\<lambda>auth url. ret \<lparr>rp_status = (if auth = None then 401 else 200),
     rp_headers = [], rp_header = (\<lambda>_. None), rp_text = Inr [],
     rp_json = Inr (JObj [(''ServiceEnabled'', JBool True), (''Members'', JArr [JObj [(''@odata.id'', JStr ''/a'')]])])\<rparr>)\<rparr>"

lemma ready_run: "\<exists>out. verify_main ready_lan ''10.0.0.5'' ''admin'' ''pw'' () = (Inr (out, 0), ())"
proof -
  have "snd (case fst (verify_main ready_lan ''10.0.0.5'' ''admin'' ''pw'' ()) of Inr x \<Rightarrow> x | Inl _ \<Rightarrow> ([], 1)) = 0"
    by code_simp
  then show ?thesis
    by (cases "verify_main ready_lan ''10.0.0.5'' ''admin'' ''pw'' ()") (auto split: sum.splits)
qed

theorem verify_ready_witness: "\<exists>u body v. fetch ready_lan (Some (''admin'', ''pw''))
   (''https://'' @ ''10.0.0.5'' @ ''/redfish/v1/UpdateService/FirmwareInventory/BMC'') u = (Inr (200, body), v)"
proof -
  obtain out where "verify_main ready_lan ''10.0.0.5'' ''admin'' ''pw'' () = (Inr (out, 0), ())" using ready_run by blast
  from verify_ready [OF this, THEN conjunct2] show ?thesis by (simp add: session_auth_def)
qed

text \<open>Further property. The counters of the summary are the lines of the report: a run that ends counts as many
  passes, failures and warnings as there are lines marked with each, so the exit status is 0 exactly
  when no line is marked FAIL.\<close>

theorem verify_counts:
  assumes "verify_host lan ip user pw (w, new_report) = (x, (w', r))"
  shows "vr_passes r = marked Pass (vr_lines r) \<and> vr_fails r = marked Fail (vr_lines r) \<and>
    vr_warns r = marked Warn (vr_lines r)"
proof -
  note k = verify_keeps [where P = counts_ok, OF counts_add counts_section]
  have "keeps (\<lambda>ws. counts_ok (snd ws)) (verify_host lan ip user pw)"
    unfolding verify_host_def Let_def by (intro keeps_bind keeps_if keeps_ret k)
  moreover have "counts_ok new_report" by (simp add: counts_ok_def new_report_def marked_def)
  ultimately have "counts_ok r"
    using keepsD [of "\<lambda>ws. counts_ok (snd ws)" "verify_host lan ip user pw" "(w, new_report)" x "(w', r)"] assms by simp
  then show ?thesis by (simp add: counts_ok_def)
qed

theorem verify_counts_witness: "\<exists>r :: vreport. vr_fails r = marked Fail (vr_lines r) \<and> vr_fails r = 1"
proof -
  let ?lan = "ready_lan\<lparr>lan_dial := (\<lambda>_ _. throw (Exn Exn_OS ''refused''))\<rparr>"
  obtain x w' r where run: "verify_host ?lan ''10.0.0.5'' ''admin'' ''pw'' ((), new_report) = (x, (w', r))"
    by (metis surj_pair)
  have "vr_fails (snd (snd (verify_host ?lan ''10.0.0.5'' ''admin'' ''pw'' ((), new_report)))) = 1" by code_simp
  then show ?thesis using verify_counts [OF run] run by (intro exI [of _ r]) simp
qed

text \<open>Further property. A host whose port 443 takes no connection is reported NOT READY without a single
  request: the network is left as the connection attempt left it.\<close>

theorem verify_unreachable:
  assumes "lan_dial lan ip 443 w = (Inl e, w1)" "os_error e"
  shows "\<exists>out. verify_main lan ip user pw w = (Inr (out, 1), w1)"
  using assms by (simp add: verify_main_def verify_host_def check_network_def port_open_def attempt_def io_run
      heading_run tell_run on_fst_def Let_def)

theorem verify_unreachable_witness:
  "\<exists>out. verify_main (ready_lan\<lparr>lan_dial := (\<lambda>_ _. throw (Exn Exn_OS ''refused''))\<rparr>) ''10.0.0.5'' ''admin'' ''pw'' () = (Inr (out, 1), ())"
  by (rule verify_unreachable [where e = "Exn Exn_OS ''refused''"]) (simp_all add: throw_run os_error_def)

end
