(* ===== verification/Tool_Audit.thy ===== *)
theory Tool_Audit
  imports Tool_Verify "HOL-Library.AList" "HOL-Library.Multiset"
begin

text \<open>
  The fleet audit \<open>tools/audit_update_apis.py\<close>: what it asks one BMC, the record it keeps and the recipe
  it infers, the grouping of the records by fingerprint, and the printed groups. The audits of different
  BMCs run concurrently and share nothing; \<open>gather\<close> returns them in the order of the list of addresses.
  Writing the raw JSON file is left out.
\<close>

section \<open>One BMC\<close>

record audit =
  au_ip :: string
  au_ok :: bool
  au_fingerprint :: string
  au_recipe :: string
  au_detail :: "(string \<times> json) list"

text \<open>\<open>safe_get\<close>: a body that does not decode is \<open>None\<close>, any other exception is status -1.\<close>

definition audit_get :: "'w lan \<Rightarrow> basic \<Rightarrow> string \<Rightarrow> ('w, int \<times> json) io" where
  "audit_get lan auth url = catch_if is_exception
     (bind (lan_get lan auth url) (\<lambda>resp.
        bind (lift_py (safe_json resp)) (\<lambda>body. ret (rp_status resp, body))))
     (\<lambda>e. ret (- 1, JStr (exn_name (exn_class e) @ '': '' @ take 80 (exn_str e))))"

definition audit_failed :: "string \<Rightarrow> (string \<times> json) list \<Rightarrow> string \<Rightarrow> audit" where
  "audit_failed ip detail why = \<lparr>au_ip = ip, au_ok = False, au_fingerprint = [], au_recipe = [],
     au_detail = detail @ [(''error'', JStr why)]\<rparr>"

definition key_list :: "string list \<Rightarrow> json" where
  "key_list ks = JArr (List.map JStr ks)"

definition recipe_of :: "json \<Rightarrow> string list \<Rightarrow> string" where
  "recipe_of multipart oem_actions =
     (if \<not> truthy multipart then ''no-multipart (Dell iDRAC pull style OR HPE-style HttpPushUri)''
      else if ''#SmcUpdateService.Install'' \<in> set oem_actions then ''Supermicro/AMI MegaRAC (modern)''
      else if oem_actions \<noteq> [] then ''AMI MegaRAC + OEM ('' @ concat (List.map (\<lambda>(i, a). if i = 0 then a else '','' @ a)
             (List.enumerate 0 oem_actions)) @ '')''
      else ''DMTF-only multipart push'')"

definition yes_no :: "bool \<Rightarrow> string" where
  "yes_no b = (if b then ''yes'' else ''no'')"

definition fingerprint_of :: "json \<Rightarrow> json \<Rightarrow> string list \<Rightarrow> string list \<Rightarrow> string" where
  "fingerprint_of vendor multipart oem_actions ids =
     ''vendor='' @ pad_right 25 (json_repr vendor) @ ''  multipart='' @ pad_right 50 (json_repr multipart)
     @ ''  oem_actions='' @ names oem_actions @ ''  bios_inv='' @ yes_no (''BIOS'' \<in> set ids)
     @ ''  bmc_inv='' @ yes_no (''BMC'' \<in> set ids)"

text \<open>The flag of one primary bank, \<open>None\<close> where it cannot be read.\<close>

definition bank_flag :: "'w lan \<Rightarrow> basic \<Rightarrow> string \<Rightarrow> string list \<Rightarrow> string \<Rightarrow> ('w, json) io" where
  "bank_flag lan auth base ids bank = (if bank \<notin> set ids then ret JNull
     else bind (audit_get lan auth (base @ inventory_path @ ''/'' @ bank)) (\<lambda>(s, item).
          if s = 200 \<and> is_obj item then lift_py (jget item ''Updateable'') else ret JNull))"

definition inventory_ids :: "int \<Rightarrow> json \<Rightarrow> string list py" where
  "inventory_ids st fi = (if st = 200 \<and> is_obj fi
     then bind_py (sub_list fi ''Members'') (map_py uri_leaf) else Inr [])"

text \<open>The record of a BMC whose update service answered.\<close>

definition audit_surface :: "'w lan \<Rightarrow> basic \<Rightarrow> string \<Rightarrow> string \<Rightarrow> (string \<times> json) list \<Rightarrow> json \<Rightarrow> ('w, audit) io" where
  "audit_surface lan auth base ip detail us =
     bind (lift_py (jget us ''MultipartHttpPushUri'')) (\<lambda>mp0.
     bind (lift_py (jget us ''HttpPushUri'')) (\<lambda>hp0.
     bind (lift_py (jget_or us ''ServiceEnabled'' (JBool True))) (\<lambda>enabled.
     bind (lift_py (keys_of us ''Actions'')) (\<lambda>std.
     bind (lift_py (bind_py (sub_obj us ''Actions'') (\<lambda>a. keys_of a ''Oem''))) (\<lambda>oem.
     bind (lift_py (bind_py (jget us ''MultipartHttpPushUri@Redfish.OperationApplyTimeSupport'') (\<lambda>a.
             bind_py (jget us ''HttpPushUri@Redfish.OperationApplyTimeSupport'') (\<lambda>b. Inr (or_else a b))))) (\<lambda>supp.
     bind (audit_get lan auth (base @ inventory_path)) (\<lambda>(fs, fi).
     bind (lift_py (inventory_ids fs fi)) (\<lambda>ids.
     bind (bank_flag lan auth base ids ''BIOS'') (\<lambda>bios.
     bind (bank_flag lan auth base ids ''BMC'') (\<lambda>bmc.
     let mp = or_else mp0 (JStr []); hp = or_else hp0 (JStr []) in
     ret \<lparr>au_ip = ip, au_ok = True,
       au_fingerprint = fingerprint_of (the_default JNull (map_of detail ''vendor'')) mp oem ids,
       au_recipe = recipe_of mp oem,
       au_detail = detail @ [(''service_enabled'', JBool (truthy enabled)), (''multipart_push_uri'', mp),
         (''http_push_uri'', hp), (''standard_actions'', key_list (filter (\<lambda>a. a \<noteq> ''Oem'') std)),
         (''oem_actions'', key_list oem), (''apply_time_support'', supp),
         (''firmware_inventory_count'', JInt (int (length ids))), (''firmware_inventory_ids'', key_list ids),
         (''bios_updateable'', bios), (''bmc_updateable'', bmc)]\<rparr>))))))))))"

definition audit_service :: "'w lan \<Rightarrow> basic \<Rightarrow> string \<Rightarrow> string \<Rightarrow> (string \<times> json) list \<Rightarrow> ('w, audit) io" where
  "audit_service lan auth base ip detail = bind (audit_get lan auth (base @ ''/redfish/v1/UpdateService'')) (\<lambda>(s, us).
     if s \<noteq> 200 \<or> \<not> is_obj us then ret (audit_failed ip detail (''UpdateService HTTP '' @ int_str s))
     else audit_surface lan auth base ip detail us)"

definition audit_host :: "'w lan \<Rightarrow> string \<Rightarrow> string \<Rightarrow> string \<Rightarrow> ('w, audit) io" where
  "audit_host lan ip user pw = (let base = ''https://'' @ ip; auth = Some (user, pw) in
     bind (audit_get lan auth (base @ ''/redfish/v1/'')) (\<lambda>(s, rt).
     if s \<noteq> 200 \<or> \<not> is_obj rt then ret (audit_failed ip [] (''ServiceRoot HTTP '' @ int_str s)) else
     bind (lift_py (bind_py (jget rt ''Vendor'') (\<lambda>v. bind_py (jget rt ''RedfishVersion'') (\<lambda>rv.
             bind_py (keys_of rt ''Oem'') (\<lambda>ks. Inr [(''vendor'', v), (''redfish_version'', rv), (''oem_keys'', key_list ks)])))))
       (audit_service lan auth base ip)))"

definition audit_one :: "'w lan \<Rightarrow> string \<Rightarrow> string \<Rightarrow> string \<Rightarrow> ('w, audit) io" where
  "audit_one lan user pw ip = catch_if is_exception (audit_host lan ip user pw)
     (\<lambda>e. ret (audit_failed ip [] (take 80 (exn_str e))))"

section \<open>The fleet\<close>

definition ips_of_file :: "string \<Rightarrow> string list" where
  "ips_of_file content = filter (\<lambda>s. s \<noteq> []) (List.map strip (split_char CHR 10 content))"

definition group_key :: "audit \<Rightarrow> string" where
  "group_key r = (if au_ok r then au_fingerprint r
     else ''FAILED: '' @ json_str (the_default (JStr ''?'') (map_of (au_detail r) ''error'')))"

definition add_to_group :: "(string \<times> audit list) list \<Rightarrow> audit \<Rightarrow> (string \<times> audit list) list" where
  "add_to_group gs r = (let k = group_key r in AList.update k (the_default [] (map_of gs k) @ [r]) gs)"

definition group_results :: "audit list \<Rightarrow> (string \<times> audit list) list" where
  "group_results rs = foldl add_to_group [] rs"

text \<open>\<open>sorted\<close> is stable, as \<open>sort_key\<close> is.\<close>

definition ranked_groups :: "audit list \<Rightarrow> (string \<times> audit list) list" where
  "ranked_groups rs = sort_key (\<lambda>(_, ms). - int (length ms)) (group_results rs)"

definition shown :: "(string \<times> json) list \<Rightarrow> string \<Rightarrow> json" where
  "shown d k = the_default JNull (map_of d k)"

definition group_lines :: "nat \<Rightarrow> string \<times> audit list \<Rightarrow> string list" where
  "group_lines i = (\<lambda>(k, ms). let sample = hd ms; d = au_detail sample in
     [''--- Group '' @ int_str (int i) @ '': '' @ int_str (int (length ms)) @ '' BMC(s) ---'']
     @ (if au_ok sample then
         [''  Recipe:          '' @ au_recipe sample,
          ''  Vendor:          '' @ json_repr (shown d ''vendor''),
          ''  Multipart URI:   '' @ json_repr (shown d ''multipart_push_uri''),
          ''  HttpPushUri:     '' @ json_repr (shown d ''http_push_uri''),
          ''  Standard actions:'' @ json_str (shown d ''standard_actions''),
          ''  OEM actions:     '' @ json_str (shown d ''oem_actions''),
          ''  ApplyTimeSupport:'' @ json_str (shown d ''apply_time_support''),
          ''  FW inventory:    '' @ json_str (shown d ''firmware_inventory_count'') @ '' members '' @ em_dash @ '' ''
             @ json_str (shown d ''firmware_inventory_ids''),
          ''  BIOS Updateable: '' @ json_str (shown d ''bios_updateable''),
          ''  BMC Updateable:  '' @ json_str (shown d ''bmc_updateable'')]
        else [''  Error: '' @ json_str (the_default (JStr ''?'') (map_of d ''error''))])
     @ [''  IPs ('' @ int_str (int (length ms)) @ ''):''] @ List.map (\<lambda>m. ''    - '' @ au_ip m) ms @ [[]])"

definition audit_lines :: "audit list \<Rightarrow> string list" where
  "audit_lines rs = (let gs = ranked_groups rs in
     [''=== '' @ int_str (int (length gs)) @ '' distinct recipe(s) across '' @ int_str (int (length rs)) @ '' BMCs ==='', []]
     @ concat (List.map (\<lambda>(i, g). group_lines (Suc i) g) (List.enumerate 0 gs)))"

section \<open>Facts on the groups\<close>

definition members_of :: "audit list \<Rightarrow> string \<Rightarrow> audit list" where
  "members_of rs k = filter (\<lambda>r. group_key r = k) rs"

lemma group_results_snoc: "group_results (rs @ [r]) = add_to_group (group_results rs) r"
  by (simp add: group_results_def)

lemma group_inv:
  "distinct (List.map fst (group_results rs)) \<and> set (List.map fst (group_results rs)) = group_key ` set rs \<and>
   (\<forall>k. map_of (group_results rs) k = (if k \<in> group_key ` set rs then Some (members_of rs k) else None))"
proof (induction rs rule: rev_induct)
  case Nil
  show ?case by (simp add: group_results_def)
next
  case (snoc r rs)
  let ?gs = "group_results rs" and ?k = "group_key r"
  have old: "the_default [] (map_of ?gs ?k) = members_of rs ?k"
  proof (cases "?k \<in> group_key ` set rs")
    case True
    then have "map_of ?gs ?k = Some (members_of rs ?k)" using snoc by auto
    then show ?thesis by (simp add: the_default_def)
  next
    case False
    then have "map_of ?gs ?k = None" using snoc by auto
    moreover have "members_of rs ?k = []" using False unfolding members_of_def filter_empty_conv by (metis imageI)
    ultimately show ?thesis by (simp add: the_default_def)
  qed
  have upd: "group_results (rs @ [r]) = AList.update ?k (members_of rs ?k @ [r]) ?gs"
    by (simp add: group_results_snoc add_to_group_def Let_def old)
  have "map_of (group_results (rs @ [r])) k =
      (if k \<in> group_key ` set (rs @ [r]) then Some (members_of (rs @ [r]) k) else None)" for k
    using snoc by (auto simp: upd update_conv' members_of_def)
  moreover have "distinct (List.map fst (group_results (rs @ [r])))" using snoc by (simp add: upd distinct_update)
  moreover have "set (List.map fst (group_results (rs @ [r]))) = group_key ` set (rs @ [r])"
    using snoc by (simp add: upd update_keys insert_absorb)
  ultimately show ?case by blast
qed

lemma members_partition:
  "distinct ks \<Longrightarrow> group_key ` set rs \<subseteq> set ks \<Longrightarrow> mset (concat (List.map (members_of rs) ks)) = mset rs"
proof (induction rs)
  case Nil
  show ?case by (simp add: members_of_def)
next
  case (Cons r rs)
  have "mset (concat (List.map (members_of (r # rs)) ks)) =
      mset (concat (List.map (members_of rs) ks)) + (\<Sum>k \<leftarrow> ks. if group_key r = k then {#r#} else {#})" for ks
    by (induction ks) (simp_all add: members_of_def)
  moreover have "(\<Sum>k \<leftarrow> ks. if group_key r = k then {#r#} else {#}) = (if group_key r \<in> set ks then {#r#} else {#})"
    if "distinct ks" for ks using that by (induction ks) auto
  ultimately show ?case using Cons by simp
qed

lemma surface_ip: "audit_surface lan auth base ip detail us w = (Inr r, w') \<Longrightarrow> au_ip r = ip"
  unfolding audit_surface_def Let_def
  by (elim bind_Inr_cases) (auto simp: ret_run split: prod.splits elim!: bind_Inr_cases)

lemma service_record:
  assumes "audit_service lan auth base ip detail w = (Inr r, w')"
  shows "au_ip r = ip \<and> (au_ok r \<longrightarrow>
    (\<exists>u us v. audit_get lan auth (base @ ''/redfish/v1/UpdateService'') u = (Inr (200, us), v) \<and> is_obj us))"
proof -
  obtain s us w1 where g: "audit_get lan auth (base @ ''/redfish/v1/UpdateService'') w = (Inr (s, us), w1)"
    and k: "(if s \<noteq> 200 \<or> \<not> is_obj us then ret (audit_failed ip detail (''UpdateService HTTP '' @ int_str s))
       else audit_surface lan auth base ip detail us) w1 = (Inr r, w')"
    using assms unfolding audit_service_def by (elim bind_Inr_cases) auto
  show ?thesis
  proof (cases "s \<noteq> 200 \<or> \<not> is_obj us")
    case True
    then show ?thesis using k by (auto simp: ret_run audit_failed_def)
  next
    case False
    then show ?thesis using k g surface_ip [of lan auth base ip detail us w1 r w'] by auto
  qed
qed

lemma host_record:
  assumes "audit_host lan ip user pw w = (Inr r, w')"
  shows "au_ip r = ip \<and> (au_ok r \<longrightarrow>
    (\<exists>u us v. audit_get lan (Some (user, pw)) (''https://'' @ ip @ ''/redfish/v1/UpdateService'') u = (Inr (200, us), v) \<and> is_obj us))"
proof -
  define base where "base = ''https://'' @ ip"
  obtain s rt w1 where k: "(if s \<noteq> 200 \<or> \<not> is_obj rt then ret (audit_failed ip [] (''ServiceRoot HTTP '' @ int_str s)) else
     bind (lift_py (bind_py (jget rt ''Vendor'') (\<lambda>v. bind_py (jget rt ''RedfishVersion'') (\<lambda>rv.
             bind_py (keys_of rt ''Oem'') (\<lambda>ks. Inr [(''vendor'', v), (''redfish_version'', rv), (''oem_keys'', key_list ks)])))))
       (audit_service lan (Some (user, pw)) base ip)) w1 = (Inr r, w')"
    using assms unfolding audit_host_def Let_def base_def [symmetric] by (elim bind_Inr_cases) auto
  show ?thesis
  proof (cases "s \<noteq> 200 \<or> \<not> is_obj rt")
    case True
    then show ?thesis using k by (auto simp: ret_run audit_failed_def)
  next
    case False
    then obtain detail w2 where "audit_service lan (Some (user, pw)) base ip detail w2 = (Inr r, w')"
      using k by (auto elim!: bind_Inr_cases)
    from service_record [OF this] show ?thesis by (simp add: base_def)
  qed
qed

section \<open>Properties\<close>

text \<open>Further property. The groups are the fleet, each BMC once: their keys are distinct, a group holds exactly
  the records with its key, in the order of the address list, no group is empty, together they are
  the records that came in, and larger groups come first.\<close>

theorem audit_groups_partition:
  "distinct (List.map fst (ranked_groups rs)) \<and>
   mset (concat (List.map snd (ranked_groups rs))) = mset rs \<and>
   list_all (\<lambda>(k, ms). ms = filter (\<lambda>r. group_key r = k) rs \<and> ms \<noteq> []) (ranked_groups rs) \<and>
   sorted_wrt (\<lambda>a b. length (snd b) \<le> length (snd a)) (ranked_groups rs)"
proof -
  let ?gs = "group_results rs"
  note inv = group_inv [of rs]
  have perm: "mset (ranked_groups rs) = mset ?gs" by (simp add: ranked_groups_def)
  have mem: "ms = members_of rs k \<and> k \<in> group_key ` set rs" if "(k, ms) \<in> set ?gs" for k ms
  proof -
    have "map_of ?gs k = Some ms" using that inv by (intro map_of_is_SomeI) simp_all
    moreover have "map_of ?gs k = (if k \<in> group_key ` set rs then Some (members_of rs k) else None)" using inv by blast
    ultimately show ?thesis by (auto split: if_splits)
  qed
  have all: "list_all (\<lambda>(k, ms). ms = filter (\<lambda>r. group_key r = k) rs \<and> ms \<noteq> []) (ranked_groups rs)"
  proof -
    have "ms = filter (\<lambda>r. group_key r = k) rs \<and> ms \<noteq> []" if "(k, ms) \<in> set ?gs" for k ms
      using mem [OF that] by (force simp: members_of_def filter_empty_conv)
    then show ?thesis using mset_eq_setD [OF perm] by (auto simp: list_all_iff)
  qed
  have keys: "distinct (List.map fst (ranked_groups rs))"
    using inv perm by (metis mset_eq_imp_distinct_iff mset_map)
  have "List.map snd ?gs = List.map (members_of rs) (List.map fst ?gs)"
    using mem by (auto simp: map_eq_conv)
  then have whole: "mset (concat (List.map snd ?gs)) = mset rs"
    using members_partition [of "List.map fst ?gs" rs] inv by (metis order_refl)
  have "mset (concat (List.map snd (ranked_groups rs))) = mset (concat (List.map snd ?gs))"
    using arg_cong [OF perm, of "\<lambda>m. sum_mset (image_mset (mset \<circ> snd) m)"] by (simp add: mset_concat sum_mset_sum_list flip: mset_map)
  moreover have "sorted_wrt (\<lambda>a b. length (snd b) \<le> length (snd a)) (ranked_groups rs)"
  proof -
    have "sorted (List.map (\<lambda>(_, ms). - int (length ms)) (ranked_groups rs))" by (simp add: ranked_groups_def)
    then show ?thesis by (simp add: sorted_map case_prod_beta)
  qed
  ultimately show ?thesis using keys whole all by simp
qed

text \<open>Further property. Every address gets its record: auditing a BMC returns whatever the BMC answers, unless the task is
  cancelled, the record is the address's own, and it is marked as audited only if the BMC served the
  update service as an object with status 200 to these credentials.\<close>

theorem audit_always_reports:
  assumes "audit_one lan user pw ip w = (x, w')"
  shows "(\<exists>e. x = Inl e \<and> \<not> is_exception e) \<or> (\<exists>r. x = Inr r \<and> au_ip r = ip \<and>
    (au_ok r \<longrightarrow> (\<exists>u us v. audit_get lan (Some (user, pw)) (''https://'' @ ip @ ''/redfish/v1/UpdateService'') u = (Inr (200, us), v) \<and> is_obj us)))"
proof (cases "audit_host lan ip user pw w")
  case (Pair y w1)
  show ?thesis
  proof (cases y)
    case (Inl e)
    then show ?thesis using assms Pair by (auto simp: audit_one_def catch_run ret_run audit_failed_def split: if_splits)
  next
    case (Inr r)
    then have "x = Inr r" using assms Pair by (simp add: audit_one_def catch_run)
    moreover have "au_ip r = ip \<and> (au_ok r \<longrightarrow>
      (\<exists>u us v. audit_get lan (Some (user, pw)) (''https://'' @ ip @ ''/redfish/v1/UpdateService'') u = (Inr (200, us), v) \<and> is_obj us))"
      using host_record [OF Pair [unfolded Inr]] .
    ultimately show ?thesis by blast
  qed
qed

theorem audit_always_reports_witness:
  "\<exists>x w' r. audit_one ready_lan ''admin'' ''pw'' ''10.0.0.5'' () = (x, w') \<and> x = Inr r \<and> au_ip r = ''10.0.0.5''"
proof -
  obtain x w' where run: "audit_one ready_lan ''admin'' ''pw'' ''10.0.0.5'' () = (x, w')" by (metis surj_pair)
  have "case fst (audit_one ready_lan ''admin'' ''pw'' ''10.0.0.5'' ()) of Inl _ \<Rightarrow> False | Inr r \<Rightarrow> au_ok r" by code_simp
  then have "\<not> (\<exists>e. x = Inl e)" using run by auto
  then show ?thesis using audit_always_reports [OF run] run by blast
qed

text \<open>Further property. One BMC that answers oddly does not stop the audit: a host whose update service is a JSON
  object with an \<open>Actions\<close> entry that is not an object (where \<open>.keys()\<close> raises) still gets a record,
  marked as failed and grouped under its error.\<close>

definition odd_lan :: "unit lan" where
  "odd_lan = ready_lan\<lparr>lan_get := (\<lambda>_ _. ret \<lparr>rp_status = 200, rp_headers = [], rp_header = (\<lambda>_. None), rp_text = Inr [],
     rp_json = Inr (JObj [(''Actions'', JInt 3)])\<rparr>)\<rparr>"

theorem odd_answer_is_grouped:
  "\<exists>r. audit_one odd_lan ''admin'' ''pw'' ''10.0.0.6'' () = (Inr r, ()) \<and> \<not> au_ok r \<and>
     group_results [r] = [(''FAILED: '' @ quoted ''int'' @ '' object has no attribute '' @ quoted ''keys'', [r])]"
proof -
  have "case fst (audit_one odd_lan ''admin'' ''pw'' ''10.0.0.6'' ()) of Inl _ \<Rightarrow> False | Inr r \<Rightarrow> \<not> au_ok r \<and>
     group_key r = ''FAILED: '' @ quoted ''int'' @ '' object has no attribute '' @ quoted ''keys''" by code_simp
  then show ?thesis
    by (cases "audit_one odd_lan ''admin'' ''pw'' ''10.0.0.6'' ()")
      (auto simp: group_results_def add_to_group_def Let_def the_default_def split: sum.splits)
qed

end
