(* ===== verification/Tool_Scan.thy ===== *)
theory Tool_Scan
  imports Tool_Verify Scan_Ranges
begin

text \<open>
  The subnet scan \<open>tools/scan_subnet.py\<close>: the two probes, the order of the hosts, the candidate file with
  which a scan is taken up again, the password the command uses, and the summary. The probes of a pass
  run concurrently; what is modelled is one probe, and what is made of the answers in whatever order
  they arrive. Lines printed on the way are left out.
\<close>

section \<open>Hosts\<close>

text \<open>The sort key \<open>tuple(int(p) for p in s.split("."))\<close>; every key is computed before anything is sorted.\<close>

definition ip_key :: "string \<Rightarrow> int list py" where
  "ip_key s = map_py to_int (split_char (CHR ''.'') s)"

definition key_or_nil :: "string \<Rightarrow> int list" where
  "key_or_nil s = (case ip_key s of Inr k \<Rightarrow> k | Inl _ \<Rightarrow> [])"

definition sorted_by_ip :: "('a \<Rightarrow> string) \<Rightarrow> 'a list \<Rightarrow> 'a list py" where
  "sorted_by_ip ip xs = bind_py (map_py (\<lambda>x. ip_key (ip x)) xs) (\<lambda>_. Inr (sort_key (\<lambda>x. key_or_nil (ip x)) xs))"

text \<open>A subnet as \<open>IPv4Network(text, strict=False)\<close> reads it, and the hosts the first pass dials. \<open>found\<close> are those that
  answered on port 443, in the order in which they did.\<close>

definition scan_network :: "string \<Rightarrow> (int \<times> nat) option" where
  "scan_network s = (if CHR ''/'' \<in> set s then ipv4_network s
     else case ip_int s of Inr i \<Rightarrow> Some (i, 32) | Inl _ \<Rightarrow> None)"

definition pass1_hosts :: "int \<times> nat \<Rightarrow> string list" where
  "pass1_hosts = (\<lambda>(base, p). List.map show_ipv4 (network_hosts base p))"

definition pass1_tcp :: "string list \<Rightarrow> string list py" where
  "pass1_tcp found = sorted_by_ip (\<lambda>s. s) found"

section \<open>The candidate file\<close>

abbreviation linefeed :: char where
  "linefeed \<equiv> CHR 10"

definition cand_file :: string where
  "cand_file = ''scan_candidates.txt''"

definition write_candidates :: "string \<Rightarrow> string list \<Rightarrow> string" where
  "write_candidates user ips =
     ''# TCP :443 open hosts '' @ em_dash @ '' re-runnable via'' @ [linefeed]
     @ ''# python tools/scan_subnet.py '' @ cand_file @ '' '' @ user @ '' '' @ quoted ''<password>'' @ [linefeed]
     @ concat (List.map (\<lambda>ip. ip @ [linefeed]) ips)"

definition read_candidates :: "string \<Rightarrow> string list" where
  "read_candidates content = List.map strip
     (filter (\<lambda>line. strip line \<noteq> [] \<and> \<not> starts_with ''#'' line) (split_char linefeed content))"

section \<open>One Redfish probe\<close>

record scan_row =
  sw_ip :: string
  sw_redfish :: bool
  sw_auth :: "bool option"
  sw_vendor :: json
  sw_model :: json
  sw_bios :: json
  sw_bmc :: json
  sw_error :: string

definition blank_row :: "string \<Rightarrow> scan_row" where
  "blank_row ip = \<lparr>sw_ip = ip, sw_redfish = False, sw_auth = None, sw_vendor = JStr ''?'', sw_model = JStr ''?'',
     sw_bios = JStr ''?'', sw_bmc = JStr ''?'', sw_error = []\<rparr>"

text \<open>The row is filled as the answers come: what is known when an exception is raised stays in it.\<close>

type_synonym ('w, 'a) probing = "('w \<times> scan_row, 'a) io"

definition or_unknown :: "json \<Rightarrow> json" where
  "or_unknown j = or_else j (JStr ''?'')"

definition first_link :: "json \<Rightarrow> string py" where
  "first_link members = bind_py (jhead members) (\<lambda>m. bind_py (jindex m ''@odata.id'') url_part)"

definition probe_member :: "'w lan \<Rightarrow> basic \<Rightarrow> string \<Rightarrow> json \<Rightarrow> (json \<Rightarrow> (scan_row \<Rightarrow> scan_row) py) \<Rightarrow> ('w, unit) probing" where
  "probe_member lan auth base members fill = (if \<not> truthy members then ret () else
     bind (lift_py (first_link members)) (\<lambda>u.
     bind (on_fst (lan_get lan auth (base @ u))) (\<lambda>resp.
     if rp_status resp \<noteq> 200 then ret ()
     else bind (lift_py (bind_py (safe_json resp) (\<lambda>j. fill (or_else j (JObj []))))) on_snd)))"

definition fill_system :: "json \<Rightarrow> (scan_row \<Rightarrow> scan_row) py" where
  "fill_system s = bind_py (jget s ''Model'') (\<lambda>m. Inr (\<lambda>r. r\<lparr>sw_model := or_unknown m\<rparr>))"

definition fill_bios :: "json \<Rightarrow> (scan_row \<Rightarrow> scan_row) py" where
  "fill_bios s = bind_py (jget s ''BiosVersion'') (\<lambda>b. Inr (\<lambda>r. r\<lparr>sw_bios := or_unknown b\<rparr>))"

definition fill_manager :: "json \<Rightarrow> (scan_row \<Rightarrow> scan_row) py" where
  "fill_manager s = bind_py (jget s ''FirmwareVersion'') (\<lambda>b. Inr (\<lambda>r. r\<lparr>sw_bmc := or_unknown b\<rparr>))"

text \<open>Both fields of the system come from one answer: a \<open>get\<close> that works for the first works for the second.\<close>

definition fill_both :: "json \<Rightarrow> (scan_row \<Rightarrow> scan_row) py" where
  "fill_both s = bind_py (fill_system s) (\<lambda>f. bind_py (fill_bios s) (\<lambda>g. Inr (g \<circ> f)))"

definition members_field :: "response \<Rightarrow> json py" where
  "members_field resp = bind_py (safe_json resp) (\<lambda>j. bind_py (jget (or_else j (JObj [])) ''Members'') (\<lambda>m. Inr (or_else m (JArr []))))"

definition is_service_root :: "json \<Rightarrow> bool" where
  "is_service_root j = (case j of JObj kvs \<Rightarrow> map_of kvs ''@odata.type'' \<noteq> None \<or> map_of kvs ''RedfishVersion'' \<noteq> None | _ \<Rightarrow> False)"

definition set_error :: "string \<Rightarrow> ('w, unit) probing" where
  "set_error msg = on_snd (sw_error_update (\<lambda>_. msg))"

definition probe_bmc :: "'w lan \<Rightarrow> basic \<Rightarrow> string \<Rightarrow> ('w, unit) probing" where
  "probe_bmc lan auth base = bind (on_fst (lan_get lan auth (base @ ''/redfish/v1/Managers''))) (\<lambda>resp.
     if rp_status resp \<noteq> 200 then ret ()
     else bind (lift_py (members_field resp)) (\<lambda>ms. probe_member lan auth base ms fill_manager))"

definition probe_auth :: "'w lan \<Rightarrow> basic \<Rightarrow> string \<Rightarrow> ('w, unit) probing" where
  "probe_auth lan auth base = bind (on_fst (lan_get lan auth (base @ ''/redfish/v1/Systems''))) (\<lambda>resp.
     if rp_status resp = 401 then seq (on_snd (sw_auth_update (\<lambda>_. Some False))) (set_error (''401 '' @ em_dash @ '' bad creds''))
     else if rp_status resp \<noteq> 200 then set_error (''Systems HTTP '' @ int_str (rp_status resp))
     else seq (on_snd (sw_auth_update (\<lambda>_. Some True)))
       (bind (lift_py (members_field resp)) (\<lambda>ms.
        seq (probe_member lan auth base ms fill_both) (probe_bmc lan auth base))))"

definition probe_root :: "'w lan \<Rightarrow> basic \<Rightarrow> string \<Rightarrow> ('w, unit) probing" where
  "probe_root lan auth base = bind (on_fst (lan_get lan None (base @ ''/redfish/v1/''))) (\<lambda>resp.
     if rp_status resp \<noteq> 200 then set_error (''ServiceRoot HTTP '' @ int_str (rp_status resp))
     else bind (lift_py (safe_json resp)) (\<lambda>rt.
       if \<not> is_service_root rt then set_error ''200 but not Redfish JSON (HTML/text)''
       else seq (on_snd (sw_redfish_update (\<lambda>_. True)))
         (bind (lift_py (jget rt ''Vendor'')) (\<lambda>v.
          seq (on_snd (sw_vendor_update (\<lambda>_. or_unknown v))) (probe_auth lan auth base)))))"

definition redfish_probe :: "'w lan \<Rightarrow> string \<Rightarrow> string \<Rightarrow> string \<Rightarrow> ('w, scan_row) io" where
  "redfish_probe lan user pw ip = (\<lambda>w. case catch_if is_exception (probe_root lan (Some (user, pw)) (''https://'' @ ip))
       (\<lambda>e. set_error (exn_name (exn_class e) @ '': '' @ take 100 (exn_str e))) (w, blank_row ip) of
       (Inl e, (w', _)) \<Rightarrow> (Inl e, w')
     | (Inr _, (w', r)) \<Rightarrow> (Inr r, w'))"

section \<open>The summary\<close>

text \<open>\<open>r[k][:n]\<close> formatted to a width: a string only. Python raises \<open>TypeError\<close> for every other value, except that since version
  3.12 slicing a dict raises \<open>KeyError\<close>.\<close>

definition cell :: "nat \<Rightarrow> json \<Rightarrow> string py" where
  "cell n j = (case j of JStr s \<Rightarrow> Inr (pad_right n (take (n - 1) s))
     | _ \<Rightarrow> Inl (Exn Exn_Type (quoted (py_type j) @ '' object is not subscriptable'')))"

definition row_line :: "scan_row \<Rightarrow> string py" where
  "row_line r = bind_py (cell 18 (sw_vendor r)) (\<lambda>v. bind_py (cell 28 (sw_model r)) (\<lambda>m.
     bind_py (cell 18 (sw_bios r)) (\<lambda>b. bind_py (cell 18 (sw_bmc r)) (\<lambda>c.
     Inr (''  '' @ pad_right 16 (sw_ip r) @ v @ m @ b @ c)))))"

definition speaks_redfish :: "scan_row list \<Rightarrow> scan_row list" where
  "speaks_redfish rows = filter sw_redfish rows"

definition authenticated :: "scan_row list \<Rightarrow> scan_row list" where
  "authenticated rows = filter (\<lambda>r. sw_auth r = Some True) (speaks_redfish rows)"

definition scan_summary :: "scan_row list \<Rightarrow> string list py" where
  "scan_summary rows = (let ok = authenticated rows in
     bind_py (if ok = [] then Inr [] else
       bind_py (sorted_by_ip sw_ip ok) (\<lambda>rs. bind_py (map_py row_line rs) (\<lambda>ls.
       Inr ([[], ''  Flashable inventory (auth OK):'',
             ''  '' @ pad_right 16 ''IP'' @ pad_right 18 ''Vendor'' @ pad_right 28 ''Model'' @ pad_right 18 ''BIOS'' @ pad_right 18 ''BMC'',
             ''  '' @ replicate 16 CHR ''-'' @ replicate 18 CHR ''-'' @ replicate 28 CHR ''-'' @ replicate 18 CHR ''-'' @ replicate 18 CHR ''-'']
            @ ls)))) (\<lambda>inventory.
     Inr ([[], ''=========== SUMMARY ==========='',
           ''  Hosts probed for Redfish:  '' @ int_str (int (length rows)),
           ''  Redfish-speaking BMCs:     '' @ int_str (int (length (speaks_redfish rows))),
           ''  Authenticated successfully: '' @ int_str (int (length ok))]
          @ inventory @ [''================================'', []])))"

section \<open>The command\<close>

text \<open>The password: the environment, then the argument, then the terminal or what standard input holds.\<close>

definition scan_password :: "string \<Rightarrow> string list \<Rightarrow> bool \<Rightarrow> string \<Rightarrow> string \<Rightarrow> string" where
  "scan_password env args is_tty typed piped =
     (if env \<noteq> [] then env
      else if 3 \<le> length args \<and> args ! 2 \<noteq> [] then args ! 2
      else if is_tty then typed else rstrip_char linefeed piped)"

section \<open>Facts on addresses\<close>

lemma div_mod_le: "(i :: int) \<le> j \<longleftrightarrow> i div 256 < j div 256 \<or> i div 256 = j div 256 \<and> i mod 256 \<le> j mod 256"
proof -
  have "i = 256 * (i div 256) + i mod 256" "j = 256 * (j div 256) + j mod 256" by simp_all
  moreover have "0 \<le> i mod 256" "i mod 256 < 256" "0 \<le> j mod 256" "j mod 256 < 256" by simp_all
  ultimately show ?thesis by linarith
qed

lemma div_mod_less: "(i :: int) < j \<longleftrightarrow> i div 256 < j div 256 \<or> i div 256 = j div 256 \<and> i mod 256 < j mod 256"
  using div_mod_le [of j i] by linarith

lemma div_mod_eq: "(i :: int) = j \<longleftrightarrow> i div 256 = j div 256 \<and> i mod 256 = j mod 256"
  by (metis mult_div_mod_eq)

lemma octets_nested: "octets_of i = [i div 256 div 256 div 256, i div 256 div 256 mod 256, i div 256 mod 256, i mod 256]"
  by (simp add: octets_of_def zdiv_zmult2_eq [symmetric])

text \<open>The order of the tuples is the order of the addresses.\<close>

lemma octets_le: "octets_of i \<le> octets_of j \<longleftrightarrow> i \<le> j"
proof -
  have "i \<le> j \<longleftrightarrow> i div 256 div 256 div 256 < j div 256 div 256 div 256 \<or> i div 256 div 256 div 256 = j div 256 div 256 div 256 \<and>
     (i div 256 div 256 mod 256 < j div 256 div 256 mod 256 \<or> i div 256 div 256 mod 256 = j div 256 div 256 mod 256 \<and>
     (i div 256 mod 256 < j div 256 mod 256 \<or> i div 256 mod 256 = j div 256 mod 256 \<and> i mod 256 \<le> j mod 256))"
    by (simp only: div_mod_le [of i j] div_mod_less [of "i div 256" "j div 256"] div_mod_eq [of "i div 256" "j div 256"]
      div_mod_less [of "i div 256 div 256" "j div 256 div 256"] div_mod_eq [of "i div 256 div 256" "j div 256 div 256"]) blast
  then show ?thesis by (simp add: octets_nested le_less [of "i mod 256" "j mod 256"])
qed

lemma octets_inj: "octets_of i = octets_of j \<longleftrightarrow> i = j"
  using octets_le [of i j] octets_le [of j i] by (metis order_antisym order_refl)

lemma map_py_texts: "map_py to_int (List.map int_str os) = Inr os"
  by (induction os) (simp_all add: to_int_def parse_int_str)

lemma ip_key_show: "0 \<le> i \<Longrightarrow> i < 2 ^ 32 \<Longrightarrow> ip_key (show_ipv4 i) = Inr (octets_of i)"
  by (simp add: ip_key_def show_ipv4_split map_py_texts)

lemma split_lines: "linefeed \<notin> set a \<Longrightarrow> split_char linefeed (a @ linefeed # b) = a # split_char linefeed b"
  by (rule split_char_sep)

lemma read_lines:
  assumes "\<forall>ip \<in> set ips. linefeed \<notin> set ip \<and> strip ip = ip \<and> ip \<noteq> [] \<and> \<not> starts_with ''#'' ip"
  shows "read_candidates (concat (List.map (\<lambda>ip. ip @ [linefeed]) ips)) = ips"
  using assms by (induction ips) (simp_all add: read_candidates_def split_lines strip_Nil_iff [of "[]"])

lemma read_comment: "linefeed \<notin> set a \<Longrightarrow> starts_with ''#'' a \<Longrightarrow> read_candidates (a @ linefeed # b) = read_candidates b"
  by (simp add: read_candidates_def split_lines)

section \<open>Properties\<close>

text \<open>Further property. The first pass gives the open hosts in the order of their addresses, whatever the order in which
  they answered.\<close>

theorem pass1_sorted:
  assumes "distinct is" "\<forall>i \<in> set is. 0 \<le> i \<and> i < 2 ^ 32" "mset found = mset (List.map show_ipv4 is)"
  shows "pass1_tcp found = Inr (List.map show_ipv4 (sort is))"
proof -
  have set: "set found = show_ipv4 ` set is" using mset_eq_setD [OF assms(3)] by simp
  have key: "key_or_nil (show_ipv4 i) = octets_of i" if "i \<in> set is" for i
    using that assms(2) ip_key_show by (simp add: key_or_nil_def)
  have ok: "\<exists>ks. map_py ip_key xs = Inr ks" if "set xs \<subseteq> show_ipv4 ` set is" for xs
    using that assms(2) by (induction xs) (auto simp: ip_key_show)
  have inj: "inj_on key_or_nil (show_ipv4 ` set is)"
    by (rule inj_onI) (auto simp: key octets_inj)
  have "distinct (List.map show_ipv4 is)"
    using assms(1) key octets_inj by (auto simp: distinct_map inj_on_def) (metis)
  then have "distinct found" using assms(3) by (metis mset_eq_imp_distinct_iff)
  have "sort_key key_or_nil found = List.map show_ipv4 (sort is)"
  proof (rule map_sorted_distinct_set_unique [where f = key_or_nil])
    show "inj_on key_or_nil (set (sort_key key_or_nil found) \<union> set (List.map show_ipv4 (sort is)))"
      using inj set by simp
    show "sorted (List.map key_or_nil (List.map show_ipv4 (sort is)))"
    proof -
      have "sorted (List.map octets_of (sort is))"
        using sorted_sort [of "is"] by (simp add: sorted_map octets_le)
      moreover have "List.map key_or_nil (List.map show_ipv4 (sort is)) = List.map octets_of (sort is)"
        using key by simp
      ultimately show ?thesis by (simp only:)
    qed
    show "distinct (List.map key_or_nil (sort_key key_or_nil found))"
      using inj set \<open>distinct found\<close> by (simp add: distinct_map)
    show "distinct (List.map key_or_nil (List.map show_ipv4 (sort is)))"
      using inj assms(1) key octets_inj by (auto simp: distinct_map inj_on_def)
  qed (simp_all add: set)
  then show ?thesis using ok [of found] set by (auto simp: pass1_tcp_def sorted_by_ip_def)
qed

theorem pass1_sorted_witness:
  "pass1_tcp [''10.0.0.10'', ''10.0.0.9'', ''9.255.0.1''] = Inr [''9.255.0.1'', ''10.0.0.9'', ''10.0.0.10'']"
proof -
  have t: "show_ipv4 167772170 = ''10.0.0.10''" "show_ipv4 167772169 = ''10.0.0.9''" "show_ipv4 167706625 = ''9.255.0.1''"
    by code_simp+
  have "pass1_tcp [''10.0.0.10'', ''10.0.0.9'', ''9.255.0.1''] =
      Inr (List.map show_ipv4 (sort [167772170, 167772169, 167706625]))"
    by (rule pass1_sorted) (simp_all add: t)
  then show ?thesis by (simp add: t)
qed

text \<open>Further property. A scan can be taken up again: what the command reads back from the candidate file it wrote are the
  hosts the first pass found, in their order, whoever ran it.\<close>

theorem candidates_round_trip:
  assumes "linefeed \<notin> set user" "\<forall>i \<in> set is. 0 \<le> i"
  shows "read_candidates (write_candidates user (List.map show_ipv4 is)) = List.map show_ipv4 is"
proof -
  have one: "linefeed \<notin> set (show_ipv4 i) \<and> strip (show_ipv4 i) = show_ipv4 i \<and> show_ipv4 i \<noteq> [] \<and>
      \<not> starts_with ''#'' (show_ipv4 i)" if "0 \<le> i" for i
    using that show_no [of i linefeed] show_no [of i "CHR ''#''"] show_strip [of i] show_dot [of i] not_starts [of "CHR ''#''" _ "[]"]
    by (auto simp: is_digit_def code_def)
  have "read_candidates (concat (List.map (\<lambda>ip. ip @ [linefeed]) (List.map show_ipv4 is))) = List.map show_ipv4 is"
    using one assms(2) by (intro read_lines) auto
  moreover have "linefeed \<notin> set (''# python tools/scan_subnet.py '' @ cand_file @ '' '' @ user @ '' '' @ quoted ''<password>'')"
    using assms(1) by (simp add: cand_file_def quoted_def)
  moreover have "starts_with ''#'' (CHR ''#'' # s)" for s by (simp add: starts_with_def)
  ultimately show ?thesis
    using read_comment [of "''# TCP :443 open hosts '' @ em_dash @ '' re-runnable via''"]
      read_comment [of "''# python tools/scan_subnet.py '' @ cand_file @ '' '' @ user @ '' '' @ quoted ''<password>''"]
    by (simp add: write_candidates_def)
qed

theorem candidates_round_trip_witness:
  "read_candidates (write_candidates ''admin'' [''10.0.0.9'', ''10.0.0.10'']) = [''10.0.0.9'', ''10.0.0.10'']"
proof -
  have t: "show_ipv4 167772170 = ''10.0.0.10''" "show_ipv4 167772169 = ''10.0.0.9''" by code_simp+
  show ?thesis using candidates_round_trip [of "''admin''" "[167772169, 167772170]"] by (simp add: t)
qed

text \<open>Further property. A probe always gives the row of its host: unless it is cancelled it raises nothing, whatever the host
  answers.\<close>

theorem probe_gives_row:
  assumes "redfish_probe lan user pw ip w = (x, w')"
  shows "(\<exists>e. x = Inl e \<and> \<not> is_exception e) \<or> (\<exists>r. x = Inr r \<and> sw_ip r = ip)"
proof -
  note rules = io_inv keeps_world
  have upd: "keeps (\<lambda>ws. sw_ip (snd ws) = ip) (on_snd f)" if "\<And>r. sw_ip (f r) = sw_ip r" for f
    using that by (auto simp: keeps_def on_snd_def)
  have mem: "keeps (\<lambda>ws. sw_ip (snd ws) = ip) (probe_member lan auth base ms fill)"
    if fill: "\<And>j f r. fill j = Inr f \<Longrightarrow> sw_ip (f r) = sw_ip r" for auth base ms fill
  proof -
    have "keeps (\<lambda>ws. sw_ip (snd ws) = ip) (bind (lift_py (bind_py (safe_json resp) (\<lambda>j. fill (or_else j (JObj []))))) on_snd)" for resp
    proof (cases "bind_py (safe_json resp) (\<lambda>j. fill (or_else j (JObj [])))")
      case (Inr f)
      then obtain j where "fill (or_else j (JObj [])) = Inr f" by (auto simp: bind_py_Inr)
      then show ?thesis using fill Inr by (auto simp: keeps_def bind_run lift_run on_snd_def)
    qed (simp add: keeps_def bind_run lift_run)
    note filled = this
    show ?thesis unfolding probe_member_def
      by (rule keeps_if, rule keeps_ret, rule keeps_bind [OF keeps_lift_py], rule keeps_bind [OF keeps_world],
        rule keeps_if, rule keeps_ret, rule filled)
  qed
  have fills: "fill_both j = Inr f \<Longrightarrow> sw_ip (f r) = sw_ip r" "fill_manager j = Inr f \<Longrightarrow> sw_ip (f r) = sw_ip r" for j f r
    by (auto simp: fill_both_def fill_system_def fill_bios_def fill_manager_def bind_py_Inr)
  have root: "keeps (\<lambda>ws. sw_ip (snd ws) = ip) (probe_root lan auth base)" for auth base
    unfolding probe_root_def probe_auth_def probe_bmc_def set_error_def
    by (intro keeps_bind keeps_seq keeps_if keeps_ret keeps_lift_py keeps_world; (rule mem, erule fills | rule upd, simp)?)
  have k: "keeps (\<lambda>ws. sw_ip (snd ws) = ip) (catch_if is_exception (probe_root lan (Some (user, pw)) (''https://'' @ ip))
       (\<lambda>e. set_error (exn_name (exn_class e) @ '': '' @ take 100 (exn_str e))))"
    unfolding set_error_def by (intro keeps_catch_if upd root) simp_all
  obtain y w1 r where run: "catch_if is_exception (probe_root lan (Some (user, pw)) (''https://'' @ ip))
       (\<lambda>e. set_error (exn_name (exn_class e) @ '': '' @ take 100 (exn_str e))) (w, blank_row ip) = (y, (w1, r))"
    by (rule prod_cases3)
  have "sw_ip r = ip" using keepsD [OF k _ run] by (simp add: blank_row_def)
  moreover have "y = Inl e \<Longrightarrow> \<not> is_exception e" for e
    using run by (auto simp: catch_run set_error_def on_snd_def split: prod.splits sum.splits if_splits)
  ultimately show ?thesis using assms run by (cases y) (auto simp: redfish_probe_def)
qed

theorem probe_gives_row_witness:
  "\<exists>r. redfish_probe ready_lan ''admin'' ''pw'' ''10.0.0.5'' () = (Inr r, ()) \<and> sw_ip r = ''10.0.0.5''"
proof -
  obtain x w' where run: "redfish_probe ready_lan ''admin'' ''pw'' ''10.0.0.5'' () = (x, w')" by (metis surj_pair)
  have "case fst (redfish_probe ready_lan ''admin'' ''pw'' ''10.0.0.5'' ()) of Inl _ \<Rightarrow> False | Inr r \<Rightarrow> True" by code_simp
  then have "\<not> (\<exists>e. x = Inl e)" using run by auto
  then show ?thesis using probe_gives_row [OF run] run by auto
qed

text \<open>Further property. The summary is printed exactly when every authenticated host is a dotted address whose vendor,
  model and versions are strings; otherwise the command ends with an exception.\<close>

definition printable :: "scan_row \<Rightarrow> bool" where
  "printable r \<longleftrightarrow> (\<exists>k. ip_key (sw_ip r) = Inr k) \<and> is_str (sw_vendor r) \<and> is_str (sw_model r) \<and> is_str (sw_bios r) \<and> is_str (sw_bmc r)"

lemma row_line_str: "(\<exists>l. row_line r = Inr l) \<longleftrightarrow>
    is_str (sw_vendor r) \<and> is_str (sw_model r) \<and> is_str (sw_bios r) \<and> is_str (sw_bmc r)"
  by (cases "sw_vendor r"; cases "sw_model r"; cases "sw_bios r"; cases "sw_bmc r") (simp_all add: row_line_def cell_def)

lemma map_py_ok: "(\<exists>ys. map_py f xs = Inr ys \<and> length ys = length xs) \<longleftrightarrow> (\<forall>x \<in> set xs. \<exists>y. f x = Inr y)"
  by (induction xs) (auto simp: bind_py_Inr)

lemma map_py_length: "map_py f xs = Inr ys \<Longrightarrow> length ys = length xs"
  by (induction xs arbitrary: ys) (auto simp: bind_py_Inr)

theorem summary_needs_strings:
  "(\<exists>ls. scan_summary rows = Inr ls) \<longleftrightarrow> (\<forall>r \<in> set (authenticated rows). printable r)"
proof (cases "authenticated rows = []")
  case True
  then show ?thesis by (simp add: scan_summary_def Let_def)
next
  case False
  let ?ok = "authenticated rows"
  have keys: "(\<exists>ks. map_py (\<lambda>r. ip_key (sw_ip r)) ?ok = Inr ks) \<longleftrightarrow> (\<forall>r \<in> set ?ok. \<exists>k. ip_key (sw_ip r) = Inr k)"
    using map_py_ok [of "\<lambda>r. ip_key (sw_ip r)" ?ok] map_py_length by metis
  have lines: "(\<exists>ls. map_py row_line (sort_key f ?ok) = Inr ls) \<longleftrightarrow> (\<forall>r \<in> set ?ok. \<exists>l. row_line r = Inr l)" for f :: "scan_row \<Rightarrow> int list"
    using map_py_ok [of row_line "sort_key f ?ok"] map_py_length [of row_line "sort_key f ?ok"] by (metis set_sort)
  have "(\<exists>ls. scan_summary rows = Inr ls) \<longleftrightarrow> (\<exists>ks. map_py (\<lambda>r. ip_key (sw_ip r)) ?ok = Inr ks) \<and>
      (\<exists>ls. map_py row_line (sort_key (\<lambda>r. key_or_nil (sw_ip r)) ?ok) = Inr ls)"
    using False by (auto simp: scan_summary_def Let_def sorted_by_ip_def bind_py_Inr)
  then show ?thesis unfolding keys lines row_line_str printable_def by blast
qed

text \<open>One BMC with a number for its model: it takes the credentials, and the whole summary is lost.\<close>

definition number_lan :: "unit lan" where
  "number_lan = ready_lan\<lparr>lan_get := (\<lambda>_ url. ret \<lparr>rp_status = 200, rp_headers = [], rp_header = (\<lambda>_. None), rp_text = Inr [],
     rp_json = Inr (JObj [(''RedfishVersion'', JStr ''1.9''), (''Members'', JArr [JObj [(''@odata.id'', JStr ''/s'')]]), (''Model'', JInt 9000)])\<rparr>)\<rparr>"

theorem summary_needs_strings_witness:
  "\<exists>r. redfish_probe number_lan ''admin'' ''pw'' ''10.0.0.7'' () = (Inr r, ()) \<and> \<not> (\<exists>ls. scan_summary [r] = Inr ls)"
proof -
  have "case fst (redfish_probe number_lan ''admin'' ''pw'' ''10.0.0.7'' ()) of Inl _ \<Rightarrow> False
      | Inr r \<Rightarrow> sw_redfish r \<and> sw_auth r = Some True \<and> sw_model r = JInt 9000" by code_simp
  then obtain r where r: "redfish_probe number_lan ''admin'' ''pw'' ''10.0.0.7'' () = (Inr r, ())"
      "sw_redfish r" "sw_auth r = Some True" "sw_model r = JInt 9000"
    by (cases "redfish_probe number_lan ''admin'' ''pw'' ''10.0.0.7'' ()") (auto split: sum.splits)
  then have "\<not> (\<exists>ls. scan_summary [r] = Inr ls)"
    unfolding summary_needs_strings by (simp add: authenticated_def speaks_redfish_def printable_def)
  then show ?thesis using r by blast
qed

text \<open>Further property. The password argument comes before standard input: with no password in the environment, a
  password on the command line is used even when another one is piped in.\<close>

theorem argument_beats_stdin:
  assumes "3 \<le> length args" "args ! 2 \<noteq> []"
  shows "scan_password [] args is_tty typed piped = args ! 2"
  using assms by (simp add: scan_password_def)

end
