(* ===== verification/Tool_Flash.thy ===== *)
theory Tool_Flash
  imports Update_Jobs
begin

text \<open>
  The command-line flash \<open>tools/flash_now.py\<close>: what its arguments ask for, and what it then hands to the
  update orchestrator. The job of one server runs to its end within the tool's deadline; what the
  tool prints on the way is left out. A dry run replaces the update methods of every plugin by one
  that reports failure.
\<close>

section \<open>Arguments\<close>

definition flash_usage :: "string list" where
  "flash_usage = [''Usage: python tools/flash_now.py <BIOS|BMC> [--dry | --commit FLASH]'', [],
     ''  --dry      Stop after pre-flight; no firmware bytes uploaded (safe).'',
     ''  --commit FLASH   Required to actually push firmware to the BMC.'',
     ''                   The literal token '' @ quoted ''FLASH'' @ '' must be typed '' @ em_dash @ '' a typo'',
     ''                   or missing arg aborts. Replaces the old 5-second'',
     ''                   sleep, which any operator could blow through.'']"

definition commit_error :: "string list" where
  "commit_error = [''ERROR: --commit requires the literal token FLASH (caps).'',
     ''       Example: python tools/flash_now.py BIOS --commit FLASH'']"

definition no_token :: "string \<Rightarrow> string list" where
  "no_token kind = [''Refusing to push firmware without an explicit --commit FLASH token.'',
     ''Run with --dry to do a safe pre-flight check first, then re-run with'',
     ''    python tools/flash_now.py '' @ kind @ '' --commit FLASH'', ''once you'' @ [CHR 39] @ ''re confident.'']"

text \<open>The argument after the first occurrence of a flag.\<close>

fun after_flag :: "string \<Rightarrow> string list \<Rightarrow> string option" where
  "after_flag f [] = None"
| "after_flag f (x # xs) = (if x = f then (case xs of [] \<Rightarrow> None | y # _ \<Rightarrow> Some y) else after_flag f xs)"

text \<open>\<open>argv\<close> is \<open>sys.argv[1:]\<close>; the result is what is printed before \<open>sys.exit(2)\<close>, or the kind of image, whether it is a dry
  run, and whether the token was given.\<close>

definition flash_args :: "string list \<Rightarrow> string list + (string \<times> bool \<times> bool)" where
  "flash_args argv = (case argv of
       [] \<Rightarrow> Inl flash_usage
     | a # rest \<Rightarrow>
         if upper a \<notin> {''BIOS'', ''BMC''} then Inl flash_usage
         else let kind = upper a; dry = ''--dry'' \<in> set rest in
           if ''--commit'' \<in> set rest \<and> after_flag ''--commit'' rest \<noteq> Some ''FLASH'' then Inl commit_error
           else if \<not> dry \<and> ''--commit'' \<notin> set rest then Inl (no_token kind)
           else Inr (kind, dry, ''--commit'' \<in> set rest))"

section \<open>The dry run\<close>

definition dry_msg :: string where
  "dry_msg = ''DRY: stopped after pre-flight (no upload)''"

definition dry_driver :: "'w driver \<Rightarrow> 'w driver" where
  "dry_driver dr = dr\<lparr>dr_update_bios := (\<lambda>_ _ _ _ w. (Inr (failed dry_msg), [], w)),
                     dr_update_bmc := (\<lambda>_ _ _ _ w. (Inr (failed dry_msg), [], w))\<rparr>"

definition dry_site :: "'w site \<Rightarrow> 'w site" where
  "dry_site st = st\<lparr>st_driver := (\<lambda>p. dry_driver (st_driver st p))\<rparr>"

section \<open>The command\<close>

definition first_image :: "string \<Rightarrow> db \<Rightarrow> (int \<times> firmware_row) option" where
  "first_image kind d = List.find (\<lambda>(_, r). fr_type r = kind) (firmware_list d)"

definition begin_job :: "'w site \<Rightarrow> int list \<Rightarrow> int \<Rightarrow> ('w \<times> db, string + job_start) io" where
  "begin_job st sids fid = (\<lambda>(w, d). case start_job (st_now st w) sids fid 1 d of
       Inl e \<Rightarrow> (Inl e, (w, d))
     | Inr (r, d') \<Rightarrow> (Inr r, (w, d')))"

text \<open>The job's tasks (one at most), one after the other, and the end of the job.\<close>

fun run_tasks :: "'w site \<Rightarrow> firmware_row \<Rightarrow> int list \<Rightarrow> ('w \<times> db, nat \<times> nat) io" where
  "run_tasks st fw [] = ret (0, 0)"
| "run_tasks st fw (t # ts) = bind (run_one st t fw no_credentials False) (\<lambda>good.
     bind (run_tasks st fw ts) (\<lambda>(a, b). ret (if good then (Suc a, b) else (a, Suc b))))"

definition run_started :: "'w site \<Rightarrow> job_start \<Rightarrow> ('w \<times> db, unit) io" where
  "run_started st js = bind (run_tasks st (jo_firmware js) (jo_tasks js)) (\<lambda>(n_ok, n_bad).
     store st (\<lambda>now. finish_job now (jo_id js) False n_ok n_bad))"

text \<open>The result is the exit status.\<close>

definition flash_now :: "'w site \<Rightarrow> string list \<Rightarrow> ('w \<times> db, int) io" where
  "flash_now st argv = (case flash_args argv of
       Inl _ \<Rightarrow> ret 2
     | Inr (kind, dry, _) \<Rightarrow>
         bind (read_db (\<lambda>d. (server_list d, first_image kind d))) (\<lambda>(srvs, img).
         case srvs of
           [] \<Rightarrow> throw (Exn Exn_Index ''list index out of range'')
         | (sid, _) # _ \<Rightarrow> (case img of
             None \<Rightarrow> ret 1
           | Some (fid, _) \<Rightarrow> (let site = (if dry then dry_site st else st) in
               bind (begin_job site [sid] fid) (\<lambda>job. case job of
                 Inl _ \<Rightarrow> ret 1
               | Inr js \<Rightarrow> seq (run_started site js) (ret 0))))))"

section \<open>Facts\<close>

lemma after_flag_split: "after_flag f xs = Some y \<Longrightarrow> \<exists>pre post. xs = pre @ [f, y] @ post"
proof (induction xs)
  case (Cons x xs)
  show ?case
  proof (cases "x = f")
    case True
    then obtain post where "xs = y # post" using Cons.prems by (auto split: list.splits)
    with True have "x # xs = [] @ [f, y] @ post" by simp
    then show ?thesis by blast
  next
    case False
    then obtain pre post where "xs = pre @ [f, y] @ post" using Cons by auto
    then show ?thesis by (metis append_Cons)
  qed
qed simp

lemma flash_args_commit:
  assumes "flash_args argv = Inr (kind, False, c)"
  shows "\<exists>a pre post. argv = a # pre @ [''--commit'', ''FLASH''] @ post"
proof -
  obtain a rest where "argv = a # rest" "after_flag ''--commit'' rest = Some ''FLASH''"
    using assms by (auto simp: flash_args_def Let_def split: list.splits if_splits simp del: after_flag.simps)
  then show ?thesis using after_flag_split by metis
qed

lemma flash_args_kind: "flash_args argv = Inr (kind, dry, c) \<Longrightarrow> kind = ''BIOS'' \<or> kind = ''BMC''"
  by (cases argv) (auto simp: flash_args_def Let_def split: if_splits simp del: after_flag.simps)

text \<open>The image found by its kind is the one the orchestrator looks up by its key.\<close>

lemma first_image_lookup:
  assumes "table_ok (db_firmware d)" "first_image kind d = Some (fid, r)"
  shows "lookup_firmware d fid = Some r \<and> fr_type r = kind"
proof -
  have "(fid, r) \<in> set (firmware_list d)" and k: "fr_type r = kind"
    using assms(2) by (auto simp: first_image_def find_Some_iff set_conv_nth)
  then have "(fid, r) \<in> set (db_firmware d)" by (simp add: firmware_list_def newest_first_def)
  then have "row (db_firmware d) fid = Some r" using row_mem [OF assms(1)] by blast
  then show ?thesis using k by (simp add: lookup_firmware_def firmware_get_def)
qed

lemma started_firmware:
  assumes "start_job now sids fid n d = Inr (Inr js, d')" "lookup_firmware d fid = Some fw"
  shows "jo_firmware js = fw"
  using assms by (auto simp: start_job_def bind_py_def Let_def split: sum.splits prod.splits if_splits option.splits)

text \<open>A dry task reaches the BMC with its pre-flight alone, and never succeeds.\<close>

definition preflight_step :: "'w site \<Rightarrow> string \<Rightarrow> 'w \<Rightarrow> 'w \<Rightarrow> bool" where
  "preflight_step st kind w w' \<longleftrightarrow> (\<exists>info creds. w' = snd (preflight_bmc st info kind creds w))"

lemma preflight_dry: "preflight_bmc (dry_site st) = preflight_bmc st"
  by (intro ext) (simp add: preflight_bmc_def dry_site_def)

lemma dry_update: "ft = ''BIOS'' \<or> ft = ''BMC'' \<Longrightarrow> update_op (dry_driver dr) ft info img creds apply w = (Inr (failed dry_msg), [], w)"
  by (auto simp: update_op_def dry_driver_def)

lemma dry_flash_world:
  assumes "fr_type fw = ''BIOS'' \<or> fr_type fw = ''BMC''"
  shows "(preflight_step st (fr_type fw))\<^sup>*\<^sup>* w (flash_world (dry_site st) fw ui now d r key p w)"
proof -
  let ?info = "info_from_row (Some key) r" and ?dr = "st_driver (dry_site st) p"
  let ?creds = "resolve_creds (dry_site st) d ui ?info"
  obtain pf w1 where pf: "preflight_bmc st ?info (fr_type fw) ?creds w = (pf, w1)" by (metis surj_pair)
  then have "preflight_step st (fr_type fw) w w1" by (auto simp: preflight_step_def intro!: exI [of _ ?info] exI [of _ ?creds])
  moreover have "snd (snd (update_op ?dr (fr_type fw) ?info (to_firmware fw) ?creds now w1)) = w1"
    by (simp add: dry_site_def [of st] dry_update [OF assms])
  ultimately show ?thesis
    using pf by (auto simp: flash_world_def Let_def preflight_dry split: sum.splits bool.splits)
qed

lemma dry_flash_fails:
  assumes "fr_type fw = ''BIOS'' \<or> fr_type fw = ''BMC''"
  shows "\<exists>e s. flash_server (dry_site st) t fw ui now r key p (w, d) = (Inl e, s)"
proof -
  have op: "update_op (st_driver (dry_site st) p) (fr_type fw) info img creds b w = (Inr (failed dry_msg), [], w)" for info img creds b w
    by (simp add: dry_site_def [of st] dry_update [OF assms])
  show ?thesis
    by (auto simp: flash_server_def Let_def seq_run bind_run on_fst_def read_db_def drive_update_def op require_def
        ret_run throw_run lift_run failed_def split: prod.splits sum.splits)
qed

lemma dry_task_fails:
  assumes "fr_type fw = ''BIOS'' \<or> fr_type fw = ''BMC''" "run_one (dry_site st) t fw ui now wd = (Inr good, wd')"
  shows "\<not> good"
proof -
  obtain w d where wd: "wd = (w, d)" by (cases wd)
  have "\<exists>e s. real_task (dry_site st) t fw ui now (w, d) = (Inl e, s)"
    using dry_flash_fails [OF assms(1)]
    by (auto simp: real_task_def seq_run bind_run on_fst_def read_db_def require_def ret_run throw_run lift_run
        split: prod.splits sum.splits)
  then show ?thesis
    using assms(2) wd by (auto simp: run_one_def catch_run run_task_def bind_run seq_run ret_run attempt_def
        split: prod.splits sum.splits if_splits)
qed

lemma dry_run_tasks:
  assumes "fr_type fw = ''BIOS'' \<or> fr_type fw = ''BMC''" "run_tasks (dry_site st) fw ts (w, d) = (x, (w', d'))"
  shows "(preflight_step st (fr_type fw))\<^sup>*\<^sup>* w w' \<and> (\<forall>a b. x = Inr (a, b) \<longrightarrow> a = 0)"
  using assms(2)
proof (induction ts arbitrary: w d x w' d')
  case (Cons t ts)
  obtain r w1 d1 where one: "run_one (dry_site st) t fw no_credentials False (w, d) = (r, (w1, d1))" by (metis prod_cases3)
  have w1: "(preflight_step st (fr_type fw))\<^sup>*\<^sup>* w w1"
    using real_task_world [of "dry_site st" t fw no_credentials False w d] run_task_world [of "dry_site st" t fw no_credentials False w d]
      one dry_flash_world [OF assms(1), of st w] by (auto simp: rtranclp.rtrancl_refl)
  obtain r2 w2 d2 where more: "run_tasks (dry_site st) fw ts (w1, d1) = (r2, (w2, d2))" by (metis prod_cases3)
  note ih = Cons.IH [OF more]
  show ?case
  proof (cases r)
    case (Inl e)
    then show ?thesis using Cons.prems one w1 by (auto simp: bind_run)
  next
    case (Inr good)
    then have g: "\<not> good" using dry_task_fails [OF assms(1) one [unfolded Inr]] by simp
    show ?thesis
      using Cons.prems one Inr g more ih w1
      by (cases r2) (auto simp: bind_run ret_run split: prod.splits intro: rtranclp_trans)
  qed
qed (simp add: ret_run)

section \<open>Properties\<close>

text \<open>Property C12. Firmware leaves the machine only on the operator's word: unless the arguments hold the token
  \<open>--commit FLASH\<close> and no \<open>--dry\<close>, running the command does nothing to the outside world but the
  read-only pre-flight of a BMC.\<close>

theorem flash_needs_token:
  assumes "table_ok (db_firmware d)" "flash_now st argv (w, d) = (x, (w', d'))"
    and "''--dry'' \<in> set (tl argv) \<or> \<not> (\<exists>a pre post. argv = a # pre @ [''--commit'', ''FLASH''] @ post)"
  shows "(preflight_step st ''BIOS'')\<^sup>*\<^sup>* w w' \<or> (preflight_step st ''BMC'')\<^sup>*\<^sup>* w w'"
proof (cases "w' = w")
  case False
  then obtain kind dry c where args: "flash_args argv = Inr (kind, dry, c)"
    using assms(2) by (cases "flash_args argv") (auto simp: flash_now_def ret_run)
  have dry
  proof (rule ccontr)
    assume "\<not> dry"
    then have "flash_args argv = Inr (kind, False, c)" using args by simp
    then show False using assms(3) flash_args_commit [of argv kind c]
      by (cases argv) (auto simp: flash_args_def Let_def split: if_splits simp del: after_flag.simps)
  qed
  note kind = flash_args_kind [OF args]
  obtain sid fid fw js d1 where img: "first_image kind d = Some (fid, fw)"
    and started: "start_job (st_now (dry_site st) w) [sid] fid 1 d = Inr (Inr js, d1)"
    and run: "\<exists>y. run_started (dry_site st) js (w, d1) = (y, (w', d'))"
    using assms(2) False args \<open>dry\<close>
    by (auto simp: flash_now_def bind_run seq_run read_db_def ret_run throw_run begin_job_def Let_def
        split: list.splits option.splits sum.splits prod.splits)
  note fw = first_image_lookup [OF assms(1) img]
  have "jo_firmware js = fw" using started_firmware [OF started] fw by blast
  then obtain z d2 where tasks: "run_tasks (dry_site st) fw (jo_tasks js) (w, d1) = (z, (w', d2))"
    using run by (auto simp: run_started_def bind_run store_def split: prod.splits sum.splits)
  show ?thesis using dry_run_tasks [OF _ tasks] fw kind by auto
qed (simp add: rtranclp.rtrancl_refl)

text \<open>A site without plugins and without image files, and the database of one server and one image.\<close>

definition bare_site :: "nat site" where
  "bare_site = \<lparr>st_plugins = [], st_driver = undefined, st_client = undefined, st_file_sha = (\<lambda>_ _. Inr None),
     st_vault = None, st_now = (\<lambda>_. ''t1'')\<rparr>"

theorem flash_needs_token_witness:
  "\<exists>x w' d'. flash_now bare_site [''BMC'', ''--dry''] (0, shop_db) = (x, (w', d')) \<and>
     ((preflight_step bare_site ''BIOS'')\<^sup>*\<^sup>* 0 w' \<or> (preflight_step bare_site ''BMC'')\<^sup>*\<^sup>* 0 w')"
proof -
  obtain x w' d' where run: "flash_now bare_site [''BMC'', ''--dry''] (0, shop_db) = (x, (w', d'))" by (metis prod_cases3)
  have "table_ok (db_firmware shop_db)" using shop_ok by (simp add: db_ok_def tables_ok_def)
  from flash_needs_token [OF this run] show ?thesis using run by auto
qed

text \<open>Further property. A dry run never reports success: whatever the server, the image file and the BMC answer, the
  job of a dry run counts no task as done (so it ends \<open>failed\<close>, or \<open>completed\<close> when it has no task).\<close>

theorem dry_run_counts_nothing:
  assumes "fr_type fw = ''BIOS'' \<or> fr_type fw = ''BMC''"
    and "run_tasks (dry_site st) fw ts (w, d) = (Inr (n_ok, n_bad), (w', d'))"
  shows "n_ok = 0"
  using dry_run_tasks [OF assms] by simp

theorem dry_run_counts_nothing_witness:
  "\<exists>n w' d'. run_tasks (dry_site bare_site) image_row [1] (0, started_db) = (Inr (0, n), (w', d'))"
proof -
  obtain good w' d' where one: "run_one (dry_site bare_site) 1 image_row no_credentials False (0, started_db) = (Inr good, (w', d'))"
    by (rule run_task_effects [of "dry_site bare_site" 1 image_row no_credentials False 0 started_db])
      (auto simp: run_one_def catch_run)
  then obtain a b where run: "run_tasks (dry_site bare_site) image_row [1] (0, started_db) = (Inr (a, b), (w', d'))"
    by (cases good) (simp_all add: bind_run ret_run)
  have "fr_type image_row = ''BIOS'' \<or> fr_type image_row = ''BMC''" by (simp add: image_row_def)
  from dry_run_counts_nothing [OF this run] show ?thesis using run by blast
qed

end
