(* ===== verification/Tool_Probe.thy ===== *)
theory Tool_Probe
  imports Tool_Verify Json_Text
begin

text \<open>
  The probe \<open>tools/bmc_probe.py\<close>: the resources it reads from one BMC, in order, and every text it prints of
  them, with \<open>json.dumps(value, indent=2)\<close> written out. The second component of the state is what has been
  printed; an exception that nothing catches leaves it as it was.
\<close>

section \<open>Asking\<close>

type_synonym ('w, 'a) printing = "('w \<times> string list, 'a) io"

definition probe_get :: "'w lan \<Rightarrow> basic \<Rightarrow> string \<Rightarrow> ('w, int \<times> json) io" where
  "probe_get lan auth url = catch_if is_exception
     (bind (lan_get lan auth url) (\<lambda>resp. bind (lift_py (case rp_json resp of
          Inr j \<Rightarrow> Inr j
        | Inl e \<Rightarrow> if is_exception e then bind_py (rp_text resp) (\<lambda>t. Inr (JStr (take 300 t))) else Inl e))
      (\<lambda>body. ret (rp_status resp, body))))
     (\<lambda>e. ret (- 1, JStr (exn_str e)))"

section \<open>Showing\<close>

definition new_line :: "nat \<Rightarrow> string" where
  "new_line n = newline @ replicate (2 * n) CHR '' ''"

fun lines_at :: "nat \<Rightarrow> string list \<Rightarrow> string" where
  "lines_at n [] = []"
| "lines_at n [s] = new_line n @ s"
| "lines_at n (s # ss) = new_line n @ s @ '','' @ lines_at n ss"

fun dumps_at :: "nat \<Rightarrow> json \<Rightarrow> string" where
  "dumps_at n (JArr xs) = (if xs = [] then ''[]''
     else ''['' @ lines_at (Suc n) (List.map (dumps_at (Suc n)) xs) @ new_line n @ '']'')"
| "dumps_at n (JObj kvs) = (if kvs = [] then ''{}''
     else ''{'' @ lines_at (Suc n) (List.map (\<lambda>(k, v). dump_str k @ '': '' @ dumps_at (Suc n) v) kvs) @ new_line n @ ''}'')"
| "dumps_at n j = dumps j"

definition shorten :: "string \<Rightarrow> string" where
  "shorten out = (if 1200 < length out then take 1200 out @ newline @ ''  ...(truncated)'' else out)"

definition show_text :: "string \<Rightarrow> json \<Rightarrow> string" where
  "show_text label v = (if is_obj v \<or> is_arr v then ''  '' @ label @ '':'' @ newline @ shorten (dumps_at 0 v)
     else ''  '' @ label @ '': '' @ json_str v)"

definition say :: "string \<Rightarrow> ('w, unit) printing" where
  "say s = on_snd (\<lambda>ls. ls @ [s])"

definition show_value :: "string \<Rightarrow> json py \<Rightarrow> ('w, unit) printing" where
  "show_value label v = bind (lift_py v) (\<lambda>j. say (show_text label j))"

definition key_texts :: "string list py \<Rightarrow> json py" where
  "key_texts ks = bind_py ks (\<lambda>xs. Inr (JArr (List.map JStr xs)))"

section \<open>The probe\<close>

text \<open>Whether the service root was served; without it the probe ends.\<close>

definition show_root :: "'w lan \<Rightarrow> basic \<Rightarrow> string \<Rightarrow> ('w, bool) printing" where
  "show_root lan auth base = bind (on_fst (probe_get lan auth (base @ ''/redfish/v1/''))) (\<lambda>(s, rt).
     if s \<noteq> 200 then seq (say (''  ServiceRoot HTTP '' @ int_str s @ '': '' @ json_str rt)) (ret False)
     else seq (say ''Service Root:'')
         (seq (show_value ''Vendor'' (jget rt ''Vendor''))
         (seq (show_value ''RedfishVersion'' (jget rt ''RedfishVersion''))
         (seq (show_value ''Oem keys'' (key_texts (keys_of rt ''Oem'')))
         (seq (say []) (ret True))))))"

text \<open>\<open>[k for k in (us.get("Actions") or {}) if not k.startswith("Oem")]\<close>\<close>

fun not_oem :: "json list \<Rightarrow> json list py" where
  "not_oem [] = Inr []"
| "not_oem (k # ks) = bind_py (as_str ''startswith'' k) (\<lambda>s. bind_py (not_oem ks) (\<lambda>rest.
     Inr (if starts_with ''Oem'' s then rest else k # rest)))"

definition apply_times :: "json \<Rightarrow> json py" where
  "apply_times us = bind_py (jget us ''MultipartHttpPushUri@Redfish.OperationApplyTimeSupport'') (\<lambda>a.
     if truthy a then Inr a else jget us ''HttpPushUri@Redfish.OperationApplyTimeSupport'')"

definition show_update :: "json \<Rightarrow> ('w, unit) printing" where
  "show_update us =
     seq (for_each (\<lambda>k. show_value k (jget us k))
       [''ServiceEnabled'', ''MultipartHttpPushUri'', ''HttpPushUri'', ''HttpPushUriTargetsBusy'', ''MaxImageSizeBytes''])
    (seq (show_value ''OperationApplyTimeSupport'' (apply_times us))
    (seq (show_value ''Standard Actions'' (bind_py (sub_obj us ''Actions'') (\<lambda>a. bind_py (jiter a) (\<lambda>ks.
            bind_py (not_oem ks) (\<lambda>xs. Inr (JArr xs))))))
    (seq (show_value ''OEM Actions'' (bind_py (sub_obj us ''Actions'') (\<lambda>a. jget a ''Oem'')))
         (show_value ''Oem top-level keys'' (key_texts (keys_of us ''Oem''))))))"

definition show_service :: "'w lan \<Rightarrow> basic \<Rightarrow> string \<Rightarrow> ('w, unit) printing" where
  "show_service lan auth base = bind (on_fst (probe_get lan auth (base @ ''/redfish/v1/UpdateService''))) (\<lambda>(s, us).
     seq (say (''UpdateService (HTTP '' @ int_str s @ ''):''))
    (seq (if s = 200 then show_update us else ret ()) (say [])))"

definition item_field :: "json \<Rightarrow> string \<Rightarrow> json py" where
  "item_field item k = (if is_obj item then jget item k else Inr (JStr []))"

definition show_member :: "'w lan \<Rightarrow> basic \<Rightarrow> string \<Rightarrow> json \<Rightarrow> ('w, unit) printing" where
  "show_member lan auth base m = bind (lift_py (bind_py (jget_or m ''@odata.id'' (JStr ''?'')) (as_str ''rsplit''))) (\<lambda>uri.
     bind (on_fst (probe_get lan auth (base @ uri))) (\<lambda>(_, item).
     bind (lift_py (item_field item ''Version'')) (\<lambda>ver.
     bind (lift_py (item_field item ''Updateable'')) (\<lambda>upd.
     say (''  - '' @ pad_right 30 (leaf_of uri) @ ''  Version='' @ pad_right 36 (json_str (or_else ver (JStr [])))
       @ ''  Updateable='' @ json_str upd @ ''  ('' @ uri @ '')'')))))"

definition show_inventory :: "'w lan \<Rightarrow> basic \<Rightarrow> string \<Rightarrow> ('w, unit) printing" where
  "show_inventory lan auth base = bind (on_fst (probe_get lan auth (base @ inventory_path))) (\<lambda>(s, fi).
     seq (say (''FirmwareInventory (HTTP '' @ int_str s @ ''):''))
     (bind (lift_py (bind_py (collection fi) jiter)) (\<lambda>ms.
      seq (for_each (show_member lan auth base) ms) (say []))))"

definition show_install_info :: "'w lan \<Rightarrow> basic \<Rightarrow> string \<Rightarrow> ('w, unit) printing" where
  "show_install_info lan auth base =
     bind (on_fst (probe_get lan auth (base @ ''/redfish/v1/UpdateService/Oem/Supermicro/InstallActionInfo''))) (\<lambda>(s, info).
     if s = 200 \<and> is_obj info
     then seq (say ''Supermicro Install ActionInfo:'') (seq (show_value ''Parameters'' (jget info ''Parameters'')) (say []))
     else ret ())"

definition show_collection :: "'w lan \<Rightarrow> basic \<Rightarrow> string \<Rightarrow> string \<Rightarrow> ('w, unit) printing" where
  "show_collection lan auth base p = bind (on_fst (probe_get lan auth (base @ p))) (\<lambda>(s, coll).
     bind (lift_py (bind_py (collection coll) (\<lambda>ms. bind_py (jiter ms) (map_py (\<lambda>m. jget m ''@odata.id''))))) (\<lambda>ids.
     say (p @ '' (HTTP '' @ int_str s @ ''): '' @ json_repr (JArr ids))))"

text \<open>\<open>members[:5]\<close>\<close>

definition first_five :: "json \<Rightarrow> json list py" where
  "first_five j = (case j of JArr xs \<Rightarrow> Inr (take 5 xs) | JStr s \<Rightarrow> Inr (List.map (\<lambda>c. JStr [c]) (take 5 s))
     | _ \<Rightarrow> Inl (Exn Exn_Type ''unhashable type: slice''))"

definition show_task :: "'w lan \<Rightarrow> basic \<Rightarrow> string \<Rightarrow> json \<Rightarrow> ('w, unit) printing" where
  "show_task lan auth base m = bind (lift_py (bind_py (jget_or m ''@odata.id'' (JStr [])) url_part)) (\<lambda>uri.
     bind (on_fst (probe_get lan auth (base @ uri))) (\<lambda>(_, t).
     if \<not> is_obj t then ret () else
     bind (lift_py (jget_or t ''Name'' (JStr ''?''))) (\<lambda>nm.
     bind (lift_py (jget t ''TaskState'')) (\<lambda>st.
     bind (lift_py (jget t ''PercentComplete'')) (\<lambda>pct.
     say (''  - '' @ json_str nm @ '' State='' @ json_str st @ '' Pct='' @ json_str pct @ '' ('' @ uri @ '')''))))))"

definition show_tasks :: "'w lan \<Rightarrow> basic \<Rightarrow> string \<Rightarrow> ('w, unit) printing" where
  "show_tasks lan auth base = bind (on_fst (probe_get lan auth (base @ ''/redfish/v1/TaskService/Tasks''))) (\<lambda>(s, ts).
     bind (lift_py (collection ts)) (\<lambda>ms. bind (lift_py (jlen ms)) (\<lambda>n.
     seq (say (''TaskService/Tasks (HTTP '' @ int_str s @ ''): '' @ int_str (int n) @ '' active''))
     (bind (lift_py (first_five ms)) (for_each (show_task lan auth base))))))"

definition show_system :: "'w lan \<Rightarrow> basic \<Rightarrow> string \<Rightarrow> ('w, unit) printing" where
  "show_system lan auth base = bind (on_fst (probe_get lan auth (base @ ''/redfish/v1/Systems/1''))) (\<lambda>(_, sys1).
     if \<not> is_obj sys1 then ret () else
     bind (lift_py (jget sys1 ''PowerState'')) (\<lambda>pwr.
     seq (say (newline @ ''Systems/1.PowerState: '' @ json_str pwr))
     (show_value ''ComputerSystem.Reset''
       (bind_py (sub_obj sys1 ''Actions'') (\<lambda>a. bind_py (sub_obj a ''#ComputerSystem.Reset'') (\<lambda>r.
        bind_py (jget r ''target'') (\<lambda>t. bind_py (jget r ''ResetType@Redfish.AllowableValues'') (\<lambda>v.
        Inr (JObj [(''target'', t), (''ResetType@Redfish.AllowableValues'', v)])))))))))"

definition probe_rest :: "'w lan \<Rightarrow> basic \<Rightarrow> string \<Rightarrow> ('w, unit) printing" where
  "probe_rest lan auth base =
     seq (show_service lan auth base)
    (seq (show_inventory lan auth base)
    (seq (show_install_info lan auth base)
    (seq (show_collection lan auth base ''/redfish/v1/Systems'')
    (seq (show_collection lan auth base ''/redfish/v1/Managers'')
    (seq (say [])
    (seq (show_tasks lan auth base)
         (show_system lan auth base)))))))"

definition bmc_probe :: "'w lan \<Rightarrow> string \<Rightarrow> string \<Rightarrow> string \<Rightarrow> ('w, unit) printing" where
  "bmc_probe lan ip user pw = (let base = ''https://'' @ ip; auth = Some (user, pw) in
     seq (say (newline @ ''=== BMC at '' @ ip @ '' ==='' @ newline))
     (bind (show_root lan auth base) (\<lambda>served. if served then probe_rest lan auth base else ret ())))"

section \<open>Facts\<close>

lemma say_run: "say s (w, ls) = (Inr (), (w, ls @ [s]))"
  by (simp add: say_def on_snd_def)

lemma shorten_length: "length (shorten out) \<le> 1218"
  by (simp add: shorten_def)

text \<open>What has been printed stays printed.\<close>

abbreviation printed :: "string list \<Rightarrow> 'w \<times> string list \<Rightarrow> bool" where
  "printed ls \<equiv> (\<lambda>(_, out). \<exists>more. out = ls @ more)"

section \<open>Properties\<close>

text \<open>Further property. A listed object or array takes at most 1218 characters beside its label, and one that fits in 1200
  is shown whole.\<close>

theorem shown_bounded:
  assumes "is_obj v \<or> is_arr v"
  shows "length (show_text label v) \<le> length label + 1222"
    "length (dumps_at 0 v) \<le> 1200 \<Longrightarrow> show_text label v = ''  '' @ label @ '':'' @ newline @ dumps_at 0 v"
  using assms shorten_length [of "dumps_at 0 v"] by (simp_all add: show_text_def shorten_def)

text \<open>Further property. A listing names every member: when the inventory section ends without an exception it has printed
  its heading, one line per member of the collection the BMC served, and an empty line.\<close>

lemma member_prints:
  assumes "show_member lan auth base m (w, ls) = (Inr (), (w', ls'))"
  shows "\<exists>l. ls' = ls @ [l] \<and> starts_with ''  - '' l"
  using assms unfolding show_member_def
  by (elim bind_Inr_cases) (auto simp: say_run lift_run on_fst_def starts_with_def split: prod.splits elim!: bind_Inr_cases)

lemma members_print:
  assumes "for_each (show_member lan auth base) ms (w, ls) = (Inr (), (w', ls'))"
  shows "\<exists>out. ls' = ls @ out \<and> length out = length ms \<and> (\<forall>l \<in> set out. starts_with ''  - '' l)"
  using assms
proof (induction ms arbitrary: w ls)
  case (Cons m ms)
  obtain u w1 where one: "show_member lan auth base m (w, ls) = (Inr u, w1)"
    and rest: "for_each (show_member lan auth base) ms w1 = (Inr (), (w', ls'))"
    using Cons.prems by (auto elim: seq_Inr_cases)
  obtain v ls1 where w1: "w1 = (v, ls1)" by (cases w1)
  obtain l where l: "ls1 = ls @ [l]" "starts_with ''  - '' l"
    using member_prints one w1 by (metis (full_types) old.unit.exhaust)
  obtain out where "ls' = ls1 @ out" "length out = length ms" "\<forall>x \<in> set out. starts_with ''  - '' x"
    using Cons.IH rest w1 by blast
  then show ?case using l by (intro exI [of _ "l # out"]) auto
qed (simp add: ret_run)

theorem inventory_listed:
  assumes "show_inventory lan auth base (w, ls) = (Inr (), (w', ls'))"
  shows "\<exists>s fi ms out v. probe_get lan auth (base @ inventory_path) w = (Inr (s, fi), v) \<and>
    bind_py (collection fi) jiter = Inr ms \<and> length out = length ms \<and> (\<forall>l \<in> set out. starts_with ''  - '' l) \<and>
    ls' = ls @ [''FirmwareInventory (HTTP '' @ int_str s @ ''):''] @ out @ [[]]"
proof -
  obtain s fi v ls1 where get: "probe_get lan auth (base @ inventory_path) w = (Inr (s, fi), v)"
    and k: "seq (say (''FirmwareInventory (HTTP '' @ int_str s @ ''):''))
     (bind (lift_py (bind_py (collection fi) jiter)) (\<lambda>ms. seq (for_each (show_member lan auth base) ms) (say []))) (v, ls)
       = (Inr (), (w', ls'))"
    using assms unfolding show_inventory_def
    by (elim bind_Inr_cases) (auto simp: on_fst_def split: prod.splits)
  let ?h = "''FirmwareInventory (HTTP '' @ int_str s @ ''):''"
  obtain ms where ms: "bind_py (collection fi) jiter = Inr ms"
    and rest: "seq (for_each (show_member lan auth base) ms) (say []) (v, ls @ [?h]) = (Inr (), (w', ls'))"
    using k by (auto simp: say_run seq_run [of "say _"] elim!: bind_Inr_cases simp: lift_run)
  obtain u v2 ls2 where all: "for_each (show_member lan auth base) ms (v, ls @ [?h]) = (Inr u, (v2, ls2))"
    and last: "say [] (v2, ls2) = (Inr (), (w', ls'))"
    using rest by (elim seq_Inr_cases) (metis surj_pair)
  obtain out where "ls2 = (ls @ [?h]) @ out" "length out = length ms" "\<forall>l \<in> set out. starts_with ''  - '' l"
    using members_print all by (metis (full_types) old.unit.exhaust)
  then show ?thesis using get ms last by (auto simp: say_run)
qed

text \<open>Further property. The probe takes the service root for an object whenever its status is 200: a host that answers
  \<open>/redfish/v1/\<close> with a page that is not JSON ends it with an \<open>AttributeError\<close>, after one request.\<close>

theorem page_ends_probe:
  assumes "probe_get lan (Some (user, pw)) (''https://'' @ ip @ ''/redfish/v1/'') w = (Inr (200, page), w1)" "\<not> is_obj page"
  shows "\<exists>e ls'. bmc_probe lan ip user pw (w, ls) = (Inl e, (w1, ls')) \<and> exn_class e = Exn_Attribute"
proof -
  obtain e where "jget page ''Vendor'' = Inl e" "exn_class e = Exn_Attribute"
    using assms(2) by (cases page) (simp_all add: jget_def no_attr_def)
  then show ?thesis
    using assms(1) by (simp add: bmc_probe_def show_root_def Let_def io_run say_run on_fst_def show_value_def)
qed

text \<open>A switch with a web page on port 443.\<close>

definition page_lan :: "unit lan" where
  "page_lan = ready_lan\<lparr>lan_get := (\<lambda>_ _. ret \<lparr>rp_status = 200, rp_headers = [], rp_header = (\<lambda>_. None),
     rp_text = Inr ''<html>'', rp_json = Inl (Exn Exn_Value ''Expecting value'')\<rparr>)\<rparr>"

theorem page_ends_probe_witness:
  "\<exists>e ls'. bmc_probe page_lan ''10.0.0.8'' ''admin'' ''pw'' ((), []) = (Inl e, ((), ls')) \<and> exn_class e = Exn_Attribute"
  by (rule page_ends_probe [where page = "JStr ''<html>''"])
    (simp_all add: probe_get_def page_lan_def io_run is_exception_def)

end
