(* ===== verification/Tool_Trace.thy ===== *)
theory Tool_Trace
  imports Tool_Probe Update_Jobs
begin

text \<open>
  The trace of a flash, \<open>tools/test_flash_path.py\<close>: it takes the first server and the newest image of a
  kind from the database, the credentials from the vault and a plugin from the registry, resolves the
  target on the BMC and prints the request the application would send, without sending it.
\<close>

section \<open>The bench\<close>

text \<open>\<open>bn_peek\<close> is a plain GET in the client's session, of which only the status is read; \<open>bn_size\<close> is the size of a
  file that exists.\<close>

record 'w bench =
  bn_client :: "client_conf \<Rightarrow> 'w redfish"
  bn_peek :: "client_conf \<Rightarrow> string \<Rightarrow> ('w, int) io"
  bn_size :: "path \<Rightarrow> int option"
  bn_vault :: vault
  bn_plugins :: "oem_plugin list"

section \<open>What is printed\<close>

definition step_text :: "nat \<Rightarrow> string \<Rightarrow> string" where
  "step_text n label = newline @ ''['' @ int_str (int n) @ ''] '' @ label"

text \<open>\<open>{n:,}\<close>, on the reversed digits.\<close>

fun group3 :: "string \<Rightarrow> string" where
  "group3 (a # b # c # d # ds) = a # b # c # CHR '','' # group3 (d # ds)"
| "group3 ds = ds"

definition with_commas :: "int \<Rightarrow> string" where
  "with_commas n = (if n < 0 then CHR ''-'' # rev (group3 (rev (nat_str (- n)))) else rev (group3 (rev (nat_str n))))"

definition plugin_classes :: "(string \<times> string) list" where
  "plugin_classes = [(''supermicro'', ''SupermicroPlugin''), (''asrock'', ''AsrockPlugin''), (''asus'', ''AsusPlugin''),
     (''dell'', ''DellPlugin''), (''generic_redfish'', ''GenericRedfishPlugin''), (''gigabyte'', ''GigabytePlugin''),
     (''hpe'', ''HpePlugin''), (''lenovo'', ''LenovoPlugin''), (''msi'', ''MsiPlugin'')]"

definition shown_params :: "string \<Rightarrow> string \<Rightarrow> json" where
  "shown_params kind uri = JObj [(''Targets'', JArr [JStr uri]),
     (''@Redfish.OperationApplyTime'', JStr (if kind = ''BMC'' then ''Immediate'' else ''OnReset''))]"

definition shown_oem :: "string \<Rightarrow> json" where
  "shown_oem kind = JObj [(''ImageType'', JStr kind)]"

definition request_lines :: "string \<Rightarrow> json \<Rightarrow> string \<Rightarrow> string \<Rightarrow> string \<Rightarrow> firmware_row \<Rightarrow> int \<Rightarrow> string list" where
  "request_lines ip upload user kind uri fw sz =
     [''    POST  https://'' @ ip @ json_str upload,
      ''          Authorization: Basic <'' @ user @ ''>'',
      ''          UpdateParameters part:  '' @ dumps (shown_params kind uri),
      ''          OemParameters part:     '' @ dumps (shown_oem kind),
      ''          UpdateFile part:        @'' @ fr_file_path fw,
      ''                                 ('' @ with_commas sz @ '' bytes)'']"

definition fail_with :: "string \<Rightarrow> ('w, int) printing" where
  "fail_with why = seq (say (''    FAIL: '' @ why)) (ret 1)"

section \<open>Talking to the BMC\<close>

definition peek_line :: "'w bench \<Rightarrow> client_conf \<Rightarrow> json \<Rightarrow> ('w, string) io" where
  "peek_line b conf upload = bind (attempt is_exception (bind (lift_py (url_part upload)) (\<lambda>u.
       bind (bn_peek b conf (base_url_of conf @ u)) (\<lambda>st. ret (u, st)))))
     (\<lambda>r. ret (case r of
         Inl e \<Rightarrow> ''    GET probe failed: '' @ exn_str e
       | Inr (u, st) \<Rightarrow> ''    GET  '' @ base_url_of conf @ u @ ''  ->  HTTP '' @ int_str st @ ''  (''
           @ (if st \<in> {200, 405, 406} then ''endpoint exists'' else ''unexpected'') @ '')''))"

definition tasks_now :: "'w redfish \<Rightarrow> ('w, unit) printing" where
  "tasks_now rf =
     bind (on_fst (get_json rf ''/redfish/v1/UpdateService'')) (\<lambda>us.
     bind (lift_py (jget us ''MultipartHttpPushUri'')) (\<lambda>mp.
     seq (say (''    MultipartHttpPushUri = '' @ json_str mp))
     (bind (on_fst (get_json rf ''/redfish/v1/TaskService/Tasks'')) (\<lambda>ts.
      bind (lift_py (bind_py (jget ts ''Members'') (\<lambda>ms. jlen (or_else ms (JArr []))))) (\<lambda>n.
      seq (say (''    Active tasks: '' @ int_str (int n)))
          (if n \<noteq> 0 then say ''    NOTE: An active task may block a new upload (BMC busy)'' else ret ()))))))"

definition trace_calls :: "'w bench \<Rightarrow> client_conf \<Rightarrow> string \<Rightarrow> firmware_row \<Rightarrow> int \<Rightarrow> ('w, int) printing" where
  "trace_calls b conf kind fw sz = (let rf = bn_client b conf in
     bind (on_fst (resolve_firmware_target rf kind None)) (\<lambda>uri.
     seq (say (''    Resolved target: '' @ uri))
     (seq (say (step_text 6 ''Build the multipart body our app WOULD send (dry-run, no POST)''))
     (bind (on_fst (get_json rf ''/redfish/v1/UpdateService'')) (\<lambda>us.
      bind (lift_py (jget us ''MultipartHttpPushUri'')) (\<lambda>mp.
      let upload = or_else mp (JStr ''/redfish/v1/UpdateService/upload'') in
      seq (for_each say (request_lines (cc_host conf) upload (cc_username conf) kind uri fw sz))
      (seq (say (step_text 7 ''Verify the upload URI itself is reachable (HEAD-ish probe)''))
      (seq (bind (on_fst (peek_line b conf upload)) say)
      (seq (say (step_text 8 ''What the BMC reports right now''))
      (seq (tasks_now rf)
      (seq (for_each say [newline @ ''[CONCLUSION] All pre-flight checks PASS '' @ em_dash @ '' the code path is sound.'',
              ''    The exact POST shown above is what would be sent. Run with'',
              ''    `--commit` to actually push and start the real flash.''])
           (ret 0))))))))))))"

definition trace_bmc :: "'w bench \<Rightarrow> client_conf \<Rightarrow> string \<Rightarrow> firmware_row \<Rightarrow> int \<Rightarrow> ('w, int) printing" where
  "trace_bmc b conf kind fw sz =
     seq (say (step_text 5 ''Resolve FirmwareInventory target on the BMC (read-only)''))
     (finally_do
        (catch_if is_redfish (trace_calls b conf kind fw sz)
          (\<lambda>e. seq (say (newline @ ''[FAIL] '' @ exn_str e)) (ret 1)))
        (on_fst (rf_close (bn_client b conf))))"

section \<open>Preparing\<close>

definition trace_plugin :: "'w bench \<Rightarrow> server_row \<Rightarrow> credentials \<Rightarrow> string \<Rightarrow> firmware_row \<Rightarrow> int \<Rightarrow> ('w, int) printing" where
  "trace_plugin b srv creds kind fw sz = (let f = sr_fields srv in
     seq (say (step_text 4 ''Pick the OEM plugin''))
     (bind (lift_py (match_plugin (bn_plugins b) \<lparr>pb_ip = sr_ip srv, pb_manufacturer = jopt (sf_manufacturer f),
          pb_model = jopt (sf_model f), pb_redfish_root = Some (''https://'' @ sr_ip srv @ ''/redfish/v1/''), pb_oem_blocks = []\<rparr>)) (\<lambda>p.
      let key = (case p of Some q \<Rightarrow> op_key q | None \<Rightarrow> ''supermicro'') in
      seq (say (''    Plugin: '' @ the_default key (map_of plugin_classes key) @ ''  (key='' @ key @ '')''))
        (trace_bmc b \<lparr>cc_host = sr_ip srv, cc_port = 443, cc_scheme = ''https'', cc_username = username creds,
            cc_password = password creds, cc_tls = None\<rparr> kind fw sz))))"

definition has_credential :: "db \<Rightarrow> server_row \<Rightarrow> bool" where
  "has_credential d srv = list_ex (\<lambda>(_, r). cr_scope r \<in> Some ` {''default'', ''host:'' @ sr_ip srv,
     ''oem:'' @ json_str (jopt (sf_oem (sr_fields srv)))}) (db_credentials d)"

definition trace_creds :: "'w bench \<Rightarrow> db \<Rightarrow> server_row \<Rightarrow> string \<Rightarrow> firmware_row \<Rightarrow> int \<Rightarrow> ('w, int) printing" where
  "trace_creds b d srv kind fw sz =
     seq (say (step_text 3 ''Resolve BMC credentials from vault''))
     (if \<not> has_credential d srv then fail_with ''no credentials in vault'' else
      case credentials_resolve (bn_vault b) d (Some (sr_ip srv)) (sf_oem (sr_fields srv)) of
        None \<Rightarrow> fail_with ''CredentialsService.resolve returned None''
      | Some creds \<Rightarrow>
          seq (say (''    Resolved: user='' @ py_repr (username creds) @ ''  pwd=****''))
              (trace_plugin b srv creds kind fw sz))"

definition newest_image :: "string \<Rightarrow> db \<Rightarrow> (int \<times> firmware_row) option" where
  "newest_image kind d = List.find (\<lambda>(_, r). fr_type r = kind) (rev (db_firmware d))"

definition image_size :: "'w bench \<Rightarrow> firmware_row \<Rightarrow> int option" where
  "image_size b fw = (if fr_file_path fw = [] then None else bn_size b (fr_file_path fw))"

definition trace_firmware :: "'w bench \<Rightarrow> db \<Rightarrow> server_row \<Rightarrow> string \<Rightarrow> ('w, int) printing" where
  "trace_firmware b d srv kind =
     seq (say (step_text 2 ''Load firmware from DB''))
     (case newest_image kind d of
        None \<Rightarrow> fail_with (''no '' @ kind @ '' firmware in DB'')
      | Some (fid, fw) \<Rightarrow>
          seq (for_each say [''    Firmware id='' @ int_str fid @ ''  name='' @ fr_name fw,
                 ''            type='' @ fr_type fw @ ''  version='' @ fr_version fw,
                 ''            file_path='' @ fr_file_path fw])
          (case image_size b fw of
             None \<Rightarrow> seq (say ''            file exists on disk: False'') (fail_with (''firmware blob missing '' @ em_dash @ '' re-import the file''))
           | Some sz \<Rightarrow>
               seq (say (''            file exists on disk: True  ('' @ with_commas sz @ '' bytes)''))
                   (trace_creds b d srv kind fw sz)))"

definition trace_run :: "'w bench \<Rightarrow> db \<Rightarrow> string \<Rightarrow> ('w, int) printing" where
  "trace_run b d kind =
     seq (say (step_text 1 ''Load server from DB''))
     (case db_servers d of
        [] \<Rightarrow> fail_with (''no servers '' @ em_dash @ '' run discovery first'')
      | (sid, srv) # _ \<Rightarrow> (let f = sr_fields srv in
          seq (say (''    Server: id='' @ int_str sid @ ''  ip='' @ sr_ip srv @ ''  oem='' @ json_str (jopt (sf_oem f))))
         (seq (say (''    Versions: BIOS='' @ json_repr (jopt (sf_bios_version f)) @ ''  BMC='' @ json_repr (jopt (sf_bmc_version f))))
              (trace_firmware b d srv kind))))"

text \<open>The command: only these two kinds are taken.\<close>

definition trace_main :: "'w bench \<Rightarrow> db \<Rightarrow> string list \<Rightarrow> ('w, int) printing" where
  "trace_main b d argv = (case argv of
       a # _ \<Rightarrow> if upper a \<in> {''BIOS'', ''BMC''} then trace_run b d (upper a)
                else seq (say ''Usage: python tools/test_flash_path.py <BIOS|BMC>'') (ret 2)
     | [] \<Rightarrow> seq (say ''Usage: python tools/test_flash_path.py <BIOS|BMC>'') (ret 2))"

section \<open>Only reading\<close>

text \<open>One read of a BMC: a GET of the client, a plain GET, or the end of the client's session.\<close>

inductive read_step :: "'w bench \<Rightarrow> 'w \<Rightarrow> 'w \<Rightarrow> bool" for b where
  got: "rf_get (bn_client b conf) p w = (r, w') \<Longrightarrow> read_step b w w'"
| peeked: "bn_peek b conf u w = (s, w') \<Longrightarrow> read_step b w w'"
| closed: "rf_close (bn_client b conf) w = (c, w') \<Longrightarrow> read_step b w w'"

definition reads :: "'w bench \<Rightarrow> ('w, 'a) io \<Rightarrow> bool" where
  "reads b m \<longleftrightarrow> (\<forall>w0. keeps ((read_step b)\<^sup>*\<^sup>* w0) m)"

lemma reads_get: "reads b (rf_get (bn_client b conf) p)"
  by (auto simp: reads_def keeps_def intro: rtranclp.rtrancl_into_rtrancl got prod.collapse [symmetric])

lemma reads_peek: "reads b (bn_peek b conf u)"
  by (auto simp: reads_def keeps_def intro: rtranclp.rtrancl_into_rtrancl peeked prod.collapse [symmetric])

lemma reads_close: "reads b (rf_close (bn_client b conf))"
  by (auto simp: reads_def keeps_def intro: rtranclp.rtrancl_into_rtrancl closed prod.collapse [symmetric])

lemma reads_json: "reads b (get_json (bn_client b conf) p)"
  using reads_get [of b conf p] unfolding reads_def get_json_def
  by (auto intro!: keeps_bind split: prod.splits)

lemma reads_target: "reads b (resolve_firmware_target (bn_client b conf) kind None)"
  using reads_json [of b conf] unfolding reads_def resolve_firmware_target_def on_redfish_def
  by (auto intro!: keeps_bind keeps_catch_if split: option.splits)

lemma reads_peek_line: "reads b (peek_line b conf upload)"
  using reads_peek [of b conf] unfolding reads_def peek_line_def
  by (auto intro!: keeps_bind keeps_attempt)

lemma reads_printing:
  assumes "reads b m"
  shows "keeps (\<lambda>ws. (read_step b)\<^sup>*\<^sup>* w0 (fst ws)) (on_fst m)"
  using assms by (auto simp: reads_def keeps_def on_fst_def split: prod.splits) (metis snd_conv)

lemma reads_say: "keeps (\<lambda>ws. (read_step b)\<^sup>*\<^sup>* w0 (fst ws)) (say s)"
  by (simp add: keeps_def say_def on_snd_def split_beta)

lemma reads_trace:
  "keeps (\<lambda>ws. (read_step b)\<^sup>*\<^sup>* w0 (fst ws)) (trace_run b d kind)"
proof -
  note rules = io_inv reads_say reads_printing [OF reads_json] reads_printing [OF reads_target]
    reads_printing [OF reads_peek_line] reads_printing [OF reads_close]
  have calls: "keeps (\<lambda>ws. (read_step b)\<^sup>*\<^sup>* w0 (fst ws)) (trace_calls b conf kind fw sz)" for conf fw sz
    unfolding trace_calls_def tasks_now_def Let_def by (intro rules)
  have bmc: "keeps (\<lambda>ws. (read_step b)\<^sup>*\<^sup>* w0 (fst ws)) (trace_bmc b conf kind fw sz)" for conf fw sz
    unfolding trace_bmc_def by (intro rules calls)
  show ?thesis
    unfolding trace_run_def trace_firmware_def trace_creds_def trace_plugin_def fail_with_def Let_def
    by (auto intro!: rules bmc split: list.split option.split prod.split)
qed

section \<open>Properties\<close>

text \<open>Further property. The trace does not write to a BMC: whatever the arguments, the database and the answers, the outside
  world is changed by GET requests and by the end of the client's session alone.\<close>

theorem trace_only_reads:
  assumes "trace_main b d argv (w, ls) = (x, (w', ls'))"
  shows "(read_step b)\<^sup>*\<^sup>* w w'"
proof -
  have "keeps (\<lambda>ws. (read_step b)\<^sup>*\<^sup>* w (fst ws)) (trace_main b d argv)"
    unfolding trace_main_def by (auto intro!: io_inv reads_trace reads_say split: list.split)
  from keepsD [OF this _ assms] show ?thesis by simp
qed

text \<open>Further property. The request it shows is the one the AMI-based plugins push, as JSON objects; it is not the one of the
  Dell plugin, which sends no targets, nor of the Lenovo and generic ones, which send no OEM part.\<close>

theorem shown_request_is_ami:
  "(\<exists>xs ys. shown_params kind uri = JObj xs \<and> push_params kind (hk_targets (ami_hooks k) uri) = JObj ys \<and> map_of xs = map_of ys) \<and>
   hk_oem_params (ami_hooks k) kind = Some (shown_oem kind) \<and>
   jcontains ''Targets'' (shown_params kind uri) \<noteq> jcontains ''Targets'' (push_params kind (hk_targets dell_hooks uri)) \<and>
   hk_oem_params dell_hooks kind \<noteq> Some (shown_oem kind) \<and> hk_oem_params lenovo_hooks kind \<noteq> Some (shown_oem kind) \<and>
   hk_oem_params generic_hooks kind \<noteq> Some (shown_oem kind)"
  by (simp add: shown_params_def shown_oem_def push_params_def ami_hooks_def dell_hooks_def lenovo_hooks_def
      generic_hooks_def fun_eq_iff)

text \<open>Further property. Exit status 0 rests on what the flash needs: there is a server, an image of this kind whose file
  exists, and a credential that resolves; and the inventory of the BMC gave a target.\<close>

lemma seq_say_Inr: "seq (say s) m (w, ls) = m (w, ls @ [s])"
  by (simp add: seq_run say_run)

lemma for_each_say: "for_each say ss (w, ls) = (Inr (), (w, ls @ ss))"
  by (induction ss arbitrary: ls) (simp_all add: ret_run seq_say_Inr)

lemma seq_lines_Inr: "seq (for_each say ss) m (w, ls) = m (w, ls @ ss)"
  by (simp add: seq_run for_each_say)

lemma bmc_passes:
  assumes "trace_bmc b conf kind fw sz (w, ls) = (Inr 0, s)"
  shows "\<exists>uri v. resolve_firmware_target (bn_client b conf) kind None w = (Inr uri, v)"
proof (cases "resolve_firmware_target (bn_client b conf) kind None w")
  case (Pair r v)
  show ?thesis
  proof (cases r)
    case (Inl e)
    then show ?thesis
      using assms Pair
      by (auto simp: trace_bmc_def seq_say_Inr finally_run catch_run trace_calls_def Let_def bind_run on_fst_def
          seq_run say_run ret_run split: if_splits prod.splits sum.splits)
  qed (use Pair in blast)
qed

theorem trace_passes:
  assumes "trace_main b d argv (w, ls) = (Inr 0, s)"
  shows "\<exists>kind sid srv more fid fw creds conf uri v. db_servers d = (sid, srv) # more \<and>
    newest_image kind d = Some (fid, fw) \<and> image_size b fw \<noteq> None \<and>
    credentials_resolve (bn_vault b) d (Some (sr_ip srv)) (sf_oem (sr_fields srv)) = Some creds \<and>
    cc_host conf = sr_ip srv \<and> cc_username conf = username creds \<and>
    resolve_firmware_target (bn_client b conf) kind None w = (Inr uri, v)"
proof -
  obtain kind where "trace_run b d kind (w, ls) = (Inr 0, s)"
    using assms by (auto simp: trace_main_def seq_say_Inr ret_run split: list.splits if_splits)
  then obtain sid srv more ls1 where srv: "db_servers d = (sid, srv) # more"
    and "trace_firmware b d srv kind (w, ls1) = (Inr 0, s)"
    by (auto simp: trace_run_def seq_say_Inr fail_with_def ret_run Let_def split: list.splits)
  then obtain fid fw sz ls2 where fw: "newest_image kind d = Some (fid, fw)" "image_size b fw = Some sz"
    and "trace_creds b d srv kind fw sz (w, ls2) = (Inr 0, s)"
    by (auto simp: trace_firmware_def seq_say_Inr seq_lines_Inr fail_with_def ret_run split: option.splits simp del: for_each.simps)
  then obtain creds ls3 where creds: "credentials_resolve (bn_vault b) d (Some (sr_ip srv)) (sf_oem (sr_fields srv)) = Some creds"
    and "trace_plugin b srv creds kind fw sz (w, ls3) = (Inr 0, s)"
    by (auto simp: trace_creds_def seq_say_Inr fail_with_def ret_run split: option.splits if_splits)
  moreover define conf where "conf = \<lparr>cc_host = sr_ip srv, cc_port = 443, cc_scheme = ''https'',
      cc_username = username creds, cc_password = password creds, cc_tls = None\<rparr>"
  ultimately have "\<exists>ls4. trace_bmc b conf kind fw sz (w, ls4) = (Inr 0, s)"
    by (auto simp: trace_plugin_def seq_say_Inr Let_def bind_run [of "lift_py _"] lift_run split: sum.splits)
  then obtain ls4 where "trace_bmc b conf kind fw sz (w, ls4) = (Inr 0, s)" ..
  from bmc_passes [OF this] obtain uri v where "resolve_firmware_target (bn_client b conf) kind None w = (Inr uri, v)"
    by (elim exE)
  moreover have "cc_host conf = sr_ip srv" "cc_username conf = username creds" "image_size b fw \<noteq> None"
    using fw by (simp_all add: conf_def)
  ultimately show ?thesis using srv fw(1) creds by blast
qed

text \<open>A bench on which all is well, except that the push URI answers 404 and a task is running.\<close>

definition missing_bench :: "unit bench" where
  "missing_bench = \<lparr>bn_client = (\<lambda>_. \<lparr>rf_get = (\<lambda>_. ret (JObj [(''Members'', JArr [JObj [(''@odata.id'', JStr ''/fw/BMC'')]])], [])),
       rf_post = (\<lambda>_ _. throw (Exn Exn_Redfish [])), rf_patch = (\<lambda>_ _. throw (Exn Exn_Redfish [])),
       rf_multipart = (\<lambda>_ _ _ _ _. throw (Exn Exn_Redfish [])), rf_close = ret (), rf_time = (\<lambda>_. 0), rf_wall = (\<lambda>_. 0),
       rf_sleep = (\<lambda>_. ret ())\<rparr>),
     bn_peek = (\<lambda>_ _. ret 404), bn_size = (\<lambda>_. Some 1234567), bn_vault = dev_vault, bn_plugins = []\<rparr>"

definition trace_db :: db where
  "trace_db = snd (credential_add ''t0'' ''all'' ''admin'' (plain_prefix @ b64_encode (utf8_encode ''p4ss'')) ''default''
     shop_db)"

lemma missing_run:
  "case fst (trace_main missing_bench trace_db [''bmc''] ((), [])) of Inl _ \<Rightarrow> False | Inr n \<Rightarrow> n = 0"
  by code_simp

theorem trace_passes_witness:
  "\<exists>sid srv more. db_servers trace_db = (sid, srv) # more"
proof -
  obtain x s where run: "trace_main missing_bench trace_db [''bmc''] ((), []) = (x, s)" by (metis surj_pair)
  then have "x = Inr 0" using missing_run by (auto split: sum.splits)
  from trace_passes [OF run [unfolded this]] show ?thesis by blast
qed

text \<open>Further property. The conclusion does not depend on the checks before it: with a push URI that answers 404 and a task
  that is running the trace still ends with \<open>All pre-flight checks PASS\<close> and exit status 0.\<close>

theorem passes_without_endpoint:
  "\<exists>out. trace_main missing_bench trace_db [''bmc''] ((), []) = (Inr 0, ((), out)) \<and>
     ''    Active tasks: 1'' \<in> set out \<and>
     ''    GET  https://10.0.0.5:443/redfish/v1/UpdateService/upload  ->  HTTP 404  (unexpected)'' \<in> set out \<and>
     (newline @ ''[CONCLUSION] All pre-flight checks PASS '' @ em_dash @ '' the code path is sound.'') \<in> set out"
proof -
  have "case trace_main missing_bench trace_db [''bmc''] ((), []) of (Inl _, _) \<Rightarrow> False
      | (Inr n, (_, out)) \<Rightarrow> n = 0 \<and> ''    Active tasks: 1'' \<in> set out \<and>
     ''    GET  https://10.0.0.5:443/redfish/v1/UpdateService/upload  ->  HTTP 404  (unexpected)'' \<in> set out \<and>
     (newline @ ''[CONCLUSION] All pre-flight checks PASS '' @ em_dash @ '' the code path is sound.'') \<in> set out"
    by code_simp
  then show ?thesis by (auto split: prod.splits sum.splits)
qed

end
