(* ===== verification/Spec2Isabelle.thy ===== *)
theory Spec2Isabelle
  imports Plugin_Safety Vendor_Waits App_Start App_Stop App_Shell Ui_Library Tool_Audit Tool_Scan Tool_Flash Tool_Trace
begin

text \<open>
  ClusterOne: a verification library of a desktop application that updates the firmware of
  servers and installs operating systems on them through their BMCs (Redfish). The code is
  Python under \<open>src/\<close>; this root imports every theory. A theory's own opening text says what it
  holds; this text says how the parts fit together.

  The program. QML pages call the slots of the controllers (\<open>ui/bridge\<close>). A controller calls a
  service (\<open>core/services\<close>), which reads and writes SQLite through repositories (\<open>data\<close>) and
  submits coroutines to one asyncio thread (\<open>core/engine\<close>). A coroutine looks up the plugin of a
  server in the registry and lets it talk to the BMC through the Redfish client
  (\<open>core/plugins_api\<close>, \<open>plugins\<close>). Reports of progress come back to the controllers as queued
  signals. \<open>app/container.py\<close> builds these objects and recovers interrupted work at startup.

  How code is written here. A dataclass is a \<open>record\<close>; a JSON value or an unchecked field is the
  datatype \<open>json\<close>. A function that may raise returns \<open>exn + 'a\<close> (\<open>py\<close>); \<open>Exn cls msg\<close> carries the
  class, with its place in Python's hierarchy, and the text. Code that acts is an \<open>io\<close>, a function
  from the state to a result and a new state; an exception keeps the state reached. The state
  pairs an abstract world \<open>'w\<close> (BMCs, files, clock) with what the component itself owns (client
  attributes, plugin cache, database, configs). Python's unbounded integers are \<open>int\<close>, floats are
  binary64 values over the rationals, text is Latin-1 plus the few code points \<open>Prelude\<close> names.

  Foundations.
  \<^item> \<open>Prelude\<close>: strings, exceptions, \<open>io\<close>, shared lemmas. \<open>Py_Float\<close>: binary64. \<open>Json\<close>,
    \<open>Decimal_Text\<close>, \<open>Json_Text\<close>: Python values as JSON, decimal numbers, \<open>json.dumps/loads\<close>.
  \<^item> \<open>Models\<close>: \<open>core/models\<close>. \<open>Redfish_Api\<close>: the operations plugins call, as a record of functions.

  Talking to a BMC.
  \<^item> \<open>Redfish_Client\<close> (\<open>redfish_client.py\<close>): login latch, token, the single retry after a 401, URL
    joining, TLS pinning. Lemmas: at most two requests per operation, which connector is used.
    The locale \<open>bmc_client\<close> is what a plugin may rely on; it is interpreted on the client.
  \<^item> \<open>Capability\<close> (\<open>capability_discoverer.py\<close>): the walk over the tree of a BMC; the targets it
    names are active banks the BMC listed.
  \<^item> \<open>Plugin_Core\<close>, \<open>Plugin_Flows\<close>, \<open>Plugin_Safety\<close> (\<open>generic_redfish/plugin.py\<close>): decisions, flows,
    and what the flows guarantee: compatibility before a flash, no flash without a bank, ends of
    polls, a mount that is confirmed.
  \<^item> \<open>Registry\<close>, \<open>Vendors\<close> (\<open>registry.py\<close>, \<open>plugins/*\<close>): scores and the choice of a plugin (\<open>rank\<close> is
    an instance of \<open>linorder\<close>), and the flows that vendors override. \<open>Vendor_Waits\<close>: the polls of these
    flows end.

  Data.
  \<^item> \<open>Store\<close>: a table with generated keys; the locale \<open>row_store\<close> states what repositories use and is
    interpreted on it. \<open>Database\<close> (\<open>database.py\<close>, \<open>migrations\<close>): the schema with its constraints.
  \<^item> \<open>Catalog_Repos\<close>, \<open>Job_Repos\<close> (\<open>repositories/*.py\<close>): one definition per method. \<open>Db_Integrity\<close>: the
    well-formedness \<open>db_ok\<close> (keys, uniqueness, foreign keys) is kept by every method.
  \<^item> \<open>Vault\<close> (\<open>credential_vault.py\<close>, \<open>credentials_service.py\<close>), with base64 and UTF-8 written out.

  Services.
  \<^item> \<open>Service_Env\<close>: the site the services run on. \<open>Job_Pool\<close>: the scheduling both orchestrators share,
    as the step relation \<open>pool_step\<close>: any ready worker may move next, cancellation may come at any
    moment. The locale \<open>job_ledger\<close> says what a task's effects on its row must satisfy, and proves
    counters, settled rows and progress once; it is interpreted for updates and installations.
  \<^item> \<open>Update_Orchestrator\<close>, \<open>Update_Pool\<close>, \<open>Update_Jobs\<close> (\<open>update_orchestrator.py\<close>): one flash, the
    proof that it refines an abstract sequence of row effects, a whole job with its verdict.
  \<^item> \<open>Disk_Resolver\<close>, \<open>Autoinstall\<close>, \<open>File_Server\<close>, \<open>Provisioning\<close>, \<open>Provisioning_Safety\<close>,
    \<open>Provisioning_Jobs\<close> (\<open>disk_resolver.py\<close>, \<open>autoinstall_renderer.py\<close>, \<open>file_server.py\<close>,
    \<open>provisioning_orchestrator.py\<close>): which disk an installation would wipe, the refusal to guess
    one, signed URLs, one installation, a job, the sweep at startup. The locale \<open>disk_strategy\<close> is
    the contract of a strategy and is interpreted on all nine kinds.
  \<^item> \<open>Power_Service\<close>, \<open>Scan_Ranges\<close>, \<open>Discovery\<close>, \<open>Library_Service\<close> (\<open>power_service.py\<close>,
    \<open>scanner.py\<close>, \<open>discovery_service.py\<close>, \<open>tls.py\<close>, \<open>firmware_service.py\<close>, \<open>iso_service.py\<close>,
    \<open>settings_service.py\<close>).

  Pages and shell.
  \<^item> \<open>Ui_Models\<close> (\<open>ui/bridge/models.py\<close>; locale \<open>live_table\<close>, interpreted on the task table) and
    \<open>Ui_Fleet\<close>, \<open>Ui_Jobs\<close>, \<open>Ui_Live\<close>, \<open>Ui_Library\<close> (\<open>ui/bridge/controllers.py\<close>; locale
    \<open>keyed_source\<close>, interpreted on the server repository): what a slot does to its controller and
    to the database, and that what a page shows agrees with what the services did.
  \<^item> \<open>Engine_Life\<close> (\<open>async_engine.py\<close>): the thread and its loop as the step relation \<open>engine_step\<close>, with
    the timeouts of \<open>start\<close>, \<open>stop\<close> and \<open>join\<close>; who owns a loop, and what a stopped engine refuses.
  \<^item> \<open>App_Start\<close> and \<open>App_Stop\<close> (\<open>container.py\<close>, \<open>config.py\<close>, \<open>seed.py\<close>), the start and the end of the
    application, and \<open>App_Shell\<close> (\<open>logging_setup.py\<close>, \<open>application.py\<close>, \<open>theme_controller.py\<close>,
    \<open>report_generator.py\<close>).

  Commands (\<open>tools/*.py\<close>). \<open>Tool_Verify\<close> (\<open>redfish_verify.py\<close>), with the network the tools share;
  \<open>Tool_Audit\<close> (\<open>audit_update_apis.py\<close>), \<open>Tool_Scan\<close> (\<open>scan_subnet.py\<close>), \<open>Tool_Probe\<close> (\<open>bmc_probe.py\<close>),
  \<open>Tool_Flash\<close> (\<open>flash_now.py\<close>, over the update orchestrator) and \<open>Tool_Trace\<close> (\<open>test_flash_path.py\<close>): what
  a verdict rests on, which groups an audit forms, what a scan reads back, that a trace only reads,
  and that no firmware is pushed without the operator's token.

  Parameters. The HTTP library, HMAC, SHA-256, DPAPI, the file system's contents, the clock and
  \<open>asyncio.sleep\<close>, sockets, template files, Qt, \<open>python-docx\<close>, IPv6 networks. A law assumed of one
  of them is a named hypothesis (\<open>clock_ok\<close>: the clock never goes back and a sleep of \<open>t\<close> moves it by
  at least \<open>t\<close>) and every property that has it comes with a concrete instance.

  Fuel. Loops that poll until a deadline carry fuel: a loop that sleeps at least \<open>s\<close> seconds per
  round and stops \<open>T\<close> seconds ahead needs at most \<open>T / s + 1\<close> rounds. Running out raises
  \<open>Exn_Fuel\<close>, which no code catches or raises otherwise, and which is proved not to happen:
  1801 rounds for the generic task poll (1800 s), 61 for stability (300 s, 5 s), 31 for
  inserted media (60 s, 2 s), 121 for an installation (1800 s, 15 s), and 361 for the
  Supermicro and iLO polls (1800 s, 5 s; \<open>Vendor_Waits\<close>). The 50 pages of the inventory walk are the code's own
  bound. Other recursion is structural or has a measure.

  What is left out. Qt's event loop, painting, sorting and the QML pages; the wiring of objects in
  \<open>container.py\<close>; log rotation; saving a document; the progress lines of three commands and the raw
  JSON file of the audit; tests and the simulator. In the
  engine a task is opaque: what the coroutines do is in the services, whose interleaving the step
  relations of \<open>Job_Pool\<close> and of the pages allow. Preemption inside a slot or between two awaits does
  not exist in the code and not here. Callbacks from the orchestrators to the pages are modelled at
  the pages, as the reports they receive.
\<close>

end
